(* ===== verification/Prelude.thy ===== *)
theory Prelude
  imports Main "HOL-Library.Char_ord" "HOL-Library.List_Lexorder" "HOL-Library.Multiset"
begin

text \<open>
  The generic layer of the development: Go's strings, maps and sorted slices as far as the
  operator uses them, and the lemma collections the component theories extend.

  A Go string is a char list, and the byte-wise order that \<open>slices.Sort\<close> uses is the
  lexicographic order of the library theories Char_ord and List_Lexorder. A Go map is a list of
  key/value pairs; \<open>map_get\<close> is the lookup, \<open>map_put\<close> the assignment, and the position of a key
  in the list stands for the unspecified iteration order, so an operation that ranges over a map
  is specified only up to that order.
\<close>

named_theorems contract_defs "definitions of the contracts assumed of code outside src/"

named_theorems go_map_simps "lookups in Go maps after an assignment, a deletion or a copy"

section \<open>Go maps\<close>

type_synonym 'v gomap = "(string \<times> 'v) list"

type_synonym strmap = "string gomap"

abbreviation map_get :: "'v gomap \<Rightarrow> string \<Rightarrow> 'v option" where
  "map_get m k \<equiv> map_of m k"

fun map_put :: "string \<Rightarrow> 'v \<Rightarrow> 'v gomap \<Rightarrow> 'v gomap" where
  "map_put k v [] = [(k, v)]"
| "map_put k v ((k', v') # m) = (if k = k' then (k, v) # m else (k', v') # map_put k v m)"

definition map_del :: "string \<Rightarrow> 'v gomap \<Rightarrow> 'v gomap" where
  "map_del k m = filter (\<lambda>kv. fst kv \<noteq> k) m"

definition map_keys :: "'v gomap \<Rightarrow> string list" where
  "map_keys m = map fst m"

text \<open>\<open>maps.Copy(dst, src)\<close> assigns every entry of \<open>src\<close> to \<open>dst\<close>.\<close>

fun maps_Copy :: "'v gomap \<Rightarrow> 'v gomap \<Rightarrow> 'v gomap" where
  "maps_Copy dst [] = dst"
| "maps_Copy dst ((k, v) # src) = maps_Copy (map_put k v dst) src"

text \<open>The zero value that reading an absent key of a \<open>map[string]string\<close> gives.\<close>

definition get_or_empty :: "strmap \<Rightarrow> string \<Rightarrow> string" where
  "get_or_empty m k = (case map_get m k of None \<Rightarrow> [] | Some v \<Rightarrow> v)"

lemma map_get_put [simp, go_map_simps]:
  "map_get (map_put k v m) j = (if j = k then Some v else map_get m j)"
  by (induction k v m rule: map_put.induct) auto

lemma map_get_del [simp, go_map_simps]:
  "map_get (map_del k m) j = (if j = k then None else map_get m j)"
  by (induction m) (auto simp: map_del_def)

lemma map_get_append [go_map_simps]:
  "map_get (xs @ ys) k = (case map_get xs k of None \<Rightarrow> map_get ys k | Some v \<Rightarrow> Some v)"
  by (induction xs) auto

lemma keys_put [simp]: "fst ` set (map_put k v m) = insert k (fst ` set m)"
  by (induction k v m rule: map_put.induct) auto

lemma distinct_keys_put: "distinct (map fst m) \<Longrightarrow> distinct (map fst (map_put k v m))"
proof (induction k v m rule: map_put.induct)
  case (1 k v)
  then show ?case by simp
next
  case (2 k v k' v' m)
  have "set (map fst (map_put k v m)) = insert k (set (map fst m))" by simp
  with 2 show ?case by auto
qed

lemma distinct_keys_copy: "distinct (map fst dst) \<Longrightarrow> distinct (map fst (maps_Copy dst src))"
  by (induction dst src rule: maps_Copy.induct) (auto intro: distinct_keys_put)

lemma map_get_copy [go_map_simps]:
  assumes "distinct (map fst src)"
  shows "map_get (maps_Copy dst src) k =
    (case map_get src k of None \<Rightarrow> map_get dst k | Some v \<Rightarrow> Some v)"
  using assms
proof (induction dst src rule: maps_Copy.induct)
  case (1 dst)
  then show ?case by simp
next
  case (2 dst k' v src)
  then have "map_get src k' = None"
    by (simp add: map_of_eq_None_iff)
  with 2 show ?case by (auto split: option.splits)
qed

lemma keys_copy [simp]: "fst ` set (maps_Copy dst src) = fst ` set dst \<union> fst ` set src"
  by (induction dst src rule: maps_Copy.induct) auto

lemma get_or_empty_put [simp]:
  "get_or_empty (map_put k v m) j = (if j = k then v else get_or_empty m j)"
  by (simp add: get_or_empty_def)

section \<open>Sorted slices\<close>

text \<open>
  \<open>slices.Sort\<close> on strings. Strings that compare equal are equal, so any sorting function
  has this result.
\<close>

definition slices_Sort :: "string list \<Rightarrow> string list" where
  "slices_Sort xs = sort xs"

lemma slices_Sort_sorted: "sorted (slices_Sort xs)"
  by (simp add: slices_Sort_def)

lemma set_slices_Sort [simp]: "set (slices_Sort xs) = set xs"
  by (simp add: slices_Sort_def)

lemma mset_slices_Sort [simp]: "mset (slices_Sort xs) = mset xs"
  by (simp add: slices_Sort_def)

lemma distinct_slices_Sort [simp]: "distinct (slices_Sort xs) = distinct xs"
  by (simp add: slices_Sort_def)

lemma slices_Sort_perm: "mset xs = mset ys \<Longrightarrow> slices_Sort xs = slices_Sort ys"
  by (simp add: slices_Sort_def properties_for_sort)

lemma slices_Sort_idem [simp]: "slices_Sort (slices_Sort xs) = slices_Sort xs"
  by (simp add: slices_Sort_def sorted_sort_id)

lemma slices_Sort_set_eq:
  "distinct xs \<Longrightarrow> distinct ys \<Longrightarrow> set xs = set ys \<Longrightarrow> slices_Sort xs = slices_Sort ys"
  by (rule slices_Sort_perm) (simp add: set_eq_iff_mset_eq_distinct)

section \<open>Strings\<close>

text \<open>\<open>strings.Join(elems, sep)\<close>.\<close>

fun strings_Join :: "string list \<Rightarrow> string \<Rightarrow> string" where
  "strings_Join [] sep = []"
| "strings_Join [x] sep = x"
| "strings_Join (x # y # xs) sep = x @ sep @ strings_Join (y # xs) sep"

text \<open>The verb \<open>%d\<close> of \<open>fmt.Sprintf\<close> on an int.\<close>

definition digit_char :: "nat \<Rightarrow> char" where
  "digit_char d = char_of (48 + d)"

fun dec_nat :: "nat \<Rightarrow> string" where
  "dec_nat n = (if n < 10 then [digit_char n] else dec_nat (n div 10) @ [digit_char (n mod 10)])"

declare dec_nat.simps [simp del]

definition dec_int :: "int \<Rightarrow> string" where
  "dec_int i = (if i < 0 then CHR ''-'' # dec_nat (nat (- i)) else dec_nat (nat i))"

text \<open>
  Reading a decimal back shows that the printed form determines the number.
\<close>

definition char_digit :: "char \<Rightarrow> nat" where
  "char_digit c = of_char c - 48"

definition read_dec :: "string \<Rightarrow> nat" where
  "read_dec s = foldl (\<lambda>a c. 10 * a + char_digit c) 0 s"

lemma char_digit_char [simp]: "d < 10 \<Longrightarrow> char_digit (digit_char d) = d"
  by (simp add: char_digit_def digit_char_def)

lemma read_dec_dec_nat: "read_dec (dec_nat n) = n"
proof (induction n rule: dec_nat.induct)
  case (1 n)
  then show ?case
    by (subst dec_nat.simps) (simp add: read_dec_def)
qed

lemma dec_nat_inject [simp]: "dec_nat m = dec_nat n \<longleftrightarrow> m = n"
  by (metis read_dec_dec_nat)

lemma digit_char_not_minus: "d < 10 \<Longrightarrow> digit_char d \<noteq> CHR ''-''"
proof
  assume d: "d < 10" and "digit_char d = CHR ''-''"
  then have "(of_char (digit_char d) :: nat) = of_char (CHR ''-'')" by simp
  with d show False by (simp add: digit_char_def)
qed

lemma dec_nat_chars: "c \<in> set (dec_nat n) \<Longrightarrow> \<exists>d<10. c = digit_char d"
proof (induction n rule: dec_nat.induct)
  case (1 n)
  then show ?case
    by (subst (asm) (2) dec_nat.simps) (auto split: if_splits intro: exI [of _ "n mod 10"])
qed

lemma dec_nat_no_minus: "dec_nat n \<noteq> CHR ''-'' # s"
proof
  assume "dec_nat n = CHR ''-'' # s"
  then have "CHR ''-'' \<in> set (dec_nat n)" by simp
  then show False by (metis dec_nat_chars digit_char_not_minus)
qed

lemma dec_int_inject [simp]: "dec_int i = dec_int j \<longleftrightarrow> i = j"
  by (auto simp: dec_int_def dec_nat_no_minus dec_nat_no_minus [symmetric] dest: nat_eq_iff2 [THEN iffD1])

end
