(* ===== verification/Kube.thy ===== *)
theory Kube
  imports Prelude
begin

text \<open>
  The Kubernetes and controller-runtime data that the operator's code builds or inspects:
  object metadata, errors, reconcile results, pod volumes, and conditions. Only the fields the
  code reads or writes are kept. A value of a library type that the code copies without looking
  at it is an \<open>opaque\<close> string, standing for its serialised form.
\<close>

type_synonym opaque = string

section \<open>Object metadata\<close>

record OwnerReference =
  owner_Kind :: string
  owner_Name :: string
  owner_UID :: string

record ObjectMeta =
  Name :: string
  Namespace :: string
  UID :: string
  Generation :: int
  Finalizers :: "string list"
  OwnerReferences :: "OwnerReference list"
  Deleted :: bool  \<comment> \<open>\<open>!DeletionTimestamp.IsZero()\<close>\<close>

section \<open>Errors and results\<close>

text \<open>
  An API error carries its text and whether \<open>IsNotFound\<close> classifies it as NotFound. The code
  wraps errors with \<open>fmt.Errorf\<close> and the verb \<open>%w\<close>, in front of or
  behind a text, which keeps the classification reachable, and
  it has sentinel errors of its own.
\<close>

datatype gerr =
    ApiError bool string
  | Wrapped string gerr
  | Detailed gerr string
  | ErrACSecretNotFound
  | ErrACSecretMissingKeys
  | ErrUnexpectedObject

fun IsNotFound :: "gerr \<Rightarrow> bool" where
  "IsNotFound (ApiError nf _) = nf"
| "IsNotFound (Wrapped _ e) = IsNotFound e"
| "IsNotFound (Detailed e _) = IsNotFound e"
| "IsNotFound _ = False"

fun err_text :: "gerr \<Rightarrow> string" where
  "err_text (ApiError _ t) = t"
| "err_text (Wrapped p e) = p @ '': '' @ err_text e"
| "err_text (Detailed e d) = err_text e @ '': '' @ d"
| "err_text ErrACSecretNotFound = ''ApplicationCredential secret not found''"
| "err_text ErrACSecretMissingKeys = ''ApplicationCredential secret missing required keys''"
| "err_text ErrUnexpectedObject = ''unexpected object type''"

record Result =
  Requeue :: bool
  RequeueAfter :: int  \<comment> \<open>seconds\<close>

definition no_result :: Result where
  "no_result = \<lparr>Requeue = False, RequeueAfter = 0\<rparr>"

definition requeue_after :: "int \<Rightarrow> Result" where
  "requeue_after n = \<lparr>Requeue = False, RequeueAfter = n\<rparr>"

lemma requeue_after_eq [simp]: "requeue_after n = no_result \<longleftrightarrow> n = 0"
  by (simp add: requeue_after_def no_result_def)

text \<open>What a reconcile step returns: the result and the error, nil being \<open>None\<close>.\<close>

type_synonym outcome = "Result \<times> gerr option"

definition ok :: outcome where
  "ok = (no_result, None)"

definition failed :: "gerr \<Rightarrow> outcome" where
  "failed e = (no_result, Some e)"

section \<open>Pod volumes\<close>

record KeyToPath =
  ktp_Key :: string
  ktp_Path :: string

datatype VolumeSource =
    SecretSource int string "KeyToPath list"  \<comment> \<open>DefaultMode, SecretName, Items\<close>
  | OtherSource opaque

record Volume =
  vol_Name :: string
  vol_Source :: VolumeSource

record VolumeMount =
  mnt_Name :: string
  MountPath :: string
  SubPath :: string
  ReadOnly :: bool

text \<open>
  The storage module's extra volumes, as the CRD schema describes them: a type, a propagation
  policy, named volumes, and mounts.
\<close>

record ExtraVolume =
  ev_Name :: string
  ev_Source :: opaque

record VolMounts =
  ExtraVolType :: string
  Propagation :: "string list"
  Volumes :: "ExtraVolume list"
  Mounts :: "VolumeMount list"

section \<open>Conditions\<close>

text \<open>
  The condition types the controllers use. The first group belongs to lib-common and to the
  mariadb API, whose constants are not part of this repository; the second group is declared in
  \<open>api/v1beta1/conditions.go\<close> and in \<open>barbican_controller.go\<close>. They are distinct.
\<close>

datatype ctype =
    ReadyCondition | DBReadyCondition | DBSyncReadyCondition | InputReadyCondition
  | ServiceConfigReadyCondition | NetworkAttachmentsReadyCondition
  | ServiceAccountReadyCondition | RoleReadyCondition | RoleBindingReadyCondition
  | NotificationBusInstanceReadyCondition | KeystoneServiceReadyCondition
  | KeystoneEndpointReadyCondition | CreateServiceReadyCondition | DeploymentReadyCondition
  | TLSInputReadyCondition | TopologyReadyCondition | MariaDBAccountReadyCondition
  | BarbicanAPIReadyCondition | BarbicanWorkerReadyCondition
  | BarbicanKeystoneListenerReadyCondition | BarbicanRabbitMQTransportURLReadyCondition
  | PKCS11PrepReadyCondition

datatype reason = InitReason | RequestedReason | ErrorReason

datatype severity = SeverityInfo | SeverityWarning

text \<open>A message is the name of its format constant and the arguments of the format.\<close>

datatype message = Msg string "string list"

text \<open>A condition value is the call of the condition package that builds it.\<close>

datatype condition =
    UnknownCondition ctype reason message
  | FalseCondition ctype reason severity message
  | TrueCondition ctype message

fun cond_type :: "condition \<Rightarrow> ctype" where
  "cond_type (UnknownCondition t _ _) = t"
| "cond_type (FalseCondition t _ _ _) = t"
| "cond_type (TrueCondition t _) = t"

definition init_condition :: "ctype \<Rightarrow> string \<Rightarrow> condition" where
  "init_condition t m = UnknownCondition t InitReason (Msg m [])"

text \<open>The False condition that every error path of the controllers reports.\<close>

definition error_condition :: "ctype \<Rightarrow> string \<Rightarrow> string list \<Rightarrow> condition" where
  "error_condition t m args = FalseCondition t ErrorReason SeverityWarning (Msg m args)"

text \<open>The False condition of a dependency that is being created.\<close>

definition requested_condition :: "ctype \<Rightarrow> string \<Rightarrow> condition" where
  "requested_condition t m = FalseCondition t RequestedReason SeverityInfo (Msg m [])"

lemma cond_type_builders [simp]:
  "cond_type (init_condition t m) = t"
  "cond_type (error_condition t m args) = t"
  "cond_type (requested_condition t m) = t"
  by (simp_all add: init_condition_def error_condition_def requested_condition_def)

end
