(* ===== verification/Api_Types.thy ===== *)
theory Api_Types
  imports Kube
begin

text \<open>
  The custom resources: \<open>api/v1beta1/common_types.go\<close>, \<open>barbican_types.go\<close>, the three sub-CR type
  files and the constants of \<open>internal/barbican/const.go\<close>. An embedded Go struct is a field of its
  own here (\<open>Spec.Secret\<close> of the source is \<open>Secret (as_Template s)\<close>), a pointer is an option.
\<close>

section \<open>Constants\<close>

abbreviation ServiceName :: string where "ServiceName \<equiv> ''barbican''"
abbreviation ComponentAPI :: string where "ComponentAPI \<equiv> ''barbican-api''"
abbreviation ComponentKeystoneListener :: string where
  "ComponentKeystoneListener \<equiv> ''keystone-listener''"
abbreviation ComponentWorker :: string where "ComponentWorker \<equiv> ''barbican-worker''"
abbreviation DatabaseName :: string where "DatabaseName \<equiv> ''barbican''"
abbreviation DatabaseCRName :: string where "DatabaseCRName \<equiv> ''barbican''"
abbreviation DatabaseUsernamePrefix :: string where "DatabaseUsernamePrefix \<equiv> ''barbican''"
abbreviation BarbicanPort :: int where "BarbicanPort \<equiv> 9311"
abbreviation DefaultsConfigFileName :: string where "DefaultsConfigFileName \<equiv> ''00-default.conf''"
abbreviation CustomConfigFileName :: string where "CustomConfigFileName \<equiv> ''01-custom.conf''"
abbreviation CustomServiceConfigFileName :: string where
  "CustomServiceConfigFileName \<equiv> ''02-service-custom.conf''"
abbreviation CustomServiceConfigSecretsFileName :: string where
  "CustomServiceConfigSecretsFileName \<equiv> ''03-secrets-custom.conf''"
abbreviation Prop_BarbicanAPI :: string where "Prop_BarbicanAPI \<equiv> ''BarbicanAPI''"
abbreviation Prop_BarbicanWorker :: string where "Prop_BarbicanWorker \<equiv> ''BarbicanWorker''"
abbreviation Prop_BarbicanKeystoneListener :: string where
  "Prop_BarbicanKeystoneListener \<equiv> ''BarbicanKeystoneListener''"
abbreviation Prop_Barbican :: string where "Prop_Barbican \<equiv> ''Barbican''"
abbreviation BarbicanLogPath :: string where "BarbicanLogPath \<equiv> ''/var/log/barbican/''"
abbreviation LogVolume :: string where "LogVolume \<equiv> ''logs''"
abbreviation ConfigVolume :: string where "ConfigVolume \<equiv> ''config-data''"
abbreviation CustomConfigVolume :: string where "CustomConfigVolume \<equiv> ''config-data-custom''"
abbreviation DBSyncConfigVolume :: string where "DBSyncConfigVolume \<equiv> ''db-sync-config-data''"
abbreviation PKCS11ConfigVolume :: string where "PKCS11ConfigVolume \<equiv> ''pkcs11-config-data''"
abbreviation CustomConfigMountPoint :: string where
  "CustomConfigMountPoint \<equiv> ''/etc/barbican/barbican.conf.d''"
abbreviation ConfigOverwriteBasePath :: string where "ConfigOverwriteBasePath \<equiv> ''/etc/barbican''"
abbreviation ScriptVolume :: string where "ScriptVolume \<equiv> ''scripts''"
abbreviation ScriptMountPoint :: string where
  "ScriptMountPoint \<equiv> ''/usr/local/bin/container-scripts''"
abbreviation PKCS11ClientDataVolume :: string where
  "PKCS11ClientDataVolume \<equiv> ''pkcs11-client-data''"
abbreviation KMIPClientDataVolume :: string where "KMIPClientDataVolume \<equiv> ''kmip-client-data''"
abbreviation ACConsumerFinalizer :: string where
  "ACConsumerFinalizer \<equiv> ''openstack.org/barbican-ac-consumer''"
abbreviation TransportConsumerFinalizer :: string where
  "TransportConsumerFinalizer \<equiv> ''openstack.org/barbican-transport-consumer''"
abbreviation DbSyncHash :: string where "DbSyncHash \<equiv> ''dbsync''"
abbreviation PKCS11PrepHash :: string where "PKCS11PrepHash \<equiv> ''pkcs11prep''"
abbreviation SecretStoreSimpleCrypto :: string where "SecretStoreSimpleCrypto \<equiv> ''simple_crypto''"
abbreviation SecretStorePKCS11 :: string where "SecretStorePKCS11 \<equiv> ''pkcs11''"
abbreviation SecretStoreKMIP :: string where "SecretStoreKMIP \<equiv> ''kmip''"
abbreviation DefaultPKCS11ClientDataPath :: string where
  "DefaultPKCS11ClientDataPath \<equiv> ''/etc/hsm-client''"
abbreviation DefaultKMIPClientDataPath :: string where
  "DefaultKMIPClientDataPath \<equiv> ''/etc/kmip-client''"
abbreviation BarbicanContainerImage :: string where
  "BarbicanContainerImage \<equiv> ''quay.io/openstack-s2i-containers/openstack-barbican-api:master-latest''"
abbreviation default_APITimeout :: int where "default_APITimeout \<equiv> 90"

section \<open>Templates shared by the custom resources\<close>

record RabbitMqConfig =
  Cluster :: string
  User :: string
  Vhost :: string

record TopoRef =
  topo_Name :: string
  topo_Namespace :: string

record PasswordSelector =
  ps_Service :: string
  SimpleCryptoKEK :: string
  PKCS11Pin :: string
  SimpleCryptoAdditionalKEKs :: "string list"

record ClientDataSpec =
  ClientDataSecret :: string
  ClientDataPath :: string

text \<open>\<open>PathOrDefault\<close>: the configured path, or the store's default when it is unset.\<close>

definition PathOrDefault :: "ClientDataSpec \<Rightarrow> string \<Rightarrow> string" where
  "PathOrDefault spec defaultPath =
     (if ClientDataPath spec = [] then defaultPath else ClientDataPath spec)"

record BarbicanPKCS11Template =
  LoginSecret :: string
  pkcs11_ClientData :: ClientDataSpec

record BarbicanKMIPTemplate =
  kmip_ClientData :: ClientDataSpec

record BarbicanExtraVolMounts =
  xvm_Name :: string
  xvm_Region :: string
  xvm_VolMounts :: "VolMounts list"

text \<open>
  \<open>Propagate\<close> concatenates what the storage module's \<open>Propagate\<close> (a parameter) keeps of each entry.
\<close>

definition Propagate ::
  "(VolMounts \<Rightarrow> string list \<Rightarrow> VolMounts list) \<Rightarrow> BarbicanExtraVolMounts \<Rightarrow> string list \<Rightarrow>
   VolMounts list" where
  "Propagate storage_Propagate g svc =
     concat (map (\<lambda>gv. storage_Propagate gv svc) (xvm_VolMounts g))"

type_synonym SecretStore = string

record BarbicanTemplate =
  ServiceUser :: string
  DatabaseInstance :: string
  DatabaseAccount :: string
  RabbitMqClusterName :: string
  MessagingBus :: RabbitMqConfig
  NotificationsBus :: "RabbitMqConfig option"
  SimpleCryptoBackendSecret :: string
  Secret :: string
  PasswordSelectors :: PasswordSelector
  ServiceAccount :: string
  PKCS11 :: "BarbicanPKCS11Template option"
  KMIP :: "BarbicanKMIPTemplate option"
  EnabledSecretStores :: "SecretStore list"
  GlobalDefaultSecretStore :: SecretStore
  ExtraMounts :: "BarbicanExtraVolMounts list"

text \<open>
  The test \<open>slices.Contains(EnabledSecretStores, s)\<close> and the one for simple_crypto, which is also
  the store used when none is listed.
\<close>

definition store_enabled :: "BarbicanTemplate \<Rightarrow> string \<Rightarrow> bool" where
  "store_enabled t s \<longleftrightarrow> s \<in> set (EnabledSecretStores t)"

definition simple_crypto_enabled :: "BarbicanTemplate \<Rightarrow> bool" where
  "simple_crypto_enabled t \<longleftrightarrow>
     length (EnabledSecretStores t) = 0 \<or> store_enabled t SecretStoreSimpleCrypto"

record BarbicanComponentTemplate =
  ct_NodeSelector :: "strmap option"
  Replicas :: "int option"
  ct_CustomServiceConfig :: string
  ct_DefaultConfigOverwrite :: strmap
  CustomServiceConfigSecrets :: "string list"
  Resources :: opaque
  ct_NetworkAttachments :: "string list"
  ct_TopologyRef :: "TopoRef option"

section \<open>The Barbican resource\<close>

record GenericTLS =
  tls_SecretName :: "string option"

record TLS_API =
  CaBundleSecretName :: string
  tls_Internal :: GenericTLS
  tls_Public :: GenericTLS

text \<open>\<open>RoutedOverrideSpec\<close>: the embedded override, the URL, and whether labels are given.\<close>

record RoutedOverride =
  EmbeddedLabels :: "opaque option"
  OverrideSpec :: opaque
  EndpointURL :: "string option"

record BarbicanAPITemplateCore =
  atc_Component :: BarbicanComponentTemplate
  EnableSecureRBAC :: bool
  Override_Service :: "RoutedOverride gomap"
  TLS :: TLS_API
  atc_APITimeout :: int

record BarbicanAPITemplate =
  at_Core :: BarbicanAPITemplateCore
  at_ContainerImage :: string

type_synonym BarbicanWorkerTemplateCore = BarbicanComponentTemplate

record BarbicanWorkerTemplate =
  wt_Component :: BarbicanWorkerTemplateCore
  wt_ContainerImage :: string

type_synonym BarbicanKeystoneListenerTemplateCore = BarbicanComponentTemplate

record BarbicanKeystoneListenerTemplate =
  lt_Component :: BarbicanKeystoneListenerTemplateCore
  lt_ContainerImage :: string

record BarbicanSpecBase =
  sb_Template :: BarbicanTemplate
  PreserveJobs :: bool
  sb_NodeSelector :: "strmap option"
  sb_CustomServiceConfig :: string
  sb_DefaultConfigOverwrite :: strmap
  sb_APITimeout :: int
  spec_AppCredSecret :: string  \<comment> \<open>\<open>Auth.ApplicationCredentialSecret\<close>\<close>
  sb_TopologyRef :: "TopoRef option"

record BarbicanSpec =
  Base :: BarbicanSpecBase
  BarbicanAPI :: BarbicanAPITemplate
  BarbicanWorker :: BarbicanWorkerTemplate
  BarbicanKeystoneListener :: BarbicanKeystoneListenerTemplate

record BarbicanSpecCore =
  core_Base :: BarbicanSpecBase
  core_BarbicanAPI :: BarbicanAPITemplateCore
  core_BarbicanWorker :: BarbicanWorkerTemplateCore
  core_BarbicanKeystoneListener :: BarbicanKeystoneListenerTemplateCore

record 'c BarbicanStatus =
  bs_Hash :: "strmap option"  \<comment> \<open>a nil map is \<open>None\<close>\<close>
  ServiceID :: string
  bs_Conditions :: "'c option"
  BarbicanAPIReadyCount :: int
  BarbicanWorkerReadyCount :: int
  BarbicanKeystoneListenerReadyCount :: int
  bs_TransportURLSecret :: string
  bs_NotificationsURLSecret :: "string option"
  bs_DatabaseHostname :: string
  ApplicationCredentialSecret :: string
  bs_ObservedGeneration :: int

record 'c Barbican =
  Meta :: ObjectMeta
  Spec :: BarbicanSpec
  Status :: "'c BarbicanStatus"

text \<open>\<open>RbacResourceName\<close> and \<open>RbacNamespace\<close>.\<close>

definition RbacResourceName :: "'c Barbican \<Rightarrow> string" where
  "RbacResourceName instance = ''barbican-'' @ Name (Meta instance)"

definition RbacNamespace :: "'c Barbican \<Rightarrow> string" where
  "RbacNamespace instance = Namespace (Meta instance)"

abbreviation Template :: "'c Barbican \<Rightarrow> BarbicanTemplate" where
  "Template i \<equiv> sb_Template (Base (Spec i))"

abbreviation API_TLS :: "'c Barbican \<Rightarrow> TLS_API" where
  "API_TLS i \<equiv> TLS (at_Core (BarbicanAPI (Spec i)))"

end
