(* ===== verification/Samples.thy ===== *)
theory Samples
  imports Api_Types
begin

text \<open>
  A concrete Barbican resource, in the shape of \<open>config/samples\<close>: the witnesses of the theorems with
  hypotheses evaluate the model on it and on small variations of it.
\<close>

definition ex_meta :: ObjectMeta where
  "ex_meta = \<lparr>Name = ''barbican'', Namespace = ''openstack'', UID = ''uid-1'', Generation = 1,
     Finalizers = [''openstack.org/barbican''], OwnerReferences = [], Deleted = False\<rparr>"

definition ex_bus :: RabbitMqConfig where
  "ex_bus = \<lparr>Cluster = ''rabbitmq'', User = '''', Vhost = ''''\<rparr>"

definition ex_template :: BarbicanTemplate where
  "ex_template = \<lparr>ServiceUser = ''barbican'', DatabaseInstance = ''openstack'',
     DatabaseAccount = ''barbican'', RabbitMqClusterName = '''', MessagingBus = ex_bus,
     NotificationsBus = None, SimpleCryptoBackendSecret = ''osp-secret'', Secret = ''osp-secret'',
     PasswordSelectors = \<lparr>ps_Service = ''BarbicanPassword'',
       SimpleCryptoKEK = ''BarbicanSimpleCryptoKEK'', PKCS11Pin = ''PKCS11Pin'',
       SimpleCryptoAdditionalKEKs = []\<rparr>,
     ServiceAccount = ''barbican-barbican'',
     PKCS11 = Some \<lparr>LoginSecret = ''hsm-login'',
       pkcs11_ClientData = \<lparr>ClientDataSecret = ''hsm-client'', ClientDataPath = ''''\<rparr>\<rparr>,
     KMIP = Some \<lparr>kmip_ClientData = \<lparr>ClientDataSecret = ''kmip-client'', ClientDataPath = ''''\<rparr>\<rparr>,
     EnabledSecretStores = [''simple_crypto'', ''pkcs11'', ''kmip''],
     GlobalDefaultSecretStore = ''simple_crypto'', ExtraMounts = []\<rparr>"

definition ex_component :: BarbicanComponentTemplate where
  "ex_component = \<lparr>ct_NodeSelector = None, Replicas = Some 1, ct_CustomServiceConfig = '''',
     ct_DefaultConfigOverwrite = [], CustomServiceConfigSecrets = [], Resources = '''',
     ct_NetworkAttachments = [], ct_TopologyRef = None\<rparr>"

definition ex_tls :: TLS_API where
  "ex_tls = \<lparr>CaBundleSecretName = '''', tls_Internal = \<lparr>tls_SecretName = None\<rparr>,
     tls_Public = \<lparr>tls_SecretName = None\<rparr>\<rparr>"

definition ex_api :: BarbicanAPITemplate where
  "ex_api = \<lparr>at_Core = \<lparr>atc_Component = ex_component, EnableSecureRBAC = True,
     Override_Service = [], TLS = ex_tls, atc_APITimeout = 0\<rparr>, at_ContainerImage = ''''\<rparr>"

definition ex_spec :: BarbicanSpec where
  "ex_spec = \<lparr>Base = \<lparr>sb_Template = ex_template, PreserveJobs = False, sb_NodeSelector = None,
       sb_CustomServiceConfig = '''', sb_DefaultConfigOverwrite = [], sb_APITimeout = 90,
       spec_AppCredSecret = '''', sb_TopologyRef = None\<rparr>,
     BarbicanAPI = ex_api,
     BarbicanWorker = \<lparr>wt_Component = ex_component, wt_ContainerImage = ''''\<rparr>,
     BarbicanKeystoneListener = \<lparr>lt_Component = ex_component, lt_ContainerImage = ''''\<rparr>\<rparr>"

definition ex_status :: "'c \<Rightarrow> 'c BarbicanStatus" where
  "ex_status cs = \<lparr>bs_Hash = Some [], ServiceID = '''', bs_Conditions = Some cs,
     BarbicanAPIReadyCount = 0, BarbicanWorkerReadyCount = 0, BarbicanKeystoneListenerReadyCount = 0,
     bs_TransportURLSecret = '''', bs_NotificationsURLSecret = None, bs_DatabaseHostname = '''',
     ApplicationCredentialSecret = '''', bs_ObservedGeneration = 0\<rparr>"

definition ex_barbican :: "'c \<Rightarrow> 'c Barbican" where
  "ex_barbican cs = \<lparr>Meta = ex_meta, Spec = ex_spec, Status = ex_status cs\<rparr>"

lemmas ex_defs = ex_meta_def ex_bus_def ex_template_def ex_component_def ex_tls_def ex_api_def
  ex_spec_def ex_status_def ex_barbican_def

end
