(* ===== verification/Webhook.thy ===== *)
theory Webhook
  imports Samples
begin

text \<open>
  Defaulting and validation of the Barbican resource: \<open>api/v1beta1/barbican_webhook.go\<close>,
  \<open>ValidateTopology\<close> of \<open>common_types.go\<close> and \<open>SetupDefaults\<close> of \<open>barbican_types.go\<close>.
  The library validators (routed overrides, topology references, deprecated fields) are the
  fields of the record \<open>weblib\<close>, an argument of the validators. An \<open>ErrorList\<close> is a list; where
  the code compares one with nil it is an option.
\<close>

section \<open>Data of the validators\<close>

type_synonym path = "string list"

definition Child :: "path \<Rightarrow> string \<Rightarrow> path" where
  "Child p c = p @ [c]"

datatype field_error =
    Required path string
  | Invalid path string string
  | LibraryError path opaque

record DeprecatedFieldUpdate =
  DeprecatedFieldName :: string
  NewFieldPath :: "string list"
  OldDeprecatedValue :: "string option"
  NewDeprecatedValue :: string
  NewValue :: string

record DeprecatedField =
  df_DeprecatedFieldName :: string
  df_NewFieldPath :: "string list"
  df_DeprecatedValue :: string
  df_NewValue :: string

record weblib =
  ValidateRoutedOverrides :: "path \<Rightarrow> RoutedOverride gomap \<Rightarrow> field_error list"
  ValidateTopologyRef :: "TopoRef option \<Rightarrow> path \<Rightarrow> string \<Rightarrow> field_error list"
  ValidateDeprecatedFieldsUpdate ::
    "DeprecatedFieldUpdate list \<Rightarrow> path \<Rightarrow> string list \<times> field_error list option"
  ValidateDeprecatedFieldsCreate :: "DeprecatedField list \<Rightarrow> path \<Rightarrow> string list"

section \<open>Defaults\<close>

text \<open>The package variable \<open>barbicanDefaults\<close> is an argument of the functions that read it.\<close>

record BarbicanDefaults =
  APIContainerImageURL :: string
  WorkerContainerImageURL :: string
  KeystoneListenerContainerImageURL :: string
  BarbicanAPITimeout :: int

text \<open>\<open>SetupDefaults\<close>: one environment variable (\<open>GetEnvVar key fallback\<close>) feeds every image.\<close>

definition SetupDefaults :: "(string \<Rightarrow> string \<Rightarrow> string) \<Rightarrow> BarbicanDefaults" where
  "SetupDefaults GetEnvVar =
     (let image = GetEnvVar ''RELATED_IMAGE_BARBICAN_IMAGE_URL_DEFAULT'' BarbicanContainerImage
      in \<lparr>APIContainerImageURL = image, WorkerContainerImageURL = image,
          KeystoneListenerContainerImageURL = image, BarbicanAPITimeout = default_APITimeout\<rparr>)"

definition default_client_path :: "string \<Rightarrow> ClientDataSpec \<Rightarrow> ClientDataSpec" where
  "default_client_path p c = (if ClientDataPath c = [] then c\<lparr>ClientDataPath := p\<rparr> else c)"

definition SpecBase_Default :: "BarbicanSpecBase \<Rightarrow> BarbicanSpecBase" where
  "SpecBase_Default spec = (let t = sb_Template spec;
     t = (if Cluster (MessagingBus t) = []
          then t\<lparr>MessagingBus := (MessagingBus t)\<lparr>Cluster := ''rabbitmq''\<rparr>\<rparr> else t);
     t = t\<lparr>PKCS11 := map_option (pkcs11_ClientData_update
            (default_client_path DefaultPKCS11ClientDataPath)) (PKCS11 t)\<rparr>;
     t = t\<lparr>KMIP := map_option (kmip_ClientData_update
            (default_client_path DefaultKMIPClientDataPath)) (KMIP t)\<rparr>
   in spec\<lparr>sb_Template := t\<rparr>)"

definition default_image :: "string \<Rightarrow> string \<Rightarrow> string" where
  "default_image d img = (if img = [] then d else img)"

definition BarbicanSpec_Default :: "BarbicanDefaults \<Rightarrow> BarbicanSpec \<Rightarrow> BarbicanSpec" where
  "BarbicanSpec_Default d spec = (let
     spec = BarbicanAPI_update (at_ContainerImage_update
              (default_image (APIContainerImageURL d))) spec;
     spec = BarbicanWorker_update (wt_ContainerImage_update
              (default_image (WorkerContainerImageURL d))) spec;
     spec = BarbicanKeystoneListener_update (lt_ContainerImage_update
              (default_image (KeystoneListenerContainerImageURL d))) spec
   in Base_update SpecBase_Default spec)"

definition BarbicanSpecCore_Default ::
  "BarbicanDefaults \<Rightarrow> BarbicanSpecCore \<Rightarrow> BarbicanSpecCore" where
  "BarbicanSpecCore_Default d spec = (let
     spec = (if sb_APITimeout (core_Base spec) = 0
             then core_Base_update (sb_APITimeout_update (\<lambda>_. BarbicanAPITimeout d)) spec else spec)
   in core_Base_update SpecBase_Default spec)"

definition Barbican_Default :: "BarbicanDefaults \<Rightarrow> 'c Barbican \<Rightarrow> 'c Barbican" where
  "Barbican_Default d r = r\<lparr>Spec := BarbicanSpec_Default d (Spec r)\<rparr>"

section \<open>Validation of the secret stores\<close>

definition ValidatePKCS11 ::
  "BarbicanTemplate \<Rightarrow> path \<Rightarrow> field_error list \<Rightarrow> field_error list" where
  "ValidatePKCS11 spec basePath allErrs =
     (if \<not> store_enabled spec SecretStorePKCS11 then allErrs
      else (case PKCS11 spec of
        None \<Rightarrow> allErrs @ [Required (Child basePath ''pkcs11'')
          ''PKCS11 specification is missing, PKCS11 is required when pkcs11 is an enabled SecretStore'']
      | Some p \<Rightarrow>
          (if ClientDataSecret (pkcs11_ClientData p) = []
           then allErrs @ [Required (Child (Child basePath ''pkcs11'') ''clientDataSecret'')
             ''clientDataSecret is required when pkcs11 is an enabled SecretStore'']
           else allErrs)))"

definition ValidateKMIP ::
  "BarbicanTemplate \<Rightarrow> path \<Rightarrow> field_error list \<Rightarrow> field_error list" where
  "ValidateKMIP spec basePath allErrs =
     (if \<not> store_enabled spec SecretStoreKMIP then allErrs
      else (case KMIP spec of
        None \<Rightarrow> allErrs @ [Required (Child basePath ''kmip'')
          ''KMIP specification is missing, KMIP is required when kmip is an enabled SecretStore'']
      | Some k \<Rightarrow>
          (if ClientDataSecret (kmip_ClientData k) = []
           then allErrs @ [Required (Child (Child basePath ''kmip'') ''clientDataSecret'')
             ''clientDataSecret is required when kmip is an enabled SecretStore'']
           else allErrs)))"

definition ValidateClientDataPaths ::
  "BarbicanTemplate \<Rightarrow> path \<Rightarrow> field_error list \<Rightarrow> field_error list" where
  "ValidateClientDataPaths spec basePath allErrs =
     (if \<not> store_enabled spec SecretStorePKCS11 \<or> \<not> store_enabled spec SecretStoreKMIP
      then allErrs
      else (case (PKCS11 spec, KMIP spec) of
        (Some p, Some k) \<Rightarrow>
          (let kmipPath = PathOrDefault (kmip_ClientData k) DefaultKMIPClientDataPath in
           if kmipPath = PathOrDefault (pkcs11_ClientData p) DefaultPKCS11ClientDataPath
           then allErrs @ [Invalid (Child (Child basePath ''kmip'') ''clientDataPath'') kmipPath
             ''clientDataPath must differ from spec.pkcs11.clientDataPath when both pkcs11 and kmip are enabled SecretStores'']
           else allErrs)
      | _ \<Rightarrow> allErrs))"

definition ValidateSecretStores ::
  "BarbicanTemplate \<Rightarrow> path \<Rightarrow> field_error list \<Rightarrow> field_error list" where
  "ValidateSecretStores spec basePath allErrs =
     ValidateClientDataPaths spec basePath
       (ValidateKMIP spec basePath (ValidatePKCS11 spec basePath allErrs))"

section \<open>Validation of topology references\<close>

definition ValidateTopology ::
  "weblib \<Rightarrow> BarbicanComponentTemplate \<Rightarrow> path \<Rightarrow> string \<Rightarrow> field_error list" where
  "ValidateTopology L c basePath namespace =
     ValidateTopologyRef L (ct_TopologyRef c) (Child basePath ''topologyRef'') namespace"

definition ValidateBarbicanTopology_Core ::
  "weblib \<Rightarrow> BarbicanSpecCore \<Rightarrow> path \<Rightarrow> string \<Rightarrow> field_error list" where
  "ValidateBarbicanTopology_Core L spec basePath namespace =
     ValidateTopologyRef L (sb_TopologyRef (core_Base spec)) (Child basePath ''topologyRef'') namespace
     @ ValidateTopology L (atc_Component (core_BarbicanAPI spec))
         (Child basePath ''barbicanAPI'') namespace
     @ ValidateTopology L (core_BarbicanKeystoneListener spec)
         (Child basePath ''barbicanKeystoneListener'') namespace
     @ ValidateTopology L (core_BarbicanWorker spec) (Child basePath ''barbicanWorker'') namespace"

definition ValidateBarbicanTopology ::
  "weblib \<Rightarrow> BarbicanSpec \<Rightarrow> path \<Rightarrow> string \<Rightarrow> field_error list" where
  "ValidateBarbicanTopology L spec basePath namespace =
     ValidateTopologyRef L (sb_TopologyRef (Base spec)) (Child basePath ''topologyRef'') namespace
     @ ValidateTopology L (atc_Component (at_Core (BarbicanAPI spec)))
         (Child basePath ''barbicanAPI'') namespace
     @ ValidateTopology L (lt_Component (BarbicanKeystoneListener spec))
         (Child basePath ''barbicanKeystoneListener'') namespace
     @ ValidateTopology L (wt_Component (BarbicanWorker spec))
         (Child basePath ''barbicanWorker'') namespace"

section \<open>Create and update\<close>

abbreviation override_path :: "path \<Rightarrow> path" where
  "override_path p \<equiv> Child (Child (Child p ''barbicanAPI'') ''override'') ''service''"

definition BarbicanSpec_ValidateCreate ::
  "weblib \<Rightarrow> BarbicanSpec \<Rightarrow> path \<Rightarrow> string \<Rightarrow> string list \<times> field_error list" where
  "BarbicanSpec_ValidateCreate L spec basePath namespace =
     (let allErrs = ValidateRoutedOverrides L (override_path basePath)
            (Override_Service (at_Core (BarbicanAPI spec)));
          allErrs = ValidateSecretStores (sb_Template (Base spec)) basePath allErrs
      in ([], allErrs @ ValidateBarbicanTopology L spec basePath namespace))"

definition BarbicanSpecCore_ValidateCreate ::
  "weblib \<Rightarrow> BarbicanSpecCore \<Rightarrow> path \<Rightarrow> string \<Rightarrow> string list \<times> field_error list" where
  "BarbicanSpecCore_ValidateCreate L spec basePath namespace =
     (let allErrs = ValidateRoutedOverrides L (override_path basePath)
            (Override_Service (core_BarbicanAPI spec));
          allErrs = ValidateSecretStores (sb_Template (core_Base spec)) basePath allErrs
      in ([], allErrs @ ValidateBarbicanTopology_Core L spec basePath namespace))"

definition getDeprecatedFields ::
  "BarbicanSpecBase \<Rightarrow> BarbicanSpecBase option \<Rightarrow> DeprecatedFieldUpdate list" where
  "getDeprecatedFields spec old =
     [\<lparr>DeprecatedFieldName = ''rabbitMqClusterName'',
       NewFieldPath = [''messagingBus'', ''cluster''],
       OldDeprecatedValue = map_option (\<lambda>os. RabbitMqClusterName (sb_Template os)) old,
       NewDeprecatedValue = RabbitMqClusterName (sb_Template spec),
       NewValue = Cluster (MessagingBus (sb_Template spec))\<rparr>]"

definition validateDeprecatedFieldsCreate ::
  "weblib \<Rightarrow> BarbicanSpecBase \<Rightarrow> path \<Rightarrow> string list \<times> field_error list option" where
  "validateDeprecatedFieldsCreate L spec basePath =
     (ValidateDeprecatedFieldsCreate L
       (map (\<lambda>df. \<lparr>df_DeprecatedFieldName = DeprecatedFieldName df,
                   df_NewFieldPath = NewFieldPath df,
                   df_DeprecatedValue = NewDeprecatedValue df,
                   df_NewValue = NewValue df\<rparr>)
         (getDeprecatedFields spec None)) basePath, None)"

definition validateDeprecatedFieldsUpdate ::
  "weblib \<Rightarrow> BarbicanSpecBase \<Rightarrow> BarbicanSpecBase \<Rightarrow> path \<Rightarrow>
   string list \<times> field_error list option" where
  "validateDeprecatedFieldsUpdate L spec old basePath =
     ValidateDeprecatedFieldsUpdate L (getDeprecatedFields spec (Some old)) basePath"

text \<open>
  The update validators start with
  \<open>if warns, err := ...validateDeprecatedFieldsUpdate(...); err != nil\<close>: warnings and errors are
  taken over only when the error list is not nil.
\<close>

definition BarbicanSpec_ValidateUpdate ::
  "weblib \<Rightarrow> BarbicanSpec \<Rightarrow> BarbicanSpec \<Rightarrow> path \<Rightarrow> string \<Rightarrow> string list \<times> field_error list" where
  "BarbicanSpec_ValidateUpdate L spec old basePath namespace =
     (let (allWarns, allErrs) =
            (case validateDeprecatedFieldsUpdate L (Base spec) (Base old) basePath of
               (warns, Some err) \<Rightarrow> (warns, err)
             | (warns, None) \<Rightarrow> ([], []));
          allErrs = allErrs @ ValidateRoutedOverrides L (override_path basePath)
            (Override_Service (at_Core (BarbicanAPI spec)));
          allErrs = ValidateSecretStores (sb_Template (Base spec)) basePath allErrs
      in (allWarns, allErrs @ ValidateBarbicanTopology L spec basePath namespace))"

definition BarbicanSpecCore_ValidateUpdate ::
  "weblib \<Rightarrow> BarbicanSpecCore \<Rightarrow> BarbicanSpecCore \<Rightarrow> path \<Rightarrow> string \<Rightarrow>
   string list \<times> field_error list" where
  "BarbicanSpecCore_ValidateUpdate L spec old basePath namespace =
     (let (allWarns, allErrs) =
            (case validateDeprecatedFieldsUpdate L (core_Base spec) (core_Base old) basePath of
               (warns, Some err) \<Rightarrow> (warns, err)
             | (warns, None) \<Rightarrow> ([], []));
          allErrs = allErrs @ ValidateRoutedOverrides L (override_path basePath)
            (Override_Service (core_BarbicanAPI spec));
          allErrs = ValidateSecretStores (sb_Template (core_Base spec)) basePath allErrs
      in (allWarns, allErrs @ ValidateBarbicanTopology_Core L spec basePath namespace))"

section \<open>Admission\<close>

text \<open>
  A \<open>runtime.Object\<close> is a Barbican, a nil pointer to one, or another object. An admission
  answer is a list of warnings and an error or nil.
\<close>

datatype 'c runtime_object = BarbicanObject "'c Barbican" | NilBarbican | OtherObject string

datatype admission_error =
    NewInvalid string string string "field_error list"
  | NewInternalError string
  | UnexpectedObject string

type_synonym admission = "string list \<times> admission_error option"

definition admit :: "string \<Rightarrow> string list \<times> field_error list \<Rightarrow> admission" where
  "admit name we =
     (fst we, if snd we \<noteq> []
              then Some (NewInvalid ''barbican.openstack.org'' ''Barbican'' name (snd we)) else None)"

definition Barbican_ValidateCreate :: "weblib \<Rightarrow> 'c Barbican \<Rightarrow> admission" where
  "Barbican_ValidateCreate L r =
     admit (Name (Meta r))
       (BarbicanSpec_ValidateCreate L (Spec r) [''spec''] (Namespace (Meta r)))"

definition Barbican_ValidateUpdate :: "weblib \<Rightarrow> 'c Barbican \<Rightarrow> 'c runtime_object \<Rightarrow> admission" where
  "Barbican_ValidateUpdate L r old = (case old of
       BarbicanObject oldBarbican \<Rightarrow>
         admit (Name (Meta r))
           (BarbicanSpec_ValidateUpdate L (Spec r) (Spec oldBarbican) [''spec''] (Namespace (Meta r)))
     | _ \<Rightarrow> ([], Some (NewInternalError ''unable to convert existing object'')))"

definition Barbican_ValidateDelete :: "'c Barbican \<Rightarrow> admission" where
  "Barbican_ValidateDelete r = ([], None)"

section \<open>Route annotations\<close>

text \<open>
  \<open>fmt.Sprintf("%ds", n)\<close>. A nil annotation map is \<open>None\<close>; reading it is allowed, assigning to
  it panics, and a panic is the result \<open>None\<close>.
\<close>

definition seconds :: "int \<Rightarrow> string" where
  "seconds n = dec_int n @ ''s''"

abbreviation haProxyAnno :: string where
  "haProxyAnno \<equiv> ''haproxy.router.openshift.io/timeout''"

abbreviation barbicanAnno :: string where
  "barbicanAnno \<equiv> ''api.barbican.openstack.org/timeout''"

definition GetDefaultRouteAnnotations :: "BarbicanDefaults \<Rightarrow> strmap" where
  "GetDefaultRouteAnnotations d = [(haProxyAnno, seconds (BarbicanAPITimeout d))]"

definition SetDefaultRouteAnnotations ::
  "BarbicanSpecCore \<Rightarrow> strmap option \<Rightarrow> strmap option" where
  "SetDefaultRouteAnnotations spec annotations = (let
     m = (case annotations of None \<Rightarrow> [] | Some m \<Rightarrow> m);
     barbicanAPI = map_get m barbicanAnno;
     haProxy = map_get m haProxyAnno
   in if barbicanAPI = None \<and> haProxy \<noteq> None then annotations
      else if barbicanAPI \<noteq> None \<and> haProxy \<noteq> None \<and> barbicanAPI \<noteq> haProxy
      then map_option (map_del barbicanAnno) annotations
      else let timeout = seconds (sb_APITimeout (core_Base spec)) in
        map_option (\<lambda>m. map_put haProxyAnno timeout (map_put barbicanAnno timeout m)) annotations)"

section \<open>Correctness of the defaults\<close>

lemma default_client_path_idem [simp]:
  "default_client_path p (default_client_path p c) = default_client_path p c"
  by (simp add: default_client_path_def)

lemma default_client_path_set [simp]:
  "p \<noteq> [] \<Longrightarrow> ClientDataPath (default_client_path p c) \<noteq> []"
  by (simp add: default_client_path_def)

lemma default_image_idem [simp]: "default_image d (default_image d i) = default_image d i"
  by (simp add: default_image_def)

lemma SpecBase_Default_fields [simp]:
  "EnabledSecretStores (sb_Template (SpecBase_Default b)) = EnabledSecretStores (sb_Template b)"
  "PKCS11 (sb_Template (SpecBase_Default b)) = map_option (pkcs11_ClientData_update
     (default_client_path DefaultPKCS11ClientDataPath)) (PKCS11 (sb_Template b))"
  "KMIP (sb_Template (SpecBase_Default b)) = map_option (kmip_ClientData_update
     (default_client_path DefaultKMIPClientDataPath)) (KMIP (sb_Template b))"
  "Cluster (MessagingBus (sb_Template (SpecBase_Default b))) =
     (if Cluster (MessagingBus (sb_Template b)) = [] then ''rabbitmq''
      else Cluster (MessagingBus (sb_Template b)))"
  by (simp_all add: SpecBase_Default_def Let_def)

lemma SpecBase_Default_idem [simp]: "SpecBase_Default (SpecBase_Default b) = SpecBase_Default b"
  by (simp add: SpecBase_Default_def Let_def option.map_comp comp_def)

lemma PathOrDefault_default:
  "PathOrDefault (default_client_path p c) q = (if ClientDataPath c = [] \<and> p \<noteq> [] then p
     else PathOrDefault c q)"
  by (simp add: PathOrDefault_def default_client_path_def)

section \<open>What the secret-store validation accepts\<close>

text \<open>
  The specification of an admissible secret-store configuration, stated without reference to the
  order of the checks.
\<close>

definition store_configured :: "bool \<Rightarrow> ClientDataSpec option \<Rightarrow> bool" where
  "store_configured enabled c \<longleftrightarrow>
     (enabled \<longrightarrow> (case c of None \<Rightarrow> False | Some d \<Rightarrow> ClientDataSecret d \<noteq> []))"

definition client_path :: "ClientDataSpec option \<Rightarrow> string \<Rightarrow> string option" where
  "client_path c p = map_option (\<lambda>d. PathOrDefault d p) c"

definition secret_stores_ok :: "BarbicanTemplate \<Rightarrow> bool" where
  "secret_stores_ok t \<longleftrightarrow>
     store_configured (store_enabled t SecretStorePKCS11) (map_option pkcs11_ClientData (PKCS11 t)) \<and>
     store_configured (store_enabled t SecretStoreKMIP) (map_option kmip_ClientData (KMIP t)) \<and>
     (store_enabled t SecretStorePKCS11 \<and> store_enabled t SecretStoreKMIP \<longrightarrow>
        client_path (map_option pkcs11_ClientData (PKCS11 t)) DefaultPKCS11ClientDataPath \<noteq>
        client_path (map_option kmip_ClientData (KMIP t)) DefaultKMIPClientDataPath)"

lemmas secret_store_validators =
  ValidateSecretStores_def ValidatePKCS11_def ValidateKMIP_def ValidateClientDataPaths_def

lemma ValidatePKCS11_append:
  "ValidatePKCS11 t p errs = errs @ ValidatePKCS11 t p []"
  by (simp add: ValidatePKCS11_def split: option.split)

lemma ValidateKMIP_append:
  "ValidateKMIP t p errs = errs @ ValidateKMIP t p []"
  by (simp add: ValidateKMIP_def split: option.split)

lemma ValidateClientDataPaths_append:
  "ValidateClientDataPaths t p errs = errs @ ValidateClientDataPaths t p []"
  by (simp add: ValidateClientDataPaths_def Let_def split: option.split)

lemma ValidateSecretStores_append:
  "ValidateSecretStores t p errs = errs @ ValidateSecretStores t p []"
  unfolding ValidateSecretStores_def
  by (metis ValidatePKCS11_append ValidateKMIP_append ValidateClientDataPaths_append append.assoc)

lemma ValidateSecretStores_parts:
  "ValidateSecretStores t p [] =
     ValidatePKCS11 t p [] @ ValidateKMIP t p [] @ ValidateClientDataPaths t p []"
  unfolding ValidateSecretStores_def
  by (metis ValidateKMIP_append ValidateClientDataPaths_append append.assoc append_Nil)

lemma ValidatePKCS11_ok:
  "ValidatePKCS11 t p [] = [] \<longleftrightarrow>
   store_configured (store_enabled t SecretStorePKCS11) (map_option pkcs11_ClientData (PKCS11 t))"
  by (simp add: ValidatePKCS11_def store_configured_def split: option.split)

lemma ValidateKMIP_ok:
  "ValidateKMIP t p [] = [] \<longleftrightarrow>
   store_configured (store_enabled t SecretStoreKMIP) (map_option kmip_ClientData (KMIP t))"
  by (simp add: ValidateKMIP_def store_configured_def split: option.split)

text \<open>C24. The three secret-store checks accept a template exactly when it meets the specification:
  every enabled client-data store has a section with a Secret, and two enabled stores have
  different effective client data paths.\<close>

theorem ValidateSecretStores_iff:
  "ValidateSecretStores t p [] = [] \<longleftrightarrow> secret_stores_ok t"
proof -
  have "ValidatePKCS11 t p [] = [] \<Longrightarrow> ValidateKMIP t p [] = [] \<Longrightarrow>
    ValidateClientDataPaths t p [] = [] \<longleftrightarrow>
    (store_enabled t SecretStorePKCS11 \<and> store_enabled t SecretStoreKMIP \<longrightarrow>
        client_path (map_option pkcs11_ClientData (PKCS11 t)) DefaultPKCS11ClientDataPath \<noteq>
        client_path (map_option kmip_ClientData (KMIP t)) DefaultKMIPClientDataPath)"
    by (auto simp: ValidatePKCS11_ok ValidateKMIP_ok ValidateClientDataPaths_def Let_def
        client_path_def store_configured_def split: option.splits)
  then show ?thesis
    by (auto simp: ValidateSecretStores_parts secret_stores_ok_def ValidatePKCS11_ok ValidateKMIP_ok)
qed

lemma secret_stores_ok_Default [simp]:
  "secret_stores_ok (sb_Template (SpecBase_Default b)) = secret_stores_ok (sb_Template b)"
proof -
  have path: "client_path (map_option f (map_option (g_update (default_client_path p)) x)) p =
      client_path (map_option f x) p"
    if "\<And>y. f (g_update (default_client_path p) y) = default_client_path p (f y)"
    for p x and f :: "'t \<Rightarrow> ClientDataSpec" and g_update :: "(ClientDataSpec \<Rightarrow> ClientDataSpec) \<Rightarrow> 't \<Rightarrow> 't"
    using that by (cases x) (simp_all add: client_path_def PathOrDefault_def default_client_path_def)
  have conf: "store_configured e (map_option f (map_option (g_update (default_client_path p)) x)) =
      store_configured e (map_option f x)"
    if "\<And>y. f (g_update (default_client_path p) y) = default_client_path p (f y)"
    for e p x and f :: "'t \<Rightarrow> ClientDataSpec" and g_update :: "(ClientDataSpec \<Rightarrow> ClientDataSpec) \<Rightarrow> 't \<Rightarrow> 't"
    using that by (cases x) (simp_all add: store_configured_def default_client_path_def)
  show ?thesis
    unfolding secret_stores_ok_def store_enabled_def by (simp add: path conf)
qed

text \<open>Defaulting is idempotent, and it neither admits nor rejects a secret-store configuration
  the validation would have judged otherwise before it: the validators compare effective paths, and
  the defaults are exactly the fallbacks they use.\<close>

lemma BarbicanSpec_Default_idem:
  "BarbicanSpec_Default d (BarbicanSpec_Default d s) = BarbicanSpec_Default d s \<and>
   (ValidateSecretStores (sb_Template (Base (BarbicanSpec_Default d s))) p [] = [] \<longleftrightarrow>
    ValidateSecretStores (sb_Template (Base s)) p [] = [])"
  by (simp add: BarbicanSpec_Default_def Let_def ValidateSecretStores_iff)

text \<open>
  After defaulting no image, no message bus cluster and no client data path of a configured
  store is empty (given nonempty default images), and what the user had set is kept.\<close>

lemma BarbicanSpec_Default_complete:
  assumes "APIContainerImageURL d \<noteq> []" and "WorkerContainerImageURL d \<noteq> []"
    and "KeystoneListenerContainerImageURL d \<noteq> []"
    and "u = BarbicanSpec_Default d s"
  shows "at_ContainerImage (BarbicanAPI u) \<noteq> [] \<and> wt_ContainerImage (BarbicanWorker u) \<noteq> [] \<and>
    lt_ContainerImage (BarbicanKeystoneListener u) \<noteq> [] \<and>
    Cluster (MessagingBus (sb_Template (Base u))) \<noteq> [] \<and>
    pred_option (\<lambda>k. ClientDataPath (pkcs11_ClientData k) \<noteq> []) (PKCS11 (sb_Template (Base u))) \<and>
    pred_option (\<lambda>k. ClientDataPath (kmip_ClientData k) \<noteq> []) (KMIP (sb_Template (Base u))) \<and>
    (at_ContainerImage (BarbicanAPI s) \<noteq> [] \<longrightarrow>
       at_ContainerImage (BarbicanAPI u) = at_ContainerImage (BarbicanAPI s)) \<and>
    (wt_ContainerImage (BarbicanWorker s) \<noteq> [] \<longrightarrow>
       wt_ContainerImage (BarbicanWorker u) = wt_ContainerImage (BarbicanWorker s)) \<and>
    (lt_ContainerImage (BarbicanKeystoneListener s) \<noteq> [] \<longrightarrow>
       lt_ContainerImage (BarbicanKeystoneListener u) = lt_ContainerImage (BarbicanKeystoneListener s))"
  using assms
  by (simp add: BarbicanSpec_Default_def Let_def default_image_def option.pred_map comp_def
      pred_option_def option.set_map)

definition ex_defaults :: BarbicanDefaults where
  "ex_defaults = SetupDefaults (\<lambda>key fallback. fallback)"

lemma BarbicanSpec_Default_complete_witness:
  "APIContainerImageURL ex_defaults \<noteq> [] \<and>
   at_ContainerImage (BarbicanAPI (BarbicanSpec_Default ex_defaults ex_spec)) \<noteq> []"
proof -
  have d: "APIContainerImageURL ex_defaults \<noteq> []" "WorkerContainerImageURL ex_defaults \<noteq> []"
    "KeystoneListenerContainerImageURL ex_defaults \<noteq> []"
    by (simp_all add: ex_defaults_def SetupDefaults_def Let_def)
  show ?thesis
    using d BarbicanSpec_Default_complete [OF d refl, of ex_spec] by simp
qed

section \<open>The two variants of the spec are validated alike\<close>

definition core_of :: "BarbicanSpec \<Rightarrow> BarbicanSpecCore" where
  "core_of spec = \<lparr>core_Base = Base spec, core_BarbicanAPI = at_Core (BarbicanAPI spec),
     core_BarbicanWorker = wt_Component (BarbicanWorker spec),
     core_BarbicanKeystoneListener = lt_Component (BarbicanKeystoneListener spec)\<rparr>"

text \<open>C36. The OpenStackControlplane webhook, which sees only the Core variant, reports the same
  warnings and errors on create and on update as the Barbican webhook does on the full spec.\<close>

theorem core_validation_agrees:
  "BarbicanSpecCore_ValidateCreate L (core_of spec) p ns = BarbicanSpec_ValidateCreate L spec p ns \<and>
   BarbicanSpecCore_ValidateUpdate L (core_of spec) (core_of old) p ns =
     BarbicanSpec_ValidateUpdate L spec old p ns"
  by (simp add: core_of_def BarbicanSpecCore_ValidateCreate_def BarbicanSpec_ValidateCreate_def
      BarbicanSpecCore_ValidateUpdate_def BarbicanSpec_ValidateUpdate_def
      ValidateBarbicanTopology_def ValidateBarbicanTopology_Core_def)

text \<open>
  A create request is admitted exactly when the library accepts the routed overrides and
  the four topology references and the secret stores are well configured.\<close>

lemma Barbican_ValidateCreate_admits:
  "snd (Barbican_ValidateCreate L r) = None \<longleftrightarrow>
     ValidateRoutedOverrides L (override_path [''spec''])
       (Override_Service (at_Core (BarbicanAPI (Spec r)))) = [] \<and>
     secret_stores_ok (sb_Template (Base (Spec r))) \<and>
     list_all (\<lambda>(ref, sub). ValidateTopologyRef L ref (''spec'' # sub @ [''topologyRef'']) (Namespace (Meta r)) = [])
       [(sb_TopologyRef (Base (Spec r)), []),
        (ct_TopologyRef (atc_Component (at_Core (BarbicanAPI (Spec r)))), [''barbicanAPI'']),
        (ct_TopologyRef (lt_Component (BarbicanKeystoneListener (Spec r))), [''barbicanKeystoneListener'']),
        (ct_TopologyRef (wt_Component (BarbicanWorker (Spec r))), [''barbicanWorker''])]"
  by (subst ValidateSecretStores_iff [symmetric, where p = "[''spec'']"])
    (auto simp: Barbican_ValidateCreate_def BarbicanSpec_ValidateCreate_def admit_def Let_def
      ValidateSecretStores_append [of _ _ "ValidateRoutedOverrides _ _ _"]
      ValidateBarbicanTopology_def ValidateTopology_def Child_def)

text \<open>
  The deprecation warnings of an update reach the user only together with deprecation
  errors: when the library returns a nil error list, its warnings are dropped.\<close>

lemma ValidateUpdate_drops_warnings:
  assumes "validateDeprecatedFieldsUpdate L (Base spec) (Base old) p = (warns, errs)"
  shows "fst (BarbicanSpec_ValidateUpdate L spec old p ns) = (if errs = None then [] else warns)"
  using assms by (simp add: BarbicanSpec_ValidateUpdate_def Let_def split: option.split)

definition ex_weblib :: weblib where
  "ex_weblib = \<lparr>ValidateRoutedOverrides = (\<lambda>_ _. []), ValidateTopologyRef = (\<lambda>_ _ _. []),
     ValidateDeprecatedFieldsUpdate = (\<lambda>fs _. (map DeprecatedFieldName fs, None)),
     ValidateDeprecatedFieldsCreate = (\<lambda>fs _. map df_DeprecatedFieldName fs)\<rparr>"

lemma ValidateUpdate_drops_warnings_witness:
  "fst (validateDeprecatedFieldsUpdate ex_weblib (Base ex_spec) (Base ex_spec) []) =
     [''rabbitMqClusterName''] \<and>
   fst (BarbicanSpec_ValidateUpdate ex_weblib ex_spec ex_spec [] ''openstack'') = []"
proof -
  have run: "validateDeprecatedFieldsUpdate ex_weblib (Base ex_spec) (Base ex_spec) [] =
      ([''rabbitMqClusterName''], None)"
    by (simp add: validateDeprecatedFieldsUpdate_def getDeprecatedFields_def ex_weblib_def)
  show ?thesis
    using run ValidateUpdate_drops_warnings [OF run] by simp
qed

section \<open>Who owns the HAProxy timeout\<close>

text \<open>
  A human has set the timeout when the HAProxy annotation is present and the operator's flag is
  absent or records another value.
\<close>

definition human_timeout :: "strmap \<Rightarrow> bool" where
  "human_timeout m \<longleftrightarrow> map_get m haProxyAnno \<noteq> None \<and> map_get m barbicanAnno \<noteq> map_get m haProxyAnno"

definition apply_route_annotations ::
  "BarbicanSpecCore list \<Rightarrow> strmap option \<Rightarrow> strmap option" where
  "apply_route_annotations specs a = foldl (\<lambda>a spec. SetDefaultRouteAnnotations spec a) a specs"

lemma seconds_inject [simp]: "seconds m = seconds n \<longleftrightarrow> m = n"
  by (simp add: seconds_def)

lemma SetDefaultRouteAnnotations_human:
  assumes "human_timeout m"
  shows "\<exists>m'. SetDefaultRouteAnnotations spec (Some m) = Some m' \<and> human_timeout m' \<and>
    map_get m' haProxyAnno = map_get m haProxyAnno"
  using assms by (auto simp: SetDefaultRouteAnnotations_def human_timeout_def Let_def)

lemma SetDefaultRouteAnnotations_operator:
  assumes "\<not> human_timeout m"
  shows "\<exists>m'. SetDefaultRouteAnnotations spec (Some m) = Some m' \<and> \<not> human_timeout m' \<and>
    map_get m' haProxyAnno = Some (seconds (sb_APITimeout (core_Base spec)))"
  using assms by (auto simp: SetDefaultRouteAnnotations_def human_timeout_def Let_def)

text \<open>
  However often the operator runs and whatever timeouts it is given, a timeout a human set
  is never overwritten, and otherwise the route carries the timeout of the latest run.\<close>

lemma route_timeout_history:
  "\<exists>m'. apply_route_annotations (specs @ [spec]) (Some m) = Some m' \<and>
     human_timeout m' = human_timeout m \<and>
     map_get m' haProxyAnno = (if human_timeout m then map_get m haProxyAnno
       else Some (seconds (sb_APITimeout (core_Base spec))))"
proof -
  have step: "\<exists>m'. SetDefaultRouteAnnotations s (Some m) = Some m' \<and>
     human_timeout m' = human_timeout m \<and>
     map_get m' haProxyAnno = (if human_timeout m then map_get m haProxyAnno
       else Some (seconds (sb_APITimeout (core_Base s))))" for s m
    using SetDefaultRouteAnnotations_human SetDefaultRouteAnnotations_operator
    by (cases "human_timeout m") metis+
  have "\<exists>m'. apply_route_annotations specs (Some m) = Some m' \<and>
     human_timeout m' = human_timeout m \<and>
     (human_timeout m \<longrightarrow> map_get m' haProxyAnno = map_get m haProxyAnno)"
  proof (induction specs rule: rev_induct)
    case Nil
    then show ?case by (simp add: apply_route_annotations_def)
  next
    case (snoc s specs)
    then show ?case using step [of s] by (fastforce simp: apply_route_annotations_def)
  qed
  then show ?thesis
    using step [of spec] by (fastforce simp: apply_route_annotations_def)
qed

text \<open>On a nil annotation map the function panics, and on no other.\<close>

lemma SetDefaultRouteAnnotations_nil:
  "SetDefaultRouteAnnotations spec a = None \<longleftrightarrow> a = None"
  by (cases a) (auto simp: SetDefaultRouteAnnotations_def Let_def)

end
