(* ===== verification/Admission.thy ===== *)
theory Admission
  imports Webhook
begin

text \<open>
  The webhook that the manager registers: \<open>internal/webhook/v1beta1/barbican_webhook.go\<close>. Each
  method casts the admitted object and delegates to the resource's own method. A failed cast is
  an error; a nil pointer of the right type passes the cast, and the method call on it then
  dereferences nil, which is the value \<open>None\<close> (a panic) here.
\<close>

definition Custom_Default ::
  "BarbicanDefaults \<Rightarrow> 'c runtime_object \<Rightarrow> (admission_error + 'c Barbican) option" where
  "Custom_Default d obj = (case obj of
       BarbicanObject barbican \<Rightarrow> Some (Inr (Barbican_Default d barbican))
     | NilBarbican \<Rightarrow> None
     | OtherObject T \<Rightarrow>
         Some (Inl (UnexpectedObject (''expected an Barbican object but got '' @ T))))"

definition Custom_ValidateCreate :: "weblib \<Rightarrow> 'c runtime_object \<Rightarrow> admission option" where
  "Custom_ValidateCreate L obj = (case obj of
       BarbicanObject barbican \<Rightarrow> Some (Barbican_ValidateCreate L barbican)
     | NilBarbican \<Rightarrow> None
     | OtherObject T \<Rightarrow>
         Some ([], Some (UnexpectedObject (''expected a Barbican object but got '' @ T))))"

definition Custom_ValidateUpdate ::
  "weblib \<Rightarrow> 'c runtime_object \<Rightarrow> 'c runtime_object \<Rightarrow> admission option" where
  "Custom_ValidateUpdate L oldObj newObj = (case newObj of
       BarbicanObject barbican \<Rightarrow> Some (Barbican_ValidateUpdate L barbican oldObj)
     | NilBarbican \<Rightarrow> None
     | OtherObject T \<Rightarrow> Some ([], Some (UnexpectedObject
         (''expected a Barbican object for the newObj but got '' @ T))))"

definition Custom_ValidateDelete :: "'c runtime_object \<Rightarrow> admission option" where
  "Custom_ValidateDelete obj = (case obj of
       BarbicanObject barbican \<Rightarrow> Some (Barbican_ValidateDelete barbican)
     | NilBarbican \<Rightarrow> None
     | OtherObject T \<Rightarrow>
         Some ([], Some (UnexpectedObject (''expected a Barbican object but got '' @ T))))"


text \<open>
  The registration: the kind, the validator and the defaulter given to the manager's webhook builder,
  whose \<open>Complete\<close> is a parameter. \<open>d\<close> are the defaults of the package, read when the webhook runs.
\<close>

record 'c webhook_builder =
  wh_For :: string
  WithDefaulter :: "'c runtime_object \<Rightarrow> (admission_error + 'c Barbican) option"
  WithValidateCreate :: "'c runtime_object \<Rightarrow> admission option"
  WithValidateUpdate :: "'c runtime_object \<Rightarrow> 'c runtime_object \<Rightarrow> admission option"
  WithValidateDelete :: "'c runtime_object \<Rightarrow> admission option"

definition SetupBarbicanWebhookWithManager ::
  "weblib \<Rightarrow> BarbicanDefaults \<Rightarrow> ('c webhook_builder \<Rightarrow> 'm \<Rightarrow> gerr option \<times> 'm) \<Rightarrow> 'm \<Rightarrow>
   gerr option \<times> 'm" where
  "SetupBarbicanWebhookWithManager L d Complete = Complete
     \<lparr>wh_For = ''Barbican'', WithDefaulter = Custom_Default d,
      WithValidateCreate = Custom_ValidateCreate L, WithValidateUpdate = Custom_ValidateUpdate L,
      WithValidateDelete = Custom_ValidateDelete\<rparr>"

end
