(* ===== verification/Sub_Types.thy ===== *)
theory Sub_Types
  imports Samples
begin

text \<open>
  The resources of the three services (\<open>barbicanapi_types.go\<close>, \<open>barbicanworker_types.go\<close>,
  \<open>barbicankeystonelistener_types.go\<close>). Their Go structs embed the same templates and repeat the
  same status fields; the common part is one record here, which the API's records extend. Code
  that is the same in the three controllers is defined once, on the common part.
\<close>

record SubSpec =
  ss_Template :: BarbicanTemplate
  ss_Component :: BarbicanComponentTemplate
  ss_ContainerImage :: string
  ss_DatabaseHostname :: string
  ss_TransportURLSecret :: string
  ss_NotificationsURLSecret :: string
  ss_CaBundleSecretName :: string

record BarbicanAPISpec = SubSpec +
  as_EnableSecureRBAC :: bool
  as_Override_Service :: "RoutedOverride gomap"
  as_Internal :: GenericTLS
  as_Public :: GenericTLS
  as_APITimeout :: int

type_synonym BarbicanWorkerSpec = SubSpec

type_synonym BarbicanKeystoneListenerSpec = SubSpec

record 'c SubStatus =
  ReadyCount :: int
  ss_Hash :: "strmap option"
  ss_Conditions :: "'c option"
  ss_NetworkAttachments :: "(string list) gomap option"
  sst_DatabaseHostname :: string
  ss_ObservedGeneration :: int
  AppliedInputSecretHash :: string
  LastAppliedTopology :: "TopoRef option"

record 'c BarbicanAPIStatus = "'c SubStatus" +
  APIEndpoints :: "strmap option"

type_synonym 'c BarbicanWorkerStatus = "'c SubStatus"

type_synonym 'c BarbicanKeystoneListenerStatus = "'c SubStatus"

record ('s, 't) subcr =
  sub_Meta :: ObjectMeta
  sub_Spec :: 's
  sub_Status :: 't

type_synonym 'c BarbicanAPI_cr = "(BarbicanAPISpec, 'c BarbicanAPIStatus) subcr"

type_synonym 'c BarbicanWorker_cr = "(BarbicanWorkerSpec, 'c BarbicanWorkerStatus) subcr"

type_synonym 'c BarbicanKeystoneListener_cr = "(BarbicanKeystoneListenerSpec, 'c BarbicanKeystoneListenerStatus) subcr"

text \<open>Updates of one status field.\<close>

definition upd_status :: "('t \<Rightarrow> 't) \<Rightarrow> ('s, 't) subcr \<Rightarrow> ('s, 't) subcr" where
  "upd_status f i = i\<lparr>sub_Status := f (sub_Status i)\<rparr>"

lemma upd_status_simps [simp]:
  "sub_Meta (upd_status f i) = sub_Meta i"
  "sub_Spec (upd_status f i) = sub_Spec i"
  "sub_Status (upd_status f i) = f (sub_Status i)"
  by (simp_all add: upd_status_def)

section \<open>The topology handler interface\<close>

text \<open>
  \<open>topologyHandler\<close> of \<open>barbican_common.go\<close> is the interface through which \<open>ensureTopology\<close> reads
  the reference in the spec and records the last applied one in the status. The laws say that the
  recorded reference is read back and that recording it touches nothing \<open>ensureTopology\<close> reads.
\<close>

locale topologyHandler =
  fixes GetSpecTopologyRef :: "'i \<Rightarrow> TopoRef option"
    and GetLastAppliedTopology :: "'i \<Rightarrow> TopoRef option"
    and SetLastAppliedTopology :: "TopoRef option \<Rightarrow> 'i \<Rightarrow> 'i"
  assumes get_set_last: "GetLastAppliedTopology (SetLastAppliedTopology t i) = t"
    and get_spec_set_last: "GetSpecTopologyRef (SetLastAppliedTopology t i) = GetSpecTopologyRef i"
    and set_set_last:
      "SetLastAppliedTopology t (SetLastAppliedTopology u i) = SetLastAppliedTopology t i"
begin

text \<open>Recording the spec's reference makes the two agree, and doing it again changes nothing.\<close>

definition record_topology :: "'i \<Rightarrow> 'i" where
  "record_topology i = SetLastAppliedTopology (GetSpecTopologyRef i) i"

lemma recorded: "GetLastAppliedTopology (record_topology i) = GetSpecTopologyRef (record_topology i)"
  by (simp add: record_topology_def get_set_last get_spec_set_last)

lemma record_idem: "record_topology (record_topology i) = record_topology i"
  by (simp add: record_topology_def get_spec_set_last set_set_last)

end

definition API_GetSpecTopologyRef :: "'c BarbicanAPI_cr \<Rightarrow> TopoRef option" where
  "API_GetSpecTopologyRef i = ct_TopologyRef (ss_Component (sub_Spec i))"

definition API_GetLastAppliedTopology :: "'c BarbicanAPI_cr \<Rightarrow> TopoRef option" where
  "API_GetLastAppliedTopology i = LastAppliedTopology (sub_Status i)"

definition API_SetLastAppliedTopology ::
  "TopoRef option \<Rightarrow> 'c BarbicanAPI_cr \<Rightarrow> 'c BarbicanAPI_cr" where
  "API_SetLastAppliedTopology t = upd_status (\<lambda>s. s\<lparr>LastAppliedTopology := t\<rparr>)"

definition Worker_GetSpecTopologyRef :: "'c BarbicanWorker_cr \<Rightarrow> TopoRef option" where
  "Worker_GetSpecTopologyRef i = ct_TopologyRef (ss_Component (sub_Spec i))"

definition Worker_GetLastAppliedTopology :: "'c BarbicanWorker_cr \<Rightarrow> TopoRef option" where
  "Worker_GetLastAppliedTopology i = LastAppliedTopology (sub_Status i)"

definition Worker_SetLastAppliedTopology ::
  "TopoRef option \<Rightarrow> 'c BarbicanWorker_cr \<Rightarrow> 'c BarbicanWorker_cr" where
  "Worker_SetLastAppliedTopology t = upd_status (\<lambda>s. s\<lparr>LastAppliedTopology := t\<rparr>)"

definition Listener_GetSpecTopologyRef :: "'c BarbicanKeystoneListener_cr \<Rightarrow> TopoRef option" where
  "Listener_GetSpecTopologyRef i = ct_TopologyRef (ss_Component (sub_Spec i))"

definition Listener_GetLastAppliedTopology ::
  "'c BarbicanKeystoneListener_cr \<Rightarrow> TopoRef option" where
  "Listener_GetLastAppliedTopology i = LastAppliedTopology (sub_Status i)"

definition Listener_SetLastAppliedTopology ::
  "TopoRef option \<Rightarrow> 'c BarbicanKeystoneListener_cr \<Rightarrow> 'c BarbicanKeystoneListener_cr" where
  "Listener_SetLastAppliedTopology t = upd_status (\<lambda>s. s\<lparr>LastAppliedTopology := t\<rparr>)"

interpretation api_topo: topologyHandler API_GetSpecTopologyRef API_GetLastAppliedTopology
  API_SetLastAppliedTopology
  by unfold_locales (simp_all add: API_GetSpecTopologyRef_def API_GetLastAppliedTopology_def
      API_SetLastAppliedTopology_def upd_status_def)

interpretation worker_topo: topologyHandler Worker_GetSpecTopologyRef Worker_GetLastAppliedTopology
  Worker_SetLastAppliedTopology
  by unfold_locales (simp_all add: Worker_GetSpecTopologyRef_def Worker_GetLastAppliedTopology_def
      Worker_SetLastAppliedTopology_def upd_status_def)

interpretation listener_topo: topologyHandler Listener_GetSpecTopologyRef
  Listener_GetLastAppliedTopology Listener_SetLastAppliedTopology
  by unfold_locales (simp_all add: Listener_GetSpecTopologyRef_def
      Listener_GetLastAppliedTopology_def Listener_SetLastAppliedTopology_def upd_status_def)

section \<open>The owning Barbican\<close>

text \<open>\<open>GetOwningBarbicanName\<close> of \<open>internal/barbican/funcs.go\<close>: the first owner of kind Barbican.\<close>

fun first_owner :: "OwnerReference list \<Rightarrow> string" where
  "first_owner [] = []"
| "first_owner (r # rs) = (if owner_Kind r = ''Barbican'' then owner_Name r else first_owner rs)"

definition GetOwningBarbicanName :: "ObjectMeta \<Rightarrow> string" where
  "GetOwningBarbicanName m = first_owner (OwnerReferences m)"

lemma first_owner_none:
  "\<forall>r \<in> set rs. owner_Kind r \<noteq> ''Barbican'' \<Longrightarrow> first_owner rs = []"
  by (induction rs) auto

lemma first_owner_append:
  "\<forall>r \<in> set rs. owner_Kind r \<noteq> ''Barbican'' \<Longrightarrow> first_owner (rs @ rs') = first_owner rs'"
  by (induction rs) auto

end
