(* ===== verification/Volumes.thy ===== *)
theory Volumes
  imports Sub_Types
begin

text \<open>
  Volumes and mounts of the pods: \<open>internal/barbican/volumes.go\<close> and the \<open>volumes.go\<close> of the three
  services. The helpers of lib-common (writable directories, TLS volumes, the storage module) are
  the fields of the record \<open>vollib\<close>, an argument of every function that calls one.
\<close>

datatype Endpoint = EndpointInternal | EndpointPublic

fun endpoint_String :: "Endpoint \<Rightarrow> string" where
  "endpoint_String EndpointInternal = ''internal''"
| "endpoint_String EndpointPublic = ''public''"

record tls_Service =
  svc_tls :: opaque
  CertMount :: "string option"
  KeyMount :: "string option"

record vollib =
  RunHttpdVolumeName :: string
  VarLogHttpdVolumeName :: string
  RunHttpdMountPath :: string
  VarLogHttpdMountPath :: string
  WritableDirVolume :: "string \<Rightarrow> Volume"
  WritableDirVolumeMount :: "string \<Rightarrow> string \<Rightarrow> VolumeMount"
  Ca_CreateVolume :: "string \<Rightarrow> Volume"
  Ca_CreateVolumeMounts :: "string \<Rightarrow> VolumeMount list"
  TLS_Enabled :: "GenericTLS \<Rightarrow> GenericTLS \<Rightarrow> Endpoint \<Rightarrow> bool"
  ToService :: "GenericTLS \<Rightarrow> gerr + tls_Service"
  Svc_CreateVolume :: "tls_Service \<Rightarrow> string \<Rightarrow> Volume"
  Svc_CreateVolumeMounts :: "tls_Service \<Rightarrow> string \<Rightarrow> VolumeMount list"
  storage_Propagate :: "VolMounts \<Rightarrow> string list \<Rightarrow> VolMounts list"
  ToCoreVolumeSource :: "ExtraVolume \<Rightarrow> VolumeSource option"

text \<open>\<open>configMode\<close> is 0440 and \<open>scriptMode\<close> is 0740, octal.\<close>

abbreviation configMode :: int where "configMode \<equiv> 288"
abbreviation scriptMode :: int where "scriptMode \<equiv> 480"

definition ro_mount :: "string \<Rightarrow> string \<Rightarrow> string \<Rightarrow> VolumeMount" where
  "ro_mount n p sub = \<lparr>mnt_Name = n, MountPath = p, SubPath = sub, ReadOnly = True\<rparr>"

definition secret_volume :: "string \<Rightarrow> int \<Rightarrow> string \<Rightarrow> KeyToPath list \<Rightarrow> Volume" where
  "secret_volume n mode secret items = \<lparr>vol_Name = n, vol_Source = SecretSource mode secret items\<rparr>"

section \<open>The shared volumes\<close>

definition GetVolumes :: "string \<Rightarrow> Volume list" where
  "GetVolumes name = [secret_volume ConfigVolume configMode (name @ ''-config-data'') []]"

definition GetVolumeMounts :: "VolumeMount list" where
  "GetVolumeMounts = [ro_mount ConfigVolume ''/etc/my.cnf'' ''my.cnf'']"

definition GetRunHttpdVolume :: "vollib \<Rightarrow> Volume" where
  "GetRunHttpdVolume L = WritableDirVolume L (RunHttpdVolumeName L)"

definition GetVarLogHttpdVolume :: "vollib \<Rightarrow> Volume" where
  "GetVarLogHttpdVolume L = WritableDirVolume L (VarLogHttpdVolumeName L)"

definition GetAPIHttpdVolumeMounts :: "vollib \<Rightarrow> VolumeMount list" where
  "GetAPIHttpdVolumeMounts L =
     [ro_mount ConfigVolume ''/etc/httpd/conf/httpd.conf'' ''httpd.conf'',
      ro_mount ConfigVolume ''/etc/httpd/conf.modules.d/mime.conf'' ''mime.conf'',
      ro_mount ConfigVolume ''/etc/httpd/conf.d/ssl.conf'' ''ssl.conf'',
      ro_mount ConfigVolume ''/etc/httpd/conf.d/10-barbican_wsgi_main.conf''
        ''10-barbican_wsgi_main.conf'',
      ro_mount ConfigVolume ''/var/www/cgi-bin/barbican/main'' ''main'',
      WritableDirVolumeMount L (RunHttpdVolumeName L) (RunHttpdMountPath L),
      WritableDirVolumeMount L (VarLogHttpdVolumeName L) (VarLogHttpdMountPath L)]"

definition GetLogVolumeMount :: "vollib \<Rightarrow> VolumeMount" where
  "GetLogVolumeMount L = WritableDirVolumeMount L LogVolume ''/var/log/barbican''"

definition GetLogVolume :: "vollib \<Rightarrow> Volume" where
  "GetLogVolume L = WritableDirVolume L LogVolume"

definition GetScriptVolumeMount :: VolumeMount where
  "GetScriptVolumeMount = ro_mount ScriptVolume ScriptMountPoint ''''"

definition GetScriptVolume :: "string \<Rightarrow> Volume" where
  "GetScriptVolume secretName = secret_volume ScriptVolume scriptMode secretName []"

section \<open>Client data of the secret stores\<close>

definition getClientDataVolume :: "string \<Rightarrow> ClientDataSpec \<Rightarrow> Volume" where
  "getClientDataVolume volumeName clientData =
     secret_volume volumeName configMode (ClientDataSecret clientData) []"

definition getClientDataVolumeMount :: "string \<Rightarrow> ClientDataSpec \<Rightarrow> string \<Rightarrow> VolumeMount" where
  "getClientDataVolumeMount volumeName clientData defaultPath =
     ro_mount volumeName (PathOrDefault clientData defaultPath) ''''"

definition GetClientDataVolumes :: "BarbicanTemplate \<Rightarrow> Volume list \<times> VolumeMount list" where
  "GetClientDataVolumes template = (let
     (volumes, mounts) = (case (store_enabled template SecretStorePKCS11, PKCS11 template) of
        (True, Some p) \<Rightarrow>
          ([getClientDataVolume PKCS11ClientDataVolume (pkcs11_ClientData p)],
           [getClientDataVolumeMount PKCS11ClientDataVolume (pkcs11_ClientData p)
              DefaultPKCS11ClientDataPath])
      | _ \<Rightarrow> ([], []))
   in (case (store_enabled template SecretStoreKMIP, KMIP template) of
        (True, Some k) \<Rightarrow>
          (volumes @ [getClientDataVolume KMIPClientDataVolume (kmip_ClientData k)],
           mounts @ [getClientDataVolumeMount KMIPClientDataVolume (kmip_ClientData k)
              DefaultKMIPClientDataPath])
      | _ \<Rightarrow> (volumes, mounts)))"

section \<open>Custom configuration\<close>

definition GetCustomConfigVolume :: "string \<Rightarrow> Volume" where
  "GetCustomConfigVolume name =
     secret_volume CustomConfigVolume configMode (name @ ''-config-data'') []"

definition GetCustomConfigVolumeMount :: VolumeMount where
  "GetCustomConfigVolumeMount = ro_mount CustomConfigVolume CustomConfigMountPoint ''''"

definition GetConfigOverwriteVolumeMounts :: "string list \<Rightarrow> VolumeMount list" where
  "GetConfigOverwriteVolumeMounts overwriteKeys =
     map (\<lambda>key. ro_mount CustomConfigVolume (ConfigOverwriteBasePath @ ''/'' @ key) key)
       (slices_Sort overwriteKeys)"

text \<open>
  \<open>volumeSource, _ := v.ToCoreVolumeSource()\<close> ignores the error and then dereferences the pointer:
  a nil pointer panics, and a panic is \<open>None\<close>.
\<close>

fun extra_volumes :: "vollib \<Rightarrow> ExtraVolume list \<Rightarrow> Volume list option" where
  "extra_volumes L [] = Some []"
| "extra_volumes L (v # vs) = (case ToCoreVolumeSource L v of
      None \<Rightarrow> None
    | Some src \<Rightarrow> map_option (Cons \<lparr>vol_Name = ev_Name v, vol_Source = src\<rparr>) (extra_volumes L vs))"

fun propagated_volumes :: "vollib \<Rightarrow> VolMounts list \<Rightarrow> (Volume list \<times> VolumeMount list) option" where
  "propagated_volumes L [] = Some ([], [])"
| "propagated_volumes L (vol # rest) = (case extra_volumes L (Volumes vol) of
      None \<Rightarrow> None
    | Some vs \<Rightarrow> map_option (\<lambda>(vols, mnts). (vs @ vols, Mounts vol @ mnts))
        (propagated_volumes L rest))"

definition GetExtraVolumes ::
  "vollib \<Rightarrow> BarbicanExtraVolMounts list \<Rightarrow> string list \<Rightarrow>
   (Volume list \<times> VolumeMount list) option" where
  "GetExtraVolumes L extraMounts svc =
     propagated_volumes L (concat (map (\<lambda>exv. Propagate (storage_Propagate L) exv svc) extraMounts))"

definition GetOsloConfigVolumes :: "string \<Rightarrow> string \<Rightarrow> Volume list \<times> VolumeMount list" where
  "GetOsloConfigVolumes name volumeName =
     ([secret_volume volumeName configMode (name @ ''-config-data'')
         [\<lparr>ktp_Key = DefaultsConfigFileName, ktp_Path = DefaultsConfigFileName\<rparr>,
          \<lparr>ktp_Key = CustomConfigFileName, ktp_Path = CustomConfigFileName\<rparr>]],
      [ro_mount volumeName CustomConfigMountPoint ''''])"

section \<open>The volumes of the three services\<close>

definition add_extra ::
  "(Volume list \<times> VolumeMount list) option \<Rightarrow> Volume list \<Rightarrow> VolumeMount list \<Rightarrow>
   (Volume list \<times> VolumeMount list) option" where
  "add_extra extra vols mnts = map_option (\<lambda>(v, m). (vols @ v, mnts @ m)) extra"

definition GetWorkerVolumesAndMounts ::
  "vollib \<Rightarrow> 'c BarbicanWorker_cr \<Rightarrow> string list \<Rightarrow> (Volume list \<times> VolumeMount list) option" where
  "GetWorkerVolumesAndMounts L instance overwriteKeys = (let
     workerVolumes = [GetCustomConfigVolume (Name (sub_Meta instance)), GetLogVolume L];
     workerVolumeMounts = [GetCustomConfigVolumeMount, GetLogVolumeMount L]
       @ GetConfigOverwriteVolumeMounts overwriteKeys;
     workerVolumes = GetVolumes ''barbican'' @ workerVolumes;
     workerVolumeMounts = GetVolumeMounts @ workerVolumeMounts;
     ca = ss_CaBundleSecretName (sub_Spec instance);
     workerVolumes = (if ca \<noteq> [] then workerVolumes @ [Ca_CreateVolume L ca] else workerVolumes);
     workerVolumeMounts = (if ca \<noteq> [] then workerVolumeMounts @ Ca_CreateVolumeMounts L ca
       else workerVolumeMounts);
     (clientDataVols, clientDataMounts) = GetClientDataVolumes (ss_Template (sub_Spec instance))
   in add_extra (GetExtraVolumes L (ExtraMounts (ss_Template (sub_Spec instance)))
        [Prop_BarbicanWorker, Prop_Barbican])
        (workerVolumes @ clientDataVols) (workerVolumeMounts @ clientDataMounts))"

definition GetListenerVolumesAndMounts ::
  "vollib \<Rightarrow> 'c BarbicanKeystoneListener_cr \<Rightarrow> string list \<Rightarrow>
   (Volume list \<times> VolumeMount list) option" where
  "GetListenerVolumesAndMounts L instance overwriteKeys = (let
     listenerVolumes = [GetCustomConfigVolume (Name (sub_Meta instance)), GetLogVolume L];
     listenerVolumeMounts = [GetCustomConfigVolumeMount, GetLogVolumeMount L]
       @ GetConfigOverwriteVolumeMounts overwriteKeys;
     listenerVolumes = GetVolumes ''barbican'' @ listenerVolumes;
     listenerVolumeMounts = GetVolumeMounts @ listenerVolumeMounts;
     ca = ss_CaBundleSecretName (sub_Spec instance);
     listenerVolumes = (if ca \<noteq> [] then listenerVolumes @ [Ca_CreateVolume L ca]
       else listenerVolumes);
     listenerVolumeMounts = (if ca \<noteq> [] then listenerVolumeMounts @ Ca_CreateVolumeMounts L ca
       else listenerVolumeMounts)
   in add_extra (GetExtraVolumes L (ExtraMounts (ss_Template (sub_Spec instance)))
        [Prop_BarbicanKeystoneListener, Prop_Barbican])
        listenerVolumes listenerVolumeMounts)"

text \<open>The API may also fail to convert a TLS section: an error value, distinct from a panic.\<close>

definition endpoint_tls ::
  "vollib \<Rightarrow> 'c BarbicanAPI_cr \<Rightarrow> Endpoint \<Rightarrow> gerr + (Volume list \<times> VolumeMount list)" where
  "endpoint_tls L instance endpt = (let s = sub_Spec instance in
     if TLS_Enabled L (as_Internal s) (as_Public s) endpt then
       (let tlsEndptCfg = (case endpt of EndpointPublic \<Rightarrow> as_Public s
                           | EndpointInternal \<Rightarrow> as_Internal s)
        in case ToService L tlsEndptCfg of
             Inl e \<Rightarrow> Inl e
           | Inr svc \<Rightarrow> (let svc = svc\<lparr>
                 CertMount := Some (''/etc/pki/tls/certs/'' @ endpoint_String endpt @ ''.crt''),
                 KeyMount := Some (''/etc/pki/tls/private/'' @ endpoint_String endpt @ ''.key'')\<rparr>
               in Inr ([Svc_CreateVolume L svc (endpoint_String endpt)],
                       Svc_CreateVolumeMounts L svc (endpoint_String endpt))))
     else Inr ([], []))"

definition GetAPIVolumesAndMounts ::
  "vollib \<Rightarrow> 'c BarbicanAPI_cr \<Rightarrow> string list \<Rightarrow>
   (gerr + (Volume list \<times> VolumeMount list)) option" where
  "GetAPIVolumesAndMounts L instance overwriteKeys = (let
     apiVolumes = [GetCustomConfigVolume (Name (sub_Meta instance)), GetLogVolume L,
       GetRunHttpdVolume L, GetVarLogHttpdVolume L];
     apiVolumeMounts = [GetCustomConfigVolumeMount, GetLogVolumeMount L]
       @ GetAPIHttpdVolumeMounts L @ GetConfigOverwriteVolumeMounts overwriteKeys;
     apiVolumes = GetVolumes ''barbican'' @ apiVolumes;
     apiVolumeMounts = GetVolumeMounts @ apiVolumeMounts;
     ca = ss_CaBundleSecretName (sub_Spec instance);
     apiVolumes = (if ca \<noteq> [] then apiVolumes @ [Ca_CreateVolume L ca] else apiVolumes);
     apiVolumeMounts = (if ca \<noteq> [] then apiVolumeMounts @ Ca_CreateVolumeMounts L ca
       else apiVolumeMounts)
   in case endpoint_tls L instance EndpointInternal of
        Inl e \<Rightarrow> Some (Inl e)
      | Inr (iv, im) \<Rightarrow> (case endpoint_tls L instance EndpointPublic of
          Inl e \<Rightarrow> Some (Inl e)
        | Inr (pv, pm) \<Rightarrow> (let
            (clientDataVols, clientDataMounts) = GetClientDataVolumes (ss_Template (sub_Spec instance))
          in map_option Inr (add_extra (GetExtraVolumes L
               (ExtraMounts (ss_Template (sub_Spec instance))) [Prop_BarbicanAPI, Prop_Barbican])
               (apiVolumes @ iv @ pv @ clientDataVols)
               (apiVolumeMounts @ im @ pm @ clientDataMounts)))))"

end
