(* ===== verification/Workloads.thy ===== *)
theory Workloads
  imports Volumes
begin

text \<open>
  The workloads: the db-sync and pkcs11-prep jobs (\<open>internal/barbican/dbsync.go\<close>,
  \<open>pkcs11_prep.go\<close>) and the deployments of the three services (their \<open>deployment.go\<close>). Library
  helpers that build a value from arguments only (\<open>env.MergeEnvs\<close>, the pod affinity, the topology's
  \<open>ApplyTo\<close>) are the fields of \<open>podlib\<close>.
\<close>

datatype SecurityContext = RestrictiveContext | RunAsUser int

datatype RestartPolicy = RestartPolicyOnFailure

datatype URIScheme = URISchemeHTTPS

record Probe =
  TimeoutSeconds :: int
  PeriodSeconds :: int
  InitialDelaySeconds :: int
  HTTPGet_Path :: string
  HTTPGet_Port :: int
  HTTPGet_Scheme :: "URIScheme option"

record EnvVar =
  env_Name :: string
  env_Value :: string

record Container =
  c_Name :: string
  c_Command :: "string list"
  c_Args :: "string list"
  c_Image :: string
  c_SecurityContext :: SecurityContext
  c_Env :: "EnvVar list"
  c_VolumeMounts :: "VolumeMount list"
  c_Resources :: opaque
  ReadinessProbe :: "Probe option"
  LivenessProbe :: "Probe option"

record PodTemplate =
  pt_Annotations :: strmap
  pt_Labels :: strmap
  AutomountServiceAccountToken :: bool
  RestartPolicy :: "RestartPolicy option"
  ServiceAccountName :: string
  pt_SecurityContext :: "SecurityContext option"
  pt_Volumes :: "Volume list"
  Containers :: "Container list"
  pt_NodeSelector :: strmap
  Affinity :: "opaque option"

record Job =
  j_Name :: string
  j_Namespace :: string
  j_Labels :: strmap
  j_Template :: PodTemplate

record Deployment =
  d_Name :: string
  d_Namespace :: string
  d_Labels :: strmap
  MatchLabels :: strmap
  d_Replicas :: "int option"
  d_Template :: PodTemplate

record podlib = vollib +
  MergeEnvs :: "strmap \<Rightarrow> EnvVar list"
  ComponentSelector :: string
  LabelHostname :: string
  DistributePods :: "string \<Rightarrow> string list \<Rightarrow> string \<Rightarrow> opaque"
  ApplyTo :: "opaque \<Rightarrow> PodTemplate \<Rightarrow> PodTemplate"

definition GetPodAffinity :: "'a podlib_scheme \<Rightarrow> string \<Rightarrow> opaque" where
  "GetPodAffinity P componentName =
     DistributePods P (ComponentSelector P) [componentName] (LabelHostname P)"

abbreviation vl :: "'a podlib_scheme \<Rightarrow> vollib" where
  "vl P \<equiv> vollib.truncate P"

section \<open>Jobs\<close>

definition job_container :: "string \<Rightarrow> string \<Rightarrow> Container" where
  "job_container name img = \<lparr>c_Name = name, c_Command = [], c_Args = [], c_Image = img,
     c_SecurityContext = RestrictiveContext, c_Env = [], c_VolumeMounts = [], c_Resources = [],
     ReadinessProbe = None, LivenessProbe = None\<rparr>"

definition DbSyncJob ::
  "'a podlib_scheme \<Rightarrow> 'c Barbican \<Rightarrow> strmap \<Rightarrow> strmap \<Rightarrow> Job" where
  "DbSyncJob P instance labels annotations = (let
     name = Name (Meta instance);
     (dbSyncVolumes, dbSyncMounts) = GetOsloConfigVolumes name DBSyncConfigVolume;
     ca = CaBundleSecretName (API_TLS instance);
     dbSyncVolumes = (if ca \<noteq> [] then dbSyncVolumes @ [Ca_CreateVolume P ca] else dbSyncVolumes);
     dbSyncMounts = (if ca \<noteq> [] then dbSyncMounts @ Ca_CreateVolumeMounts P ca else dbSyncMounts);
     job = \<lparr>j_Name = name @ ''-db-sync'', j_Namespace = Namespace (Meta instance),
       j_Labels = labels,
       j_Template = \<lparr>pt_Annotations = annotations, pt_Labels = [],
         AutomountServiceAccountToken = False, RestartPolicy = Some RestartPolicyOnFailure,
         ServiceAccountName = RbacResourceName instance,
         pt_SecurityContext = Some RestrictiveContext, pt_Volumes = dbSyncVolumes,
         Containers = [(job_container (name @ ''-db-sync'') (at_ContainerImage (BarbicanAPI (Spec instance))))
           \<lparr>c_Command := [''barbican-manage''], c_Args := [''db'', ''upgrade''],
            c_VolumeMounts := dbSyncMounts\<rparr>],
         pt_NodeSelector = [], Affinity = None\<rparr>\<rparr>
   in (case sb_NodeSelector (Base (Spec instance)) of
         None \<Rightarrow> job
       | Some ns \<Rightarrow> job\<lparr>j_Template := (j_Template job)\<lparr>pt_NodeSelector := ns\<rparr>\<rparr>))"

text \<open>\<open>instance.Spec.PKCS11.ClientDataSpec\<close> dereferences the section: without one it panics.\<close>

definition PKCS11PrepJob ::
  "'a podlib_scheme \<Rightarrow> 'c Barbican \<Rightarrow> strmap \<Rightarrow> strmap \<Rightarrow> Job option" where
  "PKCS11PrepJob P instance labels annotations = (case PKCS11 (Template instance) of
     None \<Rightarrow> None
   | Some p \<Rightarrow> (let
       name = Name (Meta instance);
       (osloVolumes, osloMounts) = GetOsloConfigVolumes name PKCS11ConfigVolume;
       pkcs11Volumes = [GetScriptVolume (name @ ''-scripts'')] @ osloVolumes @ GetVolumes name;
       pkcs11Mounts = [GetScriptVolumeMount] @ osloMounts @ GetVolumeMounts;
       ca = CaBundleSecretName (API_TLS instance);
       pkcs11Volumes = (if ca \<noteq> [] then pkcs11Volumes @ [Ca_CreateVolume P ca] else pkcs11Volumes);
       pkcs11Mounts = (if ca \<noteq> [] then pkcs11Mounts @ Ca_CreateVolumeMounts P ca else pkcs11Mounts);
       pkcs11Volumes = pkcs11Volumes
         @ [getClientDataVolume PKCS11ClientDataVolume (pkcs11_ClientData p)];
       pkcs11Mounts = pkcs11Mounts
         @ [getClientDataVolumeMount PKCS11ClientDataVolume (pkcs11_ClientData p)
              DefaultPKCS11ClientDataPath]
     in Some \<lparr>j_Name = name @ ''-pkcs11-prep'', j_Namespace = Namespace (Meta instance),
       j_Labels = labels,
       j_Template = \<lparr>pt_Annotations = annotations, pt_Labels = [],
         AutomountServiceAccountToken = False, RestartPolicy = Some RestartPolicyOnFailure,
         ServiceAccountName = RbacResourceName instance,
         pt_SecurityContext = None, pt_Volumes = pkcs11Volumes,
         Containers = [(job_container (name @ ''-pkcs11-prep'')
             (at_ContainerImage (BarbicanAPI (Spec instance))))
           \<lparr>c_Command := [ScriptMountPoint @ ''/generate_pkcs11_keys.sh''],
            c_SecurityContext := RunAsUser 0, c_VolumeMounts := pkcs11Mounts\<rparr>],
         pt_NodeSelector = [], Affinity = None\<rparr>\<rparr>))"

section \<open>Deployments\<close>

text \<open>The side-car that follows the service's log file, the same in the three deployments.\<close>

definition log_container ::
  "'a podlib_scheme \<Rightarrow> string \<Rightarrow> string \<Rightarrow> EnvVar list \<Rightarrow> opaque \<Rightarrow> Container" where
  "log_container P name img env resources =
     \<lparr>c_Name = name @ ''-log'', c_Command = [''/usr/bin/dumb-init''],
      c_Args = [''--single-child'', ''--'', ''/usr/bin/tail'', ''-n+1'', ''-F'',
        BarbicanLogPath @ name @ ''.log''],
      c_Image = img, c_SecurityContext = RestrictiveContext, c_Env = env,
      c_VolumeMounts = [GetLogVolumeMount (vl P)], c_Resources = resources,
      ReadinessProbe = None, LivenessProbe = None\<rparr>"

text \<open>Node selector, then topology or else the default pod affinity.\<close>

definition place_pods ::
  "'a podlib_scheme \<Rightarrow> strmap option \<Rightarrow> opaque option \<Rightarrow> string \<Rightarrow> Deployment \<Rightarrow> Deployment" where
  "place_pods P selector topology component d = (let
     d = (case selector of None \<Rightarrow> d
          | Some ns \<Rightarrow> d\<lparr>d_Template := (d_Template d)\<lparr>pt_NodeSelector := ns\<rparr>\<rparr>)
   in (case topology of
         Some t \<Rightarrow> d\<lparr>d_Template := ApplyTo P t (d_Template d)\<rparr>
       | None \<Rightarrow> d\<lparr>d_Template := (d_Template d)\<lparr>Affinity := Some (GetPodAffinity P component)\<rparr>\<rparr>))"

definition Worker_Deployment ::
  "'a podlib_scheme \<Rightarrow> 'c BarbicanWorker_cr \<Rightarrow> string \<Rightarrow> strmap \<Rightarrow> strmap \<Rightarrow> opaque option \<Rightarrow>
   string list \<Rightarrow> Deployment option" where
  "Worker_Deployment P instance configHash labels annotations topology overwriteKeys = (let
     spec = sub_Spec instance; name = Name (sub_Meta instance);
     env = MergeEnvs P [(''CONFIG_HASH'', configHash)]
   in case GetWorkerVolumesAndMounts (vl P) instance overwriteKeys of
        None \<Rightarrow> None
      | Some (workerVolumes, workerVolumeMounts) \<Rightarrow>
          Some (place_pods P (ct_NodeSelector (ss_Component spec)) topology ComponentWorker
            \<lparr>d_Name = name, d_Namespace = Namespace (sub_Meta instance), d_Labels = labels,
             MatchLabels = labels, d_Replicas = Replicas (ss_Component spec),
             d_Template = \<lparr>pt_Annotations = annotations, pt_Labels = labels,
               AutomountServiceAccountToken = False, RestartPolicy = None,
               ServiceAccountName = ServiceAccount (ss_Template spec),
               pt_SecurityContext = Some RestrictiveContext, pt_Volumes = workerVolumes,
               Containers = [
                 log_container P name (ss_ContainerImage spec) env (Resources (ss_Component spec)),
                 \<lparr>c_Name = ServiceName @ ''-worker'', c_Command = [''barbican-worker''], c_Args = [],
                  c_Image = ss_ContainerImage spec, c_SecurityContext = RestrictiveContext,
                  c_Env = env, c_VolumeMounts = workerVolumeMounts,
                  c_Resources = Resources (ss_Component spec),
                  ReadinessProbe = None, LivenessProbe = None\<rparr>],
               pt_NodeSelector = [], Affinity = None\<rparr>\<rparr>))"

definition Listener_Deployment ::
  "'a podlib_scheme \<Rightarrow> 'c BarbicanKeystoneListener_cr \<Rightarrow> string \<Rightarrow> strmap \<Rightarrow> strmap \<Rightarrow>
   opaque option \<Rightarrow> string list \<Rightarrow> Deployment option" where
  "Listener_Deployment P instance configHash labels annotations topology overwriteKeys = (let
     spec = sub_Spec instance; name = Name (sub_Meta instance);
     env = MergeEnvs P [(''CONFIG_HASH'', configHash)]
   in case GetListenerVolumesAndMounts (vl P) instance overwriteKeys of
        None \<Rightarrow> None
      | Some (listenerVolumes, listenerVolumeMounts) \<Rightarrow>
          Some (place_pods P (ct_NodeSelector (ss_Component spec)) topology ComponentKeystoneListener
            \<lparr>d_Name = name, d_Namespace = Namespace (sub_Meta instance), d_Labels = labels,
             MatchLabels = labels, d_Replicas = Replicas (ss_Component spec),
             d_Template = \<lparr>pt_Annotations = annotations, pt_Labels = labels,
               AutomountServiceAccountToken = False, RestartPolicy = None,
               ServiceAccountName = ServiceAccount (ss_Template spec),
               pt_SecurityContext = Some RestrictiveContext, pt_Volumes = listenerVolumes,
               Containers = [
                 log_container P name (ss_ContainerImage spec) env (Resources (ss_Component spec)),
                 \<lparr>c_Name = ServiceName @ ''-keystone-listener'',
                  c_Command = [''barbican-keystone-listener''], c_Args = [],
                  c_Image = ss_ContainerImage spec, c_SecurityContext = RestrictiveContext,
                  c_Env = env, c_VolumeMounts = listenerVolumeMounts,
                  c_Resources = Resources (ss_Component spec),
                  ReadinessProbe = None, LivenessProbe = None\<rparr>],
               pt_NodeSelector = [], Affinity = None\<rparr>\<rparr>))"

definition health_probe :: "int \<Rightarrow> bool \<Rightarrow> Probe" where
  "health_probe period https =
     \<lparr>TimeoutSeconds = 5, PeriodSeconds = period, InitialDelaySeconds = 5,
      HTTPGet_Path = ''/healthcheck'', HTTPGet_Port = BarbicanPort,
      HTTPGet_Scheme = (if https then Some URISchemeHTTPS else None)\<rparr>"

definition API_Deployment ::
  "'a podlib_scheme \<Rightarrow> 'c BarbicanAPI_cr \<Rightarrow> string \<Rightarrow> strmap \<Rightarrow> strmap \<Rightarrow> opaque option \<Rightarrow>
   string list \<Rightarrow> (gerr + Deployment) option" where
  "API_Deployment P instance configHash labels annotations topology overwriteKeys = (let
     spec = sub_Spec instance; name = Name (sub_Meta instance);
     env = MergeEnvs P [(''CONFIG_HASH'', configHash)];
     https = TLS_Enabled P (as_Internal spec) (as_Public spec) EndpointPublic;
     livenessProbe = health_probe 3 https;
     readinessProbe = health_probe 5 https
   in case GetAPIVolumesAndMounts (vl P) instance overwriteKeys of
        None \<Rightarrow> None
      | Some (Inl err) \<Rightarrow> Some (Inl err)
      | Some (Inr (apiVolumes, apiVolumeMounts)) \<Rightarrow>
          Some (Inr (place_pods P (ct_NodeSelector (ss_Component spec)) topology ComponentAPI
            \<lparr>d_Name = name, d_Namespace = Namespace (sub_Meta instance), d_Labels = labels,
             MatchLabels = labels, d_Replicas = Replicas (ss_Component spec),
             d_Template = \<lparr>pt_Annotations = annotations, pt_Labels = labels,
               AutomountServiceAccountToken = False, RestartPolicy = None,
               ServiceAccountName = ServiceAccount (ss_Template spec),
               pt_SecurityContext = Some RestrictiveContext, pt_Volumes = apiVolumes,
               Containers = [
                 (log_container P name (ss_ContainerImage spec) env (Resources (ss_Component spec)))
                   \<lparr>ReadinessProbe := Some readinessProbe, LivenessProbe := Some livenessProbe\<rparr>,
                 \<lparr>c_Name = ServiceName @ ''-api'', c_Command = [''/usr/sbin/httpd''],
                  c_Args = [''-DFOREGROUND''],
                  c_Image = ss_ContainerImage spec, c_SecurityContext = RestrictiveContext,
                  c_Env = env, c_VolumeMounts = apiVolumeMounts,
                  c_Resources = Resources (ss_Component spec),
                  ReadinessProbe = Some readinessProbe, LivenessProbe = Some livenessProbe\<rparr>],
               pt_NodeSelector = [], Affinity = None\<rparr>\<rparr>)))"

end
