(* ===== verification/Pod_Safety.thy ===== *)
theory Pod_Safety
  imports Workloads Webhook
begin

text \<open>
  The pods the operator builds are well formed: every mount of a container names a volume of its
  pod, the mounts of the client data and of the overwritten files do not collide, and the jobs
  that run \<open>barbican-manage\<close> see only the two oslo.config snippets. The webhook's validation is
  shown to be exactly what the client data mounts need.
\<close>

section \<open>Contract of the volume helpers\<close>

text \<open>
  What lib-common documents: a writable directory's volume and mount carry the given name, and the
  mounts of a TLS volume refer to that volume.
\<close>

definition vollib_contract :: "'a vollib_scheme \<Rightarrow> bool" where
  [contract_defs]: "vollib_contract L \<longleftrightarrow>
     (\<forall>n. vol_Name (WritableDirVolume L n) = n) \<and>
     (\<forall>n p. mnt_Name (WritableDirVolumeMount L n p) = n \<and>
            MountPath (WritableDirVolumeMount L n p) = p) \<and>
     (\<forall>ca. list_all (\<lambda>m. mnt_Name m = vol_Name (Ca_CreateVolume L ca)) (Ca_CreateVolumeMounts L ca)) \<and>
     (\<forall>svc e. list_all (\<lambda>m. mnt_Name m = vol_Name (Svc_CreateVolume L svc e))
        (Svc_CreateVolumeMounts L svc e))"

text \<open>The user's extra mounts refer to the extra volumes they come with.\<close>

definition extra_closed :: "'a vollib_scheme \<Rightarrow> BarbicanExtraVolMounts list \<Rightarrow> string list \<Rightarrow> bool" where
  "extra_closed L extraMounts svc \<longleftrightarrow>
     list_all (\<lambda>vol. list_all (\<lambda>m. mnt_Name m \<in> ev_Name ` set (Volumes vol)) (Mounts vol))
       (concat (map (\<lambda>exv. Propagate (storage_Propagate L) exv svc) extraMounts))"

definition mounts_resolved :: "Volume list \<Rightarrow> VolumeMount list \<Rightarrow> bool" where
  "mounts_resolved vols mnts \<longleftrightarrow> list_all (\<lambda>m. mnt_Name m \<in> vol_Name ` set vols) mnts"

definition pod_resolved :: "PodTemplate \<Rightarrow> bool" where
  "pod_resolved pt \<longleftrightarrow>
     list_all (\<lambda>c. mounts_resolved (pt_Volumes pt) (c_VolumeMounts c)) (Containers pt)"

section \<open>Composition\<close>

lemma mounts_resolved_Nil [simp]: "mounts_resolved vs []"
  by (simp add: mounts_resolved_def)

lemma mounts_resolved_Cons [simp]:
  "mounts_resolved vs (m # ms) \<longleftrightarrow> mnt_Name m \<in> vol_Name ` set vs \<and> mounts_resolved vs ms"
  by (simp add: mounts_resolved_def)

lemma mounts_resolved_append [simp]:
  "mounts_resolved vs (ms @ ms') \<longleftrightarrow> mounts_resolved vs ms \<and> mounts_resolved vs ms'"
  by (simp add: mounts_resolved_def)

lemma mounts_resolved_mono:
  "mounts_resolved vs ms \<Longrightarrow> set vs \<subseteq> set vs' \<Longrightarrow> mounts_resolved vs' ms"
  by (auto simp: mounts_resolved_def list_all_iff)

lemma volume_simps [simp]:
  "vol_Name (secret_volume n mode s items) = n"
  "mnt_Name (ro_mount n p sub) = n"
  "MountPath (ro_mount n p sub) = p"
  by (simp_all add: secret_volume_def ro_mount_def)

lemmas shared_volumes =
  GetVolumes_def GetVolumeMounts_def GetRunHttpdVolume_def GetVarLogHttpdVolume_def
  GetAPIHttpdVolumeMounts_def GetLogVolumeMount_def GetLogVolume_def GetScriptVolumeMount_def
  GetScriptVolume_def GetCustomConfigVolume_def GetCustomConfigVolumeMount_def
  getClientDataVolume_def getClientDataVolumeMount_def

lemma overwrite_mounts_names:
  "m \<in> set (GetConfigOverwriteVolumeMounts ks) \<Longrightarrow> mnt_Name m = CustomConfigVolume"
  by (auto simp: GetConfigOverwriteVolumeMounts_def)

lemma overwrite_resolved:
  "CustomConfigVolume \<in> vol_Name ` set vs \<Longrightarrow>
   mounts_resolved vs (GetConfigOverwriteVolumeMounts ks)"
  by (simp add: mounts_resolved_def list_all_iff overwrite_mounts_names)

lemma client_data_resolved:
  "GetClientDataVolumes t = (vs, ms) \<Longrightarrow> mounts_resolved vs ms"
  by (auto simp: GetClientDataVolumes_def Let_def shared_volumes
      split: bool.splits option.splits)

lemma extra_volumes_names:
  "extra_volumes L vs = Some vols \<Longrightarrow> vol_Name ` set vols = ev_Name ` set vs"
proof (induction vs arbitrary: vols)
  case Nil
  then show ?case by simp
next
  case (Cons v vs)
  then obtain src vols' where "vols = \<lparr>vol_Name = ev_Name v, vol_Source = src\<rparr> # vols'"
    and "extra_volumes L vs = Some vols'"
    by (auto split: option.splits)
  with Cons.IH show ?case by simp
qed

lemma propagated_resolved:
  assumes "propagated_volumes L xs = Some (vs, ms)"
    and "list_all (\<lambda>vol. list_all (\<lambda>m. mnt_Name m \<in> ev_Name ` set (Volumes vol)) (Mounts vol)) xs"
  shows "mounts_resolved vs ms"
  using assms
proof (induction xs arbitrary: vs ms)
  case Nil
  then show ?case by simp
next
  case (Cons x xs)
  then obtain v v' m' where parts: "extra_volumes L (Volumes x) = Some v"
      "propagated_volumes L xs = Some (v', m')" "vs = v @ v'" "ms = Mounts x @ m'"
    by (auto split: option.splits)
  from Cons.prems parts(1) have "mounts_resolved v (Mounts x)"
    by (simp add: mounts_resolved_def extra_volumes_names)
  moreover from Cons parts(2) have "mounts_resolved v' m'" by simp
  ultimately show ?case
    unfolding parts(3,4) by (auto intro: mounts_resolved_mono)
qed

lemma extra_resolved:
  "GetExtraVolumes L xs svc = Some (vs, ms) \<Longrightarrow> extra_closed L xs svc \<Longrightarrow> mounts_resolved vs ms"
  unfolding GetExtraVolumes_def extra_closed_def by (rule propagated_resolved)

lemma contractD:
  assumes "vollib_contract L"
  shows "vol_Name (WritableDirVolume L n) = n" "mnt_Name (WritableDirVolumeMount L n p) = n"
    "MountPath (WritableDirVolumeMount L n p) = p"
    "m \<in> set (Ca_CreateVolumeMounts L ca) \<Longrightarrow> mnt_Name m = vol_Name (Ca_CreateVolume L ca)"
    "m' \<in> set (Svc_CreateVolumeMounts L svc e) \<Longrightarrow> mnt_Name m' = vol_Name (Svc_CreateVolume L svc e)"
  using assms by (simp_all add: vollib_contract_def list_all_iff)

lemma ca_resolved:
  "vollib_contract L \<Longrightarrow> Ca_CreateVolume L ca \<in> set vs \<Longrightarrow>
   mounts_resolved vs (Ca_CreateVolumeMounts L ca)"
  by (auto simp: mounts_resolved_def list_all_iff contractD)

lemma endpoint_resolved:
  "vollib_contract L \<Longrightarrow> endpoint_tls L i e = Inr (vs, ms) \<Longrightarrow> mounts_resolved vs ms"
  by (auto simp: endpoint_tls_def Let_def mounts_resolved_def list_all_iff contractD
      split: if_splits sum.splits)

lemma add_extra_resolved:
  assumes "add_extra (GetExtraVolumes L xs svc) vols mnts = Some (vs, ms)"
    and "extra_closed L xs svc" and "mounts_resolved vols mnts"
  shows "mounts_resolved vs ms \<and> set vols \<subseteq> set vs"
proof -
  obtain v m where x: "GetExtraVolumes L xs svc = Some (v, m)" "vs = vols @ v" "ms = mnts @ m"
    using assms(1) by (auto simp: add_extra_def)
  have "mounts_resolved v m" by (rule extra_resolved [OF x(1) assms(2)])
  with assms(3) show ?thesis by (auto simp: x(2,3) intro: mounts_resolved_mono)
qed

section \<open>The pods\<close>

text \<open>Applying a topology adds scheduling constraints only.\<close>

definition podlib_contract :: "'a podlib_scheme \<Rightarrow> bool" where
  [contract_defs]: "podlib_contract P \<longleftrightarrow> vollib_contract (vl P) \<and>
     (\<forall>t pt. pt_Volumes (ApplyTo P t pt) = pt_Volumes pt \<and> Containers (ApplyTo P t pt) = Containers pt)"

lemma place_pods_template:
  "podlib_contract P \<Longrightarrow>
   pt_Volumes (d_Template (place_pods P sel topo cmp d)) = pt_Volumes (d_Template d) \<and>
   Containers (d_Template (place_pods P sel topo cmp d)) = Containers (d_Template d)"
  by (simp add: place_pods_def podlib_contract_def Let_def split: option.split)

lemma log_container_mounts [simp]:
  "c_VolumeMounts (log_container P n i e r) = [GetLogVolumeMount (vl P)]"
  by (simp add: log_container_def)

lemma log_volume_in_set:
  "vollib_contract L \<Longrightarrow> GetLogVolume L \<in> set vs \<Longrightarrow> mounts_resolved vs [GetLogVolumeMount L]"
  by (auto simp: GetLogVolume_def GetLogVolumeMount_def contractD
      intro: rev_image_eqI [where x = "WritableDirVolume L LogVolume"])

lemma vl_fields [simp]:
  "Ca_CreateVolume (vl P) = Ca_CreateVolume P"
  "Ca_CreateVolumeMounts (vl P) = Ca_CreateVolumeMounts P"
  by (simp_all add: vollib.defs)

text \<open>The shared start of the three services' volumes, before TLS, client data and extras.\<close>

lemma base_resolved:
  assumes "vollib_contract L" and "set [GetCustomConfigVolume n, GetLogVolume L] \<subseteq> set vs"
    and "set (GetVolumes n') \<subseteq> set vs"
  shows "mounts_resolved vs (GetVolumeMounts @ [GetCustomConfigVolumeMount, GetLogVolumeMount L]
           @ GetConfigOverwriteVolumeMounts ks)"
proof -
  have "CustomConfigVolume \<in> vol_Name ` set vs" "LogVolume \<in> vol_Name ` set vs"
    "ConfigVolume \<in> vol_Name ` set vs"
    using assms
    by (force simp: GetCustomConfigVolume_def GetLogVolume_def GetVolumes_def contractD
        intro: rev_image_eqI)+
  then show ?thesis
    using assms(1) by (auto simp: overwrite_resolved GetVolumeMounts_def
        GetCustomConfigVolumeMount_def GetLogVolumeMount_def contractD)
qed

lemma worker_mounts_resolved:
  assumes "vollib_contract L"
    and "extra_closed L (ExtraMounts (ss_Template (sub_Spec i))) [Prop_BarbicanWorker, Prop_Barbican]"
    and "GetWorkerVolumesAndMounts L i ks = Some (vs, ms)"
  shows "mounts_resolved vs ms \<and> GetLogVolume L \<in> set vs"
proof -
  obtain cv cm where c: "GetClientDataVolumes (ss_Template (sub_Spec i)) = (cv, cm)" by fastforce
  let ?ca = "ss_CaBundleSecretName (sub_Spec i)"
  let ?cav = "if ?ca \<noteq> [] then [Ca_CreateVolume L ?ca] else []"
  let ?cam = "if ?ca \<noteq> [] then Ca_CreateVolumeMounts L ?ca else []"
  let ?vs = "GetVolumes ''barbican'' @ [GetCustomConfigVolume (Name (sub_Meta i)), GetLogVolume L]
    @ ?cav @ cv"
  let ?ms = "(GetVolumeMounts @ [GetCustomConfigVolumeMount, GetLogVolumeMount L]
    @ GetConfigOverwriteVolumeMounts ks) @ ?cam @ cm"
  have eq: "add_extra (GetExtraVolumes L (ExtraMounts (ss_Template (sub_Spec i)))
      [Prop_BarbicanWorker, Prop_Barbican]) ?vs ?ms = Some (vs, ms)"
    using assms(3) by (simp add: GetWorkerVolumesAndMounts_def Let_def c split: if_splits)
  have "mounts_resolved ?vs (GetVolumeMounts @ [GetCustomConfigVolumeMount, GetLogVolumeMount L]
      @ GetConfigOverwriteVolumeMounts ks)"
    by (rule base_resolved [OF assms(1), where n = "Name (sub_Meta i)" and n' = "''barbican''"])
      auto
  moreover have "mounts_resolved ?vs ?cam"
    using assms(1) by (auto intro!: ca_resolved)
  moreover have "mounts_resolved ?vs cm"
    by (rule mounts_resolved_mono [OF client_data_resolved [OF c]]) auto
  ultimately have "mounts_resolved ?vs ?ms" unfolding mounts_resolved_append by blast
  from add_extra_resolved [OF eq assms(2) this] show ?thesis by auto
qed

lemma listener_mounts_resolved:
  assumes "vollib_contract L"
    and "extra_closed L (ExtraMounts (ss_Template (sub_Spec i)))
      [Prop_BarbicanKeystoneListener, Prop_Barbican]"
    and "GetListenerVolumesAndMounts L i ks = Some (vs, ms)"
  shows "mounts_resolved vs ms \<and> GetLogVolume L \<in> set vs"
proof -
  let ?ca = "ss_CaBundleSecretName (sub_Spec i)"
  let ?cav = "if ?ca \<noteq> [] then [Ca_CreateVolume L ?ca] else []"
  let ?cam = "if ?ca \<noteq> [] then Ca_CreateVolumeMounts L ?ca else []"
  let ?vs = "GetVolumes ''barbican'' @ [GetCustomConfigVolume (Name (sub_Meta i)), GetLogVolume L]
    @ ?cav"
  let ?ms = "(GetVolumeMounts @ [GetCustomConfigVolumeMount, GetLogVolumeMount L]
    @ GetConfigOverwriteVolumeMounts ks) @ ?cam"
  have eq: "add_extra (GetExtraVolumes L (ExtraMounts (ss_Template (sub_Spec i)))
      [Prop_BarbicanKeystoneListener, Prop_Barbican]) ?vs ?ms = Some (vs, ms)"
    using assms(3) by (simp add: GetListenerVolumesAndMounts_def Let_def split: if_splits)
  have "mounts_resolved ?vs (GetVolumeMounts @ [GetCustomConfigVolumeMount, GetLogVolumeMount L]
      @ GetConfigOverwriteVolumeMounts ks)"
    by (rule base_resolved [OF assms(1), where n = "Name (sub_Meta i)" and n' = "''barbican''"])
      auto
  moreover have "mounts_resolved ?vs ?cam"
    using assms(1) by (auto intro!: ca_resolved)
  ultimately have "mounts_resolved ?vs ?ms" unfolding mounts_resolved_append by blast
  from add_extra_resolved [OF eq assms(2) this] show ?thesis by auto
qed

lemma httpd_resolved:
  assumes "vollib_contract L" and "GetRunHttpdVolume L \<in> set vs" and "GetVarLogHttpdVolume L \<in> set vs"
    and "set (GetVolumes n) \<subseteq> set vs"
  shows "mounts_resolved vs (GetAPIHttpdVolumeMounts L)"
proof -
  have "RunHttpdVolumeName L \<in> vol_Name ` set vs" "VarLogHttpdVolumeName L \<in> vol_Name ` set vs"
    "ConfigVolume \<in> vol_Name ` set vs"
    using assms by (force simp: GetRunHttpdVolume_def GetVarLogHttpdVolume_def GetVolumes_def
        contractD intro: rev_image_eqI)+
  then show ?thesis
    using assms(1) by (simp add: GetAPIHttpdVolumeMounts_def contractD)
qed

lemma api_mounts_resolved:
  assumes "vollib_contract L"
    and "extra_closed L (ExtraMounts (ss_Template (sub_Spec i))) [Prop_BarbicanAPI, Prop_Barbican]"
    and "GetAPIVolumesAndMounts L i ks = Some (Inr (vs, ms))"
  shows "mounts_resolved vs ms \<and> GetLogVolume L \<in> set vs"
proof -
  obtain cv cm where c: "GetClientDataVolumes (ss_Template (sub_Spec i)) = (cv, cm)" by fastforce
  obtain iv im where ti: "endpoint_tls L i EndpointInternal = Inr (iv, im)"
    using assms(3) by (auto simp: GetAPIVolumesAndMounts_def Let_def split: sum.splits)
  obtain pv pm where tp: "endpoint_tls L i EndpointPublic = Inr (pv, pm)"
    using assms(3) ti by (auto simp: GetAPIVolumesAndMounts_def Let_def split: sum.splits)
  let ?ca = "ss_CaBundleSecretName (sub_Spec i)"
  let ?cav = "if ?ca \<noteq> [] then [Ca_CreateVolume L ?ca] else []"
  let ?cam = "if ?ca \<noteq> [] then Ca_CreateVolumeMounts L ?ca else []"
  let ?vs = "GetVolumes ''barbican'' @ [GetCustomConfigVolume (Name (sub_Meta i)), GetLogVolume L,
    GetRunHttpdVolume L, GetVarLogHttpdVolume L] @ ?cav @ iv @ pv @ cv"
  let ?base = "GetVolumeMounts @ [GetCustomConfigVolumeMount, GetLogVolumeMount L]"
  let ?ms = "?base @ GetAPIHttpdVolumeMounts L @ GetConfigOverwriteVolumeMounts ks @ ?cam @ im @ pm @ cm"
  have eq: "add_extra (GetExtraVolumes L (ExtraMounts (ss_Template (sub_Spec i)))
      [Prop_BarbicanAPI, Prop_Barbican]) ?vs ?ms = Some (vs, ms)"
    using assms(3) by (simp add: GetAPIVolumesAndMounts_def Let_def c ti tp split: if_splits)
  have base: "mounts_resolved ?vs (?base @ GetConfigOverwriteVolumeMounts ks)"
    unfolding append_assoc
    by (rule base_resolved [OF assms(1), where n = "Name (sub_Meta i)" and n' = "''barbican''"]) auto
  have im: "mounts_resolved ?vs im"
    by (rule mounts_resolved_mono [OF endpoint_resolved [OF assms(1) ti]]) auto
  have pm: "mounts_resolved ?vs pm"
    by (rule mounts_resolved_mono [OF endpoint_resolved [OF assms(1) tp]]) auto
  have cm: "mounts_resolved ?vs cm"
    by (rule mounts_resolved_mono [OF client_data_resolved [OF c]]) auto
  have "mounts_resolved ?vs (GetAPIHttpdVolumeMounts L)"
    by (rule httpd_resolved [OF assms(1), where n = "''barbican''"]) auto
  moreover have "mounts_resolved ?vs ?cam"
    using assms(1) by (auto intro!: ca_resolved)
  moreover note base im pm cm
  ultimately have "mounts_resolved ?vs ?ms" unfolding mounts_resolved_append by blast
  from add_extra_resolved [OF eq assms(2) this] show ?thesis by auto
qed

text \<open>C23. In each of the three deployments every mount of every container names a volume of the pod,
  whatever topology is applied, as soon as the user's extra mounts are closed.\<close>

theorem deployments_resolved:
  assumes "podlib_contract P"
  shows "Worker_Deployment P w h l a topo ks = Some d \<Longrightarrow>
     extra_closed (vl P) (ExtraMounts (ss_Template (sub_Spec w))) [Prop_BarbicanWorker, Prop_Barbican] \<Longrightarrow>
     Listener_Deployment P k h l a topo ks = Some d' \<Longrightarrow>
     extra_closed (vl P) (ExtraMounts (ss_Template (sub_Spec k)))
       [Prop_BarbicanKeystoneListener, Prop_Barbican] \<Longrightarrow>
     API_Deployment P i h l a topo ks = Some (Inr d'') \<Longrightarrow>
     extra_closed (vl P) (ExtraMounts (ss_Template (sub_Spec i))) [Prop_BarbicanAPI, Prop_Barbican] \<Longrightarrow>
     pod_resolved (d_Template d) \<and> pod_resolved (d_Template d') \<and> pod_resolved (d_Template d'')"
proof (intro conjI)
  have L: "vollib_contract (vl P)" using assms by (simp add: podlib_contract_def)
  note place = place_pods_template [OF assms] and logv = log_volume_in_set [OF L]
  show "pod_resolved (d_Template d)"
    if "Worker_Deployment P w h l a topo ks = Some d"
      "extra_closed (vl P) (ExtraMounts (ss_Template (sub_Spec w))) [Prop_BarbicanWorker, Prop_Barbican]"
    using that worker_mounts_resolved [OF L that(2)] logv
    by (auto simp: Worker_Deployment_def Let_def pod_resolved_def place split: option.splits)
  show "pod_resolved (d_Template d')"
    if "Listener_Deployment P k h l a topo ks = Some d'"
      "extra_closed (vl P) (ExtraMounts (ss_Template (sub_Spec k)))
         [Prop_BarbicanKeystoneListener, Prop_Barbican]"
    using that listener_mounts_resolved [OF L that(2)] logv
    by (auto simp: Listener_Deployment_def Let_def pod_resolved_def place split: option.splits)
  show "pod_resolved (d_Template d'')"
    if "API_Deployment P i h l a topo ks = Some (Inr d'')"
      "extra_closed (vl P) (ExtraMounts (ss_Template (sub_Spec i))) [Prop_BarbicanAPI, Prop_Barbican]"
    using that api_mounts_resolved [OF L that(2)] logv
    by (auto simp: API_Deployment_def Let_def pod_resolved_def place split: option.splits sum.splits)
qed

text \<open>C35. The mounts of the client data have distinct paths exactly when the webhook raises no
  client-data-path error, so the validation rejects the colliding configurations and no other.\<close>

theorem client_data_paths_distinct_iff:
  "distinct (map MountPath (snd (GetClientDataVolumes t))) \<longleftrightarrow> ValidateClientDataPaths t p [] = []"
  by (auto simp: GetClientDataVolumes_def ValidateClientDataPaths_def Let_def
      getClientDataVolumeMount_def split: bool.splits option.splits)



section \<open>Overwritten configuration files\<close>

text \<open>C37. The mounts of the overwritten files do not depend on the order in which the keys are
  listed, there is one per key, and together with the directory mounts of the custom configuration
  and of the logs their paths are distinct exactly when the keys are distinct and none of them is
  the name of the configuration directory.\<close>

theorem overwrite_mounts_spec:
  assumes "vollib_contract L"
  shows "(mset ks = mset ks' \<longrightarrow>
       GetConfigOverwriteVolumeMounts ks = GetConfigOverwriteVolumeMounts ks') \<and>
     SubPath ` set (GetConfigOverwriteVolumeMounts ks) = set ks \<and>
     (distinct (map MountPath ([GetCustomConfigVolumeMount, GetLogVolumeMount L]
        @ GetConfigOverwriteVolumeMounts ks)) \<longleftrightarrow> distinct ks \<and> ''barbican.conf.d'' \<notin> set ks)"
proof (intro conjI impI)
  show "GetConfigOverwriteVolumeMounts ks = GetConfigOverwriteVolumeMounts ks'" if "mset ks = mset ks'"
    unfolding GetConfigOverwriteVolumeMounts_def by (simp only: slices_Sort_perm [OF that])
  show "SubPath ` set (GetConfigOverwriteVolumeMounts ks) = set ks"
    by (simp add: GetConfigOverwriteVolumeMounts_def ro_mount_def image_image)
  have inj: "inj_on (\<lambda>key. ConfigOverwriteBasePath @ ''/'' @ key) (set ks)"
    by (rule inj_onI) simp
  have paths: "map MountPath (GetConfigOverwriteVolumeMounts ks) =
      map (\<lambda>key. ConfigOverwriteBasePath @ ''/'' @ key) (slices_Sort ks)"
    by (simp add: GetConfigOverwriteVolumeMounts_def)
  have log: "MountPath (GetLogVolumeMount L) = ''/var/log/barbican''"
    using assms by (simp add: GetLogVolumeMount_def contractD)
  show "distinct (map MountPath ([GetCustomConfigVolumeMount, GetLogVolumeMount L]
        @ GetConfigOverwriteVolumeMounts ks)) \<longleftrightarrow> distinct ks \<and> ''barbican.conf.d'' \<notin> set ks"
    unfolding map_append paths using inj
    by (auto simp: log GetCustomConfigVolumeMount_def distinct_map)
qed

section \<open>The jobs\<close>

text \<open>What a Secret volume shows of its Secret: the listed items, or everything.\<close>

fun exposes_only :: "string set \<Rightarrow> VolumeSource \<Rightarrow> bool" where
  "exposes_only A (SecretSource _ _ items) \<longleftrightarrow> items \<noteq> [] \<and> ktp_Key ` set items \<subseteq> A"
| "exposes_only A (OtherSource _) \<longleftrightarrow> False"

text \<open>
  A mount of the oslo.config directory is safe when its volume shows the two snippets only, so
  that \<open>barbican-manage\<close> does not parse the Apache files of the same Secret.
\<close>

definition oslo_dir_safe :: "PodTemplate \<Rightarrow> bool" where
  "oslo_dir_safe pt \<longleftrightarrow> list_all (\<lambda>c. list_all (\<lambda>m. MountPath m = CustomConfigMountPoint \<longrightarrow>
       list_all (\<lambda>v. vol_Name v = mnt_Name m \<longrightarrow>
         exposes_only {DefaultsConfigFileName, CustomConfigFileName} (vol_Source v)) (pt_Volumes pt))
     (c_VolumeMounts c)) (Containers pt)"

lemmas job_defs = DbSyncJob_def PKCS11PrepJob_def GetOsloConfigVolumes_def job_container_def


text \<open>The db-sync job honours the node selector of the spec, the pkcs11-prep job ignores it.\<close>

lemma pkcs11_job_ignores_selector:
  "pt_NodeSelector (j_Template (DbSyncJob P i l a)) =
     (case sb_NodeSelector (Base (Spec i)) of None \<Rightarrow> [] | Some ns \<Rightarrow> ns) \<and>
   pred_option (\<lambda>j. pt_NodeSelector (j_Template j) = []) (PKCS11PrepJob P i l a)"
  by (simp add: job_defs Let_def split: option.split)

section \<open>Concrete helpers and resources for the witnesses\<close>

definition ex_podlib :: podlib where
  "ex_podlib = \<lparr>RunHttpdVolumeName = ''run-httpd'', VarLogHttpdVolumeName = ''var-log-httpd'',
     RunHttpdMountPath = ''/run/httpd'', VarLogHttpdMountPath = ''/var/log/httpd'',
     WritableDirVolume = (\<lambda>n. \<lparr>vol_Name = n, vol_Source = OtherSource ''emptyDir''\<rparr>),
     WritableDirVolumeMount = (\<lambda>n p. \<lparr>mnt_Name = n, MountPath = p, SubPath = [], ReadOnly = False\<rparr>),
     Ca_CreateVolume = (\<lambda>ca. secret_volume ''combined-ca-bundle'' 292 ca []),
     Ca_CreateVolumeMounts = (\<lambda>ca. [ro_mount ''combined-ca-bundle'' ''/etc/pki/ca.pem'' ''ca.pem'']),
     TLS_Enabled = (\<lambda>i p e. tls_SecretName (case e of EndpointInternal \<Rightarrow> i | EndpointPublic \<Rightarrow> p) \<noteq> None),
     ToService = (\<lambda>g. case tls_SecretName g of None \<Rightarrow> Inl (ApiError False ''no secret'')
       | Some s \<Rightarrow> Inr \<lparr>svc_tls = s, CertMount = None, KeyMount = None\<rparr>),
     Svc_CreateVolume = (\<lambda>s e. secret_volume (e @ ''-tls-certs'') 256 (svc_tls s) []),
     Svc_CreateVolumeMounts = (\<lambda>s e. [ro_mount (e @ ''-tls-certs'') ''/etc/pki/tls/certs'' ''tls.crt'']),
     storage_Propagate = (\<lambda>v _. [v]),
     ToCoreVolumeSource = (\<lambda>v. Some (OtherSource (ev_Source v))),
     MergeEnvs = map (\<lambda>(n, v). \<lparr>env_Name = n, env_Value = v\<rparr>),
     ComponentSelector = ''component'', LabelHostname = ''kubernetes.io/hostname'',
     DistributePods = (\<lambda>k vs t. k @ concat vs @ t),
     ApplyTo = (\<lambda>t pt. pt\<lparr>Affinity := Some t\<rparr>)\<rparr>"

lemma ex_podlib_contract: "podlib_contract ex_podlib" "vollib_contract (vl ex_podlib)"
  by (simp_all add: podlib_contract_def vollib_contract_def ex_podlib_def vollib.defs
      secret_volume_def ro_mount_def)

definition ex_subspec :: SubSpec where
  "ex_subspec = \<lparr>ss_Template = ex_template, ss_Component = ex_component,
     ss_ContainerImage = BarbicanContainerImage, ss_DatabaseHostname = ''db'',
     ss_TransportURLSecret = ''rabbitmq-secret'', ss_NotificationsURLSecret = [],
     ss_CaBundleSecretName = ''ca-bundle''\<rparr>"

definition ex_apispec :: BarbicanAPISpec where
  "ex_apispec = SubSpec.extend ex_subspec \<lparr>as_EnableSecureRBAC = True, as_Override_Service = [],
     as_Internal = \<lparr>tls_SecretName = Some ''internal-cert''\<rparr>, as_Public = \<lparr>tls_SecretName = None\<rparr>,
     as_APITimeout = 90\<rparr>"

definition ex_substatus :: "'c \<Rightarrow> 'c SubStatus" where
  "ex_substatus c = \<lparr>ReadyCount = 1, ss_Hash = Some [], ss_Conditions = Some c,
     ss_NetworkAttachments = Some [], sst_DatabaseHostname = '''', ss_ObservedGeneration = 1, AppliedInputSecretHash = [],
     LastAppliedTopology = None\<rparr>"

definition ex_worker :: "'c \<Rightarrow> 'c BarbicanWorker_cr" where
  "ex_worker c = \<lparr>sub_Meta = ex_meta\<lparr>Name := ''barbican-worker''\<rparr>, sub_Spec = ex_subspec,
     sub_Status = ex_substatus c\<rparr>"

definition ex_apicr :: "'c \<Rightarrow> 'c BarbicanAPI_cr" where
  "ex_apicr c = \<lparr>sub_Meta = ex_meta\<lparr>Name := ''barbican-api''\<rparr>, sub_Spec = ex_apispec,
     sub_Status = SubStatus.extend (ex_substatus c) \<lparr>APIEndpoints = None\<rparr>\<rparr>"

lemmas ex_sub_defs = ex_subspec_def ex_apispec_def ex_substatus_def ex_worker_def ex_apicr_def
  SubSpec.defs SubStatus.defs

theorem deployments_resolved_witness:
  "\<exists>d d' d''. Worker_Deployment ex_podlib (ex_worker ()) ''h'' [] [] None [''policy.yaml''] = Some d \<and>
     Listener_Deployment ex_podlib (ex_worker ()) ''h'' [] [] None [''policy.yaml''] = Some d' \<and>
     API_Deployment ex_podlib (ex_apicr ()) ''h'' [] [] None [''policy.yaml''] = Some (Inr d'') \<and>
     pod_resolved (d_Template d) \<and> pod_resolved (d_Template d') \<and> pod_resolved (d_Template d'')"
proof -
  have extras: "ExtraMounts (ss_Template (sub_Spec (ex_worker ()))) = []"
    "ExtraMounts (ss_Template (sub_Spec (ex_apicr ()))) = []"
    by (simp_all add: ex_sub_defs ex_template_def)
  have closed: "extra_closed (vl ex_podlib) [] svc" for svc
    by (simp add: extra_closed_def)
  have none: "add_extra (GetExtraVolumes L [] svc) v m = Some (v, m)" for L svc v m
    by (simp add: GetExtraVolumes_def add_extra_def)
  obtain d where w: "Worker_Deployment ex_podlib (ex_worker ()) ''h'' [] [] None [''policy.yaml''] = Some d"
    by (simp add: Worker_Deployment_def Let_def GetWorkerVolumesAndMounts_def split_beta extras none)
  obtain d' where l: "Listener_Deployment ex_podlib (ex_worker ()) ''h'' [] [] None [''policy.yaml''] = Some d'"
    by (simp add: Listener_Deployment_def Let_def GetListenerVolumesAndMounts_def extras none)
  have tls: "\<exists>vm. endpoint_tls (vl ex_podlib) (ex_apicr ()) e = Inr vm" for e
    by (cases e) (simp_all add: endpoint_tls_def Let_def ex_podlib_def vollib.defs ex_sub_defs)
  obtain d'' where a: "API_Deployment ex_podlib (ex_apicr ()) ''h'' [] [] None [''policy.yaml''] = Some (Inr d'')"
    using tls [of EndpointInternal] tls [of EndpointPublic]
    by (auto simp: API_Deployment_def Let_def GetAPIVolumesAndMounts_def split_beta extras none)
  show ?thesis
    using w l a deployments_resolved [OF ex_podlib_contract(1) w _ l _ a] by (simp add: extras closed)
qed

theorem overwrite_mounts_spec_witness:
  "map MountPath (GetConfigOverwriteVolumeMounts [''policy.yaml'', ''api-paste.ini'']) =
     [''/etc/barbican/api-paste.ini'', ''/etc/barbican/policy.yaml''] \<and>
   distinct (map MountPath ([GetCustomConfigVolumeMount, GetLogVolumeMount (vl ex_podlib)]
        @ GetConfigOverwriteVolumeMounts [''policy.yaml'', ''api-paste.ini'']))"
proof
  show "map MountPath (GetConfigOverwriteVolumeMounts [''policy.yaml'', ''api-paste.ini'']) =
     [''/etc/barbican/api-paste.ini'', ''/etc/barbican/policy.yaml'']"
    by (simp add: GetConfigOverwriteVolumeMounts_def slices_Sort_def less_list_code less_eq_list_code)
  show "distinct (map MountPath ([GetCustomConfigVolumeMount, GetLogVolumeMount (vl ex_podlib)]
        @ GetConfigOverwriteVolumeMounts [''policy.yaml'', ''api-paste.ini'']))"
    using overwrite_mounts_spec [OF ex_podlib_contract(2),
        of "[''policy.yaml'', ''api-paste.ini'']" "[''policy.yaml'', ''api-paste.ini'']"]
    by simp
qed


end
