(* ===== verification/Handler.thy ===== *)
theory Handler
  imports Prelude "HOL-Library.State_Monad"
begin

text \<open>
  Handlers as state transformers. A Go function that mutates its instance and calls the cluster
  is a value of the library's state monad over a record of the cluster, the instance and the
  trace of the calls made so far. An early \<open>return\<close> of a block is the left summand of the block's
  result; \<open>proceed\<close> runs the rest of the function only when the block fell through.

  The second half is the frame logic: \<open>state_io_rel R m\<close> says that every run of \<open>m\<close> relates its
  start state to its end state by \<open>R\<close>. The locale \<open>frame\<close> collects the rules for relations that are
  preorders; it is interpreted for the relations the component theories use.
\<close>

section \<open>State of a handler\<close>

record ('w, 'i, 'e) rstate =
  world :: 'w
  inst :: 'i
  trace :: "'e list"

text \<open>
  One call of code outside the repository: its effect on the cluster and its result are a
  parameter, the call itself is appended to the trace.
\<close>

definition invoke :: "'e \<Rightarrow> ('w \<Rightarrow> 'a \<times> 'w) \<Rightarrow> (('w, 'i, 'e) rstate, 'a) state" where
  "invoke ev f = State (\<lambda>s. let (a, w) = f (world s)
     in (a, s\<lparr>world := w, trace := trace s @ [ev]\<rparr>))"

text \<open>A call whose trace entry also records what the code learnt from its result.\<close>

definition invoke_obs :: "('a \<Rightarrow> 'e) \<Rightarrow> ('w \<Rightarrow> 'a \<times> 'w) \<Rightarrow> (('w, 'i, 'e) rstate, 'a) state" where
  "invoke_obs ev f = State (\<lambda>s. let (a, w) = f (world s)
     in (a, s\<lparr>world := w, trace := trace s @ [ev a]\<rparr>))"

definition the_instance :: "(('w, 'i, 'e) rstate, 'i) state" where
  "the_instance = State (\<lambda>s. (inst s, s))"

definition modify :: "('i \<Rightarrow> 'i) \<Rightarrow> (('w, 'i, 'e) rstate, unit) state" where
  "modify f = State (\<lambda>s. ((), s\<lparr>inst := f (inst s)\<rparr>))"

definition done_with :: "'r \<Rightarrow> ('s, 'r + 'a) state" where
  "done_with r = State_Monad.return (Inl r)"

definition fall_through :: "'a \<Rightarrow> ('s, 'r + 'a) state" where
  "fall_through a = State_Monad.return (Inr a)"

definition proceed ::
  "('s, 'r + 'a) state \<Rightarrow> ('a \<Rightarrow> ('s, 'r + 'b) state) \<Rightarrow> ('s, 'r + 'b) state" where
  "proceed m f = do {
     x \<leftarrow> m;
     case x of Inl r \<Rightarrow> State_Monad.return (Inl r) | Inr a \<Rightarrow> f a
   }"

definition finally_run :: "('s, 'r + 'a) state \<Rightarrow> ('a \<Rightarrow> ('s, 'r) state) \<Rightarrow> ('s, 'r) state" where
  "finally_run m f = do {
     x \<leftarrow> m;
     case x of Inl r \<Rightarrow> State_Monad.return r | Inr a \<Rightarrow> f a
   }"

text \<open>A \<open>for\<close> loop whose body may return from the function.\<close>

primrec for_each :: "('x \<Rightarrow> ('s, 'r + unit) state) \<Rightarrow> 'x list \<Rightarrow> ('s, 'r + unit) state" where
  "for_each f [] = fall_through ()"
| "for_each f (x # xs) = proceed (f x) (\<lambda>_. for_each f xs)"

text \<open>A \<open>for\<close> loop that accumulates and may return.\<close>

primrec for_fold ::
  "('x \<Rightarrow> 'b \<Rightarrow> ('s, 'r + 'b) state) \<Rightarrow> 'x list \<Rightarrow> 'b \<Rightarrow> ('s, 'r + 'b) state" where
  "for_fold f [] b = fall_through b"
| "for_fold f (x # xs) b = proceed (f x b) (\<lambda>b'. for_fold f xs b')"

lemma run_invoke [simp]:
  "run_state (invoke ev f) s =
    (fst (f (world s)), s\<lparr>world := snd (f (world s)), trace := trace s @ [ev]\<rparr>)"
  by (simp add: invoke_def split_beta)

lemma run_invoke_obs [simp]:
  "run_state (invoke_obs ev f) s =
    (fst (f (world s)), s\<lparr>world := snd (f (world s)), trace := trace s @ [ev (fst (f (world s)))]\<rparr>)"
  by (simp add: invoke_obs_def split_beta)

lemma run_the_instance [simp]: "run_state the_instance s = (inst s, s)"
  by (simp add: the_instance_def)

lemma run_bind_instance: "run_state (State_Monad.bind the_instance f) s = run_state (f (inst s)) s"
  by simp

lemma run_modify [simp]: "run_state (modify f) s = ((), s\<lparr>inst := f (inst s)\<rparr>)"
  by (simp add: modify_def)

lemma run_done_with [simp]: "run_state (done_with r) s = (Inl r, s)"
  by (simp add: done_with_def)

lemma run_fall_through [simp]: "run_state (fall_through a) s = (Inr a, s)"
  by (simp add: fall_through_def)

lemma run_proceed [simp]:
  "run_state (proceed m f) s = (case run_state m s of
     (Inl r, s') \<Rightarrow> (Inl r, s') | (Inr a, s') \<Rightarrow> run_state (f a) s')"
  by (auto simp: proceed_def split: prod.splits sum.splits)

lemma run_finally_run [simp]:
  "run_state (finally_run m f) s = (case run_state m s of
     (Inl r, s') \<Rightarrow> (r, s') | (Inr a, s') \<Rightarrow> run_state (f a) s')"
  by (auto simp: finally_run_def split: prod.splits sum.splits)

text \<open>The calls a run makes.\<close>

definition events_of :: "(('w, 'i, 'e) rstate, 'a) state \<Rightarrow> ('w, 'i, 'e) rstate \<Rightarrow> 'e list" where
  "events_of m s = drop (length (trace s)) (trace (snd (run_state m s)))"

text \<open>The end state of a run.\<close>

definition after :: "(('w, 'i, 'e) rstate, 'a) state \<Rightarrow> ('w, 'i, 'e) rstate \<Rightarrow> ('w, 'i, 'e) rstate" where
  "after m s = snd (run_state m s)"

definition result_of :: "(('w, 'i, 'e) rstate, 'a) state \<Rightarrow> ('w, 'i, 'e) rstate \<Rightarrow> 'a" where
  "result_of m s = fst (run_state m s)"

section \<open>Frames\<close>

named_theorems framed "frame facts of the handlers, for the compositional rules"

locale frame =
  fixes R :: "'s \<Rightarrow> 's \<Rightarrow> bool"
  assumes frame_refl: "R s s"
    and frame_trans: "R s t \<Longrightarrow> R t u \<Longrightarrow> R s u"
begin

lemma return_frame: "state_io_rel R (State_Monad.return a)"
  by (simp add: state_io_rel_def frame_refl)

lemma done_frame: "state_io_rel R (done_with a)"
  by (simp add: state_io_rel_def frame_refl)

lemma fall_frame: "state_io_rel R (fall_through a)"
  by (simp add: state_io_rel_def frame_refl)

lemma bind_frame:
  assumes "state_io_rel R m" and "\<And>a. state_io_rel R (f a)"
  shows "state_io_rel R (State_Monad.bind m f)"
  using assms unfolding state_io_rel_def
  by (auto split: prod.splits) (metis frame_trans prod.collapse snd_conv)

lemma proceed_frame:
  assumes "state_io_rel R m" and "\<And>a. state_io_rel R (f a)"
  shows "state_io_rel R (proceed m f)"
  unfolding proceed_def
  by (rule bind_frame [OF assms(1)]) (auto split: sum.splits intro: assms(2) return_frame)

lemma finally_frame:
  assumes "state_io_rel R m" and "\<And>a. state_io_rel R (f a)"
  shows "state_io_rel R (finally_run m f)"
  unfolding finally_run_def
  by (rule bind_frame [OF assms(1)]) (auto split: sum.splits intro: assms(2) return_frame)

lemma if_frame:
  "(b \<Longrightarrow> state_io_rel R m) \<Longrightarrow> (\<not> b \<Longrightarrow> state_io_rel R n) \<Longrightarrow> state_io_rel R (if b then m else n)"
  by simp

lemma case_sum_frame:
  "(\<And>a. x = Inl a \<Longrightarrow> state_io_rel R (f a)) \<Longrightarrow> (\<And>b. x = Inr b \<Longrightarrow> state_io_rel R (g b)) \<Longrightarrow>
   state_io_rel R (case x of Inl a \<Rightarrow> f a | Inr b \<Rightarrow> g b)"
  by (cases x) auto

lemma case_option_frame:
  "(x = None \<Longrightarrow> state_io_rel R m) \<Longrightarrow> (\<And>a. x = Some a \<Longrightarrow> state_io_rel R (f a)) \<Longrightarrow>
   state_io_rel R (case x of None \<Rightarrow> m | Some a \<Rightarrow> f a)"
  by (cases x) auto

lemma case_prod_frame:
  "(\<And>a b. x = (a, b) \<Longrightarrow> state_io_rel R (f a b)) \<Longrightarrow> state_io_rel R (case x of (a, b) \<Rightarrow> f a b)"
  by (cases x) auto

lemma for_each_frame:
  "(\<And>x. state_io_rel R (f x)) \<Longrightarrow> state_io_rel R (for_each f xs)"
  by (induction xs) (auto intro: fall_frame proceed_frame)

lemma for_fold_frame:
  "(\<And>x b. state_io_rel R (f x b)) \<Longrightarrow> state_io_rel R (for_fold f xs b)"
  by (induction xs arbitrary: b) (auto intro: fall_frame proceed_frame)

lemmas frame_rules =
  return_frame done_frame fall_frame bind_frame proceed_frame finally_frame if_frame
  case_sum_frame case_option_frame case_prod_frame for_each_frame for_fold_frame

end

section \<open>The relations the components use\<close>

text \<open>The run only appends calls that satisfy \<open>A\<close>.\<close>

definition emits :: "('e \<Rightarrow> bool) \<Rightarrow> ('w, 'i, 'e) rstate \<Rightarrow> ('w, 'i, 'e) rstate \<Rightarrow> bool" where
  "emits A s t \<longleftrightarrow> (\<exists>evs. trace t = trace s @ evs \<and> list_all A evs)"

text \<open>The run leaves a projection of the instance unchanged.\<close>

definition keeps :: "('i \<Rightarrow> 'b) \<Rightarrow> ('w, 'i, 'e) rstate \<Rightarrow> ('w, 'i, 'e) rstate \<Rightarrow> bool" where
  "keeps f s t \<longleftrightarrow> f (inst t) = f (inst s)"

text \<open>The run preserves a property of the instance.\<close>

definition preserves :: "('i \<Rightarrow> bool) \<Rightarrow> ('w, 'i, 'e) rstate \<Rightarrow> ('w, 'i, 'e) rstate \<Rightarrow> bool" where
  "preserves P s t \<longleftrightarrow> (P (inst s) \<longrightarrow> P (inst t))"

text \<open>
  The run extends the trace, and makes a property of the instance true only if one of the calls it
  adds satisfies \<open>E\<close>.
\<close>

definition caused ::
  "('i \<Rightarrow> bool) \<Rightarrow> ('e \<Rightarrow> bool) \<Rightarrow> ('w, 'i, 'e) rstate \<Rightarrow> ('w, 'i, 'e) rstate \<Rightarrow> bool" where
  "caused P E s t \<longleftrightarrow> (\<exists>evs. trace t = trace s @ evs \<and> (P (inst t) \<longrightarrow> P (inst s) \<or> list_ex E evs))"

lemma emitsI: "trace t = trace s @ evs \<Longrightarrow> list_all A evs \<Longrightarrow> emits A s t"
  by (auto simp: emits_def)

interpretation emit: frame "emits A" for A
proof unfold_locales
  show "emits A s s" for s
    by (rule emitsI [where evs = "[]"]) simp_all
  show "emits A s u" if "emits A s t" and "emits A t u" for s t u
    using that unfolding emits_def by (metis append_assoc list_all_append)
qed

interpretation keep: frame "keeps f" for f
  by unfold_locales (simp_all add: keeps_def)

interpretation preserve: frame "preserves P" for P
  by unfold_locales (simp_all add: preserves_def)

lemma causedI:
  "trace t = trace s @ evs \<Longrightarrow> (P (inst t) \<Longrightarrow> P (inst s) \<or> list_ex E evs) \<Longrightarrow> caused P E s t"
  by (auto simp: caused_def)

lemma caused_events:
  "state_io_rel (caused P E) m \<Longrightarrow> P (inst (after m s)) \<Longrightarrow> P (inst s) \<or> list_ex E (events_of m s)"
  by (auto simp: state_io_rel_def caused_def after_def events_of_def split_beta)

interpretation cause: frame "caused P E" for P E
proof unfold_locales
  show "caused P E s s" for s
    by (rule causedI [where evs = "[]"]) simp_all
  show "caused P E s u" if st: "caused P E s t" and tu: "caused P E t u" for s t u
  proof -
    from st obtain a where "trace t = trace s @ a" "P (inst t) \<longrightarrow> P (inst s) \<or> list_ex E a"
      by (auto simp: caused_def)
    moreover from tu obtain b where "trace u = trace t @ b" "P (inst u) \<longrightarrow> P (inst t) \<or> list_ex E b"
      by (auto simp: caused_def)
    ultimately show ?thesis
      by (intro causedI [where evs = "a @ b"]) auto
  qed
qed

lemma emits_invoke_obs: "(\<And>a. A (ev a)) \<Longrightarrow> state_io_rel (emits A) (invoke_obs ev f)"
  unfolding state_io_rel_def
  by (auto intro: emitsI [where evs = "[ev (fst (f w))]" for w])

lemma keeps_invoke_obs: "state_io_rel (keeps g) (invoke_obs ev f)"
  by (simp add: state_io_rel_def keeps_def)

lemma preserves_invoke_obs: "state_io_rel (preserves P) (invoke_obs ev f)"
  by (simp add: state_io_rel_def preserves_def)

lemma emits_invoke: "A ev \<Longrightarrow> state_io_rel (emits A) (invoke ev f)"
  unfolding state_io_rel_def by (auto intro: emitsI [where evs = "[ev]"])

lemma emits_modify: "state_io_rel (emits A) (modify f)"
  unfolding state_io_rel_def by (auto intro: emitsI [where evs = "[]"])

lemma emits_the_instance: "state_io_rel (emits A) the_instance"
  unfolding state_io_rel_def by (auto intro: emitsI [where evs = "[]"])

lemma keeps_invoke: "state_io_rel (keeps g) (invoke ev f)"
  by (simp add: state_io_rel_def keeps_def)

lemma keeps_modify: "(\<And>i. g (f i) = g i) \<Longrightarrow> state_io_rel (keeps g) (modify f)"
  by (simp add: state_io_rel_def keeps_def)

lemma keeps_the_instance: "state_io_rel (keeps g) the_instance"
  by (simp add: state_io_rel_def keeps_def)

lemma preserves_invoke: "state_io_rel (preserves P) (invoke ev f)"
  by (simp add: state_io_rel_def preserves_def)

lemma preserves_modify: "(\<And>i. P i \<Longrightarrow> P (f i)) \<Longrightarrow> state_io_rel (preserves P) (modify f)"
  by (simp add: state_io_rel_def preserves_def)

lemma preserves_the_instance: "state_io_rel (preserves P) the_instance"
  by (simp add: state_io_rel_def preserves_def)

lemma emits_mono: "(\<And>e. A e \<Longrightarrow> B e) \<Longrightarrow> state_io_rel (emits A) m \<Longrightarrow> state_io_rel (emits B) m"
  unfolding state_io_rel_def emits_def by (blast intro: list.pred_mono_strong)

lemma emits_run:
  assumes "state_io_rel (emits A) m" and "run_state m s = (a, t)"
  obtains evs where "trace t = trace s @ evs" and "list_all A evs"
  using assms by (auto simp: state_io_rel_def emits_def) (metis snd_conv)

lemma keeps_after: "state_io_rel (keeps f) m \<Longrightarrow> f (inst (after m s)) = f (inst s)"
  by (auto simp: state_io_rel_def keeps_def after_def split_beta)

lemma preserves_after: "state_io_rel (preserves P) m \<Longrightarrow> P (inst s) \<Longrightarrow> P (inst (after m s))"
  by (auto simp: state_io_rel_def preserves_def after_def split_beta)

lemma emits_events_of: "state_io_rel (emits A) m \<Longrightarrow> list_all A (events_of m s)"
  by (cases "run_state m s") (fastforce simp: events_of_def elim: emits_run)

lemmas emit_rules = emit.frame_rules emits_invoke emits_invoke_obs emits_modify emits_the_instance

lemmas keep_rules = keep.frame_rules keeps_invoke keeps_invoke_obs keeps_the_instance

lemmas preserve_rules = preserve.frame_rules preserves_invoke preserves_invoke_obs preserves_the_instance

end
