(* ===== verification/External.thy ===== *)
theory External
  imports Workloads Handler
begin

text \<open>
  The code outside the repository that the controllers call, as records of functions: the
  condition package (\<open>condlib\<close>) and the client, lib-common and infra-operator operations that the
  service controllers share (\<open>kube\<close>). A function of \<open>kube\<close> that talks to the cluster takes and
  returns the cluster \<open>'w\<close>, which is a parameter. \<open>event\<close> is the trace entry of each such call.
\<close>

section \<open>The condition package\<close>

record 'c condlib =
  cond_empty :: 'c
  cond_Get :: "ctype \<Rightarrow> 'c \<Rightarrow> condition option"
  cond_Set :: "condition option \<Rightarrow> 'c \<Rightarrow> 'c"
  cond_MarkTrue :: "ctype \<Rightarrow> message \<Rightarrow> 'c \<Rightarrow> 'c"
  cond_Remove :: "ctype \<Rightarrow> 'c \<Rightarrow> 'c"
  cond_IsTrue :: "ctype \<Rightarrow> 'c \<Rightarrow> bool"
  cond_IsUnknown :: "ctype \<Rightarrow> 'c \<Rightarrow> bool"
  cond_Mirror :: "ctype \<Rightarrow> 'c \<Rightarrow> condition option"
  cond_AllSubConditionIsTrue :: "'c \<Rightarrow> bool"
  cond_CreateList :: "condition list \<Rightarrow> 'c"
  cond_Init :: "'c \<Rightarrow> 'c \<Rightarrow> 'c"  \<comment> \<open>\<open>Init cl conditions\<close>\<close>
  cond_RestoreLastTransitionTimes :: "'c \<Rightarrow> 'c \<Rightarrow> 'c"  \<comment> \<open>saved, current\<close>

fun is_true :: "condition option \<Rightarrow> bool" where
  "is_true (Some (TrueCondition _ _)) = True"
| "is_true _ = False"

text \<open>
  What the code relies on: a set or marked condition is read back under its type and the others
  are untouched, a removed one is gone, \<open>IsTrue\<close> reads the status, and all sub-conditions are true
  when every condition present, the overall Ready apart, is; mirroring into a type gives a condition
  of that type.
\<close>

definition cond_contract :: "'c condlib \<Rightarrow> bool" where
  [contract_defs]: "cond_contract C \<longleftrightarrow>
     (\<forall>t d c. cond_Get C t (cond_Set C (Some d) c) =
        (if t = cond_type d then Some d else cond_Get C t c)) \<and>
     (\<forall>c. cond_Set C None c = c) \<and>
     (\<forall>t t' m c. cond_Get C t (cond_MarkTrue C t' m c) =
        (if t = t' then Some (TrueCondition t' m) else cond_Get C t c)) \<and>
     (\<forall>t t' c. cond_Get C t (cond_Remove C t' c) = (if t = t' then None else cond_Get C t c)) \<and>
     (\<forall>t c. cond_IsTrue C t c = is_true (cond_Get C t c)) \<and>
     (\<forall>c. cond_AllSubConditionIsTrue C c =
        (\<forall>t. t \<noteq> ReadyCondition \<longrightarrow> cond_Get C t c \<noteq> None \<longrightarrow> is_true (cond_Get C t c))) \<and>
     (\<forall>t c. pred_option (\<lambda>d. cond_type d = t) (cond_Mirror C t c))"

lemma cond_contractD:
  assumes "cond_contract C"
  shows "cond_Get C t (cond_Set C (Some d) c) = (if t = cond_type d then Some d else cond_Get C t c)"
    "cond_Set C None c = c"
    "cond_Get C t (cond_MarkTrue C t' m c) =
       (if t = t' then Some (TrueCondition t' m) else cond_Get C t c)"
    "cond_Get C t (cond_Remove C t' c) = (if t = t' then None else cond_Get C t c)"
    "cond_IsTrue C t c = is_true (cond_Get C t c)"
    "cond_AllSubConditionIsTrue C c \<Longrightarrow> t \<noteq> ReadyCondition \<Longrightarrow> cond_Get C t c \<noteq> None \<Longrightarrow>
       is_true (cond_Get C t c)"
    "pred_option (\<lambda>d. cond_type d = t) (cond_Mirror C t c)"
  using assms unfolding cond_contract_def by blast+

section \<open>Rendering configuration\<close>

text \<open>A template parameter of type \<open>any\<close>, as far as the controllers build one.\<close>

datatype tval = TStr string | TBool bool | TInt int | TList "string list" | TMap "(string \<times> tval) list"

datatype TemplateType = TemplateTypeConfig | TemplateTypeScripts

record SecretTemplate =
  tm_Name :: string
  tm_Namespace :: string
  tm_Type :: TemplateType
  tm_InstanceType :: string
  tm_ConfigOptions :: "tval gomap"
  tm_CustomData :: strmap
  tm_Labels :: strmap
  tm_CommonTemplates :: "string list"

section \<open>Trace entries\<close>

text \<open>What a check of a secret found: verified, still missing (a requeue is asked for), or an error.\<close>

datatype verdict = Verified | Missing | Broken

definition verdict_of :: "string \<times> Result \<times> gerr option \<Rightarrow> verdict" where
  "verdict_of v = (case v of (hash, result, err) \<Rightarrow>
     if err \<noteq> None then Broken else if result \<noteq> no_result then Missing else Verified)"

datatype event =
    EvVerifySecret string "string list" verdict
  | EvValidateCACert string
  | EvValidateCerts "string list"  \<comment> \<open>the names of the certificate secrets\<close>
  | EvGetSecret string
  | EvEnsureSecrets "SecretTemplate list"
  | EvGetBarbican string
  | EvGetNAD string
  | EvEnsureTopology "TopoRef option"  \<comment> \<open>the requested topology\<close>
  | EvDeleteTopologyRef bool  \<comment> \<open>whether the call succeeded\<close>
  | EvDeploymentPatch Deployment
  | EvVerifyNetwork
  | EvIsReadyForInput string string bool
  | EvGetDeployment string
  | EvDeleteDeployment string
  | EvService string
  | EvKeystoneEndpoint string
  | EvGetKeystoneEndpoint string "string list option"  \<comment> \<open>the finalizers found\<close>
  | EvUpdateKeystoneEndpoint string "string list"  \<comment> \<open>the finalizers written\<close>
  | EvTransportURL string
  | EvManageFinalizer string string
  | EvFinalizeRotation string string string bool
  | EvRemoveConsumerFinalizer string string
  | EvPruneFinalizers string "string list"
  | EvGetTransportURL string "string option"  \<comment> \<open>the name of its secret, when found\<close>
  | EvDeleteTransportURL string
  | EvEnsureAccount
  | EvDatabase
  | EvWaitDatabase
  | EvGetDatabase bool  \<comment> \<open>whether it was found\<close>
  | EvDeleteDatabaseFinalizer
  | EvUnusedAccounts
  | EvGetKeystoneAPI
  | EvRbac
  | EvKeystoneService
  | EvGetKeystoneService "string list option"
  | EvUpdateKeystoneService "string list"
  | EvJob string
  | EvChild string bool  \<comment> \<open>kind, and whether it is ready for the current inputs\<close>
  | EvGetChild string "string list option"
  | EvUpdateChild string "string list"
  | EvPatchInstance

text \<open>What an entry records of a read: what was found, if anything.\<close>

definition found :: "gerr + 'a \<Rightarrow> 'a option" where
  "found r = (case r of Inl err \<Rightarrow> None | Inr a \<Rightarrow> Some a)"

text \<open>
  A sequence of calls releases an object: it was read, and when it was found with a finalizer to
  remove, it was written back without it.
\<close>

definition released_object ::
  "(string list \<Rightarrow> string list \<times> bool) \<Rightarrow> (string list option \<Rightarrow> event) \<Rightarrow> (string list \<Rightarrow> event) \<Rightarrow>
   event list \<Rightarrow> bool" where
  "released_object remove evGet evUpdate evs \<longleftrightarrow> (\<exists>obj. evGet obj \<in> set evs \<and>
     (case obj of None \<Rightarrow> True
      | Some fins \<Rightarrow> snd (remove fins) \<longrightarrow> evUpdate (fst (remove fins)) \<in> set evs))"

lemma released_object_mono: "released_object r g u xs \<Longrightarrow> set xs \<subseteq> set ys \<Longrightarrow> released_object r g u ys"
  unfolding released_object_def by (force split: option.splits)

section \<open>Operations shared by the service controllers\<close>

record deploy_status =
  dep_Generation :: int
  dep_ObservedGeneration :: int
  ReadyReplicas :: int

record 'w kube = podlib +
  AppSelector :: string
  InputHashName :: string
  CABundleKey :: string
  TLSHashName :: string
  helper_Finalizer :: string
  GVK_Kind :: string
  AddFinalizer :: "string list \<Rightarrow> string \<Rightarrow> string list \<times> bool"
  RemoveFinalizer :: "string list \<Rightarrow> string \<Rightarrow> string list \<times> bool"
  GetLabels :: "strmap \<Rightarrow> strmap"
  CheckOwnerRefExist :: "string \<Rightarrow> OwnerReference list \<Rightarrow> bool"
  ObjectHash :: "string list \<Rightarrow> gerr + string"
  ObjectHashEnv :: "EnvVar list \<Rightarrow> gerr + string"
  SetHash :: "strmap option \<Rightarrow> string \<Rightarrow> string \<Rightarrow> strmap \<times> bool"
  EnsureNetworksAnnotation :: "opaque list \<Rightarrow> gerr + strmap"
  VerifySecret :: "string \<Rightarrow> string \<Rightarrow> string list \<Rightarrow> int \<Rightarrow> 'w \<Rightarrow> (string \<times> Result \<times> gerr option) \<times> 'w"
  GetSecret :: "string \<Rightarrow> string \<Rightarrow> 'w \<Rightarrow> (gerr + strmap) \<times> 'w"
  EnsureSecrets :: "SecretTemplate list \<Rightarrow> strmap \<Rightarrow> 'w \<Rightarrow> (strmap \<times> gerr option) \<times> 'w"
  GetBarbican :: "string \<Rightarrow> string \<Rightarrow> 'w \<Rightarrow> (gerr + BarbicanSpec) \<times> 'w"
  GetNADWithName :: "string \<Rightarrow> string \<Rightarrow> 'w \<Rightarrow> (gerr + opaque option) \<times> 'w"
  ValidateCACertSecret :: "string \<Rightarrow> string \<Rightarrow> 'w \<Rightarrow> (gerr + string) \<times> 'w"
  ValidateCertSecrets :: "GenericTLS \<Rightarrow> GenericTLS \<Rightarrow> string \<Rightarrow> 'w \<Rightarrow> (gerr + string) \<times> 'w"
  EnsureServiceTopology ::
    "TopoRef option \<Rightarrow> TopoRef option \<Rightarrow> string \<Rightarrow> strmap \<Rightarrow> 'w \<Rightarrow> (gerr + opaque option) \<times> 'w"
  EnsureDeletedTopologyRef :: "TopoRef option \<Rightarrow> string \<Rightarrow> 'w \<Rightarrow> outcome \<times> 'w"
  Deployment_CreateOrPatch :: "Deployment \<Rightarrow> int \<Rightarrow> 'w \<Rightarrow> (outcome \<times> deploy_status) \<times> 'w"
  IsReadyForInput :: "string \<Rightarrow> string \<Rightarrow> string \<Rightarrow> 'w \<Rightarrow> (gerr + bool) \<times> 'w"
  VerifyNetworkStatusFromAnnotation ::
    "string list \<Rightarrow> strmap \<Rightarrow> int \<Rightarrow> 'w \<Rightarrow> (gerr + (bool \<times> (string list) gomap)) \<times> 'w"
  Deployment_Get :: "string \<Rightarrow> string \<Rightarrow> 'w \<Rightarrow> (gerr + OwnerReference list) \<times> 'w"
  Deployment_Delete :: "string \<Rightarrow> string \<Rightarrow> 'w \<Rightarrow> gerr option \<times> 'w"

abbreviation pl :: "('w, 'z) kube_scheme \<Rightarrow> podlib" where
  "pl K \<equiv> podlib.truncate K"

type_synonym ('w, 'c, 's, 't) sub_state =
  "('w, ('s SubSpec_scheme, ('c, 't) SubStatus_scheme) subcr, event) rstate"

type_synonym ('w, 'c, 's, 't, 'a) sub = "(('w, 'c, 's, 't) sub_state, 'a) state"

text \<open>Updating the conditions of a service's status; a nil list reads as the empty one.\<close>

definition conds_of :: "'c condlib \<Rightarrow> 'c option \<Rightarrow> 'c" where
  "conds_of C oc = (case oc of None \<Rightarrow> cond_empty C | Some c \<Rightarrow> c)"

definition upd_conds ::
  "'c condlib \<Rightarrow> ('c \<Rightarrow> 'c) \<Rightarrow> ('s, ('c, 't) SubStatus_scheme) subcr \<Rightarrow>
   ('s, ('c, 't) SubStatus_scheme) subcr" where
  "upd_conds C f = upd_status (\<lambda>s. s\<lparr>ss_Conditions := Some (f (conds_of C (ss_Conditions s)))\<rparr>)"

abbreviation sub_conds :: "'c condlib \<Rightarrow> ('s, ('c, 't) SubStatus_scheme) subcr \<Rightarrow> 'c" where
  "sub_conds C i \<equiv> conds_of C (ss_Conditions (sub_Status i))"

definition set_cond :: "'c condlib \<Rightarrow> condition \<Rightarrow> ('w, 'c, 's, 't, unit) sub" where
  "set_cond C d = modify (upd_conds C (cond_Set C (Some d)))"

definition mark_true :: "'c condlib \<Rightarrow> ctype \<Rightarrow> string \<Rightarrow> ('w, 'c, 's, 't, unit) sub" where
  "mark_true C t m = modify (upd_conds C (cond_MarkTrue C t (Msg m [])))"

definition set_status ::
  "(('c, 't) SubStatus_scheme \<Rightarrow> ('c, 't) SubStatus_scheme) \<Rightarrow> ('w, 'c, 's, 't, unit) sub" where
  "set_status f = modify (upd_status f)"

lemma upd_conds_simps [simp]:
  "sub_Meta (upd_conds C f i) = sub_Meta i"
  "sub_Spec (upd_conds C f i) = sub_Spec i"
  "ss_Conditions (sub_Status (upd_conds C f i)) = Some (f (sub_conds C i))"
  "ReadyCount (sub_Status (upd_conds C f i)) = ReadyCount (sub_Status i)"
  "ss_Hash (sub_Status (upd_conds C f i)) = ss_Hash (sub_Status i)"
  "AppliedInputSecretHash (sub_Status (upd_conds C f i)) = AppliedInputSecretHash (sub_Status i)"
  "LastAppliedTopology (sub_Status (upd_conds C f i)) = LastAppliedTopology (sub_Status i)"
  "ss_ObservedGeneration (sub_Status (upd_conds C f i)) = ss_ObservedGeneration (sub_Status i)"
  by (simp_all add: upd_conds_def)

lemma conds_of_Some [simp]: "conds_of C (Some c) = c"
  by (simp add: conds_of_def)

lemma run_set_cond [simp]:
  "run_state (set_cond C d) s = ((), s\<lparr>inst := upd_conds C (cond_Set C (Some d)) (inst s)\<rparr>)"
  by (simp add: set_cond_def)

lemma run_mark_true [simp]:
  "run_state (mark_true C t m) s = ((), s\<lparr>inst := upd_conds C (cond_MarkTrue C t (Msg m [])) (inst s)\<rparr>)"
  by (simp add: mark_true_def)

lemma run_set_status [simp]:
  "run_state (set_status f) s = ((), s\<lparr>inst := upd_status f (inst s)\<rparr>)"
  by (simp add: set_status_def)

lemma emits_set_cond: "state_io_rel (emits A) (set_cond C d)"
  by (simp add: set_cond_def emits_modify)

lemma emits_mark_true: "state_io_rel (emits A) (mark_true C t m)"
  by (simp add: mark_true_def emits_modify)

lemma emits_set_status: "state_io_rel (emits A) (set_status f)"
  by (simp add: set_status_def emits_modify)

end
