(* ===== verification/Common.thy ===== *)
theory Common
  imports External
begin

text \<open>
  The helpers the four controllers share (\<open>internal/controller/barbican_common.go\<close>) and
  \<open>cleanupOldDeployment\<close> of \<open>barbican_controller.go\<close>. \<open>ensureTopology\<close> takes the three methods of
  the \<open>topologyHandler\<close> interface and the condition updater as arguments; the interface's contract
  is extended with what the updater may touch, and interpreted for each service.
\<close>

section \<open>Topology\<close>

definition topology_error :: "gerr \<Rightarrow> condition" where
  "topology_error e = error_condition TopologyReadyCondition ''TopologyReadyErrorMessage'' [err_text e]"

definition ensureTopology ::
  "('i \<Rightarrow> TopoRef option) \<Rightarrow> ('i \<Rightarrow> TopoRef option) \<Rightarrow> (TopoRef option \<Rightarrow> 'i \<Rightarrow> 'i) \<Rightarrow>
   (('c \<Rightarrow> 'c) \<Rightarrow> 'i \<Rightarrow> 'i) \<Rightarrow> 'c condlib \<Rightarrow> 'w kube \<Rightarrow> string \<Rightarrow> strmap \<Rightarrow>
   (('w, 'i, event) rstate, gerr + opaque option) state" where
  "ensureTopology GetSpec GetLast SetLast upd C K finalizer defaultLabelSelector = do {
     i \<leftarrow> the_instance;
     t \<leftarrow> invoke (EvEnsureTopology (GetSpec i))
       (EnsureServiceTopology K (GetSpec i) (GetLast i) finalizer defaultLabelSelector);
     case t of
       Inl err \<Rightarrow> do {
         modify (upd (cond_Set C (Some (topology_error err))));
         State_Monad.return (Inl (Wrapped ''waiting for Topology requirements'' err))
       }
     | Inr topology \<Rightarrow> do {
         modify (\<lambda>i. SetLast (GetSpec i) i);
         i \<leftarrow> the_instance;
         (case GetSpec i of
            None \<Rightarrow> State_Monad.return ()
          | Some tr \<Rightarrow> modify (upd (cond_MarkTrue C TopologyReadyCondition (Msg ''TopologyReadyMessage'' []))));
         State_Monad.return (Inr topology)
       }
   }"

text \<open>The contract of an instance together with its condition updater.\<close>

locale topologyUpdater = topologyHandler GetSpecTopologyRef GetLastAppliedTopology SetLastAppliedTopology
  for GetSpecTopologyRef :: "'i \<Rightarrow> TopoRef option"
    and GetLastAppliedTopology :: "'i \<Rightarrow> TopoRef option"
    and SetLastAppliedTopology :: "TopoRef option \<Rightarrow> 'i \<Rightarrow> 'i" +
  fixes upd :: "('c \<Rightarrow> 'c) \<Rightarrow> 'i \<Rightarrow> 'i"
  assumes spec_upd: "GetSpecTopologyRef (upd f i) = GetSpecTopologyRef i"
    and last_upd: "GetLastAppliedTopology (upd f i) = GetLastAppliedTopology i"
begin

lemma last_applied:
  assumes "run_state (ensureTopology GetSpecTopologyRef GetLastAppliedTopology
      SetLastAppliedTopology upd C K fin sel) s = (r, s')"
  shows "GetSpecTopologyRef (inst s') = GetSpecTopologyRef (inst s) \<and>
    GetLastAppliedTopology (inst s') =
      (case r of Inl _ \<Rightarrow> GetLastAppliedTopology (inst s) | Inr _ \<Rightarrow> GetSpecTopologyRef (inst s))"
  using assms
  by (auto simp: ensureTopology_def spec_upd last_upd get_set_last get_spec_set_last
      split: sum.splits option.splits)

end

interpretation api_topology: topologyUpdater API_GetSpecTopologyRef API_GetLastAppliedTopology
  API_SetLastAppliedTopology "upd_conds C" for C
  by unfold_locales (simp_all add: API_GetSpecTopologyRef_def API_GetLastAppliedTopology_def)

interpretation worker_topology: topologyUpdater Worker_GetSpecTopologyRef
  Worker_GetLastAppliedTopology Worker_SetLastAppliedTopology "upd_conds C" for C
  by unfold_locales (simp_all add: Worker_GetSpecTopologyRef_def Worker_GetLastAppliedTopology_def)

interpretation listener_topology: topologyUpdater Listener_GetSpecTopologyRef
  Listener_GetLastAppliedTopology Listener_SetLastAppliedTopology "upd_conds C" for C
  by unfold_locales (simp_all add: Listener_GetSpecTopologyRef_def Listener_GetLastAppliedTopology_def)

section \<open>Configuration secrets\<close>

definition GenerateConfigsGeneric ::
  "'w kube \<Rightarrow> ObjectMeta \<Rightarrow> strmap \<Rightarrow> tval gomap \<Rightarrow> strmap \<Rightarrow> strmap \<Rightarrow> bool \<Rightarrow> string list \<Rightarrow>
   (('w, 'i, event) rstate, strmap \<times> gerr option) state" where
  "GenerateConfigsGeneric K m envVars templateParameters customData cmLabels scripts commonTemplates = (let
     cms = [\<lparr>tm_Name = Name m @ ''-config-data'', tm_Namespace = Namespace m,
       tm_Type = TemplateTypeConfig, tm_InstanceType = GVK_Kind K,
       tm_ConfigOptions = templateParameters, tm_CustomData = customData, tm_Labels = cmLabels,
       tm_CommonTemplates = commonTemplates\<rparr>];
     cms = (if scripts then cms @ [\<lparr>tm_Name = Name m @ ''-scripts'', tm_Namespace = Namespace m,
       tm_Type = TemplateTypeScripts, tm_InstanceType = GVK_Kind K,
       tm_ConfigOptions = templateParameters, tm_CustomData = [], tm_Labels = cmLabels,
       tm_CommonTemplates = []\<rparr>] else cms)
   in invoke (EvEnsureSecrets cms) (EnsureSecrets K cms envVars))"

text \<open>The merged set is filled from both maps, listed in the unspecified map order, and sorted.\<close>

definition key_set :: "strmap \<Rightarrow> unit gomap \<Rightarrow> unit gomap" where
  "key_set src merged = fold (\<lambda>k. map_put k ()) (map_keys src) merged"

definition collectOverwriteKeys :: "strmap \<Rightarrow> strmap \<Rightarrow> string list" where
  "collectOverwriteKeys parentOverwrite componentOverwrite = (let
     merged = key_set parentOverwrite [];
     merged = key_set componentOverwrite merged
   in slices_Sort (map_keys merged))"

definition GenerateSecretStoreTemplateMap :: "string list \<Rightarrow> string \<Rightarrow> gerr + tval gomap" where
  "GenerateSecretStoreTemplateMap enabledSecretStores globalDefaultSecretStore = (let
     stores = (if length enabledSecretStores = 0 then [''simple_crypto''] else enabledSecretStores);
     globalDefault = (if length globalDefaultSecretStore = 0 then ''simple_crypto''
       else globalDefaultSecretStore)
   in Inr [(''EnabledSecretStores'', TStr (strings_Join stores '','')),
       (''GlobalDefaultSecretStore'', TStr globalDefault),
       (''SimpleCryptoEnabled'', TBool (''simple_crypto'' \<in> set stores)),
       (''PKCS11CryptoEnabled'', TBool (''pkcs11'' \<in> set stores)),
       (''KMIPEnabled'', TBool (''kmip'' \<in> set stores))])"

lemma distinct_fold_put:
  "distinct (map fst m) \<Longrightarrow> distinct (map fst (fold (\<lambda>k. map_put k v) ks m))"
  by (induction ks arbitrary: m) (auto intro: distinct_keys_put)

lemma keys_fold_put: "fst ` set (fold (\<lambda>k. map_put k v) ks m) = set ks \<union> fst ` set m"
  by (induction ks arbitrary: m) auto

lemma collect_keys:
  "sorted (collectOverwriteKeys p c)" "distinct (collectOverwriteKeys p c)"
  "set (collectOverwriteKeys p c) = set (map_keys p) \<union> set (map_keys c)"
  by (auto simp: collectOverwriteKeys_def key_set_def slices_Sort_sorted map_keys_def keys_fold_put
      intro!: distinct_fold_put)

section \<open>Old deployments\<close>

definition cleanupOldDeployment ::
  "'w kube \<Rightarrow> ObjectMeta \<Rightarrow> string \<Rightarrow> (('w, 'i, event) rstate, gerr option) state" where
  "cleanupOldDeployment K owner oldName = do {
     d \<leftarrow> invoke (EvGetDeployment oldName) (Deployment_Get K oldName (Namespace owner));
     case d of
       Inl err \<Rightarrow> State_Monad.return (if IsNotFound err then None else Some err)
     | Inr owners \<Rightarrow>
         if \<not> CheckOwnerRefExist K (UID owner) owners then State_Monad.return None
         else do {
           r \<leftarrow> invoke (EvDeleteDeployment oldName) (Deployment_Delete K oldName (Namespace owner));
           State_Monad.return (case r of
               None \<Rightarrow> None
             | Some err \<Rightarrow> if IsNotFound err then None
                 else Some (Wrapped (''failed to delete old deployment '' @ [CHR 0x27] @ oldName @ [CHR 0x27]) err))
         }
   }"

section \<open>The reconcile loop body\<close>

text \<open>
  What every \<open>Reconcile\<close> does around its own code: read the instance, build the helper, give it a
  condition list, and, unless the body panics (\<open>None\<close>), restore the transition times, mirror the
  latest condition into Ready when that is still unknown, and patch the instance; the error of the
  patch replaces the body's. \<open>cs\<close> reads the conditions of the status and \<open>upd\<close> updates them.
\<close>

definition reconcile_around ::
  "'c condlib \<Rightarrow> ('i \<Rightarrow> 'c option) \<Rightarrow> (('c \<Rightarrow> 'c) \<Rightarrow> 'i \<Rightarrow> 'i) \<Rightarrow>
   ('w \<Rightarrow> (gerr + 'i) \<times> 'w) \<Rightarrow> ('i \<Rightarrow> gerr option) \<Rightarrow> ('i \<Rightarrow> 'w \<Rightarrow> gerr option \<times> 'w) \<Rightarrow>
   (bool \<Rightarrow> (('w, 'i, event) rstate, outcome option) state) \<Rightarrow> 'w \<Rightarrow>
   outcome option \<times> 'w \<times> event list" where
  "reconcile_around C cs upd get newHelper patch body w = (case get w of
     (Inl err, w) \<Rightarrow> (Some (if IsNotFound err then ok else failed err), w, [])
   | (Inr i, w) \<Rightarrow> (case newHelper i of
       Some err \<Rightarrow> (Some (failed err), w, [])
     | None \<Rightarrow> (let
         isNewInstance = (cs i = None);
         i = (if isNewInstance then upd (\<lambda>_. cond_empty C) i else i);
         savedConditions = conds_of C (cs i);
         (r, s) = run_state (body isNewInstance) \<lparr>world = w, inst = i, trace = []\<rparr>
       in (case r of
             None \<Rightarrow> (None, world s, trace s)
           | Some (result, err) \<Rightarrow> (let
               i = upd (\<lambda>c. cond_RestoreLastTransitionTimes C savedConditions c) (inst s);
               i = (if cond_IsUnknown C ReadyCondition (conds_of C (cs i))
                    then upd (\<lambda>c. cond_Set C (cond_Mirror C ReadyCondition c) c) i else i);
               (perr, w) = patch i (world s)
             in (Some (result, case perr of Some e \<Rightarrow> Some e | None \<Rightarrow> err), w,
                 trace s @ [EvPatchInstance]))))))"

end
