(* ===== verification/Services.thy ===== *)
theory Services
  imports Common
begin

text \<open>
  The phases of a service controller. The API, Worker and KeystoneListener controllers
  repeat these pieces of code with the receiver's type changed; each is modelled once, on the
  common part of the three resources, and the theories of the controllers compose them in the
  order and with the omissions of their own \<open>reconcileNormal\<close>.

  The left summand of a phase is what the function returns early: \<open>Some\<close> outcome, or \<open>None\<close> for a
  panic.
\<close>

type_synonym ('w, 'c, 's, 't, 'a) phase = "('w, 'c, 's, 't, outcome option + 'a) sub"

abbreviation TransportURL :: string where "TransportURL \<equiv> ''transport_url''"

definition return_with :: "outcome \<Rightarrow> ('w, 'c, 's, 't, 'a) phase" where
  "return_with r = done_with (Some r)"

text \<open>Setting an error condition and returning the error.\<close>

definition fail_with :: "'c condlib \<Rightarrow> condition \<Rightarrow> outcome \<Rightarrow> ('w, 'c, 's, 't, 'a) phase" where
  "fail_with C d r = do { set_cond C d; return_with r }"

text \<open>The rendering of a string slice by the verb \<open>%s\<close>.\<close>

definition fmt_list :: "string list \<Rightarrow> string" where
  "fmt_list xs = ''['' @ strings_Join xs '' '' @ '']''"

section \<open>Input secrets\<close>

definition waiting_condition :: "string list \<Rightarrow> condition" where
  "waiting_condition expectedFields =
     (if TransportURL \<in> set expectedFields
      then requested_condition InputReadyCondition ''InputReadyWaitingMessage''
      else error_condition InputReadyCondition ''InputReadyWaitingMessage'' [])"

definition verifySecret ::
  "'c condlib \<Rightarrow> 'w kube \<Rightarrow> string \<Rightarrow> string list \<Rightarrow> strmap \<Rightarrow>
   ('w, 'c, 's, 't, outcome \<times> strmap) sub" where
  "verifySecret C K secretName expectedFields envVars = do {
     i \<leftarrow> the_instance;
     (hash, result, err) \<leftarrow> invoke_obs (EvVerifySecret secretName expectedFields \<circ> verdict_of)
       (VerifySecret K secretName (Namespace (sub_Meta i)) expectedFields 10);
     case err of
       Some e \<Rightarrow> do {
         set_cond C (error_condition InputReadyCondition ''InputReadyErrorMessage'' [err_text e]);
         State_Monad.return (failed e, envVars)
       }
     | None \<Rightarrow>
         if result \<noteq> no_result then do {
           set_cond C (waiting_condition expectedFields);
           State_Monad.return ((result, None), envVars)
         }
         else State_Monad.return (ok, map_put (''secret-'' @ secretName) hash envVars)
   }"

text \<open>
  Every call site: \<open>if err != nil { return ctrlResult, err }\<close>. A result without an error, which is
  how \<open>verifySecret\<close> reports a secret that is still missing, is not looked at.
\<close>

definition check_secret ::
  "'c condlib \<Rightarrow> 'w kube \<Rightarrow> string \<Rightarrow> string list \<Rightarrow> strmap \<Rightarrow> ('w, 'c, 's, 't, strmap) phase" where
  "check_secret C K secretName expectedFields envVars = do {
     (ctrlResult, envVars') \<leftarrow> verifySecret C K secretName expectedFields envVars;
     case snd ctrlResult of
       Some e \<Rightarrow> return_with ctrlResult
     | None \<Rightarrow> fall_through envVars'
   }"

definition check_common_secrets ::
  "'c condlib \<Rightarrow> 'w kube \<Rightarrow> strmap \<Rightarrow> ('w, 'c, 's, 't, strmap) phase" where
  "check_common_secrets C K configVars = do {
     i \<leftarrow> the_instance;
     let spec = sub_Spec i;
     let t = ss_Template spec;
     proceed (check_secret C K (Secret t) [ps_Service (PasswordSelectors t)] configVars) (\<lambda>vars.
     proceed (check_secret C K (ss_TransportURLSecret spec) [TransportURL] vars) (\<lambda>vars.
       if ss_NotificationsURLSecret spec \<noteq> []
       then check_secret C K (ss_NotificationsURLSecret spec) [TransportURL] vars
       else fall_through vars))
   }"

definition check_store_secrets ::
  "'c condlib \<Rightarrow> 'w kube \<Rightarrow> strmap \<Rightarrow> ('w, 'c, 's, 't, strmap) phase" where
  "check_store_secrets C K configVars = do {
     i \<leftarrow> the_instance;
     let t = ss_Template (sub_Spec i);
     proceed (if simple_crypto_enabled t
       then check_secret C K (SimpleCryptoBackendSecret t) [SimpleCryptoKEK (PasswordSelectors t)] configVars
       else fall_through configVars) (\<lambda>vars.
     proceed (case PKCS11 t of
         Some p \<Rightarrow> if store_enabled t SecretStorePKCS11
           then proceed (check_secret C K (LoginSecret p) [PKCS11Pin (PasswordSelectors t)] vars) (\<lambda>vars.
             check_secret C K (ClientDataSecret (pkcs11_ClientData p)) [] vars)
           else fall_through vars
       | None \<Rightarrow> fall_through vars) (\<lambda>vars.
       case KMIP t of
         Some k \<Rightarrow> if store_enabled t SecretStoreKMIP
           then check_secret C K (ClientDataSecret (kmip_ClientData k)) [] vars
           else fall_through vars
       | None \<Rightarrow> fall_through vars))
   }"

definition check_custom_secrets ::
  "'c condlib \<Rightarrow> 'w kube \<Rightarrow> strmap \<Rightarrow> ('w, 'c, 's, 't, strmap) phase" where
  "check_custom_secrets C K configVars = do {
     i \<leftarrow> the_instance;
     for_fold (\<lambda>v vars. check_secret C K v [] vars)
       (CustomServiceConfigSecrets (ss_Component (sub_Spec i))) configVars
   }"

section \<open>TLS inputs\<close>

definition check_ca_bundle ::
  "'c condlib \<Rightarrow> 'w kube \<Rightarrow> strmap \<Rightarrow> ('w, 'c, 's, 't, strmap) phase" where
  "check_ca_bundle C K configVars = do {
     i \<leftarrow> the_instance;
     let ca = ss_CaBundleSecretName (sub_Spec i);
     if ca \<noteq> [] then do {
       h \<leftarrow> invoke (EvValidateCACert ca) (ValidateCACertSecret K ca (Namespace (sub_Meta i)));
       case h of
         Inl err \<Rightarrow>
           if IsNotFound err
           then fail_with C (error_condition TLSInputReadyCondition ''TLSInputReadyWaitingMessage'' [ca]) ok
           else fail_with C (error_condition TLSInputReadyCondition ''TLSInputErrorMessage'' [err_text err])
             (failed err)
       | Inr hash \<Rightarrow>
           fall_through (if hash \<noteq> [] then map_put (CABundleKey K) hash configVars else configVars)
     }
     else fall_through configVars
   }"

section \<open>Input hash\<close>

definition createHashOfInputHashes ::
  "'w kube \<Rightarrow> strmap \<Rightarrow> ('w, 'c, 's, 't, gerr + string \<times> bool) sub" where
  "createHashOfInputHashes K envVars = do {
     i \<leftarrow> the_instance;
     case ObjectHashEnv K (MergeEnvs K envVars) of
       Inl err \<Rightarrow> State_Monad.return (Inl err)
     | Inr hash \<Rightarrow> (let (hashMap, changed) = SetHash K (ss_Hash (sub_Status i)) (InputHashName K) hash
         in do {
           (if changed then set_status (\<lambda>s. s\<lparr>ss_Hash := Some hashMap\<rparr>) else State_Monad.return ());
           State_Monad.return (Inr (hash, changed))
         })
   }"

section \<open>Service configuration\<close>

text \<open>
  \<open>generateServiceConfigs\<close> in three parts: the data taken from the owning Barbican, the
  contents of the custom secrets, and the rendering. The left summand is the error returned.
\<close>

type_synonym ('w, 'c, 's, 't, 'a) fallible = "('w, 'c, 's, 't, gerr + 'a) sub"

definition copy_credentials :: "strmap \<Rightarrow> strmap \<Rightarrow> strmap" where
  "copy_credentials barbicanSecret customData =
     (case map_get barbicanSecret ''ACID'' of
        None \<Rightarrow> customData
      | Some acID \<Rightarrow>
          if acID = [] then customData
          else (case map_get barbicanSecret ''ACSecret'' of
              None \<Rightarrow> customData
            | Some acSecretData \<Rightarrow>
                if acSecretData = [] then customData
                else map_put ''ACSecret'' acSecretData (map_put ''ACID'' acID customData)))"

definition parent_data ::
  "'w kube \<Rightarrow> strmap \<Rightarrow> ('w, 'c, 's, 't, strmap \<times> strmap) fallible" where
  "parent_data K customData = do {
     i \<leftarrow> the_instance;
     let owner = GetOwningBarbicanName (sub_Meta i);
     let namespace = Namespace (sub_Meta i);
     if owner \<noteq> [] then do {
       s \<leftarrow> invoke (EvGetSecret (owner @ ''-config-data'')) (GetSecret K (owner @ ''-config-data'') namespace);
       case s of
         Inl err \<Rightarrow> done_with err
       | Inr barbicanSecret \<Rightarrow> do {
           let customData = map_put DefaultsConfigFileName
             (get_or_empty barbicanSecret DefaultsConfigFileName) customData;
           let customData = map_put CustomConfigFileName
             (get_or_empty barbicanSecret CustomConfigFileName) customData;
           let customData = copy_credentials barbicanSecret customData;
           b \<leftarrow> invoke (EvGetBarbican owner) (GetBarbican K owner namespace);
           case b of
             Inl err \<Rightarrow> done_with (Wrapped (''failed to fetch parent Barbican '' @ namespace @ ''/'' @ owner) err)
           | Inr ownerSpec \<Rightarrow> (let parentOverwrite = sb_DefaultConfigOverwrite (Base ownerSpec)
               in fall_through (parentOverwrite, maps_Copy customData parentOverwrite))
         }
     }
     else fall_through ([], customData)
   }"

definition secret_lines :: "strmap \<Rightarrow> string" where
  "secret_lines data = concat (map (\<lambda>key. get_or_empty data key @ [CHR 0x0A]) (slices_Sort (map_keys data)))"

definition custom_secrets ::
  "'w kube \<Rightarrow> ('w, 'c, 's, 't, string) fallible" where
  "custom_secrets K = do {
     i \<leftarrow> the_instance;
     for_fold (\<lambda>secretName customSecrets. do {
         s \<leftarrow> invoke (EvGetSecret secretName) (GetSecret K secretName (Namespace (sub_Meta i)));
         case s of
           Inl err \<Rightarrow> done_with err
         | Inr data \<Rightarrow> fall_through (customSecrets @ secret_lines data)
       }) (CustomServiceConfigSecrets (ss_Component (sub_Spec i))) []
   }"

definition service_parameters :: "string \<Rightarrow> strmap \<Rightarrow> tval gomap" where
  "service_parameters name customData = (let
     params = [(''LogFile'', TStr (BarbicanLogPath @ name @ ''.log''))];
     params = map_put ''UseApplicationCredentials'' (TBool False) params
   in (case map_get customData ''ACID'' of
         None \<Rightarrow> params
       | Some acID \<Rightarrow>
           if acID = [] then params
           else (case map_get customData ''ACSecret'' of
               None \<Rightarrow> params
             | Some acSecret \<Rightarrow>
                 if acSecret = [] then params
                 else map_put ''ACSecret'' (TStr acSecret) (map_put ''ACID'' (TStr acID)
                        (map_put ''UseApplicationCredentials'' (TBool True) params)))))"

definition generateServiceConfigs ::
  "'c condlib \<Rightarrow> 'w kube \<Rightarrow> strmap \<Rightarrow> ('w, 'c, 's, 't, strmap \<times> strmap) fallible" where
  "generateServiceConfigs C K envVars = do {
     i \<leftarrow> the_instance;
     let labels = GetLabels K [];
     let component = ss_Component (sub_Spec i);
     proceed (parent_data K [(CustomServiceConfigFileName, ct_CustomServiceConfig component)])
       (\<lambda>(parentOverwrite, customData).
     proceed (custom_secrets K) (\<lambda>customSecrets. do {
       let customData = maps_Copy customData (ct_DefaultConfigOverwrite component);
       let customData = map_put CustomServiceConfigSecretsFileName customSecrets customData;
       mark_true C InputReadyCondition ''InputReadyMessage'';
       (envVars', err) \<leftarrow> GenerateConfigsGeneric K (sub_Meta i) envVars
         (service_parameters (Name (sub_Meta i)) customData) customData labels False [];
       case err of
         Some e \<Rightarrow> done_with e
       | None \<Rightarrow> fall_through (parentOverwrite, envVars')
     }))
   }"

text \<open>The call site in \<open>reconcileNormal\<close>.\<close>

definition service_config ::
  "'c condlib \<Rightarrow> 'w kube \<Rightarrow> strmap \<Rightarrow> ('w, 'c, 's, 't, strmap \<times> strmap) phase" where
  "service_config C K configVars = do {
     r \<leftarrow> generateServiceConfigs C K configVars;
     case r of
       Inl err \<Rightarrow> fail_with C
         (error_condition ServiceConfigReadyCondition ''ServiceConfigReadyErrorMessage'' [err_text err])
         (failed err)
     | Inr res \<Rightarrow> fall_through res
   }"

definition input_hash ::
  "'c condlib \<Rightarrow> 'w kube \<Rightarrow> strmap \<Rightarrow> ('w, 'c, 's, 't, string \<times> bool) phase" where
  "input_hash C K configVars = do {
     r \<leftarrow> createHashOfInputHashes K configVars;
     case r of
       Inl err \<Rightarrow> fail_with C
         (error_condition ServiceConfigReadyCondition ''ServiceConfigReadyErrorMessage'' [err_text err])
         (failed err)
     | Inr res \<Rightarrow> fall_through res
   }"

section \<open>Networks\<close>

definition network_annotations ::
  "'c condlib \<Rightarrow> 'w kube \<Rightarrow> ('w, 'c, 's, 't, strmap) phase" where
  "network_annotations C K = do {
     i \<leftarrow> the_instance;
     let attachments = ct_NetworkAttachments (ss_Component (sub_Spec i));
     proceed (for_fold (\<lambda>netAtt nadList. do {
         n \<leftarrow> invoke (EvGetNAD netAtt) (GetNADWithName K netAtt (Namespace (sub_Meta i)));
         case n of
           Inl err \<Rightarrow>
             if IsNotFound err
             then fail_with C (error_condition NetworkAttachmentsReadyCondition
                 ''NetworkAttachmentsReadyWaitingMessage'' [netAtt]) (requeue_after 10, None)
             else fail_with C (error_condition NetworkAttachmentsReadyCondition
                 ''NetworkAttachmentsReadyErrorMessage'' [err_text err]) (failed err)
         | Inr None \<Rightarrow> fall_through nadList
         | Inr (Some nad) \<Rightarrow> fall_through (nadList @ [nad])
       }) attachments []) (\<lambda>nadList.
     case EnsureNetworksAnnotation K nadList of
       Inl err \<Rightarrow> return_with (failed (Wrapped (''failed create network annotation from ''
           @ fmt_list attachments) err))
     | Inr serviceAnnotations \<Rightarrow> fall_through serviceAnnotations)
   }"

section \<open>Rollout\<close>

text \<open>The topology step of \<open>reconcileNormal\<close>: it sets the condition again and wraps the error twice.\<close>

definition topology_step ::
  "'c condlib \<Rightarrow> ('w, 'c, 's, 't, gerr + opaque option) sub \<Rightarrow> ('w, 'c, 's, 't, opaque option) phase" where
  "topology_step C ensure = do {
     t \<leftarrow> ensure;
     case t of
       Inl err \<Rightarrow> fail_with C (topology_error err)
         (failed (Wrapped ''waiting for Topology requirements'' err))
     | Inr topology \<Rightarrow> fall_through topology
   }"

definition apply_deployment ::
  "'c condlib \<Rightarrow> 'w kube \<Rightarrow> Deployment \<Rightarrow> ('w, 'c, 's, 't, unit) phase" where
  "apply_deployment C K deplDef = do {
     ((ctrlResult, err), deploy) \<leftarrow>
       invoke (EvDeploymentPatch deplDef) (Deployment_CreateOrPatch K deplDef 5);
     case err of
       Some e \<Rightarrow> fail_with C
         (error_condition DeploymentReadyCondition ''DeploymentReadyErrorMessage'' [err_text e])
         (ctrlResult, Some e)
     | None \<Rightarrow>
         if ctrlResult \<noteq> no_result
         then fail_with C (requested_condition DeploymentReadyCondition ''DeploymentReadyRunningMessage'')
           (ctrlResult, None)
         else do {
           (if dep_Generation deploy = dep_ObservedGeneration deploy
            then set_status (\<lambda>s. s\<lparr>ReadyCount := ReadyReplicas deploy\<rparr>)
            else State_Monad.return ());
           fall_through ()
         }
   }"

definition verify_networks ::
  "'c condlib \<Rightarrow> 'w kube \<Rightarrow> strmap \<Rightarrow> ('w, 'c, 's, 't, unit) phase" where
  "verify_networks C K serviceLabels = do {
     i \<leftarrow> the_instance;
     let attachments = ct_NetworkAttachments (ss_Component (sub_Spec i));
     v \<leftarrow> invoke EvVerifyNetwork (VerifyNetworkStatusFromAnnotation K attachments serviceLabels
       (ReadyCount (sub_Status i)));
     case v of
       Inl err \<Rightarrow> return_with (failed err)
     | Inr (networkReady, networkAttachmentStatus) \<Rightarrow> do {
         set_status (\<lambda>s. s\<lparr>ss_NetworkAttachments := Some networkAttachmentStatus\<rparr>);
         if networkReady then do {
           mark_true C NetworkAttachmentsReadyCondition ''NetworkAttachmentsReadyMessage'';
           fall_through ()
         }
         else fail_with C (error_condition NetworkAttachmentsReadyCondition
           ''BarbicanNetworkAttachmentsReadyErrorMessage'' [fmt_list attachments]) ok
       }
   }"

text \<open>
  The deployment is ready for the hash of the inputs, so the rollout is complete: remove the
  deployment of earlier releases, report it, and record the hash of the applied secret names.
\<close>

definition rollout_confirmed ::
  "'c condlib \<Rightarrow> 'w kube \<Rightarrow> string \<Rightarrow> ('w, 'c, 's, 't, unit) phase" where
  "rollout_confirmed C K oldSuffix = do {
     i \<leftarrow> the_instance;
     let name = Name (sub_Meta i);
     c \<leftarrow> cleanupOldDeployment K (sub_Meta i) (name @ oldSuffix);
     case c of
       Some err \<Rightarrow> return_with (failed err)
     | None \<Rightarrow> do {
         mark_true C DeploymentReadyCondition ''DeploymentReadyMessage'';
         case ObjectHash K [ss_TransportURLSecret (sub_Spec i), ss_NotificationsURLSecret (sub_Spec i)] of
           Inl err \<Rightarrow> return_with
             (failed (Wrapped (''failed to compute input secret hash for '' @ name) err))
         | Inr inputSecretHash \<Rightarrow> do {
             set_status (\<lambda>s. s\<lparr>AppliedInputSecretHash := inputSecretHash\<rparr>);
             fall_through ()
           }
       }
   }"

definition confirm_rollout ::
  "'c condlib \<Rightarrow> 'w kube \<Rightarrow> string \<Rightarrow> string \<Rightarrow> ('w, 'c, 's, 't, unit) phase" where
  "confirm_rollout C K inputHash oldSuffix = do {
     i \<leftarrow> the_instance;
     let name = Name (sub_Meta i);
     r \<leftarrow> invoke_obs (\<lambda>r. EvIsReadyForInput name inputHash (r = Inr True))
       (IsReadyForInput K name (Namespace (sub_Meta i)) inputHash);
     case r of
       Inl err \<Rightarrow> return_with (failed (Wrapped (''failed to check deployment readiness for '' @ name) err))
     | Inr ready \<Rightarrow>
         if ready then rollout_confirmed C K oldSuffix
         else do {
           set_cond C (requested_condition DeploymentReadyCondition ''DeploymentReadyRunningMessage'');
           fall_through ()
         }
   }"

text \<open>The end of \<open>reconcileNormal\<close>.\<close>

definition conclude :: "'c condlib \<Rightarrow> ('w, 'c, 's, 't, outcome option) sub" where
  "conclude C = do {
     i \<leftarrow> the_instance;
     (if cond_AllSubConditionIsTrue C (sub_conds C i)
      then mark_true C ReadyCondition ''ReadyMessage''
      else State_Monad.return ());
     State_Monad.return (Some ok)
   }"

section \<open>The empty steps\<close>

text \<open>
  \<open>reconcileUpdate\<close> and \<open>reconcileUpgrade\<close> (and the Worker's and the KeystoneListener's
  \<open>reconcileInit\<close>) only log; the caller tests their results all the same.
\<close>

definition reconcileUpdate :: "'w kube \<Rightarrow> ('w, 'c, 's, 't, outcome) sub" where
  "reconcileUpdate K = State_Monad.return ok"

definition reconcileUpgrade :: "'w kube \<Rightarrow> ('w, 'c, 's, 't, outcome) sub" where
  "reconcileUpgrade K = State_Monad.return ok"

definition step_result :: "('w, 'c, 's, 't, outcome) sub \<Rightarrow> ('w, 'c, 's, 't, unit) phase" where
  "step_result m = do {
     (ctrlResult, err) \<leftarrow> m;
     if err \<noteq> None then return_with (ctrlResult, err)
     else if ctrlResult \<noteq> no_result then return_with (ctrlResult, None)
     else fall_through ()
   }"

section \<open>Start and end of a resource\<close>

text \<open>
  The start of a service's \<open>Reconcile\<close> body: initialise the conditions, observe the generation,
  add the finalizer unless the resource is being deleted (the call is not made then). The first
  pass over a resource, or one that added the finalizer, ends there.
\<close>

definition begin_reconcile ::
  "'c condlib \<Rightarrow> 'w kube \<Rightarrow> condition list \<Rightarrow> bool \<Rightarrow> ('w, 'c, 's, 't, unit) phase" where
  "begin_reconcile C K cl isNewInstance = do {
     modify (upd_conds C (cond_Init C (cond_CreateList C cl)));
     i \<leftarrow> the_instance;
     set_status (\<lambda>s. s\<lparr>ss_ObservedGeneration := Generation (sub_Meta i)\<rparr>);
     let (finalizers, added) = AddFinalizer K (Finalizers (sub_Meta i)) (helper_Finalizer K);
     (if \<not> Deleted (sub_Meta i)
      then modify (\<lambda>i. i\<lparr>sub_Meta := (sub_Meta i)\<lparr>Finalizers := finalizers\<rparr>\<rparr>)
      else State_Monad.return ());
     if (\<not> Deleted (sub_Meta i) \<and> added) \<or> isNewInstance then return_with ok
     else do {
       set_status (\<lambda>s. s\<lparr>ss_Hash := Some (case ss_Hash s of None \<Rightarrow> [] | Some h \<Rightarrow> h),
         ss_NetworkAttachments := Some (case ss_NetworkAttachments s of None \<Rightarrow> [] | Some n \<Rightarrow> n)\<rparr>);
       fall_through ()
     }
   }"

definition remove_own_finalizer :: "'w kube \<Rightarrow> ('w, 'c, 's, 't, unit) sub" where
  "remove_own_finalizer K = modify (\<lambda>i. i\<lparr>sub_Meta := (sub_Meta i)
     \<lparr>Finalizers := fst (RemoveFinalizer K (Finalizers (sub_Meta i)) (helper_Finalizer K))\<rparr>\<rparr>)"

text \<open>The last part of every \<open>reconcileDelete\<close>.\<close>

definition release_topology :: "'w kube \<Rightarrow> ('w, 'c, 's, 't, outcome option) sub" where
  "release_topology K = do {
     i \<leftarrow> the_instance;
     (ctrlResult, err) \<leftarrow> invoke_obs (\<lambda>(ctrlResult, err). EvDeleteTopologyRef (err = None))
       (EnsureDeletedTopologyRef K (LastAppliedTopology (sub_Status i)) (Name (sub_Meta i)));
     if err \<noteq> None then State_Monad.return (Some (ctrlResult, err))
     else do {
       remove_own_finalizer K;
       State_Monad.return (Some ok)
     }
   }"

end
