(* ===== verification/Api.thy ===== *)
theory Api
  imports Services
begin

text \<open>
  The BarbicanAPI controller (\<open>barbicanapi_controller.go\<close>). Its \<open>reconcileInit\<close> creates the two
  services and the keystone endpoint; the service and keystone packages it calls are the fields of
  \<open>apilib\<close>. Unlike the other controllers it computes the input hash after that, and returns early
  when the hash changed.
\<close>

datatype ServiceType = ServiceTypeClusterIP | ServiceTypeLoadBalancer | ServiceTypeOther

datatype Protocol = ProtocolHTTPS

record ServiceDetails =
  gs_Name :: string
  gs_Namespace :: string
  gs_Labels :: strmap
  gs_Selector :: strmap
  gs_PortName :: string
  gs_Port :: int

record ('w, 'c) apilib = "'w kube" +
  AnnotationEndpointKey :: string
  AnnotationIngressCreateKey :: string
  AnnotationHostnameKey :: string
  EmptyLabelsAnnotations :: opaque
  EmptyOverrideSpec :: opaque
  MergeStringMaps :: "strmap \<Rightarrow> strmap \<Rightarrow> strmap"
  NewService :: "ServiceDetails \<Rightarrow> int \<Rightarrow> opaque \<Rightarrow> gerr + opaque"
  AddAnnotation :: "strmap \<Rightarrow> opaque \<Rightarrow> opaque"
  GetServiceType :: "opaque \<Rightarrow> ServiceType"
  GetServiceHostname :: "opaque \<Rightarrow> string"
  Service_CreateOrPatch :: "opaque \<Rightarrow> 'w \<Rightarrow> (outcome \<times> opaque) \<times> 'w"
  GetAPIEndpoint :: "opaque \<Rightarrow> string option \<Rightarrow> Protocol option \<Rightarrow> string \<Rightarrow> gerr + string"
  KeystoneEndpoint_CreateOrPatch ::
    "string \<Rightarrow> string \<Rightarrow> string \<Rightarrow> strmap \<Rightarrow> strmap \<Rightarrow> int \<Rightarrow> 'w \<Rightarrow> (outcome \<times> 'c) \<times> 'w"
  GetKeystoneEndpointWithName :: "string \<Rightarrow> string \<Rightarrow> 'w \<Rightarrow> (gerr + string list) \<times> 'w"
  KeystoneEndpoint_Update :: "string \<Rightarrow> string \<Rightarrow> string list \<Rightarrow> 'w \<Rightarrow> gerr option \<times> 'w"

abbreviation kb :: "('w, 'c) apilib \<Rightarrow> 'w kube" where
  "kb A \<equiv> kube.truncate A"

type_synonym ('w, 'c) api_state = "('w, 'c BarbicanAPI_cr, event) rstate"

definition API_service_labels :: "'w kube \<Rightarrow> strmap" where
  "API_service_labels K = [(AppSelector K, ServiceName), (ComponentSelector K, ComponentAPI)]"

definition API_ensureTopology ::
  "'c condlib \<Rightarrow> 'w kube \<Rightarrow> string \<Rightarrow> strmap \<Rightarrow> (('w, 'c) api_state, gerr + opaque option) state" where
  "API_ensureTopology C = ensureTopology API_GetSpecTopologyRef API_GetLastAppliedTopology
     API_SetLastAppliedTopology (upd_conds C) C"

section \<open>The copies of the shared functions\<close>

text \<open>
  The controller carries its own copy of these functions. Apart from the receiver's type, log lines
  and comments they are the functions of \<open>Services\<close> word for word, so they are names for these here.
\<close>

abbreviation API_verifySecret ::
  "'c condlib \<Rightarrow> 'w kube \<Rightarrow> string \<Rightarrow> string list \<Rightarrow> strmap \<Rightarrow>
   (('w, 'c) api_state, outcome \<times> strmap) state" where
  "API_verifySecret \<equiv> verifySecret"

abbreviation API_createHashOfInputHashes ::
  "'w kube \<Rightarrow> strmap \<Rightarrow> (('w, 'c) api_state, gerr + string \<times> bool) state" where
  "API_createHashOfInputHashes \<equiv> createHashOfInputHashes"

abbreviation API_generateServiceConfigs ::
  "'c condlib \<Rightarrow> 'w kube \<Rightarrow> strmap \<Rightarrow> (('w, 'c) api_state, gerr + strmap \<times> strmap) state" where
  "API_generateServiceConfigs \<equiv> generateServiceConfigs"

abbreviation API_reconcileUpdate :: "'w kube \<Rightarrow> (('w, 'c) api_state, outcome) state" where
  "API_reconcileUpdate \<equiv> reconcileUpdate"

abbreviation API_reconcileUpgrade :: "'w kube \<Rightarrow> (('w, 'c) api_state, outcome) state" where
  "API_reconcileUpgrade \<equiv> reconcileUpgrade"

section \<open>Inputs and configuration\<close>

text \<open>The secrets of the two endpoints, when configured.\<close>

definition cert_names :: "BarbicanAPISpec \<Rightarrow> string list" where
  "cert_names spec = List.map_filter tls_SecretName [as_Internal spec, as_Public spec]"

definition check_service_certs ::
  "'c condlib \<Rightarrow> 'w kube \<Rightarrow> strmap \<Rightarrow> (('w, 'c) api_state, outcome option + strmap) state" where
  "check_service_certs C K configVars = do {
     i \<leftarrow> the_instance;
     h \<leftarrow> invoke (EvValidateCerts (cert_names (sub_Spec i))) (ValidateCertSecrets K (as_Internal (sub_Spec i))
       (as_Public (sub_Spec i)) (Namespace (sub_Meta i)));
     case h of
       Inl err \<Rightarrow>
         if IsNotFound err
         then fail_with C (FalseCondition TLSInputReadyCondition RequestedReason SeverityInfo
             (Msg ''TLSInputReadyWaitingMessage'' [err_text err])) ok
         else fail_with C (error_condition TLSInputReadyCondition ''TLSInputErrorMessage'' [err_text err])
           (failed err)
     | Inr certsHash \<Rightarrow> fall_through (map_put (TLSHashName K) certsHash configVars)
   }"

definition API_inputs ::
  "'c condlib \<Rightarrow> 'w kube \<Rightarrow> (('w, 'c) api_state, outcome option + strmap) state" where
  "API_inputs C K =
     proceed (check_common_secrets C K []) (\<lambda>configVars.
     proceed (check_store_secrets C K configVars) (\<lambda>configVars.
     proceed (check_custom_secrets C K configVars) (\<lambda>configVars.
     proceed (check_ca_bundle C K configVars) (\<lambda>configVars.
     check_service_certs C K configVars))))"

section \<open>Services and endpoints\<close>

text \<open>The map of the two endpoints to their ports; the loop visits its keys in sorted order.\<close>

definition barbicanEndpoints :: "int gomap" where
  "barbicanEndpoints = [(endpoint_String EndpointPublic, 9311), (endpoint_String EndpointInternal, 9311)]"

definition the_endpoint :: "string \<Rightarrow> Endpoint" where
  "the_endpoint e = (if e = endpoint_String EndpointPublic then EndpointPublic else EndpointInternal)"

definition service_override :: "('w, 'c) apilib \<Rightarrow> BarbicanAPISpec \<Rightarrow> string \<Rightarrow> RoutedOverride" where
  "service_override A spec e = (let
     svcOverride = (case map_get (as_Override_Service spec) e of
         Some x \<Rightarrow> x
       | None \<Rightarrow> \<lparr>EmbeddedLabels = None, OverrideSpec = EmptyOverrideSpec A, EndpointURL = None\<rparr>)
   in (if EmbeddedLabels svcOverride = None
       then svcOverride\<lparr>EmbeddedLabels := Some (EmptyLabelsAnnotations A)\<rparr> else svcOverride))"

text \<open>The annotations: the endpoint, whether an ingress is to be created, and the DNS name.\<close>

definition annotate_service :: "('w, 'c) apilib \<Rightarrow> Endpoint \<Rightarrow> opaque \<Rightarrow> opaque" where
  "annotate_service A endpointType svc = (let
     svc = AddAnnotation A [(AnnotationEndpointKey A, endpoint_String endpointType)] svc
   in if endpointType = EndpointPublic \<and> GetServiceType A svc = ServiceTypeClusterIP
      then AddAnnotation A [(AnnotationIngressCreateKey A, ''true'')] svc
      else (let svc = AddAnnotation A [(AnnotationIngressCreateKey A, ''false'')] svc
        in if GetServiceType A svc = ServiceTypeLoadBalancer
           then AddAnnotation A [(AnnotationHostnameKey A, GetServiceHostname A svc)] svc
           else svc))"

definition expose_endpoint ::
  "'c condlib \<Rightarrow> ('w, 'c) apilib \<Rightarrow> strmap \<Rightarrow> string \<Rightarrow> strmap \<Rightarrow>
   (('w, 'c) api_state, outcome option + strmap) state" where
  "expose_endpoint C A serviceLabels endpointTypeStr apiEndpoints = do {
     i \<leftarrow> the_instance;
     let endpointType = the_endpoint endpointTypeStr;
     let endpointName = ServiceName @ ''-'' @ endpointTypeStr;
     let svcOverride = service_override A (sub_Spec i) endpointTypeStr;
     let exportLabels = MergeStringMaps A serviceLabels [(AnnotationEndpointKey A, endpointTypeStr)];
     let port = (case map_get barbicanEndpoints endpointTypeStr of Some p \<Rightarrow> p | None \<Rightarrow> 0);
     case NewService A \<lparr>gs_Name = endpointName, gs_Namespace = Namespace (sub_Meta i),
         gs_Labels = exportLabels, gs_Selector = serviceLabels, gs_PortName = endpointName,
         gs_Port = port\<rparr> 5 (OverrideSpec svcOverride) of
       Inl err \<Rightarrow> fail_with C
         (error_condition CreateServiceReadyCondition ''CreateServiceReadyErrorMessage'' [err_text err])
         (failed err)
     | Inr svc \<Rightarrow> do {
         let svc = annotate_service A endpointType svc;
         ((ctrlResult, err), svc) \<leftarrow> invoke (EvService endpointName) (Service_CreateOrPatch A svc);
         case err of
           Some e \<Rightarrow> fail_with C
             (error_condition CreateServiceReadyCondition ''CreateServiceReadyErrorMessage'' [err_text e])
             (ctrlResult, Some e)
         | None \<Rightarrow>
             if ctrlResult \<noteq> no_result
             then fail_with C
               (requested_condition CreateServiceReadyCondition ''CreateServiceReadyRunningMessage'')
               (ctrlResult, None)
             else (case GetAPIEndpoint A svc (EndpointURL svcOverride)
                 (if TLS_Enabled A (as_Internal (sub_Spec i)) (as_Public (sub_Spec i)) endpointType
                  then Some ProtocolHTTPS else None) [] of
                 Inl err \<Rightarrow> return_with (failed err)
               | Inr url \<Rightarrow> fall_through (map_put endpointTypeStr url apiEndpoints))
       }
   }"

text \<open>\<open>reconcileInit\<close> falls through when the Go function returns an empty result and no error.\<close>

definition API_reconcileInit ::
  "'c condlib \<Rightarrow> ('w, 'c) apilib \<Rightarrow> strmap \<Rightarrow> (('w, 'c) api_state, outcome option + unit) state" where
  "API_reconcileInit C A serviceLabels =
     proceed (for_fold (expose_endpoint C A serviceLabels)
       (slices_Sort (map_keys barbicanEndpoints)) []) (\<lambda>apiEndpoints. do {
       mark_true C CreateServiceReadyCondition ''CreateServiceReadyMessage'';
       set_status (\<lambda>s. s\<lparr>APIEndpoints := Some apiEndpoints\<rparr>);
       i \<leftarrow> the_instance;
       ((ctrlResult, err), ksConditions) \<leftarrow> invoke (EvKeystoneEndpoint (Name (sub_Meta i)))
         (KeystoneEndpoint_CreateOrPatch A (Name (sub_Meta i)) (Namespace (sub_Meta i)) ServiceName
           apiEndpoints serviceLabels 10);
       case err of
         Some e \<Rightarrow> return_with (ctrlResult, Some e)
       | None \<Rightarrow> do {
           (case cond_Mirror C KeystoneEndpointReadyCondition ksConditions of
              None \<Rightarrow> State_Monad.return ()
            | Some c \<Rightarrow> set_cond C c);
           if ctrlResult \<noteq> no_result then return_with (ctrlResult, None) else fall_through ()
         }
     })"

section \<open>The reconciler\<close>

text \<open>The configuration of the API; a changed input hash ends the pass.\<close>

definition API_configure ::
  "'c condlib \<Rightarrow> ('w, 'c) apilib \<Rightarrow>
   (('w, 'c) api_state, outcome option + strmap \<times> string \<times> strmap) state" where
  "API_configure C A = (let K = kb A; serviceLabels = API_service_labels K in
     proceed (API_inputs C K) (\<lambda>configVars. do {
       mark_true C TLSInputReadyCondition ''InputReadyMessage'';
       proceed (service_config C K configVars) (\<lambda>(parentOverwrite, configVars). do {
         mark_true C ServiceConfigReadyCondition ''ServiceConfigReadyMessage'';
         proceed (network_annotations C K) (\<lambda>serviceAnnotations.
         proceed (API_reconcileInit C A serviceLabels) (\<lambda>_.
         proceed (step_result (reconcileUpdate K)) (\<lambda>_.
         proceed (step_result (reconcileUpgrade K)) (\<lambda>_.
         proceed (input_hash C K configVars) (\<lambda>(inputHash, hashChanged).
           if hashChanged then return_with ok
           else fall_through (parentOverwrite, inputHash, serviceAnnotations))))))
       })
     }))"

definition API_rollout ::
  "'c condlib \<Rightarrow> 'w kube \<Rightarrow> strmap \<Rightarrow> string \<Rightarrow> strmap \<Rightarrow>
   (('w, 'c) api_state, outcome option + unit) state" where
  "API_rollout C K parentOverwrite inputHash serviceAnnotations = do {
     i \<leftarrow> the_instance;
     let serviceLabels = API_service_labels K;
     proceed (topology_step C (API_ensureTopology C K (Name (sub_Meta i)) serviceLabels))
       (\<lambda>topology. do {
       i \<leftarrow> the_instance;
       let overwriteKeys = collectOverwriteKeys parentOverwrite
         (ct_DefaultConfigOverwrite (ss_Component (sub_Spec i)));
       case API_Deployment K i inputHash serviceLabels serviceAnnotations topology overwriteKeys of
         None \<Rightarrow> done_with None
       | Some (Inl err) \<Rightarrow> fail_with C
           (error_condition DeploymentReadyCondition ''DeploymentReadyErrorMessage'' [err_text err])
           (failed err)
       | Some (Inr deplDef) \<Rightarrow>
           proceed (apply_deployment C K deplDef) (\<lambda>_.
           proceed (verify_networks C K serviceLabels) (\<lambda>_.
           confirm_rollout C K inputHash ''-api''))
     })
   }"

definition API_reconcileNormal ::
  "'c condlib \<Rightarrow> ('w, 'c) apilib \<Rightarrow> (('w, 'c) api_state, outcome option) state" where
  "API_reconcileNormal C A =
     finally_run (proceed (API_configure C A)
       (\<lambda>(parentOverwrite, inputHash, serviceAnnotations).
         API_rollout C (kb A) parentOverwrite inputHash serviceAnnotations))
     (\<lambda>_. conclude C)"

text \<open>
  On deletion the API first takes its finalizer off the keystone endpoint, then releases the
  topology, and only then removes its own finalizer.
\<close>

definition release_endpoint ::
  "('w, 'c) apilib \<Rightarrow> (('w, 'c) api_state, outcome option + unit) state" where
  "release_endpoint A = do {
     i \<leftarrow> the_instance;
     let name = Name (sub_Meta i);
     let namespace = Namespace (sub_Meta i);
     k \<leftarrow> invoke_obs (\<lambda>k. EvGetKeystoneEndpoint name (found k)) (GetKeystoneEndpointWithName A name namespace);
     case k of
       Inl err \<Rightarrow> if IsNotFound err then fall_through () else return_with (failed err)
     | Inr fins \<Rightarrow> (let (fins', removed) = RemoveFinalizer A fins (helper_Finalizer A) in
         if removed then do {
           u \<leftarrow> invoke (EvUpdateKeystoneEndpoint name fins') (KeystoneEndpoint_Update A name namespace fins');
           case u of
             None \<Rightarrow> fall_through ()
           | Some err \<Rightarrow> if IsNotFound err then fall_through () else return_with (failed err)
         }
         else fall_through ())
   }"

definition API_reconcileDelete ::
  "('w, 'c) apilib \<Rightarrow> (('w, 'c) api_state, outcome option) state" where
  "API_reconcileDelete A = finally_run (release_endpoint A) (\<lambda>_. release_topology (kb A))"

definition API_conditions :: "condition list" where
  "API_conditions =
     [init_condition ReadyCondition ''ReadyInitMessage'',
      init_condition CreateServiceReadyCondition ''CreateServiceReadyInitMessage'',
      init_condition InputReadyCondition ''InputReadyInitMessage'',
      init_condition ServiceConfigReadyCondition ''ServiceConfigReadyInitMessage'',
      init_condition DeploymentReadyCondition ''DeploymentReadyInitMessage'',
      init_condition KeystoneEndpointReadyCondition [],
      init_condition NetworkAttachmentsReadyCondition ''NetworkAttachmentsReadyInitMessage'',
      init_condition TLSInputReadyCondition ''InputReadyInitMessage'']"

text \<open>As in the other controllers, setting the Topology condition in the local list has no effect.\<close>

definition API_body ::
  "'c condlib \<Rightarrow> ('w, 'c) apilib \<Rightarrow> bool \<Rightarrow> (('w, 'c) api_state, outcome option) state" where
  "API_body C A isNewInstance =
     finally_run (begin_reconcile C (kb A) API_conditions isNewInstance) (\<lambda>_. do {
       set_status (\<lambda>s. s\<lparr>APIEndpoints := Some (case APIEndpoints s of None \<Rightarrow> [] | Some e \<Rightarrow> e)\<rparr>);
       i \<leftarrow> the_instance;
       if Deleted (sub_Meta i) then API_reconcileDelete A else API_reconcileNormal C A
     })"

definition API_Reconcile ::
  "'c condlib \<Rightarrow> ('w, 'c) apilib \<Rightarrow> ('w \<Rightarrow> (gerr + 'c BarbicanAPI_cr) \<times> 'w) \<Rightarrow>
   ('c BarbicanAPI_cr \<Rightarrow> gerr option) \<Rightarrow> ('c BarbicanAPI_cr \<Rightarrow> 'w \<Rightarrow> gerr option \<times> 'w) \<Rightarrow>
   'w \<Rightarrow> outcome option \<times> 'w \<times> event list" where
  "API_Reconcile C A get newHelper patch =
     reconcile_around C (\<lambda>i. ss_Conditions (sub_Status i)) (upd_conds C) get newHelper patch
       (API_body C A)"

end
