(* ===== verification/Worker.thy ===== *)
theory Worker
  imports Services
begin

text \<open>
  The BarbicanWorker controller (\<open>barbicanworker_controller.go\<close>): \<open>reconcileNormal\<close> is the
  composition of its input checks, the configuration and the rollout, \<open>reconcileDelete\<close> and
  \<open>Reconcile\<close> follow.
\<close>

type_synonym ('w, 'c) worker_state = "('w, 'c BarbicanWorker_cr, event) rstate"

definition Worker_service_labels :: "'w kube \<Rightarrow> strmap" where
  "Worker_service_labels K =
     [(AppSelector K, ServiceName), (ComponentSelector K, ComponentWorker)]"

definition Worker_ensureTopology ::
  "'c condlib \<Rightarrow> 'w kube \<Rightarrow> string \<Rightarrow> strmap \<Rightarrow>
   (('w, 'c) worker_state, gerr + opaque option) state" where
  "Worker_ensureTopology C = ensureTopology Worker_GetSpecTopologyRef Worker_GetLastAppliedTopology
     Worker_SetLastAppliedTopology (upd_conds C) C"

definition Worker_reconcileInit :: "'w kube \<Rightarrow> (('w, 'c) worker_state, outcome) state" where
  "Worker_reconcileInit K = State_Monad.return ok"

definition Worker_inputs ::
  "'c condlib \<Rightarrow> 'w kube \<Rightarrow> (('w, 'c) worker_state, outcome option + strmap) state" where
  "Worker_inputs C K =
     proceed (check_common_secrets C K []) (\<lambda>configVars.
     proceed (check_store_secrets C K configVars) (\<lambda>configVars.
     proceed (check_custom_secrets C K configVars) (\<lambda>configVars.
     check_ca_bundle C K configVars)))"

text \<open>A changed input hash is only logged here: the controller goes on with the new hash.\<close>

definition Worker_config ::
  "'c condlib \<Rightarrow> 'w kube \<Rightarrow> strmap \<Rightarrow>
   (('w, 'c) worker_state, outcome option + strmap \<times> string \<times> strmap) state" where
  "Worker_config C K configVars = do {
     mark_true C TLSInputReadyCondition ''InputReadyMessage'';
     proceed (service_config C K configVars) (\<lambda>(parentOverwrite, configVars).
     proceed (input_hash C K configVars) (\<lambda>(inputHash, hashChanged). do {
       mark_true C ServiceConfigReadyCondition ''ServiceConfigReadyMessage'';
       proceed (network_annotations C K) (\<lambda>serviceAnnotations.
       proceed (step_result (Worker_reconcileInit K)) (\<lambda>_.
       proceed (step_result (reconcileUpdate K)) (\<lambda>_.
       proceed (step_result (reconcileUpgrade K)) (\<lambda>_.
       fall_through (parentOverwrite, inputHash, serviceAnnotations)))))
     }))
   }"

definition Worker_configure ::
  "'c condlib \<Rightarrow> 'w kube \<Rightarrow>
   (('w, 'c) worker_state, outcome option + strmap \<times> string \<times> strmap) state" where
  "Worker_configure C K = proceed (Worker_inputs C K) (Worker_config C K)"

definition Worker_rollout ::
  "'c condlib \<Rightarrow> 'w kube \<Rightarrow> strmap \<Rightarrow> string \<Rightarrow> strmap \<Rightarrow>
   (('w, 'c) worker_state, outcome option + unit) state" where
  "Worker_rollout C K parentOverwrite inputHash serviceAnnotations = do {
     i \<leftarrow> the_instance;
     let serviceLabels = Worker_service_labels K;
     proceed (topology_step C (Worker_ensureTopology C K (Name (sub_Meta i)) serviceLabels))
       (\<lambda>topology. do {
       i \<leftarrow> the_instance;
       let overwriteKeys = collectOverwriteKeys parentOverwrite
         (ct_DefaultConfigOverwrite (ss_Component (sub_Spec i)));
       case Worker_Deployment K i inputHash serviceLabels serviceAnnotations topology overwriteKeys of
         None \<Rightarrow> done_with None
       | Some deplDef \<Rightarrow>
           proceed (apply_deployment C K deplDef) (\<lambda>_.
           proceed (verify_networks C K serviceLabels) (\<lambda>_.
           confirm_rollout C K inputHash ''-worker''))
     })
   }"

definition Worker_reconcileNormal ::
  "'c condlib \<Rightarrow> 'w kube \<Rightarrow> (('w, 'c) worker_state, outcome option) state" where
  "Worker_reconcileNormal C K =
     finally_run (proceed (Worker_configure C K)
       (\<lambda>(parentOverwrite, inputHash, serviceAnnotations).
         Worker_rollout C K parentOverwrite inputHash serviceAnnotations))
     (\<lambda>_. conclude C)"

definition Worker_reconcileDelete ::
  "'w kube \<Rightarrow> (('w, 'c) worker_state, outcome option) state" where
  "Worker_reconcileDelete K = release_topology K"

definition Worker_conditions :: "condition list" where
  "Worker_conditions =
     [init_condition ReadyCondition ''ReadyInitMessage'',
      init_condition InputReadyCondition ''InputReadyInitMessage'',
      init_condition ServiceConfigReadyCondition ''ServiceConfigReadyInitMessage'',
      init_condition DeploymentReadyCondition ''DeploymentReadyInitMessage'',
      init_condition NetworkAttachmentsReadyCondition ''NetworkAttachmentsReadyInitMessage'',
      init_condition TLSInputReadyCondition ''InputReadyInitMessage'']"

text \<open>
  The Topology condition is set in the local list \<open>cl\<close> only, which is not read again, so that
  statement has no effect on the instance and does not appear.
\<close>

definition Worker_body ::
  "'c condlib \<Rightarrow> 'w kube \<Rightarrow> bool \<Rightarrow> (('w, 'c) worker_state, outcome option) state" where
  "Worker_body C K isNewInstance =
     finally_run (begin_reconcile C K Worker_conditions isNewInstance) (\<lambda>_. do {
       i \<leftarrow> the_instance;
       if Deleted (sub_Meta i) then Worker_reconcileDelete K else Worker_reconcileNormal C K
     })"

definition Worker_Reconcile ::
  "'c condlib \<Rightarrow> 'w kube \<Rightarrow> ('w \<Rightarrow> (gerr + 'c BarbicanWorker_cr) \<times> 'w) \<Rightarrow>
   ('c BarbicanWorker_cr \<Rightarrow> gerr option) \<Rightarrow> ('c BarbicanWorker_cr \<Rightarrow> 'w \<Rightarrow> gerr option \<times> 'w) \<Rightarrow>
   'w \<Rightarrow> outcome option \<times> 'w \<times> event list" where
  "Worker_Reconcile C K get newHelper patch =
     reconcile_around C (\<lambda>i. ss_Conditions (sub_Status i)) (upd_conds C) get newHelper patch
       (Worker_body C K)"

end
