(* ===== verification/Listener.thy ===== *)
theory Listener
  imports Services
begin

text \<open>
  The BarbicanKeystoneListener controller (\<open>barbicankeystonelistener_controller.go\<close>): \<open>reconcileNormal\<close> is the
  composition of its input checks, the configuration and the rollout, \<open>reconcileDelete\<close> and
  \<open>Reconcile\<close> follow.
\<close>

type_synonym ('w, 'c) listener_state = "('w, 'c BarbicanKeystoneListener_cr, event) rstate"

definition Listener_service_labels :: "'w kube \<Rightarrow> strmap" where
  "Listener_service_labels K =
     [(AppSelector K, ServiceName), (ComponentSelector K, ComponentKeystoneListener)]"

definition Listener_ensureTopology ::
  "'c condlib \<Rightarrow> 'w kube \<Rightarrow> string \<Rightarrow> strmap \<Rightarrow>
   (('w, 'c) listener_state, gerr + opaque option) state" where
  "Listener_ensureTopology C = ensureTopology Listener_GetSpecTopologyRef Listener_GetLastAppliedTopology
     Listener_SetLastAppliedTopology (upd_conds C) C"

definition Listener_reconcileInit :: "'w kube \<Rightarrow> (('w, 'c) listener_state, outcome) state" where
  "Listener_reconcileInit K = State_Monad.return ok"

section \<open>The copies of the shared functions\<close>

text \<open>
  The controller carries its own copy of these functions. Apart from the receiver's type, log lines
  and comments they are the functions of \<open>Services\<close> word for word, so they are names for these here.
\<close>

abbreviation Listener_verifySecret ::
  "'c condlib \<Rightarrow> 'w kube \<Rightarrow> string \<Rightarrow> string list \<Rightarrow> strmap \<Rightarrow>
   (('w, 'c) listener_state, outcome \<times> strmap) state" where
  "Listener_verifySecret \<equiv> verifySecret"

abbreviation Listener_createHashOfInputHashes ::
  "'w kube \<Rightarrow> strmap \<Rightarrow> (('w, 'c) listener_state, gerr + string \<times> bool) state" where
  "Listener_createHashOfInputHashes \<equiv> createHashOfInputHashes"

abbreviation Listener_generateServiceConfigs ::
  "'c condlib \<Rightarrow> 'w kube \<Rightarrow> strmap \<Rightarrow> (('w, 'c) listener_state, gerr + strmap \<times> strmap) state" where
  "Listener_generateServiceConfigs \<equiv> generateServiceConfigs"

abbreviation Listener_reconcileUpdate :: "'w kube \<Rightarrow> (('w, 'c) listener_state, outcome) state" where
  "Listener_reconcileUpdate \<equiv> reconcileUpdate"

abbreviation Listener_reconcileUpgrade :: "'w kube \<Rightarrow> (('w, 'c) listener_state, outcome) state" where
  "Listener_reconcileUpgrade \<equiv> reconcileUpgrade"

section \<open>The reconciler\<close>

text \<open>The KeystoneListener does not check the secrets of the secret stores.\<close>

definition Listener_inputs ::
  "'c condlib \<Rightarrow> 'w kube \<Rightarrow> (('w, 'c) listener_state, outcome option + strmap) state" where
  "Listener_inputs C K =
     proceed (check_common_secrets C K []) (\<lambda>configVars.
     proceed (check_custom_secrets C K configVars) (\<lambda>configVars.
     check_ca_bundle C K configVars))"

text \<open>A changed input hash is only logged here: the controller goes on with the new hash.\<close>

definition Listener_config ::
  "'c condlib \<Rightarrow> 'w kube \<Rightarrow> strmap \<Rightarrow>
   (('w, 'c) listener_state, outcome option + strmap \<times> string \<times> strmap) state" where
  "Listener_config C K configVars = do {
     mark_true C TLSInputReadyCondition ''InputReadyMessage'';
     proceed (service_config C K configVars) (\<lambda>(parentOverwrite, configVars).
     proceed (input_hash C K configVars) (\<lambda>(inputHash, hashChanged). do {
       mark_true C ServiceConfigReadyCondition ''ServiceConfigReadyMessage'';
       proceed (network_annotations C K) (\<lambda>serviceAnnotations.
       proceed (step_result (Listener_reconcileInit K)) (\<lambda>_.
       proceed (step_result (reconcileUpdate K)) (\<lambda>_.
       proceed (step_result (reconcileUpgrade K)) (\<lambda>_.
       fall_through (parentOverwrite, inputHash, serviceAnnotations)))))
     }))
   }"

definition Listener_configure ::
  "'c condlib \<Rightarrow> 'w kube \<Rightarrow>
   (('w, 'c) listener_state, outcome option + strmap \<times> string \<times> strmap) state" where
  "Listener_configure C K = proceed (Listener_inputs C K) (Listener_config C K)"

definition Listener_rollout ::
  "'c condlib \<Rightarrow> 'w kube \<Rightarrow> strmap \<Rightarrow> string \<Rightarrow> strmap \<Rightarrow>
   (('w, 'c) listener_state, outcome option + unit) state" where
  "Listener_rollout C K parentOverwrite inputHash serviceAnnotations = do {
     i \<leftarrow> the_instance;
     let serviceLabels = Listener_service_labels K;
     proceed (topology_step C (Listener_ensureTopology C K (Name (sub_Meta i)) serviceLabels))
       (\<lambda>topology. do {
       i \<leftarrow> the_instance;
       let overwriteKeys = collectOverwriteKeys parentOverwrite
         (ct_DefaultConfigOverwrite (ss_Component (sub_Spec i)));
       case Listener_Deployment K i inputHash serviceLabels serviceAnnotations topology overwriteKeys of
         None \<Rightarrow> done_with None
       | Some deplDef \<Rightarrow>
           proceed (apply_deployment C K deplDef) (\<lambda>_.
           proceed (verify_networks C K serviceLabels) (\<lambda>_.
           confirm_rollout C K inputHash ''-keystone-listener''))
     })
   }"

definition Listener_reconcileNormal ::
  "'c condlib \<Rightarrow> 'w kube \<Rightarrow> (('w, 'c) listener_state, outcome option) state" where
  "Listener_reconcileNormal C K =
     finally_run (proceed (Listener_configure C K)
       (\<lambda>(parentOverwrite, inputHash, serviceAnnotations).
         Listener_rollout C K parentOverwrite inputHash serviceAnnotations))
     (\<lambda>_. conclude C)"

definition Listener_reconcileDelete ::
  "'w kube \<Rightarrow> (('w, 'c) listener_state, outcome option) state" where
  "Listener_reconcileDelete K = release_topology K"

definition Listener_conditions :: "condition list" where
  "Listener_conditions =
     [init_condition ReadyCondition ''ReadyInitMessage'',
      init_condition InputReadyCondition ''InputReadyInitMessage'',
      init_condition ServiceConfigReadyCondition ''ServiceConfigReadyInitMessage'',
      init_condition DeploymentReadyCondition ''DeploymentReadyInitMessage'',
      init_condition NetworkAttachmentsReadyCondition ''NetworkAttachmentsReadyInitMessage'',
      init_condition TLSInputReadyCondition ''InputReadyInitMessage'']"

text \<open>
  The Topology condition is set in the local list \<open>cl\<close> only, which is not read again, so that
  statement has no effect on the instance and does not appear. Unlike the other controllers this
  one empties the condition list on every pass before it is initialised.
\<close>

definition Listener_body ::
  "'c condlib \<Rightarrow> 'w kube \<Rightarrow> bool \<Rightarrow> (('w, 'c) listener_state, outcome option) state" where
  "Listener_body C K isNewInstance = do {
     modify (upd_conds C (\<lambda>_. cond_empty C));
     finally_run (begin_reconcile C K Listener_conditions isNewInstance) (\<lambda>_. do {
       i \<leftarrow> the_instance;
       if Deleted (sub_Meta i) then Listener_reconcileDelete K else Listener_reconcileNormal C K
     })
   }"

definition Listener_Reconcile ::
  "'c condlib \<Rightarrow> 'w kube \<Rightarrow> ('w \<Rightarrow> (gerr + 'c BarbicanKeystoneListener_cr) \<times> 'w) \<Rightarrow>
   ('c BarbicanKeystoneListener_cr \<Rightarrow> gerr option) \<Rightarrow> ('c BarbicanKeystoneListener_cr \<Rightarrow> 'w \<Rightarrow> gerr option \<times> 'w) \<Rightarrow>
   'w \<Rightarrow> outcome option \<times> 'w \<times> event list" where
  "Listener_Reconcile C K get newHelper patch =
     reconcile_around C (\<lambda>i. ss_Conditions (sub_Status i)) (upd_conds C) get newHelper patch
       (Listener_body C K)"

end
