(* ===== verification/Service_Frames.thy ===== *)
theory Service_Frames
  imports Api Worker Listener
begin

text \<open>
  What a pass of a service controller can do, proved once for all relations between the start and
  the end of a pass. The locale \<open>service_frame\<close> lists the few primitive steps the phases are made of;
  a relation that admits them is respected by every phase. Its interpretations give the frame
  facts the properties rest on: which calls are made, what is not written, and what has to happen
  before a condition becomes true.
\<close>

section \<open>The calls of a service\<close>

fun service_call :: "event \<Rightarrow> bool" where
  "service_call (EvVerifySecret _ _ _) = True"
| "service_call (EvValidateCACert _) = True"
| "service_call (EvValidateCerts _) = True"
| "service_call (EvGetSecret _) = True"
| "service_call (EvEnsureSecrets _) = True"
| "service_call (EvGetBarbican _) = True"
| "service_call (EvGetNAD _) = True"
| "service_call (EvEnsureTopology _) = True"
| "service_call (EvDeploymentPatch _) = True"
| "service_call EvVerifyNetwork = True"
| "service_call (EvIsReadyForInput _ _ _) = True"
| "service_call (EvGetDeployment _) = True"
| "service_call (EvDeleteDeployment _) = True"
| "service_call (EvService _) = True"
| "service_call (EvKeystoneEndpoint _) = True"
| "service_call _ = False"

text \<open>Status updates that touch neither the conditions nor the hash of the applied secrets.\<close>

definition plain_update ::
  "(('c, 't) SubStatus_scheme \<Rightarrow> ('c, 't) SubStatus_scheme) \<Rightarrow> bool" where
  "plain_update f \<longleftrightarrow> (\<forall>x. ss_Conditions (f x) = ss_Conditions x \<and>
     AppliedInputSecretHash (f x) = AppliedInputSecretHash x)"

text \<open>
  \<open>T\<close> are the types of the conditions that may become true: the others may only be set to
  something else.
\<close>

locale service_frame = frame R
  for R :: "('w, ('s SubSpec_scheme, ('c, 't) SubStatus_scheme) subcr, event) rstate \<Rightarrow>
    ('w, ('s SubSpec_scheme, ('c, 't) SubStatus_scheme) subcr, event) rstate \<Rightarrow> bool" +
  fixes C :: "'c condlib" and T :: "ctype \<Rightarrow> bool"
  assumes step_call: "service_call ev \<Longrightarrow> R s (s\<lparr>world := w, trace := trace s @ [ev]\<rparr>)"
    and step_set: "\<not> is_true (Some d) \<or> T (cond_type d) \<Longrightarrow>
      R s (s\<lparr>inst := upd_conds C (cond_Set C (Some d)) (inst s)\<rparr>)"
    and step_mark: "T t \<Longrightarrow> R s (s\<lparr>inst := upd_conds C (cond_MarkTrue C t m) (inst s)\<rparr>)"
    and step_status: "plain_update f \<Longrightarrow> R s (s\<lparr>inst := upd_status f (inst s)\<rparr>)"
    and common_types: "t \<noteq> ReadyCondition \<Longrightarrow> t \<noteq> DeploymentReadyCondition \<Longrightarrow> T t"
begin

lemma call_frame: "service_call ev \<Longrightarrow> state_io_rel R (invoke ev f)"
  by (simp add: state_io_rel_def step_call)

lemma call_obs_frame: "(\<And>a. service_call (ev a)) \<Longrightarrow> state_io_rel R (invoke_obs ev f)"
  by (simp add: state_io_rel_def step_call)

lemma instance_frame: "state_io_rel R the_instance"
  by (simp add: state_io_rel_def frame_refl)

lemma set_cond_frame: "\<not> is_true (Some d) \<or> T (cond_type d) \<Longrightarrow> state_io_rel R (set_cond C d)"
  by (simp add: state_io_rel_def step_set)

lemma mark_true_frame: "T t \<Longrightarrow> state_io_rel R (mark_true C t m)"
  by (simp add: state_io_rel_def step_mark)

lemma set_status_frame: "plain_update f \<Longrightarrow> state_io_rel R (set_status f)"
  by (simp add: state_io_rel_def step_status)

lemma return_with_frame: "state_io_rel R (return_with r)"
  by (simp add: return_with_def done_frame)

lemma not_true_builders:
  "\<not> is_true (Some (error_condition t m args))" "\<not> is_true (Some (requested_condition t m))"
  "\<not> is_true (Some (init_condition t m))" "\<not> is_true (Some (waiting_condition fs))"
  "\<not> is_true (Some (topology_error e))"
  by (simp_all add: error_condition_def requested_condition_def init_condition_def
      waiting_condition_def topology_error_def)

lemma fail_frame: "\<not> is_true (Some d) \<Longrightarrow> state_io_rel R (fail_with C d r)"
  by (simp add: fail_with_def bind_frame set_cond_frame return_with_frame)

lemmas step_rules = frame_rules call_frame call_obs_frame instance_frame set_cond_frame mark_true_frame
  set_status_frame return_with_frame fail_frame

lemma plain_updates:
  "plain_update (\<lambda>s. s\<lparr>ss_Hash := h\<rparr>)" "plain_update (\<lambda>s. s\<lparr>ReadyCount := n\<rparr>)"
  "plain_update (\<lambda>s. s\<lparr>ss_NetworkAttachments := a\<rparr>)"
  "plain_update (\<lambda>s. s\<lparr>LastAppliedTopology := t\<rparr>)"
  by (simp_all add: plain_update_def)

lemma verifySecret_frame: "state_io_rel R (verifySecret C K n fs vars)"
  unfolding verifySecret_def
  by (intro step_rules) (simp_all add: not_true_builders)

lemma check_secret_frame: "state_io_rel R (check_secret C K n fs vars)"
  unfolding check_secret_def by (intro step_rules verifySecret_frame)

lemma check_common_frame: "state_io_rel R (check_common_secrets C K vars)"
  unfolding check_common_secrets_def Let_def by (intro step_rules check_secret_frame)

lemma check_store_frame: "state_io_rel R (check_store_secrets C K vars)"
  unfolding check_store_secrets_def Let_def by (intro step_rules check_secret_frame)

lemma check_custom_frame: "state_io_rel R (check_custom_secrets C K vars)"
  unfolding check_custom_secrets_def Let_def by (intro step_rules check_secret_frame)

lemma check_ca_frame: "state_io_rel R (check_ca_bundle C K vars)"
  unfolding check_ca_bundle_def Let_def by (intro step_rules) (simp_all add: not_true_builders)

lemma hash_frame: "state_io_rel R (createHashOfInputHashes K vars)"
  unfolding createHashOfInputHashes_def Let_def by (intro step_rules plain_updates)

lemma input_hash_frame: "state_io_rel R (input_hash C K vars)"
  unfolding input_hash_def by (intro step_rules hash_frame) (simp_all add: not_true_builders)

lemma parent_data_frame: "state_io_rel R (parent_data K d)"
  unfolding parent_data_def Let_def by (intro step_rules) simp_all

lemma custom_secrets_frame: "state_io_rel R (custom_secrets K)"
  unfolding custom_secrets_def by (intro step_rules) simp_all

lemma generate_generic_frame: "state_io_rel R (GenerateConfigsGeneric K m v p d l b ts)"
  unfolding GenerateConfigsGeneric_def Let_def by (intro step_rules) simp_all

lemma generate_configs_frame: "state_io_rel R (generateServiceConfigs C K vars)"
  unfolding generateServiceConfigs_def Let_def
  by (intro step_rules parent_data_frame custom_secrets_frame generate_generic_frame)
    (simp_all add: common_types)

lemma service_config_frame: "state_io_rel R (service_config C K vars)"
  unfolding service_config_def by (intro step_rules generate_configs_frame) (simp_all add: not_true_builders)

lemma annotations_frame: "state_io_rel R (network_annotations C K)"
  unfolding network_annotations_def Let_def by (intro step_rules) (simp_all add: not_true_builders)

lemma topology_frame:
  assumes "\<And>t. SetLast t = upd_status (\<lambda>s. s\<lparr>LastAppliedTopology := t\<rparr>)"
  shows "state_io_rel R (topology_step C (ensureTopology GetSpec GetLast SetLast (upd_conds C) C K fin sel))"
proof -
  have set_last: "state_io_rel R (modify (\<lambda>i. SetLast (GetSpec i) i))"
    by (simp add: state_io_rel_def assms step_status plain_updates)
  have upd: "state_io_rel R (modify (upd_conds C (cond_Set C (Some (topology_error e)))))" for e
    using set_cond_frame [of "topology_error e"] by (simp add: set_cond_def not_true_builders)
  have mark: "state_io_rel R (modify (upd_conds C (cond_MarkTrue C TopologyReadyCondition m)))" for m
    by (simp add: state_io_rel_def step_mark common_types)
  show ?thesis
    unfolding topology_step_def ensureTopology_def
    by (intro step_rules set_last upd mark) (simp_all add: not_true_builders)
qed

lemma apply_frame: "state_io_rel R (apply_deployment C K d)"
  unfolding apply_deployment_def split_def by (intro step_rules plain_updates) (simp_all add: not_true_builders)

lemma verify_networks_frame: "state_io_rel R (verify_networks C K l)"
  unfolding verify_networks_def Let_def
  by (intro step_rules plain_updates) (simp_all add: not_true_builders common_types)

lemma cleanup_frame: "state_io_rel R (cleanupOldDeployment K m n)"
  unfolding cleanupOldDeployment_def by (intro step_rules) simp_all

lemma step_result_frame: "state_io_rel R m \<Longrightarrow> state_io_rel R (step_result m)"
  unfolding step_result_def by (intro step_rules)

lemma empty_steps_frame:
  "state_io_rel R (step_result (reconcileUpdate K))" "state_io_rel R (step_result (reconcileUpgrade K))"
  by (simp_all add: step_result_frame reconcileUpdate_def reconcileUpgrade_def return_frame)

lemma conclude_frame: "T ReadyCondition \<Longrightarrow> state_io_rel R (conclude C)"
  unfolding conclude_def by (intro step_rules)

text \<open>The confirmation of the rollout, for relations that admit its two writes unconditionally.\<close>

lemma confirm_frame:
  assumes "T DeploymentReadyCondition"
    and applied: "\<And>s v. R s (s\<lparr>inst := upd_status (\<lambda>x. x\<lparr>AppliedInputSecretHash := v\<rparr>) (inst s)\<rparr>)"
  shows "state_io_rel R (confirm_rollout C K h x)"
proof -
  have app: "state_io_rel R (set_status (\<lambda>x. x\<lparr>AppliedInputSecretHash := v\<rparr>))" for v
    by (simp add: state_io_rel_def applied)
  show ?thesis
    unfolding confirm_rollout_def rollout_confirmed_def Let_def
    by (intro step_rules cleanup_frame app assms(1)) (simp_all add: not_true_builders)
qed

lemmas phase_rules = step_rules check_common_frame check_store_frame check_custom_frame check_ca_frame
  service_config_frame input_hash_frame annotations_frame topology_frame apply_frame
  verify_networks_frame empty_steps_frame step_result_frame

end

section \<open>Passes of the three controllers\<close>

text \<open>The Worker's and the KeystoneListener's resources have no fields of their own.\<close>

locale plain_frame = service_frame R C T
  for R :: "('w, 'c) worker_state \<Rightarrow> ('w, 'c) worker_state \<Rightarrow> bool" and C T
begin

lemma worker_configure_frame: "state_io_rel R (Worker_configure C K)"
  unfolding Worker_configure_def Worker_config_def Worker_inputs_def Worker_reconcileInit_def
  by (intro phase_rules) (simp_all add: common_types)

lemma listener_configure_frame: "state_io_rel R (Listener_configure C K)"
  unfolding Listener_configure_def Listener_config_def Listener_inputs_def Listener_reconcileInit_def
  by (intro phase_rules) (simp_all add: common_types)

text \<open>A rollout respects the relation when its confirmation does.\<close>

lemma worker_rollout_frame:
  assumes "\<And>h x. state_io_rel R (confirm_rollout C K h x)"
  shows "state_io_rel R (Worker_rollout C K p h a)"
  unfolding Worker_rollout_def Let_def Worker_ensureTopology_def
  by (intro phase_rules assms) (simp_all add: Worker_SetLastAppliedTopology_def)

lemma listener_rollout_frame:
  assumes "\<And>h x. state_io_rel R (confirm_rollout C K h x)"
  shows "state_io_rel R (Listener_rollout C K p h a)"
  unfolding Listener_rollout_def Let_def Listener_ensureTopology_def
  by (intro phase_rules assms) (simp_all add: Listener_SetLastAppliedTopology_def)

lemma worker_normal_frame:
  assumes "\<And>h x. state_io_rel R (confirm_rollout C K h x)" and "T ReadyCondition"
  shows "state_io_rel R (Worker_reconcileNormal C K)"
  unfolding Worker_reconcileNormal_def
  by (intro phase_rules worker_configure_frame worker_rollout_frame conclude_frame assms)

lemma listener_normal_frame:
  assumes "\<And>h x. state_io_rel R (confirm_rollout C K h x)" and "T ReadyCondition"
  shows "state_io_rel R (Listener_reconcileNormal C K)"
  unfolding Listener_reconcileNormal_def
  by (intro phase_rules listener_configure_frame listener_rollout_frame conclude_frame assms)

end

text \<open>The API also sets the mirrored endpoint condition and its list of endpoints.\<close>

locale api_frame = service_frame R C T
  for R :: "('w, 'c) api_state \<Rightarrow> ('w, 'c) api_state \<Rightarrow> bool" and C T +
  assumes mirror_ok: "cond_Mirror C KeystoneEndpointReadyCondition c = Some d \<Longrightarrow> T (cond_type d)"
begin

lemma certs_frame: "state_io_rel R (check_service_certs C K vars)"
  unfolding check_service_certs_def by (intro phase_rules) (simp_all add: not_true_builders)

lemma expose_frame: "state_io_rel R (expose_endpoint C A l e eps)"
  unfolding expose_endpoint_def Let_def split_def
  by (intro phase_rules) (simp_all add: not_true_builders)

lemma api_init_frame: "state_io_rel R (API_reconcileInit C A l)"
proof -
  have eps: "plain_update (\<lambda>s. s\<lparr>APIEndpoints := e\<rparr>)" for e
    by (simp add: plain_update_def)
  show ?thesis
    unfolding API_reconcileInit_def split_def
    by (intro phase_rules expose_frame eps) (auto simp: common_types dest: mirror_ok)
qed

lemma api_configure_frame: "state_io_rel R (API_configure C A)"
  unfolding API_configure_def Let_def API_inputs_def
  by (intro phase_rules certs_frame api_init_frame) (simp_all add: common_types)

lemma api_rollout_frame:
  assumes "\<And>h x. state_io_rel R (confirm_rollout C K h x)"
  shows "state_io_rel R (API_rollout C K p h a)"
  unfolding API_rollout_def Let_def API_ensureTopology_def
  by (intro phase_rules assms) (simp_all add: API_SetLastAppliedTopology_def not_true_builders)

lemma api_normal_frame:
  assumes "\<And>h x. state_io_rel R (confirm_rollout C (kb A) h x)" and "T ReadyCondition"
  shows "state_io_rel R (API_reconcileNormal C A)"
  unfolding API_reconcileNormal_def
  by (intro phase_rules api_configure_frame api_rollout_frame conclude_frame assms)

end

section \<open>Interpretations\<close>

text \<open>The metadata and the spec are never written.\<close>

definition identity :: "('s, 't) subcr \<Rightarrow> ObjectMeta \<times> 's" where
  "identity i = (sub_Meta i, sub_Spec i)"

lemma identity_frame: "service_frame (keeps identity) C (\<lambda>_. True)"
  by unfold_locales (simp_all add: keeps_def identity_def)

interpretation same: plain_frame "keeps identity" C "\<lambda>_. True" for C
  by (intro plain_frame.intro identity_frame)

interpretation api_same: api_frame "keeps identity" C "\<lambda>_. True" for C
  by (intro api_frame.intro identity_frame api_frame_axioms.intro) simp

text \<open>All calls are service calls.\<close>

lemma calls_frame: "service_frame (emits service_call) C (\<lambda>_. True)"
proof unfold_locales
  show "emits service_call s (s\<lparr>world := w, trace := trace s @ [ev]\<rparr>)" if "service_call ev" for s w ev
    using that by (intro emitsI [where evs = "[ev]"]) simp_all
qed (auto intro!: emitsI [where evs = "[]"])

interpretation calls: plain_frame "emits service_call" C "\<lambda>_. True" for C
  by (intro plain_frame.intro calls_frame)

interpretation api_calls: api_frame "emits service_call" C "\<lambda>_. True" for C
  by (intro api_frame.intro calls_frame api_frame_axioms.intro) simp

text \<open>
  The hash of the applied secrets changes, and the deployment becomes ready, only after the cluster
  confirmed that the deployment is ready for the current inputs.
\<close>

fun confirmation :: "event \<Rightarrow> bool" where
  "confirmation (EvIsReadyForInput _ _ ready) = ready"
| "confirmation _ = False"

definition applied_other :: "string \<Rightarrow> ('s, ('c, 't) SubStatus_scheme) subcr \<Rightarrow> bool" where
  "applied_other h i \<longleftrightarrow> AppliedInputSecretHash (sub_Status i) \<noteq> h"

definition cond_true :: "'c condlib \<Rightarrow> ctype \<Rightarrow> ('s, ('c, 't) SubStatus_scheme) subcr \<Rightarrow> bool" where
  "cond_true C t i \<longleftrightarrow> is_true (cond_Get C t (sub_conds C i))"

lemma caused_same: "P (inst t) = P (inst s) \<Longrightarrow> trace t = trace s @ evs \<Longrightarrow> caused P E s t"
  by (auto intro: causedI)

lemma applied_frame: "service_frame (caused (applied_other h) confirmation) C (\<lambda>_. True)"
  by unfold_locales
    (auto simp: applied_other_def plain_update_def intro!: caused_same [where evs = "[]"] caused_same)

interpretation applied: plain_frame "caused (applied_other h) confirmation" C "\<lambda>_. True" for h C
  by (intro plain_frame.intro applied_frame)

interpretation api_applied: api_frame "caused (applied_other h) confirmation" C "\<lambda>_. True" for h C
  by (intro api_frame.intro applied_frame api_frame_axioms.intro) simp

text \<open>
  The same for a condition: of the two that are not free, Ready and DeploymentReady, each becomes
  true only where its own step marks it.
\<close>

lemma cond_frame:
  fixes C :: "'c condlib"
  assumes C: "cond_contract C" and u: "u = DeploymentReadyCondition \<or> u = ReadyCondition"
  shows "service_frame (caused (cond_true C u) E) C (\<lambda>t. t \<noteq> u)"
proof unfold_locales
  fix s :: "('w, ('s SubSpec_scheme, ('c, 't) SubStatus_scheme) subcr, event) rstate" and d
  assume "\<not> is_true (Some d) \<or> cond_type d \<noteq> u"
  then show "caused (cond_true C u) E s (s\<lparr>inst := upd_conds C (cond_Set C (Some d)) (inst s)\<rparr>)"
    by (intro causedI [where evs = "[]"])
      (auto simp: cond_true_def cond_contractD(1) [OF C] split: if_splits)
next
  fix s :: "('w, ('s SubSpec_scheme, ('c, 't) SubStatus_scheme) subcr, event) rstate" and f ::
    "('c, 't) SubStatus_scheme \<Rightarrow> ('c, 't) SubStatus_scheme"
  assume "plain_update f"
  then show "caused (cond_true C u) E s (s\<lparr>inst := upd_status f (inst s)\<rparr>)"
    by (intro causedI [where evs = "[]"]) (auto simp: cond_true_def plain_update_def)
qed (use u in \<open>auto simp: cond_true_def cond_contractD(3) [OF C] intro!: caused_same [where evs = "[]"] caused_same\<close>)

text \<open>
  The confirmation of the rollout itself: unless the cluster says the deployment is ready it writes
  no more than the Running condition.
\<close>

lemma confirm_caused:
  fixes s s' :: "('w, ('s SubSpec_scheme, ('c, 't) SubStatus_scheme) subcr, event) rstate"
  assumes run: "run_state (confirm_rollout C K h x) s = (r, s')"
  shows "(\<exists>evs. trace s' = trace s @ evs \<and> list_ex confirmation evs) \<or>
    (\<exists>evs. trace s' = trace s @ evs) \<and> (inst s' = inst s \<or> inst s' = upd_conds C (cond_Set C
      (Some (requested_condition DeploymentReadyCondition ''DeploymentReadyRunningMessage''))) (inst s))"
proof -
  define name where "name = Name (sub_Meta (inst s))"
  obtain a w where call: "IsReadyForInput K name (Namespace (sub_Meta (inst s))) h (world s) = (a, w)"
    by fastforce
  show ?thesis
  proof (cases "a = Inr True")
    case True
    define s1 where "s1 = s\<lparr>world := w, trace := trace s @ [EvIsReadyForInput name h True]\<rparr>"
    have "run_state (confirm_rollout C K h x) s = run_state (rollout_confirmed C K x) s1"
      using call True by (simp add: confirm_rollout_def Let_def name_def s1_def)
    moreover have "state_io_rel (emits (\<lambda>_. True)) (rollout_confirmed C K x)"
      unfolding rollout_confirmed_def Let_def return_with_def
      by (intro emit_rules emits_mark_true emits_set_status emits_mono [OF _ service_frame.cleanup_frame [OF calls_frame]]) simp_all
    ultimately obtain evs where "trace s' = trace s1 @ evs"
      using run by (metis emits_run)
    then show ?thesis
      by (intro disjI1) (simp add: s1_def)
  next
    case False
    then show ?thesis
      using run call by (auto simp: confirm_rollout_def Let_def name_def return_with_def
          split: sum.splits bool.splits if_splits)
  qed
qed

lemma confirm_applied:
  "state_io_rel (caused (applied_other h) confirmation) (confirm_rollout C K ih x)"
  unfolding state_io_rel_def
proof
  fix s
  show "caused (applied_other h) confirmation s (snd (run_state (confirm_rollout C K ih x) s))"
    by (rule disjE [OF confirm_caused [OF prod.collapse [symmetric], of C K ih x s]])
      (auto intro: causedI simp: applied_other_def)
qed

lemma confirm_deployed:
  assumes "cond_contract C"
  shows "state_io_rel (caused (cond_true C DeploymentReadyCondition) confirmation) (confirm_rollout C K ih x)"
  unfolding state_io_rel_def
proof
  fix s
  show "caused (cond_true C DeploymentReadyCondition) confirmation s
      (snd (run_state (confirm_rollout C K ih x) s))"
    by (rule disjE [OF confirm_caused [OF prod.collapse [symmetric], of C K ih x s]])
      (auto intro: causedI simp: cond_true_def cond_contractD(1) [OF assms] requested_condition_def)
qed

text \<open>
  Readiness: nothing before the end of a pass makes Ready true, and the end does so only when every
  other condition is true.
\<close>

definition ready_sound :: "'c condlib \<Rightarrow> ('s, ('c, 't) SubStatus_scheme) subcr \<Rightarrow> bool" where
  "ready_sound C i \<longleftrightarrow> (cond_true C ReadyCondition i \<longrightarrow>
     (\<forall>t. t \<noteq> ReadyCondition \<longrightarrow> cond_Get C t (sub_conds C i) \<noteq> None \<longrightarrow> cond_true C t i))"

lemma conclude_sound:
  assumes "cond_contract C" and "\<not> cond_true C ReadyCondition (inst s)"
  shows "ready_sound C (inst (after (conclude C) s))"
  using assms cond_contractD(6) [OF assms(1), of "sub_conds C (inst s)"]
  by (auto simp: conclude_def after_def ready_sound_def cond_true_def cond_contractD(3) [OF assms(1)])

lemma finally_sound:
  assumes C: "cond_contract C" and start: "\<not> cond_true C ReadyCondition (inst s)"
    and frame: "state_io_rel (caused (cond_true C ReadyCondition) (\<lambda>_. False)) m"
  shows "ready_sound C (inst (after (finally_run m (\<lambda>_. conclude C)) s))"
proof -
  obtain x s' where run: "run_state m s = (x, s')" by fastforce
  then have "\<not> cond_true C ReadyCondition (inst s')"
    using caused_events [OF frame, of s] start by (auto simp: after_def list_ex_iff)
  with conclude_sound [OF C, of s'] run show ?thesis
    by (cases x) (auto simp: after_def ready_sound_def)
qed

lemma false_events: "state_io_rel (caused P (\<lambda>_. False)) m \<Longrightarrow> state_io_rel (caused P E) m"
  by (auto simp: state_io_rel_def caused_def list_ex_iff)

end
