(* ===== verification/Service_Samples.thy ===== *)
theory Service_Samples
  imports Service_Frames Pod_Safety
begin

text \<open>
  A concrete condition package that satisfies its contract, and concrete cluster operations, on
  which the witnesses run the service controllers. The cluster \<open>'w\<close> is the list of the names of
  the secrets that are still missing.
\<close>

type_synonym ex_conds = "(ctype \<times> condition) list"

fun ex_put :: "ctype \<Rightarrow> condition \<Rightarrow> ex_conds \<Rightarrow> ex_conds" where
  "ex_put t d [] = [(t, d)]"
| "ex_put t d ((u, e) # c) = (if t = u then (t, d) # c else (u, e) # ex_put t d c)"

definition ex_all_true :: "ex_conds \<Rightarrow> bool" where
  "ex_all_true c = list_all (\<lambda>t. t = ReadyCondition \<or> is_true (map_of c t)) (map fst c)"

definition ex_mirror :: "ctype \<Rightarrow> ex_conds \<Rightarrow> condition option" where
  "ex_mirror t c = (case find (\<lambda>(u, d). \<not> is_true (Some d)) c of
     None \<Rightarrow> if c = [] then None else Some (TrueCondition t (Msg [] []))
   | Some (u, FalseCondition _ r v m) \<Rightarrow> Some (FalseCondition t r v m)
   | Some (u, UnknownCondition _ r m) \<Rightarrow> Some (UnknownCondition t r m)
   | Some (u, TrueCondition _ m) \<Rightarrow> Some (TrueCondition t m))"

definition ex_condlib :: "ex_conds condlib" where
  "ex_condlib = \<lparr>cond_empty = [], cond_Get = (\<lambda>t c. map_of c t),
     cond_Set = (\<lambda>d c. case d of None \<Rightarrow> c | Some d \<Rightarrow> ex_put (cond_type d) d c),
     cond_MarkTrue = (\<lambda>t m. ex_put t (TrueCondition t m)),
     cond_Remove = (\<lambda>t. filter (\<lambda>(u, _). u \<noteq> t)),
     cond_IsTrue = (\<lambda>t c. is_true (map_of c t)),
     cond_IsUnknown = (\<lambda>t c. case map_of c t of Some (UnknownCondition _ _ _) \<Rightarrow> True | _ \<Rightarrow> False),
     cond_Mirror = ex_mirror, cond_AllSubConditionIsTrue = ex_all_true,
     cond_CreateList = map (\<lambda>d. (cond_type d, d)),
     cond_Init = (\<lambda>cl c. foldl (\<lambda>c (t, d). ex_put t d c) c cl),
     cond_RestoreLastTransitionTimes = (\<lambda>saved c. c)\<rparr>"

lemma map_of_ex_put [simp]: "map_of (ex_put t d c) u = (if u = t then Some d else map_of c u)"
  by (induction t d c rule: ex_put.induct) auto

lemma map_of_ex_remove [simp]:
  "map_of (filter (\<lambda>(u, _). u \<noteq> t) c) u = (if u = t then None else map_of c u)"
  by (induction c) auto

lemma ex_all_true_iff:
  "ex_all_true c \<longleftrightarrow> (\<forall>t. t \<noteq> ReadyCondition \<longrightarrow> map_of c t \<noteq> None \<longrightarrow> is_true (map_of c t))"
  by (auto simp: ex_all_true_def list_all_iff map_of_eq_None_iff)

lemma ex_cond_contract: "cond_contract ex_condlib"
proof -
  have mirror: "pred_option (\<lambda>d. cond_type d = t) (ex_mirror t c)" for t c
    by (auto simp: ex_mirror_def split: option.split condition.split)
  show ?thesis
    by (simp add: cond_contract_def ex_condlib_def ex_all_true_iff mirror)
qed

definition ex_add_finalizer :: "string list \<Rightarrow> string \<Rightarrow> string list \<times> bool" where
  "ex_add_finalizer fs f = (if f \<in> set fs then (fs, False) else (fs @ [f], True))"

definition ex_remove_finalizer :: "string list \<Rightarrow> string \<Rightarrow> string list \<times> bool" where
  "ex_remove_finalizer fs f = (filter (\<lambda>g. g \<noteq> f) fs, f \<in> set fs)"

definition ex_kube :: "(string list) kube" where
  "ex_kube = podlib.extend ex_podlib
     (kube.fields ''service'' ''input-hash'' ''ca-bundle'' ''tls-certs'' ''openstack.org/barbican''
       ''Barbican'' ex_add_finalizer ex_remove_finalizer (\<lambda>l. l) (\<lambda>uid. list_ex (\<lambda>r. owner_UID r = uid))
       (\<lambda>xs. Inr (strings_Join xs ''+'')) (\<lambda>es. Inr (strings_Join (map env_Value es) ''+''))
       (\<lambda>m k h. (map_put k h (case m of None \<Rightarrow> [] | Some m \<Rightarrow> m),
          (case m of None \<Rightarrow> True | Some m \<Rightarrow> map_get m k \<noteq> Some h)))
       (\<lambda>ns. Inr [])
       (\<lambda>n ns fs t w. (if n \<in> set w then ([], requeue_after t, None) else (''h'', no_result, None), w))
       (\<lambda>n ns w. (Inr [], w)) (\<lambda>ts v w. ((v, None), w)) (\<lambda>n ns w. (Inr ex_spec, w))
       (\<lambda>n ns w. (Inr None, w)) (\<lambda>n ns w. (Inr ''ca'', w)) (\<lambda>i p ns w. (Inr ''certs'', w))
       (\<lambda>r l f sel w. (Inr None, w)) (\<lambda>r f w. (ok, w))
       (\<lambda>d t w. ((ok, \<lparr>dep_Generation = 1, dep_ObservedGeneration = 1, ReadyReplicas = 1\<rparr>), w))
       (\<lambda>n ns h w. (Inr True, w)) (\<lambda>a l c w. (Inr (True, []), w))
       (\<lambda>n ns w. (Inl (ApiError True ''not found''), w)) (\<lambda>n ns w. (None, w)))"

lemmas ex_kube_simps = ex_kube_def podlib.defs kube.defs

lemma ex_kube_sel [simp]:
  "VerifySecret ex_kube n ns fs t w =
     ((if n \<in> set w then ([], requeue_after t, None) else (''h'', no_result, None)), w)"
  "GetSecret ex_kube n ns w = (Inr [], w)"
  "GetBarbican ex_kube n ns w = (Inr ex_spec, w)"
  "GetNADWithName ex_kube n ns w = (Inr None, w)"
  "ValidateCACertSecret ex_kube n ns w = (Inr ''ca'', w)"
  "EnsureSecrets ex_kube ts vars w = ((vars, None), w)"
  "ObjectHashEnv ex_kube es = Inr (strings_Join (map env_Value es) ''+'')"
  "ObjectHash ex_kube xs = Inr (strings_Join xs ''+'')"
  "EnsureNetworksAnnotation ex_kube nads = Inr []"
  "EnsureServiceTopology ex_kube tr la f sel w = (Inr None, w)"
  "Deployment_CreateOrPatch ex_kube d t w =
     ((ok, \<lparr>dep_Generation = 1, dep_ObservedGeneration = 1, ReadyReplicas = 1\<rparr>), w)"
  "IsReadyForInput ex_kube n ns h w = (Inr True, w)"
  "VerifyNetworkStatusFromAnnotation ex_kube att lb cnt w = (Inr (True, []), w)"
  "Deployment_Get ex_kube n ns w = (Inl (ApiError True ''not found''), w)"
  by (simp_all add: ex_kube_simps)

text \<open>
  A phase passes when it falls through from every state of a resource without extra mounts. With
  these operations all phases do, whether or not secrets are missing.
\<close>

definition no_extras :: "('s SubSpec_scheme, 't) subcr \<Rightarrow> bool" where
  "no_extras i \<longleftrightarrow> ExtraMounts (ss_Template (sub_Spec i)) = []"

lemma no_extras_simps [simp]:
  "no_extras (upd_status f i) = no_extras i" "no_extras (upd_conds C g i) = no_extras i"
  by (simp_all add: no_extras_def)

definition passes :: "('w, 'c, 's, 't, outcome option + 'a) sub \<Rightarrow> bool" where
  "passes m \<longleftrightarrow> (\<forall>s. no_extras (inst s) \<longrightarrow>
     (\<exists>v s'. run_state m s = (Inr v, s') \<and> no_extras (inst s')))"

lemma passes_fall: "passes (fall_through a)"
  by (simp add: passes_def)

lemma passes_proceed: "passes m \<Longrightarrow> (\<And>a. passes (f a)) \<Longrightarrow> passes (proceed m f)"
  unfolding passes_def by (simp split: prod.split sum.split) (metis Pair_inject sum.inject(2) old.sum.distinct(2))

lemma passes_for_fold: "(\<And>x b. passes (f x b)) \<Longrightarrow> passes (for_fold f xs b)"
  by (induction xs arbitrary: b) (auto intro: passes_fall passes_proceed)

lemma passes_instance: "(\<And>i. no_extras i \<Longrightarrow> passes (f i)) \<Longrightarrow> passes (State_Monad.bind the_instance f)"
  unfolding passes_def by simp

lemma passes_mark: "passes (m ()) \<Longrightarrow> passes (State_Monad.bind (mark_true C t x) m)"
  unfolding passes_def by simp

lemma passes_check: "passes (check_secret ex_condlib ex_kube n fs vars)"
  unfolding passes_def by (auto simp: check_secret_def verifySecret_def ok_def)

lemma passes_if: "passes m \<Longrightarrow> passes n \<Longrightarrow> passes (if b then m else n)"
  by simp

lemma passes_option: "passes m \<Longrightarrow> (\<And>x. passes (f x)) \<Longrightarrow> passes (case o' of None \<Rightarrow> m | Some x \<Rightarrow> f x)"
  by (simp split: option.split)

lemmas passes_rules = passes_fall passes_proceed passes_for_fold passes_instance passes_mark
  passes_check passes_if passes_option

lemma passes_inputs: "passes (Worker_inputs ex_condlib ex_kube)"
proof -
  have "passes (check_ca_bundle ex_condlib ex_kube vars)" for vars
    unfolding passes_def by (simp add: check_ca_bundle_def Let_def)
  then show ?thesis
    unfolding Worker_inputs_def check_common_secrets_def check_store_secrets_def check_custom_secrets_def Let_def
    by (intro passes_rules)
qed

lemma ex_fold:
  assumes "\<And>x b s. \<exists>c s'. run_state (f x b) s = (Inr c, s') \<and> inst s' = inst s"
  shows "\<exists>c s'. run_state (for_fold f xs b) s = (Inr c, s') \<and> inst s' = inst s"
proof (induction xs arbitrary: b s)
  case (Cons x xs)
  from assms [of x b s] obtain c s1 where "run_state (f x b) s = (Inr c, s1)" "inst s1 = inst s" by blast
  with Cons [of c s1] show ?case by auto
qed simp

lemma ex_service_config: "passes (service_config ex_condlib ex_kube vars)"
  unfolding passes_def
proof (intro allI impI)
  fix s :: "(string list, ex_conds, 's, 't) sub_state"
  assume no: "no_extras (inst s)"
  let ?d = "[(CustomServiceConfigFileName, ct_CustomServiceConfig (ss_Component (sub_Spec (inst s))))]"
  obtain po d s1 where parent: "run_state (parent_data ex_kube ?d) s = (Inr (po, d), s1)" "inst s1 = inst s"
    by (cases "GetOwningBarbicanName (sub_Meta (inst s)) = []") (simp_all add: parent_data_def Let_def)
  obtain cs s2 where "run_state (custom_secrets ex_kube) s1 = (Inr cs, s2)" "inst s2 = inst s1"
    unfolding custom_secrets_def using ex_fold [of "\<lambda>secretName customSecrets. do {
         s \<leftarrow> invoke (EvGetSecret secretName) (GetSecret ex_kube secretName (Namespace (sub_Meta (inst s1))));
         case s of
           Inl err \<Rightarrow> done_with err
         | Inr data \<Rightarrow> fall_through (customSecrets @ secret_lines data)
       }"] by simp blast
  with parent no show "\<exists>v s'. run_state (service_config ex_condlib ex_kube vars) s = (Inr v, s') \<and> no_extras (inst s')"
    by (simp add: service_config_def generateServiceConfigs_def Let_def GenerateConfigsGeneric_def)
qed

lemma passes_nad:
  "passes (State_Monad.bind (invoke ev (GetNADWithName ex_kube n ns)) (case_sum f (case_option (fall_through b) g)))"
  by (simp add: passes_def)

lemma ex_annotations: "passes (network_annotations ex_condlib ex_kube)"
  unfolding network_annotations_def Let_def
  by (intro passes_rules passes_nad) (simp add: passes_fall)

lemma passes_config: "passes (Worker_config ex_condlib ex_kube vars)"
proof -
  have "passes (input_hash ex_condlib ex_kube v)" for v
    unfolding passes_def by (auto simp: input_hash_def createHashOfInputHashes_def Let_def split_beta)
  moreover have "passes (step_result (State_Monad.return ok))"
    unfolding passes_def by (simp add: step_result_def ok_def)
  ultimately show ?thesis
    unfolding Worker_config_def split_def Worker_reconcileInit_def reconcileUpdate_def reconcileUpgrade_def
    by (intro passes_rules ex_service_config ex_annotations)
qed

definition ex_state :: "string list \<Rightarrow> (string list, ex_conds) worker_state" where
  "ex_state missing = \<lparr>world = missing, inst = ex_worker [], trace = []\<rparr>"

lemma ex_state_plain: "no_extras (inst (ex_state m))"
  by (simp add: ex_state_def no_extras_def ex_sub_defs ex_template_def)

text \<open>Every pass configures the Worker, applies its deployment and records the applied hash.\<close>

lemma ex_configured: "\<exists>x s. run_state (Worker_configure ex_condlib ex_kube) (ex_state m) = (Inr x, s) \<and> no_extras (inst s)"
  using passes_proceed [OF passes_inputs passes_config] ex_state_plain
  by (auto simp: passes_def Worker_configure_def simp del: run_proceed)

lemma ex_rolled_out:
  assumes "no_extras (inst s)"
  shows "\<exists>s'. run_state (Worker_rollout ex_condlib ex_kube p h a) s = (Inr (), s') \<and>
    AppliedInputSecretHash (sub_Status (inst s')) =
      ss_TransportURLSecret (sub_Spec (inst s)) @ ''+'' @ ss_NotificationsURLSecret (sub_Spec (inst s)) \<and>
    cond_true ex_condlib DeploymentReadyCondition (inst s')"
proof -
  define d where "d (i :: ex_conds BarbicanWorker_cr) k = the (Worker_Deployment ex_kube i h (Worker_service_labels ex_kube) a None k)" for i k
  have depl: "Worker_Deployment ex_kube i h (Worker_service_labels ex_kube) a None k = Some (d i k)"
    if "no_extras i" for i :: "ex_conds BarbicanWorker_cr" and k
    using that by (simp add: d_def no_extras_def Worker_Deployment_def Let_def GetWorkerVolumesAndMounts_def
        split_beta GetExtraVolumes_def add_extra_def)
  have plain: "no_extras (Worker_SetLastAppliedTopology t i) = no_extras i" for t and i :: "ex_conds BarbicanWorker_cr"
    by (simp add: no_extras_def Worker_SetLastAppliedTopology_def)
  have same: "sub_Spec (Worker_SetLastAppliedTopology t i) = sub_Spec i" for t and i :: "ex_conds BarbicanWorker_cr"
    by (simp add: Worker_SetLastAppliedTopology_def)
  show ?thesis
    using assms
    by (simp add: Worker_rollout_def Let_def topology_step_def Worker_ensureTopology_def ensureTopology_def
        depl plain same apply_deployment_def verify_networks_def confirm_rollout_def rollout_confirmed_def
        cleanupOldDeployment_def ok_def cond_true_def cond_contractD(3) [OF ex_cond_contract]
        split: option.split)
qed

lemma ex_normal:
  "AppliedInputSecretHash (sub_Status (inst (after (Worker_reconcileNormal ex_condlib ex_kube) (ex_state m)))) =
     ''rabbitmq-secret+''"
  "cond_true ex_condlib DeploymentReadyCondition
     (inst (after (Worker_reconcileNormal ex_condlib ex_kube) (ex_state m)))"
proof -
  obtain p h a s where conf: "run_state (Worker_configure ex_condlib ex_kube) (ex_state m) = (Inr (p, h, a), s)"
    and no: "no_extras (inst s)"
    using ex_configured [of m] by (metis prod_cases3)
  have "identity (inst s) = identity (inst (ex_state m))"
    using keeps_after [OF same.worker_configure_frame, of ex_condlib ex_kube "ex_state m"] conf
    by (simp add: after_def)
  then have spec: "sub_Spec (inst s) = ex_subspec"
    by (simp add: identity_def ex_state_def ex_worker_def)
  obtain s' where roll: "run_state (Worker_rollout ex_condlib ex_kube p h a) s = (Inr (), s')"
    and "AppliedInputSecretHash (sub_Status (inst s')) = ''rabbitmq-secret+''"
    and "cond_true ex_condlib DeploymentReadyCondition (inst s')"
    using ex_rolled_out [OF no, of p h a] by (auto simp: spec ex_subspec_def)
  moreover have "run_state (Worker_reconcileNormal ex_condlib ex_kube) (ex_state m) = run_state (conclude ex_condlib) s'"
    using conf roll by (simp add: Worker_reconcileNormal_def)
  ultimately show "AppliedInputSecretHash (sub_Status (inst (after (Worker_reconcileNormal ex_condlib ex_kube) (ex_state m)))) =
     ''rabbitmq-secret+''"
    "cond_true ex_condlib DeploymentReadyCondition
     (inst (after (Worker_reconcileNormal ex_condlib ex_kube) (ex_state m)))"
    by (simp_all add: after_def conclude_def cond_true_def cond_contractD(3) [OF ex_cond_contract])
qed

section \<open>A concrete API controller\<close>

definition ex_apilib :: "(string list, ex_conds) apilib" where
  "ex_apilib = kube.extend ex_kube
     (apilib.fields ''endpoint'' ''core.openstack.org/ingress_create'' ''dnsmasq/hostname'' [] []
       (\<lambda>a b. a @ b) (\<lambda>d t o'. Inr (gs_Name d)) (\<lambda>a svc. svc) (\<lambda>svc. ServiceTypeClusterIP) (\<lambda>svc. svc)
       (\<lambda>svc w. ((ok, svc), w)) (\<lambda>svc u p path. Inr svc)
       (\<lambda>n ns svc eps l t w. ((ok, []), w)) (\<lambda>n ns w. (Inr [''openstack.org/barbican''], w))
       (\<lambda>n ns f w. (None, w)))"

definition ex_api_state :: "(string list, ex_conds) api_state" where
  "ex_api_state = \<lparr>world = [], inst = ex_apicr [], trace = []\<rparr>"

end
