(* ===== verification/Service_Properties.thy ===== *)
theory Service_Properties
  imports Service_Samples
begin

text \<open>
  The properties of the three service controllers: what a pass may call and write, when it reports
  readiness, what it does with missing secrets, and how a resource is taken down.
\<close>

section \<open>Effects of a pass\<close>


section \<open>Readiness\<close>




section \<open>Inputs\<close>

lemma true_set [simp]:
  "cond_contract C \<Longrightarrow> cond_type d \<noteq> t \<Longrightarrow>
   cond_true C t (upd_conds C (cond_Set C (Some d)) i) = cond_true C t i"
  by (simp add: cond_true_def cond_contractD(1))

lemma true_mark [simp]:
  "cond_contract C \<Longrightarrow> cond_true C t (upd_conds C (cond_MarkTrue C u m) i) \<longleftrightarrow> t = u \<or> cond_true C t i"
  by (simp add: cond_true_def cond_contractD(3))

lemma true_hash [simp]: "cond_true C t (upd_status (\<lambda>s. s\<lparr>ss_Hash := h\<rparr>) i) = cond_true C t i"
  by (simp add: cond_true_def)

lemma config_marks_input:
  assumes C: "cond_contract C" and run: "run_state (service_config C K vars) s = (Inr x, s')"
  shows "cond_true C InputReadyCondition (inst s')"
  using run C
  by (auto simp: service_config_def generateServiceConfigs_def Let_def GenerateConfigsGeneric_def
      fail_with_def return_with_def split: prod.splits sum.splits option.splits)

lemma input_stays:
  assumes C: "cond_contract C"
  shows "state_io_rel (preserves (cond_true C InputReadyCondition)) (input_hash C K vars)"
    "state_io_rel (preserves (cond_true C InputReadyCondition)) (network_annotations C K)"
    "state_io_rel (preserves (cond_true C InputReadyCondition)) (mark_true C t m)"
proof -
  have set: "state_io_rel (preserves (cond_true C InputReadyCondition)) (fail_with C d r)"
    if "cond_type d \<noteq> InputReadyCondition" for d r
    using that C unfolding fail_with_def return_with_def set_cond_def
    by (intro preserve_rules preserves_modify) simp
  show "state_io_rel (preserves (cond_true C InputReadyCondition)) (input_hash C K vars)"
    unfolding input_hash_def createHashOfInputHashes_def Let_def set_status_def
    by (intro preserve_rules preserves_modify set) simp_all
  show "state_io_rel (preserves (cond_true C InputReadyCondition)) (network_annotations C K)"
    unfolding network_annotations_def Let_def return_with_def
    by (intro preserve_rules set) simp_all
  show "state_io_rel (preserves (cond_true C InputReadyCondition)) (mark_true C t m)"
    unfolding mark_true_def using C by (intro preserves_modify) simp
qed

lemma preserves_run:
  "state_io_rel (preserves P) m \<Longrightarrow> run_state m s = (r, s') \<Longrightarrow> P (inst s) \<Longrightarrow> P (inst s')"
  by (auto simp: state_io_rel_def preserves_def)

lemma after_config:
  assumes C: "cond_contract C" and frame: "\<And>x. state_io_rel (preserves (cond_true C InputReadyCondition)) (f x)"
    and run: "run_state (proceed (service_config C K vars) f) s = (Inr y, s')"
  shows "cond_true C InputReadyCondition (inst s')"
proof -
  obtain x s1 where "run_state (service_config C K vars) s = (Inr x, s1)"
    using run by (auto split: prod.splits sum.splits)
  with run show ?thesis
    using preserves_run [OF frame, of x s1] config_marks_input [OF C, of K vars s x s1] by simp
qed

text \<open>
  C38. Once the configuration of a Worker has been generated, InputReady is true, whatever the checks
  of the input secrets found: a check that reports a missing secret (a result without an error)
  sets InputReady to false, but no caller looks at that result, the pass goes on, and the
  configuration marks InputReady true again.
\<close>

theorem missing_secret_ignored:
  assumes C: "cond_contract C" and fin: "result_of (Worker_configure C K) s = Inr x"
    and missing: "VerifySecret K n (Namespace (sub_Meta (inst t))) fs 10 (world t) = ((h, r, None), w)"
      "r \<noteq> no_result"
  shows "cond_true C InputReadyCondition (inst (after (Worker_configure C K) s)) \<and>
    result_of (check_secret C K n fs vars) t = Inr vars \<and>
    \<not> cond_true C InputReadyCondition (inst (after (check_secret C K n fs vars) t))"
proof (intro conjI)
  obtain s' where "run_state (Worker_configure C K) s = (Inr x, s')"
    using fin by (cases "run_state (Worker_configure C K) s") (simp add: result_of_def)
  then obtain vars s1 where "run_state (Worker_config C K vars) s1 = (Inr x, s')"
    by (auto simp: Worker_configure_def split: prod.splits sum.splits)
  then have "cond_true C InputReadyCondition (inst s')"
    by (simp add: Worker_config_def del: run_proceed) (erule after_config [OF C, rotated],
        unfold split_def Worker_reconcileInit_def reconcileUpdate_def reconcileUpgrade_def
          step_result_def return_with_def, intro preserve_rules input_stays [OF C])
  then show "cond_true C InputReadyCondition (inst (after (Worker_configure C K) s))"
    using \<open>run_state (Worker_configure C K) s = (Inr x, s')\<close> by (simp add: after_def)
next
  show "result_of (check_secret C K n fs vars) t = Inr vars"
    using missing by (simp add: result_of_def check_secret_def verifySecret_def)
  show "\<not> cond_true C InputReadyCondition (inst (after (check_secret C K n fs vars) t))"
    using missing by (simp add: after_def check_secret_def verifySecret_def cond_true_def
        cond_contractD(1) [OF C] waiting_condition_def error_condition_def requested_condition_def)
qed

section \<open>The rendered configuration\<close>

lemma copy_credentials_get:
  "k \<noteq> ''ACID'' \<Longrightarrow> k \<noteq> ''ACSecret'' \<Longrightarrow> map_get (copy_credentials b d) k = map_get d k"
  by (simp add: copy_credentials_def split: option.split)

text \<open>Whatever the owner provides, its overwrites are copied last and the service's own snippet stays.\<close>

lemma parent_data_result:
  assumes "run_state (parent_data K d) s = (Inr (po, d'), s')"
  shows "inst s' = inst s \<and> (\<exists>base. d' = maps_Copy base po \<and>
    map_get base CustomServiceConfigFileName = map_get d CustomServiceConfigFileName)"
proof (cases "GetOwningBarbicanName (sub_Meta (inst s)) = []")
  case True
  with assms show ?thesis by (auto simp: parent_data_def intro: exI [of _ d])
next
  case False
  with assms show ?thesis
    by (auto simp: parent_data_def Let_def copy_credentials_get split: sum.splits)
qed

lemma for_fold_inst:
  assumes "\<And>x b s. inst (snd (run_state (f x b) s)) = inst s"
  shows "run_state (for_fold f xs b) s = (r, s') \<Longrightarrow> inst s' = inst s"
proof (induction xs arbitrary: b s)
  case (Cons x xs)
  obtain y s1 where one: "run_state (f x b) s = (y, s1)" by fastforce
  with assms [of x b s] have "inst s1 = inst s" by simp
  with Cons one show ?case by (cases y) auto
qed simp

lemma custom_secrets_inst: "run_state (custom_secrets K) s = (r, s') \<Longrightarrow> inst s' = inst s"
  unfolding custom_secrets_def
  by (auto split: sum.splits elim!: for_fold_inst [rotated])

definition rendered :: "event list \<Rightarrow> SecretTemplate list" where
  "rendered evs = concat (map (\<lambda>e. case e of EvEnsureSecrets ts \<Rightarrow> ts | _ \<Rightarrow> []) evs)"


section \<open>First pass and deletion\<close>

lemma begin_first:
  assumes "snd (AddFinalizer K (Finalizers (sub_Meta (inst s))) (helper_Finalizer K)) \<and>
      \<not> Deleted (sub_Meta (inst s)) \<or> new"
  shows "\<exists>s'. run_state (begin_reconcile C K cl new) s = (Inl (Some ok), s') \<and>
    trace s' = trace s \<and> world s' = world s"
  using assms by (auto simp: begin_reconcile_def Let_def split_beta return_with_def)

lemma around_first:
  assumes "get w = (Inr i, w')" and "newHelper i = None"
    and "run_state (body (cs i = None))
      \<lparr>world = w', inst = (if cs i = None then upd (\<lambda>_. cond_empty C) i else i), trace = []\<rparr> = (Some ok, s1)"
    and "trace s1 = []"
  shows "\<exists>perr w''. reconcile_around C cs upd get newHelper patch body w =
    (Some (no_result, perr), w'', [EvPatchInstance])"
  using assms by (auto simp: reconcile_around_def Let_def ok_def split: prod.split)

lemma begin_fresh:
  assumes "ss_Conditions (sub_Status i) = None \<or> \<not> Deleted (sub_Meta i) \<and>
      snd (AddFinalizer K (Finalizers (sub_Meta i)) (helper_Finalizer K))"
    and "sub_Meta i' = sub_Meta i"
  obtains s1 where "run_state (begin_reconcile C K cl (ss_Conditions (sub_Status i) = None))
      \<lparr>world = w, inst = i', trace = []\<rparr> = (Inl (Some ok), s1)" and "trace s1 = []"
  using begin_first [of K "\<lparr>world = w, inst = i', trace = []\<rparr>" "ss_Conditions (sub_Status i) = None" C cl] assms
  by auto

text \<open>
  A resource seen for the first time, or one that did not carry the controller's finalizer yet, is
  only patched: no other call is made before the finalizer is stored, and the pass ends with an
  empty result and the error of the patch, if any.
\<close>

lemma first_pass_only_patches:
  assumes "get w = (Inr i, w')" and "newHelper i = None"
    and "ss_Conditions (sub_Status i) = None \<or> \<not> Deleted (sub_Meta i) \<and>
      snd (AddFinalizer (kb A) (Finalizers (sub_Meta i)) (helper_Finalizer (kb A)))"
    and "getw v = (Inr j, v')" and "newHelperw j = None"
    and "ss_Conditions (sub_Status j) = None \<or> \<not> Deleted (sub_Meta j) \<and>
      snd (AddFinalizer K (Finalizers (sub_Meta j)) (helper_Finalizer K))"
  shows "(\<exists>perr w''. API_Reconcile C A get newHelper patch w = (Some (no_result, perr), w'', [EvPatchInstance])) \<and>
    (\<exists>perr w''. Worker_Reconcile C K getw newHelperw patchw v = (Some (no_result, perr), w'', [EvPatchInstance])) \<and>
    (\<exists>perr w''. Listener_Reconcile C K getw newHelperw patchw v = (Some (no_result, perr), w'', [EvPatchInstance]))"
proof (intro conjI)
  let ?i = "(if ss_Conditions (sub_Status i) = None then upd_conds C (\<lambda>_. cond_empty C) i else i)"
  obtain s1 where started: "run_state (begin_reconcile C (kb A) API_conditions (ss_Conditions (sub_Status i) = None))
      \<lparr>world = w', inst = ?i, trace = []\<rparr> = (Inl (Some ok), s1)" "trace s1 = []"
    by (rule begin_fresh [OF assms(3), of ?i C API_conditions w']) simp
  show "\<exists>perr w''. API_Reconcile C A get newHelper patch w = (Some (no_result, perr), w'', [EvPatchInstance])"
    unfolding API_Reconcile_def
    by (rule around_first [where get = get and w = w and newHelper = newHelper, OF assms(1,2), OF _ started(2)])
      (unfold API_body_def run_finally_run, simp only: started, simp)
next
  let ?i = "(if ss_Conditions (sub_Status j) = None then upd_conds C (\<lambda>_. cond_empty C) j else j)"
  obtain s1 where started: "run_state (begin_reconcile C K Worker_conditions (ss_Conditions (sub_Status j) = None))
      \<lparr>world = v', inst = ?i, trace = []\<rparr> = (Inl (Some ok), s1)" "trace s1 = []"
    by (rule begin_fresh [OF assms(6), of ?i C Worker_conditions v']) simp
  show "\<exists>perr w''. Worker_Reconcile C K getw newHelperw patchw v = (Some (no_result, perr), w'', [EvPatchInstance])"
    unfolding Worker_Reconcile_def
    by (rule around_first [where get = getw and w = v and newHelper = newHelperw, OF assms(4,5), OF _ started(2)])
      (unfold Worker_body_def run_finally_run, simp only: started, simp)
next
  let ?i = "upd_conds C (\<lambda>_. cond_empty C) (if ss_Conditions (sub_Status j) = None then upd_conds C (\<lambda>_. cond_empty C) j else j)"
  obtain s1 where started: "run_state (begin_reconcile C K Listener_conditions (ss_Conditions (sub_Status j) = None))
      \<lparr>world = v', inst = ?i, trace = []\<rparr> = (Inl (Some ok), s1)" "trace s1 = []"
    by (rule begin_fresh [OF assms(6), of ?i C Listener_conditions v']) simp
  show "\<exists>perr w''. Listener_Reconcile C K getw newHelperw patchw v = (Some (no_result, perr), w'', [EvPatchInstance])"
    unfolding Listener_Reconcile_def
    by (rule around_first [where get = getw and w = v and newHelper = newHelperw, OF assms(4,5), OF _ started(2)])
      (simp add: Listener_body_def started del: if_split)
qed

text \<open>Releasing the keystone endpoint of an API.\<close>

definition endpoint_released :: "('w, 'c) apilib \<Rightarrow> string \<Rightarrow> event list \<Rightarrow> bool" where
  "endpoint_released A name evs \<longleftrightarrow>
     released_object (\<lambda>fins. RemoveFinalizer A fins (helper_Finalizer A)) (EvGetKeystoneEndpoint name)
       (EvUpdateKeystoneEndpoint name) evs"

lemma release_endpoint_run:
  "run_state (release_endpoint A) s = (r, s') \<Longrightarrow> inst s' = inst s \<and>
    (\<exists>evs. trace s' = trace s @ evs \<and>
      (r = Inr () \<and> endpoint_released A (Name (sub_Meta (inst s))) evs \<or> (\<exists>e. r = Inl (Some (failed e)))))"
  by (auto simp: release_endpoint_def return_with_def Let_def split_beta endpoint_released_def released_object_def
      found_def split_option_ex split: sum.splits option.splits if_splits)

lemma release_topology_run:
  "run_state (release_topology K) s = (r, s') \<Longrightarrow> (case r of
      Some (_, None) \<Rightarrow> trace s' = trace s @ [EvDeleteTopologyRef True] \<and>
        Finalizers (sub_Meta (inst s')) =
          fst (RemoveFinalizer K (Finalizers (sub_Meta (inst s))) (helper_Finalizer K))
    | _ \<Rightarrow> inst s' = inst s)"
  by (auto simp: release_topology_def remove_own_finalizer_def split_beta ok_def
      split: if_splits option.splits)


section \<open>Shared helpers\<close>

text \<open>
  The keys mounted for the configuration overwrites are exactly the keys of the two overwrite
  maps, each once and in ascending order, so the result does not depend on the order in which the
  maps are iterated.
\<close>

lemma collectOverwriteKeys_sorted_set:
  "collectOverwriteKeys p c = sorted_list_of_set (set (map_keys p) \<union> set (map_keys c))"
  by (rule sorted_distinct_set_unique) (auto simp: collect_keys)

text \<open>
  Cleaning up the deployment of an earlier release deletes it exactly when it was read and the
  resource is among its owners; a deployment that does not exist, or one that disappears before
  it is deleted, is not an error.
\<close>

lemma cleanup_deletes_owned_only:
  "(case fst (Deployment_Get K oldName (Namespace m) (world s)) of
      Inl err \<Rightarrow> events_of (cleanupOldDeployment K m oldName) s = [EvGetDeployment oldName] \<and>
        result_of (cleanupOldDeployment K m oldName) s = (if IsNotFound err then None else Some err)
    | Inr owners \<Rightarrow>
        if CheckOwnerRefExist K (UID m) owners
        then events_of (cleanupOldDeployment K m oldName) s =
            [EvGetDeployment oldName, EvDeleteDeployment oldName] \<and>
          (case fst (Deployment_Delete K oldName (Namespace m)
              (snd (Deployment_Get K oldName (Namespace m) (world s)))) of
             None \<Rightarrow> result_of (cleanupOldDeployment K m oldName) s = None
           | Some err \<Rightarrow> (result_of (cleanupOldDeployment K m oldName) s = None) = IsNotFound err)
        else events_of (cleanupOldDeployment K m oldName) s = [EvGetDeployment oldName] \<and>
          result_of (cleanupOldDeployment K m oldName) s = None)"
  by (auto simp: cleanupOldDeployment_def events_of_def result_of_def split: sum.splits option.splits)

text \<open>
  Ensuring the topology of a service records the reference of the spec as the last applied one
  exactly when it succeeds; on an error the recorded reference, which is the one whose finalizer
  has to be released on deletion, is unchanged. The spec's reference is never touched.
\<close>

lemma topology_recorded:
  "API_GetLastAppliedTopology (inst (after (API_ensureTopology C K fin sel) s)) =
     (case result_of (API_ensureTopology C K fin sel) s of
        Inl _ \<Rightarrow> API_GetLastAppliedTopology (inst s) | Inr _ \<Rightarrow> API_GetSpecTopologyRef (inst s)) \<and>
   Worker_GetLastAppliedTopology (inst (after (Worker_ensureTopology C K fin sel) t)) =
     (case result_of (Worker_ensureTopology C K fin sel) t of
        Inl _ \<Rightarrow> Worker_GetLastAppliedTopology (inst t) | Inr _ \<Rightarrow> Worker_GetSpecTopologyRef (inst t)) \<and>
   Listener_GetLastAppliedTopology (inst (after (Listener_ensureTopology C K fin sel) t)) =
     (case result_of (Listener_ensureTopology C K fin sel) t of
        Inl _ \<Rightarrow> Listener_GetLastAppliedTopology (inst t) | Inr _ \<Rightarrow> Listener_GetSpecTopologyRef (inst t))"
  unfolding API_ensureTopology_def Worker_ensureTopology_def Listener_ensureTopology_def
    after_def result_of_def
  using api_topology.last_applied [OF prod.collapse [symmetric]]
    worker_topology.last_applied [OF prod.collapse [symmetric]]
    listener_topology.last_applied [OF prod.collapse [symmetric]]
  by blast

section \<open>Witnesses\<close>


lemma ex_fresh:
  "\<not> cond_true ex_condlib t (inst (ex_state m))" "\<not> cond_true ex_condlib t (inst ex_api_state)"
  by (simp_all add: cond_true_def ex_condlib_def ex_state_def ex_api_state_def ex_sub_defs)



theorem missing_secret_ignored_witness:
  "cond_true ex_condlib InputReadyCondition
     (inst (after (Worker_configure ex_condlib ex_kube) (ex_state [''osp-secret'']))) \<and>
   \<not> cond_true ex_condlib InputReadyCondition
     (inst (after (check_secret ex_condlib ex_kube ''osp-secret'' [] []) (ex_state [''osp-secret''])))"
proof -
  obtain x s where "run_state (Worker_configure ex_condlib ex_kube) (ex_state [''osp-secret'']) = (Inr x, s)"
    using ex_configured [of "[''osp-secret'']"] by auto
  then have "result_of (Worker_configure ex_condlib ex_kube) (ex_state [''osp-secret'']) = Inr x"
    by (simp add: result_of_def)
  from missing_secret_ignored [OF ex_cond_contract this, of "''osp-secret''" "ex_state [''osp-secret'']"
      "[]" "[]" "requeue_after 10" "[''osp-secret'']" "[]"]
  show ?thesis by (simp add: ex_state_def)
qed


lemma first_pass_only_patches_witness:
  "\<exists>perr w. Worker_Reconcile ex_condlib ex_kube (\<lambda>w. (Inr (upd_status (\<lambda>x. x\<lparr>ss_Conditions := None\<rparr>) (ex_worker [])), w))
     (\<lambda>_. None) (\<lambda>_ w. (None, w)) [] = (Some (no_result, perr), w, [EvPatchInstance])"
  using first_pass_only_patches [where get = "\<lambda>w. (Inr (upd_status (\<lambda>x. x\<lparr>ss_Conditions := None\<rparr>) (ex_apicr [])), w)"
      and w = "[]" and w' = "[]" and i = "upd_status (\<lambda>x. x\<lparr>ss_Conditions := None\<rparr>) (ex_apicr [])"
      and newHelper = "\<lambda>_. None" and A = ex_apilib
      and getw = "\<lambda>w. (Inr (upd_status (\<lambda>x. x\<lparr>ss_Conditions := None\<rparr>) (ex_worker [])), w)"
      and v = "[]" and v' = "[]" and j = "upd_status (\<lambda>x. x\<lparr>ss_Conditions := None\<rparr>) (ex_worker [])"
      and newHelperw = "\<lambda>_. None" and K = ex_kube and C = ex_condlib
      and patch = "\<lambda>_ w. (None, w)" and patchw = "\<lambda>_ w. (None, w)"]
  by simp

end
