(* ===== verification/Parent.thy ===== *)
theory Parent
  imports Common
begin

text \<open>
  The Barbican controller (\<open>barbican_controller.go\<close>). The operators it talks to (infra-operator for
  the message bus and the secret consumer finalizers, mariadb-operator, keystone-operator) and the
  job and RBAC helpers of lib-common are the fields of \<open>parentlib\<close>.
\<close>

record TransportURL_cr =
  tu_Name :: string
  tu_Namespace :: string
  tu_Labels :: strmap
  tu_Owners :: "OwnerReference list"
  RabbitmqClusterName :: string
  Username :: string
  tu_Vhost :: string
  tu_SecretName :: string

record DatabaseRef =
  dr_Instance :: string
  dr_Name :: string
  dr_CRName :: string
  dr_Account :: string
  dr_Namespace :: string

text \<open>What the code reads from a database after it was created: its client file depends on TLS.\<close>

record Database =
  DatabaseHostname :: string
  DatabaseClientConfig :: "bool \<Rightarrow> string"
  DatabaseUserName :: string
  DatabaseSecretData :: strmap

record KeystoneAPI =
  InternalEndpoint :: "gerr + string"
  ks_Region :: string

record KeystoneServiceSpec =
  kss_ServiceType :: string
  kss_ServiceName :: string
  kss_ServiceDescription :: string
  kss_Enabled :: bool
  kss_ServiceUser :: string
  kss_Secret :: string
  kss_PasswordSelector :: string

record PolicyRule =
  APIGroups :: "string list"
  ResourceNames :: "string list"
  pr_Resources :: "string list"
  Verbs :: "string list"

record ('w, 'c) parentlib = "'w kube" +
  DatabasePasswordSelector :: string
  ACIDSecretKey :: string
  ACSecretSecretKey :: string
  SetControllerReference :: "ObjectMeta \<Rightarrow> OwnerReference list \<Rightarrow> gerr + OwnerReference list"
  TransportURL_CreateOrUpdate ::
    "(TransportURL_cr \<Rightarrow> gerr + TransportURL_cr) \<Rightarrow> TransportURL_cr \<Rightarrow> 'w \<Rightarrow> (gerr + TransportURL_cr) \<times> 'w"
  TransportURL_Get :: "string \<Rightarrow> string \<Rightarrow> 'w \<Rightarrow> (gerr + TransportURL_cr) \<times> 'w"
  TransportURL_Delete :: "string \<Rightarrow> string \<Rightarrow> 'w \<Rightarrow> gerr option \<times> 'w"
  ManageSecretConsumerFinalizer :: "string \<Rightarrow> string \<Rightarrow> string \<Rightarrow> 'w \<Rightarrow> gerr option \<times> 'w"
  FinalizeSecretRotation ::
    "string \<Rightarrow> string \<Rightarrow> string \<Rightarrow> string \<Rightarrow> bool \<Rightarrow> 'w \<Rightarrow> (gerr + string) \<times> 'w"
  RemoveSecretConsumerFinalizer :: "string \<Rightarrow> string \<Rightarrow> string \<Rightarrow> 'w \<Rightarrow> gerr option \<times> 'w"
  PruneSecretConsumerFinalizers :: "string \<Rightarrow> string \<Rightarrow> string list \<Rightarrow> 'w \<Rightarrow> gerr option \<times> 'w"
  VerifySecretFields :: "string \<Rightarrow> string \<Rightarrow> string list \<Rightarrow> int \<Rightarrow> 'w \<Rightarrow> (string \<times> Result \<times> gerr option) \<times> 'w"
  EnsureMariaDBAccount :: "string \<Rightarrow> string \<Rightarrow> bool \<Rightarrow> string \<Rightarrow> 'w \<Rightarrow> gerr option \<times> 'w"
  Database_CreateOrPatchAll :: "DatabaseRef \<Rightarrow> 'w \<Rightarrow> (outcome \<times> Database) \<times> 'w"
  WaitForDBCreated :: "DatabaseRef \<Rightarrow> 'w \<Rightarrow> (outcome \<times> Database) \<times> 'w"
  GetDatabaseByNameAndAccount :: "string \<Rightarrow> string \<Rightarrow> string \<Rightarrow> 'w \<Rightarrow> gerr option \<times> 'w"
  Database_DeleteFinalizer :: "string \<Rightarrow> string \<Rightarrow> string \<Rightarrow> 'w \<Rightarrow> gerr option \<times> 'w"
  DeleteUnusedMariaDBAccountFinalizers :: "string \<Rightarrow> string \<Rightarrow> string \<Rightarrow> 'w \<Rightarrow> gerr option \<times> 'w"
  GetKeystoneAPI :: "string \<Rightarrow> 'w \<Rightarrow> (gerr + KeystoneAPI) \<times> 'w"
  ReconcileRbac :: "string \<Rightarrow> string \<Rightarrow> PolicyRule list \<Rightarrow> 'w \<Rightarrow> (outcome \<times> condition list) \<times> 'w"
  KeystoneService_CreateOrPatch ::
    "KeystoneServiceSpec \<Rightarrow> string \<Rightarrow> strmap \<Rightarrow> int \<Rightarrow> 'w \<Rightarrow> (outcome \<times> 'c \<times> string) \<times> 'w"
  GetKeystoneServiceWithName :: "string \<Rightarrow> string \<Rightarrow> 'w \<Rightarrow> (gerr + string list) \<times> 'w"
  KeystoneService_Update :: "string \<Rightarrow> string \<Rightarrow> string list \<Rightarrow> 'w \<Rightarrow> gerr option \<times> 'w"
  DoJob :: "Job \<Rightarrow> string \<Rightarrow> bool \<Rightarrow> int \<Rightarrow> string \<Rightarrow> 'w \<Rightarrow> (outcome \<times> bool \<times> string) \<times> 'w"
  API_CreateOrUpdate ::
    "('c BarbicanAPI_cr \<Rightarrow> gerr + 'c BarbicanAPI_cr) \<Rightarrow> string \<Rightarrow> string \<Rightarrow> 'w \<Rightarrow> (gerr + 'c BarbicanAPI_cr) \<times> 'w"
  Worker_CreateOrUpdate ::
    "('c BarbicanWorker_cr \<Rightarrow> gerr + 'c BarbicanWorker_cr) \<Rightarrow> string \<Rightarrow> string \<Rightarrow> 'w \<Rightarrow> (gerr + 'c BarbicanWorker_cr) \<times> 'w"
  Listener_CreateOrUpdate ::
    "('c BarbicanKeystoneListener_cr \<Rightarrow> gerr + 'c BarbicanKeystoneListener_cr) \<Rightarrow> string \<Rightarrow> string \<Rightarrow> 'w \<Rightarrow>
     (gerr + 'c BarbicanKeystoneListener_cr) \<times> 'w"
  Child_Get :: "string \<Rightarrow> string \<Rightarrow> string \<Rightarrow> 'w \<Rightarrow> (gerr + string list) \<times> 'w"
  Child_Update :: "string \<Rightarrow> string \<Rightarrow> string \<Rightarrow> string list \<Rightarrow> 'w \<Rightarrow> gerr option \<times> 'w"

type_synonym ('w, 'c) parent_state = "('w, 'c Barbican, event) rstate"

type_synonym ('w, 'c, 'a) parent = "(('w, 'c) parent_state, 'a) state"

type_synonym ('w, 'c, 'a) parent_phase = "('w, 'c, outcome option + 'a) parent"

section \<open>Status updates\<close>

definition upd_bstatus :: "('c BarbicanStatus \<Rightarrow> 'c BarbicanStatus) \<Rightarrow> 'c Barbican \<Rightarrow> 'c Barbican" where
  "upd_bstatus f i = i\<lparr>Status := f (Status i)\<rparr>"

definition upd_bconds :: "'c condlib \<Rightarrow> ('c \<Rightarrow> 'c) \<Rightarrow> 'c Barbican \<Rightarrow> 'c Barbican" where
  "upd_bconds C f = upd_bstatus (\<lambda>s. s\<lparr>bs_Conditions := Some (f (conds_of C (bs_Conditions s)))\<rparr>)"

abbreviation barbican_conds :: "'c condlib \<Rightarrow> 'c Barbican \<Rightarrow> 'c" where
  "barbican_conds C i \<equiv> conds_of C (bs_Conditions (Status i))"

text \<open>
  \<open>IsReady\<close>, and the \<open>RbacConditionsSet\<close> the RBAC helper calls back. Its receiver is a value; the
  update reaches the instance through the shared backing array, since the initial list of
  conditions holds an entry for each of the three that the helper sets.
\<close>

definition IsReady :: "'c condlib \<Rightarrow> 'c Barbican \<Rightarrow> bool" where
  "IsReady C i = cond_IsTrue C ReadyCondition (barbican_conds C i)"

definition RbacConditionsSet :: "'c condlib \<Rightarrow> condition \<Rightarrow> 'c Barbican \<Rightarrow> 'c Barbican" where
  "RbacConditionsSet C c = upd_bconds C (cond_Set C (Some c))"

definition b_set :: "'c condlib \<Rightarrow> condition \<Rightarrow> ('w, 'c, unit) parent" where
  "b_set C d = modify (upd_bconds C (cond_Set C (Some d)))"

definition b_mark :: "'c condlib \<Rightarrow> ctype \<Rightarrow> string \<Rightarrow> ('w, 'c, unit) parent" where
  "b_mark C t m = modify (upd_bconds C (cond_MarkTrue C t (Msg m [])))"

definition b_status :: "('c BarbicanStatus \<Rightarrow> 'c BarbicanStatus) \<Rightarrow> ('w, 'c, unit) parent" where
  "b_status f = modify (upd_bstatus f)"

definition b_return :: "outcome \<Rightarrow> ('w, 'c, 'a) parent_phase" where
  "b_return r = done_with (Some r)"

definition b_fail :: "'c condlib \<Rightarrow> condition \<Rightarrow> outcome \<Rightarrow> ('w, 'c, 'a) parent_phase" where
  "b_fail C d r = do { b_set C d; b_return r }"

text \<open>\<open>if err := ...; err != nil { return ctrl.Result{}, err }\<close>\<close>

definition b_try :: "('w, 'c, gerr option) parent \<Rightarrow> ('w, 'c, unit) parent_phase" where
  "b_try m = do { e \<leftarrow> m; case e of None \<Rightarrow> fall_through () | Some err \<Rightarrow> b_return (failed err) }"

lemma upd_bstatus_simps [simp]:
  "Meta (upd_bstatus f i) = Meta i" "Spec (upd_bstatus f i) = Spec i"
  "Status (upd_bstatus f i) = f (Status i)"
  by (simp_all add: upd_bstatus_def)

lemma upd_bconds_simps [simp]:
  "Meta (upd_bconds C f i) = Meta i" "Spec (upd_bconds C f i) = Spec i"
  "Status (upd_bconds C f i) = (Status i)\<lparr>bs_Conditions := Some (f (barbican_conds C i))\<rparr>"
  by (simp_all add: upd_bconds_def)

lemma run_b_set [simp]:
  "run_state (b_set C d) s = ((), s\<lparr>inst := upd_bconds C (cond_Set C (Some d)) (inst s)\<rparr>)"
  by (simp add: b_set_def)

lemma run_b_mark [simp]:
  "run_state (b_mark C t m) s = ((), s\<lparr>inst := upd_bconds C (cond_MarkTrue C t (Msg m [])) (inst s)\<rparr>)"
  by (simp add: b_mark_def)

lemma run_b_status [simp]: "run_state (b_status f) s = ((), s\<lparr>inst := upd_bstatus f (inst s)\<rparr>)"
  by (simp add: b_status_def)

lemma run_b_return [simp]: "run_state (b_return r) s = (Inl (Some r), s)"
  by (simp add: b_return_def)

lemma run_b_fail [simp]:
  "run_state (b_fail C d r) s =
    (Inl (Some r), s\<lparr>inst := upd_bconds C (cond_Set C (Some d)) (inst s)\<rparr>)"
  by (simp add: b_fail_def)

section \<open>Message bus\<close>

definition transport_name :: "'c Barbican \<Rightarrow> string" where
  "transport_name i = Name (Meta i) @ ''-barbican-transport''"

definition notifications_name :: "'c Barbican \<Rightarrow> string" where
  "notifications_name i = Name (Meta i) @ ''-barbican-notifications-transport''"

text \<open>
  \<open>transportURLCreateOrUpdate\<close>: the mutation overwrites the cluster, user and vhost of the existing
  object; \<open>None\<close> is the nil \<open>rabbitmqConfig\<close>.
\<close>

definition set_transport ::
  "('w, 'c) parentlib \<Rightarrow> 'c Barbican \<Rightarrow> RabbitMqConfig \<Rightarrow> TransportURL_cr \<Rightarrow> gerr + TransportURL_cr" where
  "set_transport L i config tu =
     (case SetControllerReference L (Meta i) (tu_Owners tu) of
        Inl err \<Rightarrow> Inl err
      | Inr owners \<Rightarrow> Inr (tu\<lparr>RabbitmqClusterName := Cluster config, Username := User config,
          tu_Vhost := Vhost config, tu_Owners := owners\<rparr>))"

definition transportURLCreateOrUpdate ::
  "('w, 'c) parentlib \<Rightarrow> strmap \<Rightarrow> RabbitMqConfig option \<Rightarrow> ('w, 'c, gerr + TransportURL_cr) parent" where
  "transportURLCreateOrUpdate L serviceLabels rabbitmqConfig = do {
     i \<leftarrow> the_instance;
     let (rmqName, config) = (case rabbitmqConfig of
         None \<Rightarrow> (transport_name i, MessagingBus (Template i))
       | Some c \<Rightarrow> (notifications_name i, c));
     invoke (EvTransportURL rmqName) (TransportURL_CreateOrUpdate L (set_transport L i config)
       \<lparr>tu_Name = rmqName, tu_Namespace = Namespace (Meta i), tu_Labels = serviceLabels,
        tu_Owners = [], RabbitmqClusterName = [], Username = [], tu_Vhost = [], tu_SecretName = []\<rparr>)
   }"

definition transportURLDeleted :: "('w, 'c) parentlib \<Rightarrow> string \<Rightarrow> ('w, 'c, gerr option) parent" where
  "transportURLDeleted L name = do {
     i \<leftarrow> the_instance;
     e \<leftarrow> invoke (EvDeleteTransportURL name) (TransportURL_Delete L name (Namespace (Meta i)));
     State_Monad.return (case e of
         None \<Rightarrow> None
       | Some err \<Rightarrow> if IsNotFound err then None else Some err)
   }"

definition manage_finalizer ::
  "('w, 'c) parentlib \<Rightarrow> string \<Rightarrow> string \<Rightarrow> ('w, 'c, gerr option) parent" where
  "manage_finalizer L secret fin = do {
     i \<leftarrow> the_instance;
     invoke (EvManageFinalizer secret fin) (ManageSecretConsumerFinalizer L (Namespace (Meta i)) secret fin)
   }"

text \<open>The first part of \<open>reconcileNormal\<close>: the transport URL and the name of its secret.\<close>

definition messaging_phase ::
  "'c condlib \<Rightarrow> ('w, 'c) parentlib \<Rightarrow> strmap \<Rightarrow> ('w, 'c, string) parent_phase" where
  "messaging_phase C L serviceLabels = do {
     t \<leftarrow> transportURLCreateOrUpdate L serviceLabels None;
     case t of
       Inl err \<Rightarrow> b_fail C (error_condition BarbicanRabbitMQTransportURLReadyCondition
           ''BarbicanRabbitMQTransportURLReadyErrorMessage'' [err_text err]) (failed err)
     | Inr transportURL \<Rightarrow> (let secret = tu_SecretName transportURL in
         if secret = []
         then b_fail C (requested_condition BarbicanRabbitMQTransportURLReadyCondition
           ''BarbicanRabbitMQTransportURLReadyRunningMessage'') (requeue_after 10, None)
         else do {
           b_status (\<lambda>s. if bs_TransportURLSecret s = [] then s\<lparr>bs_TransportURLSecret := secret\<rparr> else s);
           proceed (b_try (manage_finalizer L secret TransportConsumerFinalizer)) (\<lambda>_. do {
             b_mark C BarbicanRabbitMQTransportURLReadyCondition
               ''BarbicanRabbitMQTransportURLReadyMessage'';
             fall_through secret
           })
         })
   }"

text \<open>
  The second part: the transport URL of the notifications bus, when there is one. When there is
  none, only the condition is removed; the teardown waits for the rollout.
\<close>

definition notifications_phase ::
  "'c condlib \<Rightarrow> ('w, 'c) parentlib \<Rightarrow> strmap \<Rightarrow> ('w, 'c, string option) parent_phase" where
  "notifications_phase C L serviceLabels = do {
     i \<leftarrow> the_instance;
     case NotificationsBus (Template i) of
       None \<Rightarrow> do {
         modify (upd_bconds C (cond_Remove C NotificationBusInstanceReadyCondition));
         fall_through None
       }
     | Some bus \<Rightarrow> do {
         t \<leftarrow> transportURLCreateOrUpdate L serviceLabels (Some bus);
         case t of
           Inl err \<Rightarrow> b_fail C (error_condition NotificationBusInstanceReadyCondition
               ''NotificationBusInstanceReadyErrorMessage'' [err_text err]) (failed err)
         | Inr url \<Rightarrow> (let secret = tu_SecretName url in
             if secret = []
             then b_fail C (requested_condition NotificationBusInstanceReadyCondition
               ''NotificationBusInstanceReadyRunningMessage'') (requeue_after 10, None)
             else do {
               b_status (\<lambda>s. if bs_NotificationsURLSecret s = None
                 then s\<lparr>bs_NotificationsURLSecret := Some secret\<rparr> else s);
               proceed (b_try (manage_finalizer L secret TransportConsumerFinalizer)) (\<lambda>_. do {
                 b_mark C NotificationBusInstanceReadyCondition
                   ''NotificationBusInstanceReadyMessage'';
                 fall_through (Some secret)
               })
             })
       }
   }"

section \<open>Input secrets\<close>

text \<open>
  \<open>verifySecret\<close>: the expected fields are collected in a map, so a repeated field counts once.
\<close>

definition Barbican_verifySecret ::
  "'c condlib \<Rightarrow> ('w, 'c) parentlib \<Rightarrow> string \<Rightarrow> string list \<Rightarrow> strmap \<Rightarrow>
   ('w, 'c, outcome \<times> strmap) parent" where
  "Barbican_verifySecret C L secretName expectedFields envVars = do {
     i \<leftarrow> the_instance;
     (hash, result, err) \<leftarrow> invoke_obs (EvVerifySecret secretName expectedFields \<circ> verdict_of)
       (VerifySecretFields L secretName (Namespace (Meta i)) (remdups expectedFields) 10);
     case err of
       Some e \<Rightarrow> do {
         b_set C (error_condition InputReadyCondition ''InputReadyErrorMessage'' [err_text e]);
         State_Monad.return (failed e, envVars)
       }
     | None \<Rightarrow>
         if result \<noteq> no_result then do {
           b_set C (error_condition InputReadyCondition ''InputReadyWaitingMessage'' []);
           State_Monad.return ((result, None), envVars)
         }
         else State_Monad.return (ok, map_put (''secret-'' @ secretName) hash envVars)
   }"

text \<open>Here too the callers look at the error only.\<close>

definition b_check ::
  "'c condlib \<Rightarrow> ('w, 'c) parentlib \<Rightarrow> string \<Rightarrow> string list \<Rightarrow> strmap \<Rightarrow> ('w, 'c, strmap) parent_phase" where
  "b_check C L secretName expectedFields envVars = do {
     (ctrlResult, envVars') \<leftarrow> Barbican_verifySecret C L secretName expectedFields envVars;
     case snd ctrlResult of
       Some e \<Rightarrow> b_return ctrlResult
     | None \<Rightarrow> fall_through envVars'
   }"

definition set_service_account :: "'c Barbican \<Rightarrow> 'c Barbican" where
  "set_service_account i = i\<lparr>Spec := (Spec i)\<lparr>Base := (Base (Spec i))\<lparr>sb_Template :=
     (Template i)\<lparr>ServiceAccount := RbacResourceName i\<rparr>\<rparr>\<rparr>\<rparr>"

definition secrets_phase ::
  "'c condlib \<Rightarrow> ('w, 'c) parentlib \<Rightarrow> ('w, 'c, strmap) parent_phase" where
  "secrets_phase C L = do {
     i \<leftarrow> the_instance;
     let t = Template i;
     let sel = PasswordSelectors t;
     proceed (b_check C L (Secret t) [ps_Service sel] []) (\<lambda>vars.
     proceed (if simple_crypto_enabled t
       then b_check C L (SimpleCryptoBackendSecret t)
         (SimpleCryptoKEK sel # SimpleCryptoAdditionalKEKs sel) vars
       else fall_through vars) (\<lambda>vars.
     proceed (case PKCS11 t of
         Some p \<Rightarrow> if store_enabled t SecretStorePKCS11
           then proceed (b_check C L (LoginSecret p) [PKCS11Pin sel] vars) (\<lambda>vars.
             b_check C L (ClientDataSecret (pkcs11_ClientData p)) [] vars)
           else fall_through vars
       | None \<Rightarrow> fall_through vars) (\<lambda>vars.
     proceed (case KMIP t of
         Some k \<Rightarrow> if store_enabled t SecretStoreKMIP
           then b_check C L (ClientDataSecret (kmip_ClientData k)) [] vars
           else fall_through vars
       | None \<Rightarrow> fall_through vars) (\<lambda>vars. do {
       b_mark C InputReadyCondition ''InputReadyMessage'';
       modify set_service_account;
       fall_through vars
     }))))
   }"

section \<open>Database\<close>

definition ensureDB ::
  "'c condlib \<Rightarrow> ('w, 'c) parentlib \<Rightarrow> ('w, 'c, Database) parent_phase" where
  "ensureDB C L = do {
     i \<leftarrow> the_instance;
     let t = Template i;
     let db = \<lparr>dr_Instance = DatabaseInstance t, dr_Name = DatabaseName, dr_CRName = DatabaseCRName,
       dr_Account = DatabaseAccount t, dr_Namespace = Namespace (Meta i)\<rparr>;
     a \<leftarrow> invoke EvEnsureAccount (EnsureMariaDBAccount L (DatabaseAccount t) (Namespace (Meta i)) False
       DatabaseUsernamePrefix);
     case a of
       Some err \<Rightarrow> b_fail C (error_condition MariaDBAccountReadyCondition
           ''MariaDBAccountNotReadyMessage'' [err_text err]) (failed err)
     | None \<Rightarrow> do {
         b_mark C MariaDBAccountReadyCondition ''MariaDBAccountReadyMessage'';
         ((ctrlResult, err), _) \<leftarrow> invoke EvDatabase (Database_CreateOrPatchAll L db);
         case err of
           Some e \<Rightarrow> b_fail C (error_condition DBReadyCondition ''DBReadyErrorMessage'' [err_text e]) (failed e)
         | None \<Rightarrow>
             if ctrlResult \<noteq> no_result
             then b_fail C (requested_condition DBReadyCondition ''DBReadyRunningMessage'') (ctrlResult, None)
             else do {
               ((ctrlResult, err), info) \<leftarrow> invoke EvWaitDatabase (WaitForDBCreated L db);
               case err of
                 Some e \<Rightarrow> b_fail C (error_condition DBReadyCondition ''DBReadyErrorMessage'' [err_text e])
                   (failed e)
               | None \<Rightarrow>
                   if ctrlResult \<noteq> no_result
                   then b_fail C (requested_condition DBReadyCondition ''DBReadyRunningMessage'')
                     (ctrlResult, None)
                   else do {
                     b_status (\<lambda>s. s\<lparr>bs_DatabaseHostname := DatabaseHostname info\<rparr>);
                     b_mark C DBReadyCondition ''DBReadyMessage'';
                     fall_through info
                   }
             }
       }
   }"

section \<open>Configuration\<close>

text \<open>\<open>generateServiceConfig\<close>; the left summand of its parts is the error it returns.\<close>

type_synonym ('w, 'c, 'a) parent_fallible = "('w, 'c, gerr + 'a) parent"

definition b_secret :: "('w, 'c) parentlib \<Rightarrow> string \<Rightarrow> ('w, 'c, strmap) parent_fallible" where
  "b_secret L name = do {
     i \<leftarrow> the_instance;
     invoke (EvGetSecret name) (GetSecret L name (Namespace (Meta i)))
   }"

text \<open>The credentials of the application credential secret: parameters, and data for the services.\<close>

definition app_credentials ::
  "('w, 'c) parentlib \<Rightarrow> tval gomap \<times> strmap \<Rightarrow> ('w, 'c, tval gomap \<times> strmap) parent_fallible" where
  "app_credentials L pd = do {
     i \<leftarrow> the_instance;
     let (params, customData) = pd;
     let params = map_put ''UseApplicationCredentials'' (TBool False) params;
     let ac = spec_AppCredSecret (Base (Spec i));
     if ac = [] then fall_through (params, customData)
     else do {
       r \<leftarrow> b_secret L ac;
       case r of
         Inl err \<Rightarrow> done_with (if IsNotFound err then Detailed ErrACSecretNotFound ac else err)
       | Inr data \<Rightarrow>
           (let acID = get_or_empty data (ACIDSecretKey L);
                acSecretData = get_or_empty data (ACSecretSecretKey L) in
            if acID = [] \<or> acSecretData = [] then done_with (Detailed ErrACSecretMissingKeys ac)
            else fall_through
              (map_put ''ACSecret'' (TStr acSecretData) (map_put ''ACID'' (TStr acID)
                 (map_put ''UseApplicationCredentials'' (TBool True) params)),
               map_put ''ACSecret'' acSecretData (map_put ''ACID'' acID customData)))
     }
   }"

definition notifications_url ::
  "('w, 'c) parentlib \<Rightarrow> string \<Rightarrow> tval gomap \<Rightarrow> ('w, 'c, tval gomap) parent_fallible" where
  "notifications_url L notificationBusSecretName params =
     (if notificationBusSecretName = [] then fall_through params
      else proceed (b_secret L notificationBusSecretName) (\<lambda>data.
        fall_through (map_put ''NotificationsURL'' (TStr (get_or_empty data ''transport_url'')) params)))"

definition pkcs11_login ::
  "('w, 'c) parentlib \<Rightarrow> tval gomap \<Rightarrow> ('w, 'c, tval gomap) parent_fallible" where
  "pkcs11_login L params = do {
     i \<leftarrow> the_instance;
     case PKCS11 (Template i) of
       None \<Rightarrow> fall_through params
     | Some p \<Rightarrow>
         if store_enabled (Template i) SecretStorePKCS11
         then proceed (b_secret L (LoginSecret p)) (\<lambda>data. fall_through
           (map_put ''PKCS11Enabled'' (TBool True)
             (map_put ''PKCS11Login'' (TStr (get_or_empty data (PKCS11Pin (PasswordSelectors (Template i)))))
               params)))
         else fall_through params
   }"

definition simple_crypto_keks ::
  "('w, 'c) parentlib \<Rightarrow> tval gomap \<Rightarrow> ('w, 'c, tval gomap) parent_fallible" where
  "simple_crypto_keks L params = do {
     i \<leftarrow> the_instance;
     let t = Template i;
     if simple_crypto_enabled t
     then proceed (b_secret L (SimpleCryptoBackendSecret t)) (\<lambda>data. fall_through
       (map_put ''SimpleCryptoKEKs'' (TList
         (get_or_empty data (SimpleCryptoKEK (PasswordSelectors t))
          # map (get_or_empty data) (SimpleCryptoAdditionalKEKs (PasswordSelectors t)))) params))
     else fall_through params
   }"

definition vhost_config :: "('w, 'c) parentlib \<Rightarrow> 'c Barbican \<Rightarrow> Endpoint \<Rightarrow> tval gomap" where
  "vhost_config L i endpt = (let
     name = endpoint_String endpt;
     conf = [(''ServerName'', TStr (ServiceName @ ''-'' @ name @ ''.'' @ Namespace (Meta i) @ ''.svc'')),
             (''TLS'', TBool False)]
   in if TLS_Enabled L (tls_Internal (API_TLS i)) (tls_Public (API_TLS i)) endpt
      then map_put ''SSLCertificateKeyFile'' (TStr (''/etc/pki/tls/private/'' @ name @ ''.key''))
        (map_put ''SSLCertificateFile'' (TStr (''/etc/pki/tls/certs/'' @ name @ ''.crt''))
          (map_put ''TLS'' (TBool True) conf))
      else conf)"

definition base_parameters ::
  "('w, 'c) parentlib \<Rightarrow> 'c Barbican \<Rightarrow> Database \<Rightarrow> strmap \<Rightarrow> strmap \<Rightarrow> string \<Rightarrow> string \<Rightarrow> tval gomap" where
  "base_parameters L i db ospSecret transportSecret keystoneInternalURL region =
     [(''DatabaseConnection'', TStr (''mysql+pymysql://'' @ DatabaseUserName db @ '':''
         @ get_or_empty (DatabaseSecretData db) (DatabasePasswordSelector L) @ ''@''
         @ bs_DatabaseHostname (Status i) @ ''/'' @ DatabaseName @ ''?read_default_file=/etc/my.cnf'')),
      (''KeystoneAuthURL'', TStr keystoneInternalURL),
      (''ServicePassword'', TStr (get_or_empty ospSecret (ps_Service (PasswordSelectors (Template i))))),
      (''ServiceUser'', TStr (ServiceUser (Template i))),
      (''TransportURL'', TStr (get_or_empty transportSecret ''transport_url'')),
      (''LogFile'', TStr (BarbicanLogPath @ Name (Meta i) @ ''.log'')),
      (''EnableSecureRBAC'', TBool (EnableSecureRBAC (at_Core (BarbicanAPI (Spec i))))),
      (''Region'', TStr region)]"

definition generateServiceConfig ::
  "('w, 'c) parentlib \<Rightarrow> strmap \<Rightarrow> strmap \<Rightarrow> Database \<Rightarrow> string \<Rightarrow> string \<Rightarrow> ('w, 'c, strmap) parent_fallible" where
  "generateServiceConfig L envVars serviceLabels db transportURLSecretName notificationBusSecretName = do {
     i \<leftarrow> the_instance;
     let t = Template i;
     let labels = GetLabels L serviceLabels;
     proceed (b_secret L (Secret t)) (\<lambda>ospSecret.
     proceed (b_secret L transportURLSecretName) (\<lambda>transportSecret. do {
       let customData =
         [(CustomConfigFileName, sb_CustomServiceConfig (Base (Spec i))),
          (''my.cnf'', DatabaseClientConfig db (CaBundleSecretName (API_TLS i) \<noteq> []))];
       let customData = maps_Copy customData (sb_DefaultConfigOverwrite (Base (Spec i)));
       k \<leftarrow> invoke EvGetKeystoneAPI (GetKeystoneAPI L (Namespace (Meta i)));
       case k of
         Inl err \<Rightarrow> done_with err
       | Inr keystoneAPI \<Rightarrow> (case InternalEndpoint keystoneAPI of
           Inl err \<Rightarrow> done_with err
         | Inr keystoneInternalURL \<Rightarrow>
             proceed (app_credentials L (base_parameters L i db ospSecret transportSecret
               keystoneInternalURL (ks_Region keystoneAPI), customData)) (\<lambda>(params, customData). do {
             let params = map_put ''QuorumQueues''
               (TBool (get_or_empty transportSecret ''quorumqueues'' = ''true'')) params;
             proceed (notifications_url L notificationBusSecretName params) (\<lambda>params.
             case GenerateSecretStoreTemplateMap (EnabledSecretStores t) (GlobalDefaultSecretStore t) of
               Inl err \<Rightarrow> done_with err
             | Inr stores \<Rightarrow>
                 proceed (pkcs11_login L (maps_Copy params stores)) (\<lambda>params.
                 proceed (simple_crypto_keks L params) (\<lambda>params. do {
                   let params = map_put ''VHosts'' (TMap (map (\<lambda>e. (endpoint_String e, TMap (vhost_config L i e)))
                     [EndpointInternal, EndpointPublic])) params;
                   let params = map_put ''TimeOut'' (TInt (sb_APITimeout (Base (Spec i)))) params;
                   (envVars', err) \<leftarrow> GenerateConfigsGeneric (kube.truncate L) (Meta i) envVars params
                     customData labels True [''ssl.conf''];
                   case err of
                     Some e \<Rightarrow> done_with e
                   | None \<Rightarrow> fall_through envVars'
                 })))
             }))
     }))
   }"

text \<open>
  The call in \<open>reconcileNormal\<close>, followed by the finalizer on the application credential secret.
\<close>

definition config_phase ::
  "'c condlib \<Rightarrow> ('w, 'c) parentlib \<Rightarrow> strmap \<Rightarrow> strmap \<Rightarrow> Database \<Rightarrow> string \<Rightarrow> string option \<Rightarrow>
   ('w, 'c, strmap) parent_phase" where
  "config_phase C L configVars serviceLabels db transportSecret notifSecret = do {
     i \<leftarrow> the_instance;
     r \<leftarrow> generateServiceConfig L configVars serviceLabels db transportSecret
       (case notifSecret of None \<Rightarrow> [] | Some n \<Rightarrow> n);
     case r of
       Inl err \<Rightarrow> b_fail C (error_condition ServiceConfigReadyCondition
           ''ServiceConfigReadyErrorMessage'' [err_text err]) (failed err)
     | Inr configVars \<Rightarrow> (let ac = spec_AppCredSecret (Base (Spec i)) in
         proceed (if ac = [] then fall_through ()
           else do {
             e \<leftarrow> manage_finalizer L ac ACConsumerFinalizer;
             case e of
               None \<Rightarrow> fall_through ()
             | Some err \<Rightarrow> b_fail C (error_condition ServiceConfigReadyCondition
                 ''ServiceConfigReadyErrorMessage'' [err_text err]) (failed err)
           }) (\<lambda>_. do {
           b_mark C ServiceConfigReadyCondition ''ServiceConfigReadyMessage'';
           fall_through configVars
         }))
   }"

section \<open>Networks and initialisation\<close>

definition b_annotations :: "'c condlib \<Rightarrow> ('w, 'c) parentlib \<Rightarrow> ('w, 'c, strmap) parent_phase" where
  "b_annotations C L = do {
     i \<leftarrow> the_instance;
     let attachments = ct_NetworkAttachments (atc_Component (at_Core (BarbicanAPI (Spec i))));
     proceed (for_fold (\<lambda>netAtt nadList. do {
         n \<leftarrow> invoke (EvGetNAD netAtt) (GetNADWithName L netAtt (Namespace (Meta i)));
         case n of
           Inl err \<Rightarrow>
             if IsNotFound err
             then b_fail C (error_condition NetworkAttachmentsReadyCondition
                 ''NetworkAttachmentsReadyWaitingMessage'' [netAtt]) (requeue_after 10, None)
             else b_fail C (error_condition NetworkAttachmentsReadyCondition
                 ''NetworkAttachmentsReadyErrorMessage'' [err_text err]) (failed err)
         | Inr None \<Rightarrow> fall_through nadList
         | Inr (Some nad) \<Rightarrow> fall_through (nadList @ [nad])
       }) attachments []) (\<lambda>nadList.
     case EnsureNetworksAnnotation L nadList of
       Inl err \<Rightarrow> b_return (failed (Wrapped (''failed create network annotation from [''
           @ strings_Join attachments '' '' @ '']'') err))
     | Inr serviceAnnotations \<Rightarrow> fall_through serviceAnnotations)
   }"

definition rbacRules :: "PolicyRule list" where
  "rbacRules = [\<lparr>APIGroups = [''security.openshift.io''], ResourceNames = [''anyuid'', ''nonroot-v2''],
     pr_Resources = [''securitycontextconstraints''], Verbs = [''use'']\<rparr>]"

text \<open>
  \<open>ReconcileRbac\<close> reports its conditions through \<open>RbacConditionsSet\<close>; the list was initialised
  with the three RBAC conditions, so the setter with its value receiver updates the shared slice.
\<close>

definition rbac_step :: "'c condlib \<Rightarrow> ('w, 'c) parentlib \<Rightarrow> ('w, 'c, unit) parent_phase" where
  "rbac_step C L = do {
     i \<leftarrow> the_instance;
     ((result, err), conditions) \<leftarrow> invoke EvRbac
       (ReconcileRbac L (RbacResourceName i) (RbacNamespace i) rbacRules);
     modify (upd_bconds C (fold (\<lambda>d. cond_Set C (Some d)) conditions));
     if err \<noteq> None then b_return (result, err)
     else if result \<noteq> no_result then b_return (result, None)
     else fall_through ()
   }"

definition keystone_step ::
  "'c condlib \<Rightarrow> ('w, 'c) parentlib \<Rightarrow> strmap \<Rightarrow> ('w, 'c, unit) parent_phase" where
  "keystone_step C L serviceLabels = do {
     i \<leftarrow> the_instance;
     let t = Template i;
     o1 \<leftarrow> b_secret L (Secret t);
     case o1 of
       Inl err \<Rightarrow> if IsNotFound err then b_return (requeue_after 10, None) else b_return (failed err)
     | Inr _ \<Rightarrow> do {
         ((ctrlResult, err), ksConditions, serviceID) \<leftarrow> invoke EvKeystoneService
           (KeystoneService_CreateOrPatch L \<lparr>kss_ServiceType = ''key-manager'', kss_ServiceName = ServiceName,
              kss_ServiceDescription = ''Barbican Service'', kss_Enabled = True,
              kss_ServiceUser = ServiceUser t, kss_Secret = Secret t,
              kss_PasswordSelector = ps_Service (PasswordSelectors t)\<rparr>
            (Namespace (Meta i)) serviceLabels 10);
         case err of
           Some e \<Rightarrow> b_return (ctrlResult, Some e)
         | None \<Rightarrow> do {
             (case cond_Mirror C KeystoneServiceReadyCondition ksConditions of
                None \<Rightarrow> State_Monad.return ()
              | Some c \<Rightarrow> b_set C c);
             if ctrlResult \<noteq> no_result then b_return (ctrlResult, None)
             else do {
               b_status (\<lambda>s. s\<lparr>ServiceID := serviceID,
                 bs_Hash := Some (case bs_Hash s of None \<Rightarrow> [] | Some h \<Rightarrow> h)\<rparr>);
               fall_through ()
             }
           }
       }
   }"

text \<open>
  One job: a result that asks for a requeue is returned before the error is looked at, and then
  without it. \<open>t\<close> is the condition, \<open>p\<close> the prefix of its message constants.
\<close>

definition run_job ::
  "'c condlib \<Rightarrow> ('w, 'c) parentlib \<Rightarrow> ctype \<Rightarrow> string \<Rightarrow> string \<Rightarrow> Job \<Rightarrow> ('w, 'c, unit) parent_phase" where
  "run_job C L t p hashKey jobDef = do {
     i \<leftarrow> the_instance;
     let hashes = (case bs_Hash (Status i) of None \<Rightarrow> [] | Some h \<Rightarrow> h);
     ((ctrlResult, err), changed, hash) \<leftarrow> invoke (EvJob (j_Name jobDef))
       (DoJob L jobDef hashKey (PreserveJobs (Base (Spec i))) 5 (get_or_empty hashes hashKey));
     if ctrlResult \<noteq> no_result
     then b_fail C (requested_condition t (p @ ''RunningMessage'')) (ctrlResult, None)
     else (case err of
         Some e \<Rightarrow> b_fail C (error_condition t (p @ ''ErrorMessage'') [err_text e]) (failed e)
       | None \<Rightarrow> do {
           (if changed then b_status (\<lambda>s. s\<lparr>bs_Hash := Some (map_put hashKey hash hashes)\<rparr>)
            else State_Monad.return ());
           b_mark C t (p @ ''Message'');
           fall_through ()
         })
   }"

definition Barbican_reconcileInit ::
  "'c condlib \<Rightarrow> ('w, 'c) parentlib \<Rightarrow> strmap \<Rightarrow> strmap \<Rightarrow> ('w, 'c, unit) parent_phase" where
  "Barbican_reconcileInit C L serviceLabels serviceAnnotations =
     proceed (rbac_step C L) (\<lambda>_.
     proceed (keystone_step C L serviceLabels) (\<lambda>_. do {
       i \<leftarrow> the_instance;
       proceed (run_job C L DBSyncReadyCondition ''DBSyncReady'' DbSyncHash
         (DbSyncJob L i serviceLabels serviceAnnotations)) (\<lambda>_. do {
       i \<leftarrow> the_instance;
       proceed (if store_enabled (Template i) SecretStorePKCS11 \<and> PKCS11 (Template i) \<noteq> None
         then (case PKCS11PrepJob L i serviceLabels serviceAnnotations of
             None \<Rightarrow> done_with None
           | Some jobDef \<Rightarrow> run_job C L PKCS11PrepReadyCondition ''PKCS11PrepReady'' PKCS11PrepHash jobDef)
         else do {
           b_mark C PKCS11PrepReadyCondition ''PKCS11PrepReadyNotRunMessage'';
           fall_through ()
         }) (\<lambda>_. do {
         b_mark C NetworkAttachmentsReadyCondition ''NetworkAttachmentsReadyMessage'';
         fall_through ()
       })
       })
     }))"

section \<open>The services\<close>

text \<open>
  The specs the controller writes to its children: the shared template and the component's own,
  with the node selector and the topology inherited where the component sets none. The API timeout
  of the top level always wins.
\<close>

definition inherit ::
  "BarbicanSpecBase \<Rightarrow> BarbicanComponentTemplate \<Rightarrow> BarbicanComponentTemplate" where
  "inherit b ct = (let
     ct = (if ct_NodeSelector ct = None then ct\<lparr>ct_NodeSelector := sb_NodeSelector b\<rparr> else ct)
   in (if ct_TopologyRef ct = None then ct\<lparr>ct_TopologyRef := sb_TopologyRef b\<rparr> else ct))"

definition api_spec :: "'c Barbican \<Rightarrow> string \<Rightarrow> BarbicanAPISpec" where
  "api_spec i transportURLSecret = (let t = at_Core (BarbicanAPI (Spec i)) in
     \<lparr>ss_Template = Template i, ss_Component = inherit (Base (Spec i)) (atc_Component t),
      ss_ContainerImage = at_ContainerImage (BarbicanAPI (Spec i)),
      ss_DatabaseHostname = bs_DatabaseHostname (Status i),
      ss_TransportURLSecret = transportURLSecret, ss_NotificationsURLSecret = [],
      ss_CaBundleSecretName = CaBundleSecretName (TLS t),
      as_EnableSecureRBAC = EnableSecureRBAC t, as_Override_Service = Override_Service t,
      as_Internal = tls_Internal (TLS t), as_Public = tls_Public (TLS t),
      as_APITimeout = sb_APITimeout (Base (Spec i))\<rparr>)"

definition worker_spec :: "'c Barbican \<Rightarrow> string \<Rightarrow> BarbicanWorkerSpec" where
  "worker_spec i transportURLSecret =
     \<lparr>ss_Template = Template i,
      ss_Component = inherit (Base (Spec i)) (wt_Component (BarbicanWorker (Spec i))),
      ss_ContainerImage = wt_ContainerImage (BarbicanWorker (Spec i)),
      ss_DatabaseHostname = bs_DatabaseHostname (Status i),
      ss_TransportURLSecret = transportURLSecret, ss_NotificationsURLSecret = [],
      ss_CaBundleSecretName = CaBundleSecretName (API_TLS i)\<rparr>"

definition listener_spec :: "'c Barbican \<Rightarrow> string \<Rightarrow> BarbicanKeystoneListenerSpec" where
  "listener_spec i transportURLSecret =
     \<lparr>ss_Template = Template i,
      ss_Component = inherit (Base (Spec i)) (lt_Component (BarbicanKeystoneListener (Spec i))),
      ss_ContainerImage = lt_ContainerImage (BarbicanKeystoneListener (Spec i)),
      ss_DatabaseHostname = bs_DatabaseHostname (Status i),
      ss_TransportURLSecret = transportURLSecret, ss_NotificationsURLSecret = [],
      ss_CaBundleSecretName = CaBundleSecretName (API_TLS i)\<rparr>"

text \<open>
  The mutation of the existing (or new) child: the spec is replaced, the owner reference and the
  controller's finalizer are added.
\<close>

definition adopt_child ::
  "('w, 'c) parentlib \<Rightarrow> 'c Barbican \<Rightarrow> 's SubSpec_scheme \<Rightarrow> string \<Rightarrow>
   ('s SubSpec_scheme, 't) subcr \<Rightarrow> gerr + ('s SubSpec_scheme, 't) subcr" where
  "adopt_child L i spec notificationBusSecretName d = (let
     spec = (if NotificationsBus (Template i) \<noteq> None
       then spec\<lparr>ss_NotificationsURLSecret := notificationBusSecretName\<rparr> else spec)
   in (case SetControllerReference L (Meta i) (OwnerReferences (sub_Meta d)) of
         Inl err \<Rightarrow> Inl err
       | Inr owners \<Rightarrow> Inr (d\<lparr>sub_Spec := spec, sub_Meta := (sub_Meta d)\<lparr>OwnerReferences := owners,
           Finalizers := fst (AddFinalizer L (Finalizers (sub_Meta d)) (helper_Finalizer L))\<rparr>\<rparr>)))"

text \<open>The three \<open>DeploymentCreateOrUpdate\<close> functions: the name of the child and its mutation.\<close>

abbreviation apiDeploymentCreateOrUpdate ::
  "('w, 'c) parentlib \<Rightarrow> 'c Barbican \<Rightarrow> string \<Rightarrow> string \<Rightarrow> 'w \<Rightarrow> (gerr + 'c BarbicanAPI_cr) \<times> 'w" where
  "apiDeploymentCreateOrUpdate L i transportURLSecret notificationBusSecretName \<equiv>
     API_CreateOrUpdate L (adopt_child L i (api_spec i transportURLSecret) notificationBusSecretName)
       (Name (Meta i) @ ''-api'') (Namespace (Meta i))"

abbreviation workerDeploymentCreateOrUpdate ::
  "('w, 'c) parentlib \<Rightarrow> 'c Barbican \<Rightarrow> string \<Rightarrow> string \<Rightarrow> 'w \<Rightarrow> (gerr + 'c BarbicanWorker_cr) \<times> 'w" where
  "workerDeploymentCreateOrUpdate L i transportURLSecret notificationBusSecretName \<equiv>
     Worker_CreateOrUpdate L (adopt_child L i (worker_spec i transportURLSecret) notificationBusSecretName)
       (Name (Meta i) @ ''-worker'') (Namespace (Meta i))"

abbreviation keystoneListenerDeploymentCreateOrUpdate ::
  "('w, 'c) parentlib \<Rightarrow> 'c Barbican \<Rightarrow> string \<Rightarrow> string \<Rightarrow> 'w \<Rightarrow>
   (gerr + 'c BarbicanKeystoneListener_cr) \<times> 'w" where
  "keystoneListenerDeploymentCreateOrUpdate L i transportURLSecret notificationBusSecretName \<equiv>
     Listener_CreateOrUpdate L (adopt_child L i (listener_spec i transportURLSecret) notificationBusSecretName)
       (Name (Meta i) @ ''-keystone-listener'') (Namespace (Meta i))"

text \<open>A child is ready for the current inputs, and reports so, or it is not yet.\<close>

definition child_current :: "string \<Rightarrow> ('s, ('c, 't) SubStatus_scheme) subcr \<Rightarrow> bool" where
  "child_current expectedInputHash d \<longleftrightarrow>
     Generation (sub_Meta d) = ss_ObservedGeneration (sub_Status d) \<and>
     AppliedInputSecretHash (sub_Status d) = expectedInputHash"

definition child_ready :: "'c condlib \<Rightarrow> string \<Rightarrow> ('s, ('c, 't) SubStatus_scheme) subcr \<Rightarrow> bool" where
  "child_ready C expectedInputHash d \<longleftrightarrow> child_current expectedInputHash d \<and>
     cond_IsTrue C ReadyCondition (conds_of C (ss_Conditions (sub_Status d)))"

definition deploy_child ::
  "'c condlib \<Rightarrow> string \<Rightarrow> ctype \<Rightarrow> string \<Rightarrow> string \<Rightarrow>
   ('w \<Rightarrow> (gerr + ('s, ('c, 't) SubStatus_scheme) subcr) \<times> 'w) \<Rightarrow> ('w, 'c, bool) parent_phase" where
  "deploy_child C kind t m expectedInputHash createOrUpdate = do {
     r \<leftarrow> invoke_obs (\<lambda>r. EvChild kind (case r of Inl _ \<Rightarrow> False | Inr d \<Rightarrow> child_ready C expectedInputHash d))
       createOrUpdate;
     case r of
       Inl err \<Rightarrow> b_fail C (error_condition t m [err_text err]) (failed err)
     | Inr d \<Rightarrow> do {
         (if child_current expectedInputHash d
          then (case cond_Mirror C t (conds_of C (ss_Conditions (sub_Status d))) of
              None \<Rightarrow> State_Monad.return ()
            | Some c \<Rightarrow> b_set C c)
          else b_set C (requested_condition t ''DeploymentReadyRunningMessage''));
         fall_through (child_ready C expectedInputHash d)
       }
   }"

text \<open>The KeystoneListener and the Ready condition; the result is \<open>guardReady\<close>.\<close>

definition last_child ::
  "'c condlib \<Rightarrow> ('w, 'c) parentlib \<Rightarrow> string \<Rightarrow> string \<Rightarrow> string \<Rightarrow> bool \<Rightarrow> ('w, 'c, bool) parent_phase" where
  "last_child C L transportSecret notificationBusSecretName expectedInputHash othersReady = do {
     i \<leftarrow> the_instance;
     proceed (deploy_child C ''BarbicanKeystoneListener'' BarbicanKeystoneListenerReadyCondition
       ''BarbicanKeystoneListenerReadyErrorMessage'' expectedInputHash
       (keystoneListenerDeploymentCreateOrUpdate L i transportSecret notificationBusSecretName)) (\<lambda>listenerReady. do {
       b_status (\<lambda>s. s\<lparr>bs_ObservedGeneration := Generation (Meta i)\<rparr>);
       i \<leftarrow> the_instance;
       (if cond_AllSubConditionIsTrue C (barbican_conds C i)
        then b_mark C ReadyCondition ''ReadyMessage'' else State_Monad.return ());
       fall_through (othersReady \<and> listenerReady)
     })
   }"

text \<open>
  The three children in their order; the finalizers of unused database accounts are removed
  between the Worker and the KeystoneListener.
\<close>

definition children_phase ::
  "'c condlib \<Rightarrow> ('w, 'c) parentlib \<Rightarrow> string \<Rightarrow> string \<Rightarrow> ('w, 'c, bool) parent_phase" where
  "children_phase C L transportSecret notificationBusSecretName = do {
     i \<leftarrow> the_instance;
     case ObjectHash L [transportSecret, notificationBusSecretName] of
       Inl err \<Rightarrow> b_return (failed (Wrapped ''failed to compute expected input hash'' err))
     | Inr expectedInputHash \<Rightarrow>
         proceed (deploy_child C ''BarbicanAPI'' BarbicanAPIReadyCondition ''BarbicanAPIReadyErrorMessage''
           expectedInputHash
           (apiDeploymentCreateOrUpdate L i transportSecret notificationBusSecretName)) (\<lambda>apiReady.
         proceed (deploy_child C ''BarbicanWorker'' BarbicanWorkerReadyCondition ''BarbicanWorkerReadyErrorMessage''
           expectedInputHash
           (workerDeploymentCreateOrUpdate L i transportSecret notificationBusSecretName)) (\<lambda>workerReady.
         proceed (b_try (invoke EvUnusedAccounts (DeleteUnusedMariaDBAccountFinalizers L DatabaseCRName
           (DatabaseAccount (Template i)) (Namespace (Meta i))))) (\<lambda>_.
         last_child C L transportSecret notificationBusSecretName expectedInputHash
           (apiReady \<and> workerReady))))
   }"

section \<open>Rotation of the secrets\<close>

text \<open>
  The end of \<open>reconcileNormal\<close>: release the consumer finalizers of superseded secrets. \<open>guardReady\<close>
  is what protects a credential that pods may still use.
\<close>

definition rotate ::
  "('w, 'c) parentlib \<Rightarrow> string \<Rightarrow> string \<Rightarrow> string \<Rightarrow> bool \<Rightarrow> ('w, 'c, string) parent_phase" where
  "rotate L old current fin guardReady = do {
     i \<leftarrow> the_instance;
     r \<leftarrow> invoke (EvFinalizeRotation old current fin guardReady)
       (FinalizeSecretRotation L (Namespace (Meta i)) old current fin guardReady);
     case r of Inl err \<Rightarrow> b_return (failed err) | Inr name \<Rightarrow> fall_through name
   }"

definition remove_consumer ::
  "('w, 'c) parentlib \<Rightarrow> string \<Rightarrow> string \<Rightarrow> ('w, 'c, unit) parent_phase" where
  "remove_consumer L secret fin = do {
     i \<leftarrow> the_instance;
     b_try (invoke (EvRemoveConsumerFinalizer secret fin)
       (RemoveSecretConsumerFinalizer L (Namespace (Meta i)) secret fin))
   }"

definition prune ::
  "('w, 'c) parentlib \<Rightarrow> string \<Rightarrow> string list \<Rightarrow> ('w, 'c, unit) parent_phase" where
  "prune L fin keep = do {
     i \<leftarrow> the_instance;
     b_try (invoke (EvPruneFinalizers fin keep) (PruneSecretConsumerFinalizers L (Namespace (Meta i)) fin keep))
   }"

definition or_empty :: "string option \<Rightarrow> string" where
  "or_empty x = (case x of None \<Rightarrow> [] | Some s \<Rightarrow> s)"

text \<open>
  The notifications bus: rotate its secret when there is one; when it was disabled and the rollout
  is complete, release the finalizer and delete the transport URL, in this order.
\<close>

definition rotate_notifications ::
  "('w, 'c) parentlib \<Rightarrow> string option \<Rightarrow> bool \<Rightarrow> ('w, 'c, unit) parent_phase" where
  "rotate_notifications L notifSecret guardReady = do {
     i \<leftarrow> the_instance;
     case notifSecret of
       Some current \<Rightarrow>
         proceed (rotate L (or_empty (bs_NotificationsURLSecret (Status i))) current
           TransportConsumerFinalizer guardReady) (\<lambda>name. do {
           b_status (\<lambda>s. s\<lparr>bs_NotificationsURLSecret := Some name\<rparr>);
           fall_through ()
         })
     | None \<Rightarrow>
         if or_empty (bs_NotificationsURLSecret (Status i)) \<noteq> [] \<and> guardReady
         then proceed (remove_consumer L (or_empty (bs_NotificationsURLSecret (Status i)))
             TransportConsumerFinalizer) (\<lambda>_.
           proceed (b_try (transportURLDeleted L (notifications_name i))) (\<lambda>_. do {
             b_status (\<lambda>s. s\<lparr>bs_NotificationsURLSecret := None\<rparr>);
             fall_through ()
           }))
         else fall_through ()
   }"

text \<open>
  Finalizers stranded on intermediate secrets of a rapid rotation are pruned; \<open>keep\<close> lists the
  secrets that still hold one.
\<close>

definition prune_phase :: "('w, 'c) parentlib \<Rightarrow> string \<Rightarrow> string option \<Rightarrow> ('w, 'c, unit) parent_phase" where
  "prune_phase L transportSecret notifSecret = do {
     i \<leftarrow> the_instance;
     proceed (prune L TransportConsumerFinalizer
       [bs_TransportURLSecret (Status i), transportSecret,
        or_empty (bs_NotificationsURLSecret (Status i)), or_empty notifSecret]) (\<lambda>_.
     prune L ACConsumerFinalizer
       [ApplicationCredentialSecret (Status i), spec_AppCredSecret (Base (Spec i))])
   }"

definition rotation_phase ::
  "('w, 'c) parentlib \<Rightarrow> string \<Rightarrow> string option \<Rightarrow> bool \<Rightarrow> ('w, 'c, unit) parent_phase" where
  "rotation_phase L transportSecret notifSecret guardReady = do {
     i \<leftarrow> the_instance;
     proceed (rotate L (bs_TransportURLSecret (Status i)) transportSecret TransportConsumerFinalizer
       guardReady) (\<lambda>name. do {
       b_status (\<lambda>s. s\<lparr>bs_TransportURLSecret := name\<rparr>);
       proceed (rotate_notifications L notifSecret guardReady) (\<lambda>_. do {
       i \<leftarrow> the_instance;
       proceed (rotate L (ApplicationCredentialSecret (Status i)) (spec_AppCredSecret (Base (Spec i)))
         ACConsumerFinalizer guardReady) (\<lambda>name. do {
         b_status (\<lambda>s. s\<lparr>ApplicationCredentialSecret := name\<rparr>);
         prune_phase L transportSecret notifSecret
       })
       })
     })
   }"

section \<open>The reconciler\<close>

text \<open>Everything before the children: the names of the bus secret and of the notifications secret.\<close>

definition setup_phase ::
  "'c condlib \<Rightarrow> ('w, 'c) parentlib \<Rightarrow> ('w, 'c, string \<times> string option) parent_phase" where
  "setup_phase C L = (let serviceLabels = [(AppSelector L, ServiceName)] in
     proceed (messaging_phase C L serviceLabels) (\<lambda>transportSecret.
     proceed (notifications_phase C L serviceLabels) (\<lambda>notifSecret.
     proceed (secrets_phase C L) (\<lambda>configVars.
     proceed (ensureDB C L) (\<lambda>db.
     proceed (config_phase C L configVars serviceLabels db transportSecret notifSecret) (\<lambda>configVars.
     proceed (b_annotations C L) (\<lambda>serviceAnnotations.
     proceed (Barbican_reconcileInit C L serviceLabels serviceAnnotations) (\<lambda>_.
     fall_through (transportSecret, notifSecret)))))))))"

definition Barbican_reconcileNormal ::
  "'c condlib \<Rightarrow> ('w, 'c) parentlib \<Rightarrow> ('w, 'c, outcome option) parent" where
  "Barbican_reconcileNormal C L = finally_run (
     proceed (setup_phase C L) (\<lambda>(transportSecret, notifSecret).
     proceed (children_phase C L transportSecret (or_empty notifSecret)) (\<lambda>guardReady.
     rotation_phase L transportSecret notifSecret guardReady)))
     (\<lambda>_. State_Monad.return (Some ok))"

text \<open>Taking the controller's finalizer off an object it looks up: absence is no error.\<close>

definition unfinalize ::
  "('w, 'c) parentlib \<Rightarrow> (string list option \<Rightarrow> event) \<Rightarrow> (string list \<Rightarrow> event) \<Rightarrow> ('w \<Rightarrow> (gerr + string list) \<times> 'w) \<Rightarrow>
   (string list \<Rightarrow> 'w \<Rightarrow> gerr option \<times> 'w) \<Rightarrow> ('w, 'c, unit) parent_phase" where
  "unfinalize L evGet evUpdate get update = do {
     g \<leftarrow> invoke_obs (\<lambda>g. evGet (found g)) get;
     case g of
       Inl err \<Rightarrow> if IsNotFound err then fall_through () else b_return (failed err)
     | Inr fins \<Rightarrow> (let (fins', removed) = RemoveFinalizer L fins (helper_Finalizer L) in
         if removed then do {
           u \<leftarrow> invoke (evUpdate fins') (update fins');
           case u of
             None \<Rightarrow> fall_through ()
           | Some err \<Rightarrow> if IsNotFound err then fall_through () else b_return (failed err)
         }
         else fall_through ())
   }"

definition release_child :: "('w, 'c) parentlib \<Rightarrow> string \<Rightarrow> string \<Rightarrow> ('w, 'c, unit) parent_phase" where
  "release_child L kind suffix = do {
     i \<leftarrow> the_instance;
     let name = Name (Meta i) @ suffix;
     unfinalize L (EvGetChild name) (EvUpdateChild name) (Child_Get L kind name (Namespace (Meta i)))
       (Child_Update L kind name (Namespace (Meta i)))
   }"

definition release_database :: "('w, 'c) parentlib \<Rightarrow> ('w, 'c, unit) parent_phase" where
  "release_database L = do {
     i \<leftarrow> the_instance;
     e \<leftarrow> invoke_obs (\<lambda>e. EvGetDatabase (e = None))
       (GetDatabaseByNameAndAccount L DatabaseCRName (DatabaseAccount (Template i)) (Namespace (Meta i)));
     case e of
       Some err \<Rightarrow> if IsNotFound err then fall_through () else b_return (failed err)
     | None \<Rightarrow> b_try (invoke EvDeleteDatabaseFinalizer
         (Database_DeleteFinalizer L DatabaseCRName (DatabaseAccount (Template i)) (Namespace (Meta i))))
   }"

definition bus_secret ::
  "('w, 'c) parentlib \<Rightarrow> string \<Rightarrow> string list \<Rightarrow> ('w, 'c, string list) parent_phase" where
  "bus_secret L tuName secrets = do {
     i \<leftarrow> the_instance;
     t \<leftarrow> invoke_obs (\<lambda>t. EvGetTransportURL tuName (map_option tu_SecretName (found t)))
       (TransportURL_Get L tuName (Namespace (Meta i)));
     case t of
       Inl err \<Rightarrow> if IsNotFound err then fall_through secrets else b_return (failed err)
     | Inr tu \<Rightarrow> fall_through (secrets @ [tu_SecretName tu])
   }"

text \<open>\<open>reconcileDelete\<close>: every object is released before the controller's own finalizer goes.\<close>

definition release_secrets :: "('w, 'c) parentlib \<Rightarrow> ('w, 'c, unit) parent_phase" where
  "release_secrets L = do {
     i \<leftarrow> the_instance;
     proceed (for_each (\<lambda>secret. remove_consumer L secret ACConsumerFinalizer)
       [ApplicationCredentialSecret (Status i), spec_AppCredSecret (Base (Spec i))]) (\<lambda>_.
     proceed (for_fold (bus_secret L) [transport_name i, notifications_name i]
       [bs_TransportURLSecret (Status i)]) (\<lambda>transportSecrets.
     proceed (for_each (\<lambda>secret. remove_consumer L secret TransportConsumerFinalizer)
       (transportSecrets @ (case bs_NotificationsURLSecret (Status i) of None \<Rightarrow> [] | Some n \<Rightarrow> [n]))) (\<lambda>_.
     proceed (prune L TransportConsumerFinalizer []) (\<lambda>_.
     prune L ACConsumerFinalizer []))))
   }"

definition Barbican_reconcileDelete ::
  "('w, 'c) parentlib \<Rightarrow> ('w, 'c, outcome option) parent" where
  "Barbican_reconcileDelete L = finally_run (
     proceed (release_database L) (\<lambda>_. do {
     i \<leftarrow> the_instance;
     proceed (unfinalize L EvGetKeystoneService EvUpdateKeystoneService
       (GetKeystoneServiceWithName L ServiceName (Namespace (Meta i)))
       (KeystoneService_Update L ServiceName (Namespace (Meta i)))) (\<lambda>_.
     proceed (release_child L ''BarbicanAPI'' ''-api'') (\<lambda>_.
     proceed (release_child L ''BarbicanWorker'' ''-worker'') (\<lambda>_.
     proceed (release_child L ''BarbicanKeystoneListener'' ''-keystone-listener'') (\<lambda>_.
     release_secrets L))))
     })) (\<lambda>_. do {
     modify (\<lambda>i. i\<lparr>Meta := (Meta i)\<lparr>Finalizers :=
       fst (RemoveFinalizer L (Finalizers (Meta i)) (helper_Finalizer L))\<rparr>\<rparr>);
     State_Monad.return (Some ok)
   })"

definition Barbican_conditions :: "condition list" where
  "Barbican_conditions =
     [init_condition ReadyCondition ''ReadyInitMessage'',
      init_condition DBReadyCondition ''DBReadyInitMessage'',
      init_condition PKCS11PrepReadyCondition ''PKCS11PrepReadyInitMessage'',
      init_condition DBSyncReadyCondition ''DBSyncReadyInitMessage'',
      init_condition InputReadyCondition ''InputReadyInitMessage'',
      init_condition ServiceConfigReadyCondition ''ServiceConfigReadyInitMessage'',
      init_condition BarbicanAPIReadyCondition ''BarbicanAPIReadyInitMessage'',
      init_condition BarbicanWorkerReadyCondition ''BarbicanWorkerReadyInitMessage'',
      init_condition BarbicanKeystoneListenerReadyCondition ''BarbicanKeystoneListenerReadyInitMessage'',
      init_condition NetworkAttachmentsReadyCondition ''NetworkAttachmentsReadyInitMessage'',
      init_condition ServiceAccountReadyCondition ''ServiceAccountReadyInitMessage'',
      init_condition RoleReadyCondition ''RoleReadyInitMessage'',
      init_condition RoleBindingReadyCondition ''RoleBindingReadyInitMessage'']"

definition Barbican_body ::
  "'c condlib \<Rightarrow> ('w, 'c) parentlib \<Rightarrow> bool \<Rightarrow> ('w, 'c, outcome option) parent" where
  "Barbican_body C L isNewInstance = do {
     i \<leftarrow> the_instance;
     let cl = cond_CreateList C Barbican_conditions;
     let cl = (if NotificationsBus (Template i) \<noteq> None
       then cond_Set C (Some (init_condition NotificationBusInstanceReadyCondition
         ''NotificationBusInstanceReadyInitMessage'')) cl else cl);
     modify (upd_bconds C (cond_Init C cl));
     let (finalizers, added) = AddFinalizer L (Finalizers (Meta i)) (helper_Finalizer L);
     (if \<not> Deleted (Meta i)
      then modify (\<lambda>i. i\<lparr>Meta := (Meta i)\<lparr>Finalizers := finalizers\<rparr>\<rparr>)
      else State_Monad.return ());
     if (\<not> Deleted (Meta i) \<and> added) \<or> isNewInstance then State_Monad.return (Some ok)
     else do {
       b_status (\<lambda>s. s\<lparr>bs_Hash := Some (case bs_Hash s of None \<Rightarrow> [] | Some h \<Rightarrow> h)\<rparr>);
       if Deleted (Meta i) then Barbican_reconcileDelete L else Barbican_reconcileNormal C L
     }
   }"

definition Barbican_Reconcile ::
  "'c condlib \<Rightarrow> ('w, 'c) parentlib \<Rightarrow> ('w \<Rightarrow> (gerr + 'c Barbican) \<times> 'w) \<Rightarrow>
   ('c Barbican \<Rightarrow> gerr option) \<Rightarrow> ('c Barbican \<Rightarrow> 'w \<Rightarrow> gerr option \<times> 'w) \<Rightarrow>
   'w \<Rightarrow> outcome option \<times> 'w \<times> event list" where
  "Barbican_Reconcile C L get newHelper patch =
     reconcile_around C (\<lambda>i. bs_Conditions (Status i)) (upd_bconds C) get newHelper patch
       (Barbican_body C L)"

end
