(* ===== verification/Parent_Frames.thy ===== *)
theory Parent_Frames
  imports Parent
begin

text \<open>
  What the Barbican controller does before it creates its children, proved once for all relations
  that admit its primitive steps, as for the services.
\<close>

section \<open>Calls\<close>

fun setup_call :: "event \<Rightarrow> bool" where
  "setup_call (EvTransportURL _) = True"
| "setup_call (EvManageFinalizer _ _) = True"
| "setup_call (EvVerifySecret _ _ _) = True"
| "setup_call EvEnsureAccount = True"
| "setup_call EvDatabase = True"
| "setup_call EvWaitDatabase = True"
| "setup_call (EvGetSecret _) = True"
| "setup_call EvGetKeystoneAPI = True"
| "setup_call (EvEnsureSecrets _) = True"
| "setup_call (EvGetNAD _) = True"
| "setup_call EvRbac = True"
| "setup_call EvKeystoneService = True"
| "setup_call (EvJob _) = True"
| "setup_call _ = False"

text \<open>A tracked secret name is written only while it is unset.\<close>

definition setup_update :: "('c BarbicanStatus \<Rightarrow> 'c BarbicanStatus) \<Rightarrow> bool" where
  "setup_update f \<longleftrightarrow> (\<forall>x. bs_Conditions (f x) = bs_Conditions x \<and>
     (bs_TransportURLSecret x \<noteq> [] \<longrightarrow> bs_TransportURLSecret (f x) = bs_TransportURLSecret x) \<and>
     (bs_NotificationsURLSecret x \<noteq> None \<longrightarrow> bs_NotificationsURLSecret (f x) = bs_NotificationsURLSecret x) \<and>
     ApplicationCredentialSecret (f x) = ApplicationCredentialSecret x)"

text \<open>The conditions of the RBAC helper are the three RBAC conditions.\<close>

definition rbac_types :: "ctype set" where
  "rbac_types = {ServiceAccountReadyCondition, RoleReadyCondition, RoleBindingReadyCondition}"

locale parent_frame = frame R
  for R :: "('w, 'c) parent_state \<Rightarrow> ('w, 'c) parent_state \<Rightarrow> bool" +
  fixes C :: "'c condlib" and L :: "('w, 'c) parentlib" and T :: "ctype \<Rightarrow> bool"
  assumes step_call: "setup_call ev \<Longrightarrow> R s (s\<lparr>world := w, trace := trace s @ [ev]\<rparr>)"
    and step_set: "\<not> is_true (Some d) \<or> T (cond_type d) \<Longrightarrow>
      R s (s\<lparr>inst := upd_bconds C (cond_Set C (Some d)) (inst s)\<rparr>)"
    and step_mark: "T t \<Longrightarrow> R s (s\<lparr>inst := upd_bconds C (cond_MarkTrue C t m) (inst s)\<rparr>)"
    and step_remove: "R s (s\<lparr>inst := upd_bconds C (cond_Remove C t) (inst s)\<rparr>)"
    and step_status: "setup_update f \<Longrightarrow> R s (s\<lparr>inst := upd_bstatus f (inst s)\<rparr>)"
    and step_account: "R s (s\<lparr>inst := set_service_account (inst s)\<rparr>)"
    and step_rbac: "ReconcileRbac L n ns rules w = ((r, ds), w') \<Longrightarrow>
      R s (s\<lparr>inst := upd_bconds C (fold (\<lambda>d. cond_Set C (Some d)) ds) (inst s)\<rparr>)"
    and mirror_ok: "cond_Mirror C KeystoneServiceReadyCondition c = Some d \<Longrightarrow> T (cond_type d)"
    and setup_types: "t \<noteq> ReadyCondition \<Longrightarrow> T t"
begin

lemma call_frame: "setup_call ev \<Longrightarrow> state_io_rel R (invoke ev f)"
  by (simp add: state_io_rel_def step_call)

lemma call_obs_frame: "(\<And>a. setup_call (ev a)) \<Longrightarrow> state_io_rel R (invoke_obs ev f)"
  by (simp add: state_io_rel_def step_call)

lemma instance_frame: "state_io_rel R the_instance"
  by (simp add: state_io_rel_def frame_refl)

lemma set_frame: "\<not> is_true (Some d) \<or> T (cond_type d) \<Longrightarrow> state_io_rel R (b_set C d)"
  by (simp add: state_io_rel_def step_set)

lemma mark_frame: "T t \<Longrightarrow> state_io_rel R (b_mark C t m)"
  by (simp add: state_io_rel_def step_mark)

lemma status_frame: "setup_update f \<Longrightarrow> state_io_rel R (b_status f)"
  by (simp add: state_io_rel_def step_status)

lemma return_frame': "state_io_rel R (b_return r)"
  by (simp add: b_return_def done_frame)

lemma false_conditions:
  "\<not> is_true (Some (error_condition t m args))" "\<not> is_true (Some (requested_condition t m))"
  by (simp_all add: error_condition_def requested_condition_def)

lemma fail_frame: "\<not> is_true (Some d) \<Longrightarrow> state_io_rel R (b_fail C d r)"
  by (simp add: b_fail_def bind_frame set_frame return_frame')

lemma try_frame: "state_io_rel R m \<Longrightarrow> state_io_rel R (b_try m)"
  unfolding b_try_def by (intro frame_rules return_frame')

lemmas step_rules = frame_rules call_frame call_obs_frame instance_frame set_frame mark_frame
  status_frame return_frame' fail_frame try_frame

lemma transport_frame: "state_io_rel R (transportURLCreateOrUpdate L l b)"
  unfolding transportURLCreateOrUpdate_def Let_def by (intro step_rules) simp

lemma manage_frame: "state_io_rel R (manage_finalizer L s f)"
  unfolding manage_finalizer_def by (intro step_rules) simp

lemma messaging_frame: "state_io_rel R (messaging_phase C L l)"
  unfolding messaging_phase_def Let_def
  by (intro step_rules transport_frame manage_frame)
    (simp_all add: false_conditions setup_types setup_update_def)

lemma notifications_frame: "state_io_rel R (notifications_phase C L l)"
proof -
  have "state_io_rel R (modify (upd_bconds C (cond_Remove C t)))" for t
    by (simp add: state_io_rel_def step_remove)
  then show ?thesis
    unfolding notifications_phase_def Let_def
    by (intro step_rules transport_frame manage_frame)
      (simp_all add: false_conditions setup_types setup_update_def)
qed

lemma check_frame: "state_io_rel R (b_check C L n fs vars)"
  unfolding b_check_def Barbican_verifySecret_def
  by (intro step_rules) (simp_all add: false_conditions)

lemma secrets_frame: "state_io_rel R (secrets_phase C L)"
proof -
  have "state_io_rel R (modify set_service_account)"
    by (simp add: state_io_rel_def step_account)
  then show ?thesis
    unfolding secrets_phase_def Let_def
    by (intro step_rules check_frame) (simp_all add: setup_types)
qed

lemma database_frame: "state_io_rel R (ensureDB C L)"
  unfolding ensureDB_def Let_def split_def
  by (intro step_rules) (simp_all add: false_conditions setup_types setup_update_def)

lemma secret_frame: "state_io_rel R (b_secret L n)"
  unfolding b_secret_def by (intro step_rules) simp

lemma credentials_frame: "state_io_rel R (app_credentials L pd)"
  unfolding app_credentials_def Let_def by (intro step_rules secret_frame)

lemma parameter_frames:
  "state_io_rel R (notifications_url L n ps)" "state_io_rel R (pkcs11_login L ps)"
  "state_io_rel R (simple_crypto_keks L ps)"
  unfolding notifications_url_def pkcs11_login_def simple_crypto_keks_def Let_def
  by (intro step_rules secret_frame)+

lemma generate_frame: "state_io_rel R (GenerateConfigsGeneric K m v p d l b ts)"
  unfolding GenerateConfigsGeneric_def Let_def by (intro step_rules) simp_all

lemma service_config_frame: "state_io_rel R (generateServiceConfig L v l db t n)"
  unfolding generateServiceConfig_def Let_def
  by (intro step_rules secret_frame credentials_frame parameter_frames generate_frame) simp

lemma config_frame: "state_io_rel R (config_phase C L v l db t n)"
  unfolding config_phase_def Let_def
  by (intro step_rules service_config_frame manage_frame)
    (simp_all add: false_conditions setup_types)

lemma annotations_frame: "state_io_rel R (b_annotations C L)"
  unfolding b_annotations_def Let_def by (intro step_rules) (simp_all add: false_conditions)

lemma rbac_frame: "state_io_rel R (rbac_step C L)"
proof -
  have "R s (snd (run_state (rbac_step C L) s))" for s
  proof -
    obtain r ds w where rbac: "ReconcileRbac L (RbacResourceName (inst s)) (RbacNamespace (inst s)) rbacRules (world s)
        = ((r, ds), w)"
      by (metis prod.exhaust)
    let ?s1 = "s\<lparr>world := w, trace := trace s @ [EvRbac]\<rparr>"
    have "snd (run_state (rbac_step C L) s) =
        ?s1\<lparr>inst := upd_bconds C (fold (\<lambda>d. cond_Set C (Some d)) ds) (inst ?s1)\<rparr>"
      by (simp add: rbac_step_def rbac split_beta)
    moreover have "R s ?s1" by (simp add: step_call)
    ultimately show ?thesis
      using frame_trans [OF _ step_rbac [OF rbac, of ?s1]] by simp
  qed
  then show ?thesis by (simp add: state_io_rel_def)
qed

lemma keystone_frame: "state_io_rel R (keystone_step C L l)"
  unfolding keystone_step_def Let_def split_def
  by (intro step_rules secret_frame) (auto simp: setup_update_def dest: mirror_ok)

lemma job_frame: "t \<noteq> ReadyCondition \<Longrightarrow> state_io_rel R (run_job C L t p k j)"
  unfolding run_job_def Let_def split_def
  by (intro step_rules) (simp_all add: false_conditions setup_types setup_update_def)

lemma init_frame: "state_io_rel R (Barbican_reconcileInit C L l a)"
  unfolding Barbican_reconcileInit_def
  by (intro step_rules rbac_frame keystone_frame job_frame) (simp_all add: setup_types)

lemma setup_frame: "state_io_rel R (setup_phase C L)"
  unfolding setup_phase_def Let_def
  by (intro step_rules messaging_frame notifications_frame secrets_frame database_frame config_frame
      annotations_frame init_frame)

end

section \<open>Interpretations\<close>

interpretation setup_calls: parent_frame "emits setup_call" C L "\<lambda>_. True" for C L
proof unfold_locales
  show "emits setup_call s (s\<lparr>world := w, trace := trace s @ [ev]\<rparr>)" if "setup_call ev" for s w ev
    using that by (intro emitsI [where evs = "[ev]"]) simp_all
qed (auto intro!: emitsI [where evs = "[]"])

text \<open>The metadata is not written, and the spec only in the name of the service account.\<close>

definition barbican_identity :: "'c Barbican \<Rightarrow> ObjectMeta \<times> BarbicanSpec" where
  "barbican_identity i = (Meta i, Spec (set_service_account i))"

lemma set_account_twice:
  "Spec (set_service_account (set_service_account i)) = Spec (set_service_account i)"
  "Meta (set_service_account i) = Meta i" "Status (set_service_account i) = Status i"
  by (simp_all add: set_service_account_def RbacResourceName_def)

lemma set_account_status:
  "Spec (set_service_account (upd_bstatus f i)) = Spec (set_service_account i)"
  "Spec (set_service_account (upd_bconds C g i)) = Spec (set_service_account i)"
  by (simp_all add: set_service_account_def RbacResourceName_def)

interpretation setup_same: parent_frame "keeps barbican_identity" C L "\<lambda>_. True" for C L
  by unfold_locales
    (simp_all add: keeps_def barbican_identity_def set_account_twice set_account_status)

text \<open>A tracked secret name, once set, survives the setup.\<close>

definition tracks :: "string \<Rightarrow> string option \<Rightarrow> string \<Rightarrow> 'c Barbican \<Rightarrow> bool" where
  "tracks t n a i \<longleftrightarrow> t \<noteq> [] \<and> n \<noteq> None \<and> bs_TransportURLSecret (Status i) = t \<and>
     bs_NotificationsURLSecret (Status i) = n \<and> ApplicationCredentialSecret (Status i) = a"

interpretation setup_tracks: parent_frame "preserves (tracks t n a)" C L "\<lambda>_. True" for t n a C L
  by unfold_locales
    (auto simp: preserves_def tracks_def setup_update_def set_account_twice)

section \<open>The children and the rotation\<close>

fun child_call :: "event \<Rightarrow> bool" where
  "child_call (EvChild _ _) = True"
| "child_call EvUnusedAccounts = True"
| "child_call _ = False"

text \<open>The calls that take a secret or a transport URL away from its consumers.\<close>

fun revoking :: "event \<Rightarrow> bool" where
  "revoking (EvFinalizeRotation _ _ _ guardReady) = guardReady"
| "revoking (EvRemoveConsumerFinalizer _ _) = True"
| "revoking (EvDeleteTransportURL _) = True"
| "revoking _ = False"

lemma not_revoking: "setup_call e \<Longrightarrow> \<not> revoking e" "child_call e \<Longrightarrow> \<not> revoking e"
  by (cases e; simp)+

lemma emits_b:
  "state_io_rel (emits A) (b_set C d)" "state_io_rel (emits A) (b_mark C t m)"
  "state_io_rel (emits A) (b_status f)" "state_io_rel (emits A) (b_return r)"
  "state_io_rel (emits A) (b_fail C d r)"
  by (auto simp: state_io_rel_def intro!: emitsI [where evs = "[]"])

lemma emits_try: "state_io_rel (emits A) m \<Longrightarrow> state_io_rel (emits A) (b_try m)"
  unfolding b_try_def by (intro emit_rules emits_b)

lemma deploy_child_run:
  assumes "run_state (deploy_child C kind t m h f) s = (r, s')"
  shows "\<exists>b. trace s' = trace s @ [EvChild kind b] \<and> (r = Inr b \<or> (\<exists>x. r = Inl x) \<and> \<not> b)"
  using assms by (cases "fst (f (world s))") (auto simp: deploy_child_def split: if_splits option.splits)

lemma emits_deploy: "state_io_rel (emits child_call) (deploy_child C kind t m h f)"
  unfolding state_io_rel_def
proof
  fix s
  show "emits child_call s (snd (run_state (deploy_child C kind t m h f) s))"
    using deploy_child_run [of C kind t m h f s] by (metis child_call.simps(1) emitsI list.pred_inject prod.collapse)
qed

lemma emits_children: "state_io_rel (emits child_call) (children_phase C L t n)"
  unfolding children_phase_def last_child_def Let_def
  by (intro emit_rules emits_b emits_try emits_deploy) simp_all

lemma proceed_Inr:
  assumes "run_state (proceed m f) s = (Inr x, s')"
  obtains a s1 where "run_state m s = (Inr a, s1)" and "run_state (f a) s1 = (Inr x, s')"
  using assms by (auto split: prod.splits sum.splits)

lemma emits_trace: "state_io_rel (emits A) m \<Longrightarrow> run_state m s = (r, s') \<Longrightarrow> \<exists>evs. trace s' = trace s @ evs \<and> list_all A evs"
  by (metis emits_run)

text \<open>When the children are all ready, the trace shows it.\<close>

lemma children_ready:
  assumes run: "run_state (children_phase C L t n) s = (Inr True, s')"
  shows "\<exists>evs. trace s' = trace s @ evs \<and>
    {EvChild ''BarbicanAPI'' True, EvChild ''BarbicanWorker'' True, EvChild ''BarbicanKeystoneListener'' True} \<subseteq> set evs"
  using run unfolding children_phase_def last_child_def Let_def
  by (auto simp del: run_proceed simp: b_try_def split: sum.splits option.splits prod.splits if_splits
      elim!: proceed_Inr dest!: deploy_child_run)

section \<open>The rotation\<close>

fun rotation_call :: "event \<Rightarrow> bool" where
  "rotation_call (EvFinalizeRotation _ _ _ _) = True"
| "rotation_call (EvRemoveConsumerFinalizer _ _) = True"
| "rotation_call (EvDeleteTransportURL _) = True"
| "rotation_call (EvPruneFinalizers _ _) = True"
| "rotation_call _ = False"

lemma emits_rotation:
  "state_io_rel (emits (\<lambda>e. rotation_call e \<and> (g \<or> \<not> revoking e))) (rotation_phase L t n g)"
proof -
  have rot: "state_io_rel (emits (\<lambda>e. rotation_call e \<and> (g \<or> \<not> revoking e))) (rotate L x y f g)" for x y f
    unfolding rotate_def by (intro emit_rules emits_b) simp
  have prune: "state_io_rel (emits (\<lambda>e. rotation_call e \<and> (g \<or> \<not> revoking e))) (prune L f k)" for f k
    unfolding prune_def by (intro emit_rules emits_try) simp
  have remove: "g \<Longrightarrow> state_io_rel (emits (\<lambda>e. rotation_call e \<and> (g \<or> \<not> revoking e))) (remove_consumer L x f)" for x f
    unfolding remove_consumer_def by (intro emit_rules emits_try) simp
  have delete: "g \<Longrightarrow> state_io_rel (emits (\<lambda>e. rotation_call e \<and> (g \<or> \<not> revoking e))) (b_try (transportURLDeleted L x))" for x
    unfolding transportURLDeleted_def by (intro emits_try emit_rules) simp
  show ?thesis
    unfolding rotation_phase_def rotate_notifications_def prune_phase_def
    by (intro emit_rules emits_b rot prune remove delete; simp)
qed

text \<open>Pruning never drops a secret that the status still tracks, or the application credential in use.\<close>

fun prune_ok :: "'c Barbican \<Rightarrow> event \<Rightarrow> bool" where
  "prune_ok i (EvPruneFinalizers fin keep) =
     ((fin = TransportConsumerFinalizer \<and> bs_TransportURLSecret (Status i) \<in> set keep \<and>
       or_empty (bs_NotificationsURLSecret (Status i)) \<in> set keep) \<or>
      (fin = ACConsumerFinalizer \<and> ApplicationCredentialSecret (Status i) \<in> set keep \<and>
       spec_AppCredSecret (Base (Spec i)) \<in> set keep))"
| "prune_ok i _ = True"

fun prune_call :: "event \<Rightarrow> bool" where
  "prune_call (EvPruneFinalizers _ _) = True"
| "prune_call _ = False"

lemma no_prune_ok: "\<not> prune_call e \<Longrightarrow> prune_ok i e"
  by (cases e) simp_all

definition prunes_ok :: "('w, 'c, 'a) parent \<Rightarrow> bool" where
  "prunes_ok m \<longleftrightarrow> (\<forall>s. \<exists>evs. trace (after m s) = trace s @ evs \<and> list_all (prune_ok (inst (after m s))) evs)"

lemma prunes_none:
  assumes "state_io_rel (emits (\<lambda>e. \<not> prune_call e)) m"
  shows "prunes_ok m"
  unfolding prunes_ok_def
proof
  fix s
  obtain evs where "trace (after m s) = trace s @ evs" "list_all (\<lambda>e. \<not> prune_call e) evs"
    using emits_trace [OF assms] unfolding after_def by (metis prod.collapse)
  then show "\<exists>evs. trace (after m s) = trace s @ evs \<and> list_all (prune_ok (inst (after m s))) evs"
    by (auto intro: no_prune_ok elim: list.pred_mono_strong)
qed

lemma prunes_bind:
  assumes "state_io_rel (emits (\<lambda>e. \<not> prune_call e)) m" and "\<And>a. prunes_ok (f a)"
  shows "prunes_ok (State_Monad.bind m f)"
  unfolding prunes_ok_def
proof
  fix s
  obtain a s1 where run: "run_state m s = (a, s1)" by fastforce
  then obtain e1 where e1: "trace s1 = trace s @ e1" "list_all (\<lambda>e. \<not> prune_call e) e1"
    using emits_trace [OF assms(1)] by blast
  obtain e2 where "trace (after (f a) s1) = trace s1 @ e2" "list_all (prune_ok (inst (after (f a) s1))) e2"
    using assms(2) unfolding prunes_ok_def by blast
  with e1 run show "\<exists>evs. trace (after (State_Monad.bind m f) s) = trace s @ evs \<and>
      list_all (prune_ok (inst (after (State_Monad.bind m f) s))) evs"
    by (intro exI [of _ "e1 @ e2"]) (auto simp: after_def intro: no_prune_ok elim: list.pred_mono_strong)
qed

lemma prunes_return: "prunes_ok (State_Monad.return x)"
  by (intro prunes_none emit_rules)

lemma prunes_proceed:
  assumes "state_io_rel (emits (\<lambda>e. \<not> prune_call e)) m" and "\<And>a. prunes_ok (f a)"
  shows "prunes_ok (proceed m f)"
  unfolding proceed_def
  by (rule prunes_bind [OF assms(1)]) (auto split: sum.splits intro: assms(2) prunes_return)

lemma prunes_phase: "prunes_ok (prune_phase L t n)"
  by (auto simp: prunes_ok_def prune_phase_def prune_def b_try_def after_def split: option.splits)

lemma rotation_prunes: "prunes_ok (rotation_phase L t n g)"
proof -
  have rot: "state_io_rel (emits (\<lambda>e. \<not> prune_call e)) (rotate L x y f g)" for x y f
    unfolding rotate_def by (intro emit_rules emits_b) simp
  have "state_io_rel (emits (\<lambda>e. \<not> prune_call e)) (rotate_notifications L n g)"
    unfolding rotate_notifications_def remove_consumer_def transportURLDeleted_def
    by (intro emit_rules emits_b rot emits_try) simp_all
  then show ?thesis
    unfolding rotation_phase_def
    by (intro prunes_proceed prunes_bind prunes_phase rot emits_the_instance emits_b)
qed

lemma setup_child_no_prune: "setup_call e \<Longrightarrow> \<not> prune_call e" "child_call e \<Longrightarrow> \<not> prune_call e"
  by (cases e; simp)+

lemma normal_prunes: "prunes_ok (Barbican_reconcileNormal C L)"
proof -
  have "prunes_ok (proceed (setup_phase C L) (\<lambda>(t, n).
      proceed (children_phase C L t (or_empty n)) (\<lambda>g. rotation_phase L t n g)))" (is "prunes_ok ?m")
    unfolding split_def
    by (intro prunes_proceed rotation_prunes emits_mono [OF _ setup_calls.setup_frame]
        emits_mono [OF _ emits_children]) (auto dest: setup_child_no_prune)
  moreover have "after (finally_run ?m (\<lambda>_. State_Monad.return (Some ok))) s = after ?m s" for s
    by (simp add: after_def split: prod.split sum.split)
  ultimately show ?thesis
    unfolding prunes_ok_def Barbican_reconcileNormal_def by simp
qed

end
