(* ===== verification/Parent_Samples.thy ===== *)
theory Parent_Samples
  imports Parent_Frames Service_Samples
begin

text \<open>
  Concrete operations of the infra, mariadb and keystone operators, on which the witnesses run the
  Barbican controller: every dependency is there, the jobs have finished, and the three services
  run with the current secrets.
\<close>

definition ex_ready :: "string \<Rightarrow> ex_conds SubStatus" where
  "ex_ready applied = (ex_substatus [(ReadyCondition, TrueCondition ReadyCondition (Msg [] []))])
     \<lparr>AppliedInputSecretHash := applied\<rparr>"

definition ex_run_api :: "string \<Rightarrow> ex_conds BarbicanAPI_cr" where
  "ex_run_api applied = (ex_apicr [])\<lparr>sub_Status := SubStatus.extend (ex_ready applied) \<lparr>APIEndpoints = None\<rparr>\<rparr>"

definition ex_run_worker :: "string \<Rightarrow> ex_conds BarbicanWorker_cr" where
  "ex_run_worker applied = (ex_worker [])\<lparr>sub_Status := ex_ready applied\<rparr>"

definition ex_transport :: "string \<Rightarrow> TransportURL_cr \<Rightarrow> TransportURL_cr" where
  "ex_transport secret tu = tu\<lparr>tu_SecretName := secret\<rparr>"

definition ex_database :: Database where
  "ex_database = \<lparr>DatabaseHostname = ''db'', DatabaseClientConfig = (\<lambda>tls. []), DatabaseUserName = ''barbican'',
     DatabaseSecretData = []\<rparr>"

text \<open>The services have applied the secret \<open>applied\<close> of the message bus; the current one is \<open>current\<close>.\<close>

definition ex_parentlib :: "string \<Rightarrow> string \<Rightarrow> (string list, ex_conds) parentlib" where
  "ex_parentlib applied current = kube.extend ex_kube
     (parentlib.fields ''DatabasePassword'' ''AC_ID'' ''AC_SECRET'' (\<lambda>m rs. Inr rs)
       (\<lambda>f tu w. ((case f tu of Inl e \<Rightarrow> Inl e | Inr tu \<Rightarrow> Inr (ex_transport current tu)), w))
       (\<lambda>n ns w. (Inl (ApiError True ''not found''), w)) (\<lambda>n ns w. (None, w))
       (\<lambda>ns s f w. (None, w)) (\<lambda>ns old new f g w. (Inr (if g then new else old), w))
       (\<lambda>ns s f w. (None, w)) (\<lambda>ns f keep w. (None, w))
       (\<lambda>n ns fs t w. (if n \<in> set w then ([], requeue_after t, None) else (''h'', no_result, None), w))
       (\<lambda>a ns r p w. (None, w)) (\<lambda>d w. ((ok, ex_database), w)) (\<lambda>d w. ((ok, ex_database), w))
       (\<lambda>n a ns w. (None, w)) (\<lambda>n a ns w. (None, w)) (\<lambda>n a ns w. (None, w))
       (\<lambda>ns w. (Inr \<lparr>InternalEndpoint = Inr ''http://keystone'', ks_Region = ''regionOne''\<rparr>, w))
       (\<lambda>n ns rs w. ((ok, []), w)) (\<lambda>s ns l t w. ((ok, [], ''id''), w))
       (\<lambda>n ns w. (Inr [], w)) (\<lambda>n ns fs w. (None, w))
       (\<lambda>j k p t h w. ((ok, True, ''job''), w))
       (\<lambda>f n ns w. (f (ex_run_api (applied @ ''+'')), w)) (\<lambda>f n ns w. (f (ex_run_worker (applied @ ''+'')), w))
       (\<lambda>f n ns w. (f (ex_run_worker (applied @ ''+'')), w))
       (\<lambda>k n ns w. (Inr [''openstack.org/barbican''], w)) (\<lambda>k n ns fs w. (None, w)))"

lemmas ex_parentlib_simps = ex_parentlib_def ex_kube_simps parentlib.defs

lemma ex_parentlib_sel [simp]:
  "SetControllerReference (ex_parentlib a c) m rs = Inr rs"
  "TransportURL_CreateOrUpdate (ex_parentlib a c) ft tu w =
     ((case ft tu of Inl e \<Rightarrow> Inl e | Inr tu \<Rightarrow> Inr (ex_transport c tu)), w)"
  "TransportURL_Delete (ex_parentlib a c) n ns w = (None, w)"
  "ManageSecretConsumerFinalizer (ex_parentlib a c) ns s f w = (None, w)"
  "FinalizeSecretRotation (ex_parentlib a c) ns old new f g w = (Inr (if g then new else old), w)"
  "RemoveSecretConsumerFinalizer (ex_parentlib a c) ns s f w = (None, w)"
  "PruneSecretConsumerFinalizers (ex_parentlib a c) ns f keep w = (None, w)"
  "VerifySecretFields (ex_parentlib a c) n ns fs t w =
     ((if n \<in> set w then ([], requeue_after t, None) else (''h'', no_result, None)), w)"
  "EnsureMariaDBAccount (ex_parentlib a c) n ns r p w = (None, w)"
  "Database_CreateOrPatchAll (ex_parentlib a c) d w = ((ok, ex_database), w)"
  "WaitForDBCreated (ex_parentlib a c) d w = ((ok, ex_database), w)"
  "DeleteUnusedMariaDBAccountFinalizers (ex_parentlib a c) n n' ns w = (None, w)"
  "GetKeystoneAPI (ex_parentlib a c) ns w =
     (Inr \<lparr>InternalEndpoint = Inr ''http://keystone'', ks_Region = ''regionOne''\<rparr>, w)"
  "ReconcileRbac (ex_parentlib a c) n ns prs w = ((ok, []), w)"
  "KeystoneService_CreateOrPatch (ex_parentlib a c) kspec ns l t w = ((ok, [], ''id''), w)"
  "DoJob (ex_parentlib a c) j k pj t h w = ((ok, True, ''job''), w)"
  "API_CreateOrUpdate (ex_parentlib a c) fa n ns w = (fa (ex_run_api (a @ ''+'')), w)"
  "Worker_CreateOrUpdate (ex_parentlib a c) fw n ns w = (fw (ex_run_worker (a @ ''+'')), w)"
  "Listener_CreateOrUpdate (ex_parentlib a c) fw n ns w = (fw (ex_run_worker (a @ ''+'')), w)"
  "GetSecret (ex_parentlib a c) n ns w = (Inr [], w)"
  "EnsureSecrets (kube.truncate (ex_parentlib a c)) ts vars w = ((vars, None), w)"
  "GetNADWithName (ex_parentlib a c) n ns w = (Inr None, w)"
  "EnsureNetworksAnnotation (ex_parentlib a c) nads = Inr []"
  "ObjectHash (ex_parentlib a c) xs = Inr (strings_Join xs ''+'')"
  by (simp_all add: ex_parentlib_simps kube.truncate_def)

section \<open>A pass over the sample\<close>

definition no_bus :: "'c Barbican \<Rightarrow> bool" where
  "no_bus i \<longleftrightarrow> NotificationsBus (Template i) = None \<and> spec_AppCredSecret (Base (Spec i)) = []"

lemma no_bus_simps [simp]:
  "no_bus (upd_bstatus f i) = no_bus i" "no_bus (upd_bconds C g i) = no_bus i"
  "no_bus (set_service_account i) = no_bus i"
  by (simp_all add: no_bus_def set_service_account_def)

text \<open>A phase runs through to a value that satisfies \<open>P\<close>.\<close>

definition runs :: "('a \<Rightarrow> bool) \<Rightarrow> ('w, 'c, 'e + 'a) parent \<Rightarrow> bool" where
  "runs P m \<longleftrightarrow> (\<forall>s. no_bus (inst s) \<longrightarrow>
     (\<exists>v s'. run_state m s = (Inr v, s') \<and> no_bus (inst s') \<and> P v))"

lemma runs_fall: "P a \<Longrightarrow> runs P (fall_through a)"
  by (simp add: runs_def)

lemma runs_proceed: "runs Q m \<Longrightarrow> (\<And>a. Q a \<Longrightarrow> runs P (f a)) \<Longrightarrow> runs P (proceed m f)"
  unfolding runs_def by (simp split: prod.split sum.split) (metis Pair_inject sum.inject(2) old.sum.distinct(2))

lemma runs_for_fold: "(\<And>x b. runs (\<lambda>_. True) (f x b)) \<Longrightarrow> runs (\<lambda>_. True) (for_fold f xs b)"
  by (induction xs arbitrary: b) (auto intro: runs_fall runs_proceed)

lemma runs_instance: "(\<And>i. no_bus i \<Longrightarrow> runs P (f i)) \<Longrightarrow> runs P (State_Monad.bind the_instance f)"
  unfolding runs_def by simp

lemma runs_if: "runs P m \<Longrightarrow> runs P n \<Longrightarrow> runs P (if b then m else n)"
  by simp

lemma runs_option: "runs P m \<Longrightarrow> (\<And>x. runs P (f x)) \<Longrightarrow> runs P (case o' of None \<Rightarrow> m | Some x \<Rightarrow> f x)"
  by (simp split: option.split)

lemma runs_bind:
  fixes m :: "('b, 'c, 'd) parent"
  assumes "\<And>s. no_bus (inst s) \<Longrightarrow> \<exists>a s'. run_state m s = (a, s') \<and> no_bus (inst s')" "\<And>a. runs P (f a)"
  shows "runs P (State_Monad.bind m f)"
  unfolding runs_def
proof (intro allI impI)
  fix s :: "('b, 'c) parent_state" assume "no_bus (inst s)"
  then obtain a s' where "run_state m s = (a, s')" "no_bus (inst s')" using assms(1) by blast
  with assms(2) [of a] show "\<exists>v s'. run_state (State_Monad.bind m f) s = (Inr v, s') \<and> no_bus (inst s') \<and> P v"
    by (auto simp: runs_def)
qed

lemma runs_step:
  "runs P (f ()) \<Longrightarrow> runs P (State_Monad.bind (b_set C d) f)"
  "runs P (f ()) \<Longrightarrow> runs P (State_Monad.bind (b_mark C t x) f)"
  "runs P (f ()) \<Longrightarrow> runs P (State_Monad.bind (b_status g) f)"
  "runs P (f ()) \<Longrightarrow> runs P (State_Monad.bind (modify set_service_account) f)"
  by (simp_all add: runs_def)

abbreviation anything :: "'a \<Rightarrow> bool" where "anything \<equiv> \<lambda>_. True"

lemmas runs_rules = runs_fall runs_proceed [where Q = anything] runs_for_fold runs_instance runs_if runs_option runs_step

lemma runs_messaging:
  "current \<noteq> [] \<Longrightarrow> runs (\<lambda>t. t = current) (messaging_phase ex_condlib (ex_parentlib applied current) l)"
  by (simp add: runs_def messaging_phase_def transportURLCreateOrUpdate_def set_transport_def Let_def
      ex_transport_def manage_finalizer_def b_try_def)

lemma runs_notifications:
  "runs (\<lambda>n. n = None) (notifications_phase ex_condlib (ex_parentlib applied current) l)"
  by (simp add: runs_def notifications_phase_def no_bus_def)

lemma runs_check: "runs anything (b_check ex_condlib (ex_parentlib applied current) n fs vars)"
  by (auto simp: runs_def b_check_def Barbican_verifySecret_def ok_def)

lemma runs_secrets: "runs anything (secrets_phase ex_condlib (ex_parentlib applied current))"
  unfolding secrets_phase_def Let_def by (intro runs_rules runs_check) simp_all

lemma runs_database: "runs anything (ensureDB ex_condlib (ex_parentlib applied current))"
  by (simp add: runs_def ensureDB_def Let_def ok_def)

lemma runs_secret: "runs anything (b_secret (ex_parentlib applied current) n)"
  by (simp add: runs_def b_secret_def)

lemma runs_parameters:
  "runs anything (app_credentials (ex_parentlib applied current) pd)"
  "runs anything (notifications_url (ex_parentlib applied current) m params)"
  "runs anything (pkcs11_login (ex_parentlib applied current) params)"
  "runs anything (simple_crypto_keks (ex_parentlib applied current) params)"
proof -
  show "runs anything (app_credentials (ex_parentlib applied current) pd)"
    by (simp add: runs_def app_credentials_def no_bus_def Let_def split_beta)
  show "runs anything (notifications_url (ex_parentlib applied current) m params)"
    "runs anything (pkcs11_login (ex_parentlib applied current) params)"
    "runs anything (simple_crypto_keks (ex_parentlib applied current) params)"
    unfolding notifications_url_def pkcs11_login_def simple_crypto_keks_def Let_def
    by (intro runs_rules runs_secret TrueI)+
qed

lemma runs_keystone:
  assumes "\<And>e. runs P (f (Inr \<lparr>InternalEndpoint = Inr e, ks_Region = ''regionOne''\<rparr>))"
  shows "runs P (State_Monad.bind (invoke ev (GetKeystoneAPI (ex_parentlib applied current) ns)) f)"
  using assms by (simp add: runs_def)

lemma runs_stores:
  "(\<And>x. runs P (f x)) \<Longrightarrow> runs P (case GenerateSecretStoreTemplateMap es d of Inl e \<Rightarrow> g e | Inr x \<Rightarrow> f x)"
  by (simp add: GenerateSecretStoreTemplateMap_def Let_def)

lemma runs_rendered:
  "runs anything (State_Monad.bind
     (GenerateConfigsGeneric (kube.truncate (ex_parentlib applied current)) m v p d l b ts)
     (\<lambda>x. case snd x of None \<Rightarrow> fall_through (fst x) | Some e \<Rightarrow> done_with e))"
  by (simp add: runs_def GenerateConfigsGeneric_def Let_def)

lemma runs_generate:
  "runs anything (generateServiceConfig (ex_parentlib applied current) vars l db t n)"
  unfolding generateServiceConfig_def Let_def split_def
  by (intro runs_rules runs_secret runs_parameters runs_keystone TrueI)
    (simp, intro runs_rules runs_secret runs_parameters runs_stores runs_rendered TrueI)

lemma runs_config:
  "runs anything (config_phase ex_condlib (ex_parentlib applied current) vars l db t n)"
  unfolding runs_def
proof (intro allI impI)
  fix s :: "(string list, ex_conds) parent_state"
  assume "no_bus (inst s)"
  moreover from this obtain v s' where
    "run_state (generateServiceConfig (ex_parentlib applied current) vars l db t
       (case n of None \<Rightarrow> [] | Some n \<Rightarrow> n)) s = (Inr v, s')" "no_bus (inst s')"
    using runs_generate by (fastforce simp: runs_def)
  ultimately show "\<exists>v s'. run_state (config_phase ex_condlib (ex_parentlib applied current) vars l db t n) s =
      (Inr v, s') \<and> no_bus (inst s') \<and> True"
    by (simp add: config_phase_def Let_def no_bus_def [of "inst s"])
qed

lemma runs_annotations: "runs anything (b_annotations ex_condlib (ex_parentlib applied current))"
proof -
  have "runs anything (State_Monad.bind (invoke ev (GetNADWithName (ex_parentlib applied current) n ns))
     (case_sum f (case_option (fall_through b) g)))" for ev n ns f g and b :: "'x"
    by (simp add: runs_def)
  then show ?thesis
    unfolding b_annotations_def Let_def by (intro runs_rules TrueI) (simp_all add: runs_fall)
qed

lemma runs_init: "runs anything (Barbican_reconcileInit ex_condlib (ex_parentlib applied current) l ann)"
proof -
  have steps: "runs anything (rbac_step ex_condlib (ex_parentlib applied current))"
    "runs anything (keystone_step ex_condlib (ex_parentlib applied current) l)"
    "runs anything (run_job ex_condlib (ex_parentlib applied current) t p k j)" for t p k j
    by (simp_all add: runs_def rbac_step_def keystone_step_def run_job_def Let_def ok_def b_secret_def
        ex_condlib_def ex_mirror_def)
  have jobs: "runs anything (if store_enabled (Template i) SecretStorePKCS11 \<and> PKCS11 (Template i) \<noteq> None
      then (case PKCS11PrepJob (ex_parentlib applied current) i l ann of None \<Rightarrow> done_with None
        | Some j \<Rightarrow> run_job ex_condlib (ex_parentlib applied current) t p k j) else m)"
    if "runs anything m" for i :: "ex_conds Barbican" and t p k m
    using that steps(3) by (auto simp: PKCS11PrepJob_def Let_def split_beta)
  have marks: "runs anything (do { b_mark ex_condlib t m; fall_through () })" for t m
    by (simp add: runs_def)
  show ?thesis
    unfolding Barbican_reconcileInit_def
    by (intro runs_proceed [where Q = anything] runs_instance steps jobs marks)
qed

lemma runs_setup:
  "current \<noteq> [] \<Longrightarrow> runs (\<lambda>r. r = (current, None)) (setup_phase ex_condlib (ex_parentlib applied current))"
  unfolding setup_phase_def Let_def
  apply (rule runs_proceed [OF runs_messaging], assumption)
  apply (rule runs_proceed [OF runs_notifications])
  apply (rule runs_proceed [OF runs_secrets])
  apply (rule runs_proceed [OF runs_database])
  apply (rule runs_proceed [OF runs_config])
  apply (rule runs_proceed [OF runs_annotations])
  apply (rule runs_proceed [OF runs_init])
  by (simp add: runs_fall)

text \<open>Adopting a child keeps its status, so it reports what it has applied.\<close>

lemma ex_adopted:
  "\<exists>d'. adopt_child (ex_parentlib a c) i spec n d = Inr d' \<and> sub_Status d' = sub_Status d \<and>
    Generation (sub_Meta d') = Generation (sub_Meta d)"
  by (simp add: adopt_child_def Let_def)

lemma ex_child_ready:
  assumes "Generation (sub_Meta d) = 1"
    and "ss_ObservedGeneration (sub_Status d) = 1" "AppliedInputSecretHash (sub_Status d) = a"
    and "ss_Conditions (sub_Status d) = Some [(ReadyCondition, TrueCondition ReadyCondition (Msg [] []))]"
  shows "child_ready ex_condlib h d \<longleftrightarrow> a = h"
  using assms by (simp add: child_ready_def child_current_def ex_condlib_def)

lemmas ex_run_simps = ex_run_api_def ex_run_worker_def ex_ready_def ex_sub_defs ex_meta_def SubStatus.defs

lemma ex_deploy:
  fixes s :: "(string list, ex_conds) parent_state"
  assumes f: "f = (\<lambda>w. (adopt_child (ex_parentlib a c) i spec n d, w))" and bus: "no_bus (inst s)"
    and d: "Generation (sub_Meta d) = 1" "ss_ObservedGeneration (sub_Status d) = 1"
      "AppliedInputSecretHash (sub_Status d) = a @ ''+''"
      "ss_Conditions (sub_Status d) = Some [(ReadyCondition, TrueCondition ReadyCondition (Msg [] []))]"
  shows "\<exists>s'. run_state (deploy_child ex_condlib kind t m (c @ ''+'') f) s = (Inr (a = c), s') \<and>
    no_bus (inst s') \<and> trace s' = trace s @ [EvChild kind (a = c)]"
proof -
  obtain d' where d': "adopt_child (ex_parentlib a c) i spec n d = Inr d'"
    "sub_Status d' = sub_Status d" "Generation (sub_Meta d') = Generation (sub_Meta d)"
    using ex_adopted by blast
  then have "child_ready ex_condlib (c @ ''+'') d' \<longleftrightarrow> a = c"
    using ex_child_ready [of d' "a @ ''+''" "c @ ''+''"] d by simp
  with bus show ?thesis
    by (auto simp: deploy_child_def f d' split: option.split)
qed

text \<open>The services are written and found ready exactly when they applied the current secret.\<close>

lemma ex_deployed:
  fixes s :: "(string list, ex_conds) parent_state"
  assumes "no_bus (inst s)"
  shows "\<exists>s'. run_state (children_phase ex_condlib (ex_parentlib a c) c []) s = (Inr (a = c), s') \<and> no_bus (inst s') \<and>
    trace s' = trace s @ [EvChild ''BarbicanAPI'' (a = c), EvChild ''BarbicanWorker'' (a = c),
      EvUnusedAccounts, EvChild ''BarbicanKeystoneListener'' (a = c)]"
proof -
  let ?L = "ex_parentlib a c" and ?i = "inst s"
  have "\<exists>s1. run_state (deploy_child ex_condlib ''BarbicanAPI'' BarbicanAPIReadyCondition
      ''BarbicanAPIReadyErrorMessage'' (c @ ''+'') (apiDeploymentCreateOrUpdate ?L ?i c [])) s = (Inr (a = c), s1) \<and>
    no_bus (inst s1) \<and> trace s1 = trace s @ [EvChild ''BarbicanAPI'' (a = c)]"
    by (rule ex_deploy [where spec = "api_spec ?i c" and d = "ex_run_api (a @ ''+'')"]) (simp_all add: ex_run_simps fun_eq_iff assms)
  then obtain s1 where 1: "run_state (deploy_child ex_condlib ''BarbicanAPI'' BarbicanAPIReadyCondition
      ''BarbicanAPIReadyErrorMessage'' (c @ ''+'') (apiDeploymentCreateOrUpdate ?L ?i c [])) s = (Inr (a = c), s1)"
    "no_bus (inst s1)" "trace s1 = trace s @ [EvChild ''BarbicanAPI'' (a = c)]"
    by blast
  have "\<exists>s2. run_state (deploy_child ex_condlib ''BarbicanWorker'' BarbicanWorkerReadyCondition
      ''BarbicanWorkerReadyErrorMessage'' (c @ ''+'') (workerDeploymentCreateOrUpdate ?L ?i c [])) s1 = (Inr (a = c), s2) \<and>
    no_bus (inst s2) \<and> trace s2 = trace s1 @ [EvChild ''BarbicanWorker'' (a = c)]"
    by (rule ex_deploy [where spec = "worker_spec ?i c" and d = "ex_run_worker (a @ ''+'')"]) (simp_all add: ex_run_simps fun_eq_iff 1(2))
  then obtain s2 where 2: "run_state (deploy_child ex_condlib ''BarbicanWorker'' BarbicanWorkerReadyCondition
      ''BarbicanWorkerReadyErrorMessage'' (c @ ''+'') (workerDeploymentCreateOrUpdate ?L ?i c [])) s1 = (Inr (a = c), s2)"
    "no_bus (inst s2)" "trace s2 = trace s1 @ [EvChild ''BarbicanWorker'' (a = c)]"
    by blast
  define s3 where "s3 = s2\<lparr>trace := trace s2 @ [EvUnusedAccounts]\<rparr>"
  have no3: "no_bus (inst s3)" using 2(2) by (simp add: s3_def)
  have "\<exists>s4. run_state (deploy_child ex_condlib ''BarbicanKeystoneListener'' BarbicanKeystoneListenerReadyCondition
      ''BarbicanKeystoneListenerReadyErrorMessage'' (c @ ''+'')
      (keystoneListenerDeploymentCreateOrUpdate ?L (inst s3) c [])) s3 = (Inr (a = c), s4) \<and>
    no_bus (inst s4) \<and> trace s4 = trace s3 @ [EvChild ''BarbicanKeystoneListener'' (a = c)]"
    by (rule ex_deploy [where spec = "listener_spec (inst s3) c" and d = "ex_run_worker (a @ ''+'')"]) (simp_all add: ex_run_simps fun_eq_iff no3)
  then obtain s4 where 4: "run_state (deploy_child ex_condlib ''BarbicanKeystoneListener'' BarbicanKeystoneListenerReadyCondition
      ''BarbicanKeystoneListenerReadyErrorMessage'' (c @ ''+'')
      (keystoneListenerDeploymentCreateOrUpdate ?L (inst s3) c [])) s3 = (Inr (a = c), s4)"
    "no_bus (inst s4)" "trace s4 = trace s3 @ [EvChild ''BarbicanKeystoneListener'' (a = c)]"
    by blast
  have *: "run_state (children_phase ex_condlib ?L c []) s =
      run_state (last_child ex_condlib ?L c [] (c @ ''+'') (a = c)) s3"
    using 1(1) 2(1) by (simp add: children_phase_def b_try_def s3_def)
  have "\<exists>s'. run_state (last_child ex_condlib ?L c [] (c @ ''+'') (a = c)) s3 = (Inr (a = c), s') \<and>
      no_bus (inst s') \<and> trace s' = trace s4"
    using 4(1,2) by (simp add: last_child_def)
  then show ?thesis
    unfolding * using 1(3) 2(3) 4(3) by (simp add: s3_def)
qed

definition ex_parent_state :: "(string list, ex_conds) parent_state" where
  "ex_parent_state = \<lparr>world = [], inst = ex_barbican [], trace = []\<rparr>"

lemma ex_parent_no_bus: "no_bus (inst ex_parent_state)"
  by (simp add: ex_parent_state_def no_bus_def ex_defs)

text \<open>
  The whole pass: the setup calls, the three services, and then the rotation of the bus secret,
  completed when the services run with the current secret.
\<close>

lemma ex_pass:
  assumes "c \<noteq> []"
  shows "\<exists>pre old post. list_all setup_call pre \<and>
    events_of (Barbican_reconcileNormal ex_condlib (ex_parentlib a c)) ex_parent_state =
      pre @ [EvChild ''BarbicanAPI'' (a = c), EvChild ''BarbicanWorker'' (a = c), EvUnusedAccounts,
        EvChild ''BarbicanKeystoneListener'' (a = c)] @
      EvFinalizeRotation old c TransportConsumerFinalizer (a = c) # post"
proof -
  let ?L = "ex_parentlib a c"
  obtain s1 where initial: "run_state (setup_phase ex_condlib ?L) ex_parent_state = (Inr (c, None), s1)"
    and "no_bus (inst s1)"
    using runs_setup [OF assms, of a] ex_parent_no_bus by (auto simp: runs_def)
  moreover obtain pre where "trace s1 = trace ex_parent_state @ pre" "list_all setup_call pre"
    using emits_trace [OF setup_calls.setup_frame initial] by blast
  moreover obtain s2 where children: "run_state (children_phase ex_condlib ?L c []) s1 = (Inr (a = c), s2)"
    and "trace s2 = trace s1 @ [EvChild ''BarbicanAPI'' (a = c), EvChild ''BarbicanWorker'' (a = c),
      EvUnusedAccounts, EvChild ''BarbicanKeystoneListener'' (a = c)]"
    using ex_deployed [OF \<open>no_bus (inst s1)\<close>] by blast
  moreover have "\<exists>s' evs. run_state (rotate_notifications ?L None (a = c)) t = (Inr (), s') \<and> trace s' = trace t @ evs" for t
    by (auto simp: rotate_notifications_def remove_consumer_def transportURLDeleted_def b_try_def)
  then obtain s' evs where "run_state (rotate_notifications ?L None (a = c))
      (s2\<lparr>trace := trace s2 @ [EvFinalizeRotation (bs_TransportURLSecret (Status (inst s2))) c
          TransportConsumerFinalizer (a = c)],
        inst := upd_bstatus (\<lambda>s. s\<lparr>bs_TransportURLSecret :=
          if a = c then c else bs_TransportURLSecret (Status (inst s2))\<rparr>) (inst s2)\<rparr>) = (Inr (), s')"
    and "trace s' = trace s2 @ EvFinalizeRotation (bs_TransportURLSecret (Status (inst s2))) c
      TransportConsumerFinalizer (a = c) # evs"
    by fastforce
  then have "\<exists>s3 post. run_state (rotation_phase ?L c None (a = c)) s2 = (Inr (), s3) \<and>
    trace s3 = trace s2 @ EvFinalizeRotation (bs_TransportURLSecret (Status (inst s2))) c
      TransportConsumerFinalizer (a = c) # post"
    by (simp add: rotation_phase_def rotate_def prune_phase_def prune_def b_try_def)
  ultimately show ?thesis
    by (fastforce simp: Barbican_reconcileNormal_def events_of_def ex_parent_state_def or_empty_def)
qed

end
