(* ===== verification/Parent_Properties.thy ===== *)
theory Parent_Properties
  imports Parent_Samples
begin

text \<open>
  The properties of the Barbican controller: the order of a pass, what guards the revocation of
  credentials, what the children inherit, and the order of a deletion.
\<close>

section \<open>The order of a pass\<close>

definition extends :: "('w, 'i, 'e) rstate \<Rightarrow> 'e list \<Rightarrow> ('w, 'i, 'e) rstate \<Rightarrow> bool" where
  "extends s evs s' \<longleftrightarrow> trace s' = trace s @ evs"

lemma extends_trans: "extends s a t \<Longrightarrow> extends t b u \<Longrightarrow> extends s (a @ b) u"
  by (simp add: extends_def)

lemma emits_extends:
  "state_io_rel (emits A) m \<Longrightarrow> run_state m s = (r, s') \<Longrightarrow> \<exists>evs. extends s evs s' \<and> list_all A evs"
  using emits_trace by (fastforce simp: extends_def)

lemma messaging_run:
  assumes "run_state (messaging_phase C L l) s = (Inr t, s')"
  shows "\<exists>evs. extends s evs s' \<and> EvManageFinalizer t TransportConsumerFinalizer \<in> set evs"
  using assms
  by (auto simp: messaging_phase_def transportURLCreateOrUpdate_def manage_finalizer_def b_try_def
      extends_def Let_def split: sum.splits option.splits if_splits)

lemma notifications_run:
  assumes "run_state (notifications_phase C L l) s = (Inr n, s')"
  shows "\<exists>evs. extends s evs s' \<and>
    (case n of None \<Rightarrow> NotificationsBus (Template (inst s)) = None
     | Some secret \<Rightarrow> NotificationsBus (Template (inst s)) \<noteq> None \<and>
        EvManageFinalizer secret TransportConsumerFinalizer \<in> set evs)"
  using assms
  by (auto simp: notifications_phase_def transportURLCreateOrUpdate_def manage_finalizer_def b_try_def
      extends_def Let_def split: sum.splits option.splits if_splits)

lemma config_run:
  assumes run: "run_state (config_phase C L v l db t n) s = (Inr x, s')"
    and ac: "spec_AppCredSecret (Base (Spec (inst s))) \<noteq> []"
  shows "\<exists>evs. extends s evs s' \<and>
    EvManageFinalizer (spec_AppCredSecret (Base (Spec (inst s)))) ACConsumerFinalizer \<in> set evs"
proof -
  obtain r s1 where gen: "run_state (generateServiceConfig L v l db t (case n of None \<Rightarrow> [] | Some n \<Rightarrow> n)) s = (r, s1)"
    by fastforce
  then obtain evs where "trace s1 = trace s @ evs"
    using emits_trace [OF setup_calls.service_config_frame] by blast
  with run gen ac show ?thesis
    by (auto simp: config_phase_def Let_def manage_finalizer_def extends_def split: sum.splits option.splits)
qed

text \<open>A phase that cannot fall through without a call satisfying \<open>E\<close>.\<close>

definition must_call :: "(event \<Rightarrow> bool) \<Rightarrow> ('w, 'c, 'a) parent_phase \<Rightarrow> bool" where
  "must_call E m \<longleftrightarrow> (\<forall>s x s'. run_state m s = (Inr x, s') \<longrightarrow> (\<exists>evs. extends s evs s' \<and> list_ex E evs))"

lemma must_first:
  assumes "must_call E m" and ext: "\<And>a. state_io_rel (emits A) (f a)"
  shows "must_call E (proceed m f)"
  unfolding must_call_def
proof (intro allI impI)
  fix s x s'
  assume "run_state (proceed m f) s = (Inr x, s')"
  then obtain a s1 where "run_state m s = (Inr a, s1)" and rest: "run_state (f a) s1 = (Inr x, s')"
    by (rule proceed_Inr)
  with assms(1) obtain evs where "extends s evs s1" "list_ex E evs"
    unfolding must_call_def by blast
  moreover obtain evs' where "extends s1 evs' s'"
    using emits_extends [OF ext rest] by blast
  ultimately show "\<exists>evs. extends s evs s' \<and> list_ex E evs"
    by (intro exI [of _ "evs @ evs'"]) (auto intro: extends_trans)
qed

lemma must_later:
  assumes ext: "state_io_rel (emits A) m" and "\<And>a. must_call E (f a)"
  shows "must_call E (proceed m f)"
  unfolding must_call_def
proof (intro allI impI)
  fix s x s'
  assume "run_state (proceed m f) s = (Inr x, s')"
  then obtain a s1 where first: "run_state m s = (Inr a, s1)" and rest: "run_state (f a) s1 = (Inr x, s')"
    by (rule proceed_Inr)
  with assms(2) obtain evs where "extends s1 evs s'" "list_ex E evs"
    unfolding must_call_def by blast
  moreover obtain evs' where "extends s evs' s1"
    using emits_extends [OF ext first] by blast
  ultimately show "\<exists>evs. extends s evs s' \<and> list_ex E evs"
    by (intro exI [of _ "evs' @ evs"]) (auto intro: extends_trans)
qed

lemma must_instance: "(\<And>i. must_call E (f i)) \<Longrightarrow> must_call E (State_Monad.bind the_instance f)"
  by (simp add: must_call_def)

fun db_sync_job :: "event \<Rightarrow> bool" where
  "db_sync_job (EvJob n) = (\<exists>p. n = p @ ''-db-sync'')"
| "db_sync_job _ = False"

lemma job_run:
  "run_state (run_job C L t p k j) s = (Inr x, s') \<Longrightarrow> extends s [EvJob (j_Name j)] s'"
  by (auto simp: run_job_def Let_def extends_def split_beta split: if_splits option.splits)

lemma db_sync_name: "j_Name (DbSyncJob P i l a) = Name (Meta i) @ ''-db-sync''"
  by (simp add: DbSyncJob_def Let_def split_beta split: option.split)

lemma job_must: "must_call db_sync_job (run_job C L t p k (DbSyncJob P i l a))"
  unfolding must_call_def
proof (intro allI impI)
  fix s x s'
  assume "run_state (run_job C L t p k (DbSyncJob P i l a)) s = (Inr x, s')"
  from job_run [OF this] show "\<exists>evs. extends s evs s' \<and> list_ex db_sync_job evs"
    by (intro exI [of _ "[EvJob (j_Name (DbSyncJob P i l a))]"]) (simp add: db_sync_name)
qed

lemma init_must: "must_call db_sync_job (Barbican_reconcileInit C L l a)"
  unfolding Barbican_reconcileInit_def
  by (rule must_later [OF setup_calls.rbac_frame], rule must_later [OF setup_calls.keystone_frame],
      rule must_instance, rule must_first [where A = setup_call, OF job_must],
      intro setup_calls.step_rules setup_calls.job_frame) simp_all

text \<open>A setup that gets to its end made these calls.\<close>

lemma setup_run:
  assumes run: "run_state (setup_phase C L) s = (Inr (t, n), s')"
  shows "\<exists>evs. extends s evs s' \<and> list_all setup_call evs \<and>
    EvManageFinalizer t TransportConsumerFinalizer \<in> set evs \<and>
    (n = None \<longleftrightarrow> NotificationsBus (Template (inst s)) = None) \<and>
    (\<forall>m. n = Some m \<longrightarrow> EvManageFinalizer m TransportConsumerFinalizer \<in> set evs) \<and>
    (spec_AppCredSecret (Base (Spec (inst s))) \<noteq> [] \<longrightarrow>
      EvManageFinalizer (spec_AppCredSecret (Base (Spec (inst s)))) ACConsumerFinalizer \<in> set evs) \<and>
    list_ex db_sync_job evs"
proof -
  let ?l = "[(AppSelector L, ServiceName)]"
  obtain s1 s2 s3 s4 s5 s6 s7 n1 vars db vars' ann u where
    msg: "run_state (messaging_phase C L ?l) s = (Inr t, s1)"
    and notif: "run_state (notifications_phase C L ?l) s1 = (Inr n, s2)"
    and sec: "run_state (secrets_phase C L) s2 = (Inr vars, s3)"
    and dbase: "run_state (ensureDB C L) s3 = (Inr db, s4)"
    and conf: "run_state (config_phase C L vars ?l db t n) s4 = (Inr vars', s5)"
    and nets: "run_state (b_annotations C L) s5 = (Inr ann, s6)"
    and init: "run_state (Barbican_reconcileInit C L ?l ann) s6 = (Inr u, s')"
    using run unfolding setup_phase_def Let_def
    by (elim proceed_Inr) (simp del: run_proceed; blast)
  have "barbican_identity (inst s4) = barbican_identity (inst s)"
    using keeps_after [OF setup_same.messaging_frame, of C L ?l s]
      keeps_after [OF setup_same.notifications_frame, of C L ?l s1]
      keeps_after [OF setup_same.secrets_frame, of C L s2] keeps_after [OF setup_same.database_frame, of C L s3]
    by (simp add: after_def msg notif sec dbase)
  from arg_cong [OF this, of "\<lambda>p. spec_AppCredSecret (Base (snd p))"]
  have ac: "spec_AppCredSecret (Base (Spec (inst s4))) = spec_AppCredSecret (Base (Spec (inst s)))"
    by (simp add: barbican_identity_def set_service_account_def)
  have "barbican_identity (inst s1) = barbican_identity (inst s)"
    using keeps_after [OF setup_same.messaging_frame, of C L ?l s] by (simp add: after_def msg)
  from arg_cong [OF this, of "\<lambda>p. NotificationsBus (sb_Template (Base (snd p)))"]
  have "NotificationsBus (Template (inst s1)) = NotificationsBus (Template (inst s))"
    by (simp add: barbican_identity_def set_service_account_def)
  then have bus: "n = None \<longleftrightarrow> NotificationsBus (Template (inst s)) = None"
    using notifications_run [OF notif] by (auto split: option.splits)
  obtain e1 e2 e3 e4 e5 e6 e7 where parts: "extends s e1 s1" "extends s1 e2 s2" "extends s2 e3 s3"
      "extends s3 e4 s4" "extends s4 e5 s5" "extends s5 e6 s6" "extends s6 e7 s'"
    and calls: "EvManageFinalizer t TransportConsumerFinalizer \<in> set e1"
      "\<forall>m. n = Some m \<longrightarrow> EvManageFinalizer m TransportConsumerFinalizer \<in> set e2"
      "spec_AppCredSecret (Base (Spec (inst s4))) \<noteq> [] \<longrightarrow>
        EvManageFinalizer (spec_AppCredSecret (Base (Spec (inst s4)))) ACConsumerFinalizer \<in> set e5"
      "list_ex db_sync_job e7"
  proof -
    obtain e1 where "extends s e1 s1" "EvManageFinalizer t TransportConsumerFinalizer \<in> set e1"
      using messaging_run [OF msg] by blast
    moreover obtain e2 where "extends s1 e2 s2"
      "\<forall>m. n = Some m \<longrightarrow> EvManageFinalizer m TransportConsumerFinalizer \<in> set e2"
      using notifications_run [OF notif] by (auto split: option.splits)
    moreover obtain e3 where "extends s2 e3 s3"
      using emits_extends [OF setup_calls.secrets_frame sec] by blast
    moreover obtain e4 where "extends s3 e4 s4"
      using emits_extends [OF setup_calls.database_frame dbase] by blast
    moreover obtain e5 where "extends s4 e5 s5"
      "spec_AppCredSecret (Base (Spec (inst s4))) \<noteq> [] \<longrightarrow>
        EvManageFinalizer (spec_AppCredSecret (Base (Spec (inst s4)))) ACConsumerFinalizer \<in> set e5"
      using config_run [OF conf] emits_extends [OF setup_calls.config_frame conf] by blast
    moreover obtain e6 where "extends s5 e6 s6"
      using emits_extends [OF setup_calls.annotations_frame nets] by blast
    moreover obtain e7 where "extends s6 e7 s'" "list_ex db_sync_job e7"
      using init_must init unfolding must_call_def by blast
    ultimately show thesis using that by blast
  qed
  obtain evs where evs: "extends s evs s'" "list_all setup_call evs"
    using emits_extends [OF setup_calls.setup_frame run] by blast
  have "extends s (e1 @ e2 @ e3 @ e4 @ e5 @ e6 @ e7) s'"
    using parts by (simp add: extends_def)
  then have "evs = e1 @ e2 @ e3 @ e4 @ e5 @ e6 @ e7"
    using evs(1) by (simp add: extends_def)
  with evs calls ac bus show ?thesis
    by (intro exI [of _ evs]) auto
qed

text \<open>The trace of a pass: the setup, then the children, then the rotation, each possibly cut short.\<close>

lemma normal_trace:
  obtains e1 e2 e3 where "events_of (Barbican_reconcileNormal C L) s = e1 @ e2 @ e3"
    and "list_all setup_call e1" and "list_all child_call e2" and "list_all rotation_call e3"
    and "list_ex revoking e3 \<longrightarrow> {EvChild ''BarbicanAPI'' True, EvChild ''BarbicanWorker'' True,
      EvChild ''BarbicanKeystoneListener'' True} \<subseteq> set e2"
    and "e2 @ e3 \<noteq> [] \<longrightarrow> (\<exists>t n s'. run_state (setup_phase C L) s = (Inr (t, n), s') \<and> extends s e1 s')"
proof -
  obtain r1 s1 where prep: "run_state (setup_phase C L) s = (r1, s1)" by fastforce
  obtain e1 where e1: "extends s e1 s1" "list_all setup_call e1"
    using emits_extends [OF setup_calls.setup_frame prep] by blast
  show thesis
  proof (cases r1)
    case (Inl x)
    then have "events_of (Barbican_reconcileNormal C L) s = e1 @ [] @ []"
      using prep e1 by (simp add: events_of_def Barbican_reconcileNormal_def extends_def)
    then show thesis using e1 by (intro that [of e1 "[]" "[]"]) simp_all
  next
    case (Inr tn)
    obtain t n where tn: "tn = (t, n)" by fastforce
    obtain r2 s2 where child: "run_state (children_phase C L t (or_empty n)) s1 = (r2, s2)" by fastforce
    obtain e2 where e2: "extends s1 e2 s2" "list_all child_call e2"
      using emits_extends [OF emits_children child] by blast
    show thesis
    proof (cases r2)
      case (Inl x)
      then have "events_of (Barbican_reconcileNormal C L) s = e1 @ e2 @ []"
        using prep e1 child e2 Inr tn by (simp add: events_of_def Barbican_reconcileNormal_def extends_def)
      then show thesis
        using e1 e2 prep Inr tn by (intro that [of e1 e2 "[]"]) auto
    next
      case (Inr g)
      obtain r3 s3 where rot: "run_state (rotation_phase L t n g) s2 = (r3, s3)" by fastforce
      obtain e3 where e3: "extends s2 e3 s3" "list_all (\<lambda>e. rotation_call e \<and> (g \<or> \<not> revoking e)) e3"
        using emits_extends [OF emits_rotation rot] by blast
      have "g \<longrightarrow> {EvChild ''BarbicanAPI'' True, EvChild ''BarbicanWorker'' True,
          EvChild ''BarbicanKeystoneListener'' True} \<subseteq> set e2"
        using children_ready [of C L t "or_empty n" s1 s2] child Inr e2 by (auto simp: extends_def)
      moreover have "events_of (Barbican_reconcileNormal C L) s = e1 @ e2 @ e3"
        using prep e1 child e2 rot e3 \<open>r1 = Inr tn\<close> Inr tn
        by (cases r3) (simp_all add: events_of_def Barbican_reconcileNormal_def extends_def)
      ultimately show thesis
        using e1 e2 e3 prep \<open>r1 = Inr tn\<close> tn
        by (intro that [of e1 e2 e3]) (auto simp: list_all_iff list_ex_iff)
    qed
  qed
qed



text \<open>
  C10. When a pass prunes stranded consumer finalizers, the list of secrets to keep contains every
  secret the status tracks at the end of that pass, and the configured application credential, so
  pruning never undoes the protection of a secret whose rotation is still pending.
\<close>

theorem pruning_keeps_tracked:
  "list_all (prune_ok (inst (after (Barbican_reconcileNormal C L) s)))
     (events_of (Barbican_reconcileNormal C L) s)"
proof -
  obtain evs where "trace (after (Barbican_reconcileNormal C L) s) = trace s @ evs"
    "list_all (prune_ok (inst (after (Barbican_reconcileNormal C L) s))) evs"
    using normal_prunes [of C L] unfolding prunes_ok_def by blast
  then show ?thesis by (simp add: events_of_def after_def)
qed

section \<open>The children\<close>

lemma adopt_child_result:
  assumes "adopt_child L i spec n d = Inr d'"
  shows "Finalizers (sub_Meta d') = fst (AddFinalizer L (Finalizers (sub_Meta d)) (helper_Finalizer L))"
    and "Inr (OwnerReferences (sub_Meta d')) = SetControllerReference L (Meta i) (OwnerReferences (sub_Meta d))"
    and "sub_Status d' = sub_Status d"
    and "sub_Spec d' = (if NotificationsBus (Template i) \<noteq> None
       then spec\<lparr>ss_NotificationsURLSecret := n\<rparr> else spec)"
  using assms by (auto simp: adopt_child_def Let_def split: sum.splits)

lemma inherit_simps [simp]:
  "ct_NodeSelector (inherit b ct) = (case ct_NodeSelector ct of None \<Rightarrow> sb_NodeSelector b | Some x \<Rightarrow> Some x)"
  "ct_TopologyRef (inherit b ct) = (case ct_TopologyRef ct of None \<Rightarrow> sb_TopologyRef b | Some x \<Rightarrow> Some x)"
  by (simp_all add: inherit_def Let_def split: option.split)


text \<open>
  C39. The finalizers of unused database accounts are removed after the API and the Worker were
  written, whether or not any service is ready with the current account: the call does not depend on
  what the three controllers report.
\<close>

theorem unused_accounts_unguarded:
  assumes "ObjectHash L [t, n] = Inr h"
    and "run_state (deploy_child C ''BarbicanAPI'' BarbicanAPIReadyCondition ''BarbicanAPIReadyErrorMessage'' h
      (API_CreateOrUpdate L (adopt_child L (inst s) (api_spec (inst s) t) n) (Name (Meta (inst s)) @ ''-api'')
        (Namespace (Meta (inst s))))) s = (Inr a, s1)"
    and "run_state (deploy_child C ''BarbicanWorker'' BarbicanWorkerReadyCondition ''BarbicanWorkerReadyErrorMessage'' h
      (Worker_CreateOrUpdate L (adopt_child L (inst s) (worker_spec (inst s) t) n) (Name (Meta (inst s)) @ ''-worker'')
        (Namespace (Meta (inst s))))) s1 = (Inr b, s2)"
  shows "\<exists>rest. events_of (children_phase C L t n) s =
    [EvChild ''BarbicanAPI'' a, EvChild ''BarbicanWorker'' b, EvUnusedAccounts] @ rest"
proof -
  obtain r s3 where run: "run_state (children_phase C L t n) s = (r, s3)" by fastforce
  obtain x s2' where drop: "run_state (b_try (invoke EvUnusedAccounts (DeleteUnusedMariaDBAccountFinalizers L DatabaseCRName
      (DatabaseAccount (Template (inst s))) (Namespace (Meta (inst s)))))) s2 = (x, s2')"
    by fastforce
  have "trace s2' = trace s2 @ [EvUnusedAccounts]"
    using drop by (auto simp: b_try_def split: option.splits)
  moreover have "trace s1 = trace s @ [EvChild ''BarbicanAPI'' a]" "trace s2 = trace s1 @ [EvChild ''BarbicanWorker'' b]"
    using deploy_child_run [OF assms(2)] deploy_child_run [OF assms(3)] by auto
  moreover have "\<exists>rest. trace s3 = trace s2' @ rest"
  proof (cases x)
    case (Inl y)
    then show ?thesis
      using run by (simp add: children_phase_def Let_def assms drop Inl)
  next
    case (Inr y)
    have frame: "state_io_rel (emits child_call) (last_child C L t n h (a \<and> b))"
      unfolding last_child_def by (intro emit_rules emits_b emits_deploy)
    have "run_state (last_child C L t n h (a \<and> b)) s2' = (r, s3)"
      using run by (simp add: children_phase_def Let_def assms drop Inr)
    from emits_trace [OF frame this] show ?thesis by blast
  qed
  ultimately show ?thesis using run by (auto simp: events_of_def)
qed

section \<open>Deletion\<close>

lemma remove_consumers_run:
  "run_state (for_each (\<lambda>secret. remove_consumer L secret f) xs) s = (Inr u, s') \<Longrightarrow>
   extends s (map (\<lambda>x. EvRemoveConsumerFinalizer x f) xs) s' \<and> inst s' = inst s"
proof (induction xs arbitrary: s)
  case Nil
  then show ?case by (simp add: extends_def)
next
  case (Cons x xs)
  from Cons.prems obtain v s1 where "run_state (remove_consumer L x f) s = (Inr v, s1)"
    and rest: "run_state (for_each (\<lambda>secret. remove_consumer L secret f) xs) s1 = (Inr u, s')"
    unfolding for_each.simps by (rule proceed_Inr)
  then have "extends s [EvRemoveConsumerFinalizer x f] s1" "inst s1 = inst s"
    by (auto simp: remove_consumer_def b_try_def extends_def split: option.splits)
  with Cons.IH [OF rest] show ?case by (simp add: extends_def)
qed

lemma bus_secrets_run:
  "run_state (for_fold (bus_secret L) names xs) s = (Inr ys, s') \<Longrightarrow>
   \<exists>evs zs. extends s evs s' \<and> inst s' = inst s \<and> ys = xs @ zs \<and>
     (\<forall>n\<in>set names. \<exists>x. EvGetTransportURL n x \<in> set evs \<and> set_option x \<subseteq> set zs)"
proof (induction names arbitrary: s xs)
  case Nil
  then show ?case by (auto simp: extends_def)
next
  case (Cons n names)
  from Cons.prems obtain zs s1 where one: "run_state (bus_secret L n xs) s = (Inr zs, s1)"
    and rest: "run_state (for_fold (bus_secret L) names zs) s1 = (Inr ys, s')"
    unfolding for_fold.simps by (rule proceed_Inr)
  from one obtain x vs where "extends s [EvGetTransportURL n x] s1" "inst s1 = inst s" "zs = xs @ vs" "set_option x \<subseteq> set vs"
    by (auto simp: bus_secret_def extends_def found_def split: sum.splits if_splits)
  moreover obtain evs vs' where "extends s1 evs s'" "inst s' = inst s1" "ys = zs @ vs'"
    "\<forall>n\<in>set names. \<exists>x. EvGetTransportURL n x \<in> set evs \<and> set_option x \<subseteq> set vs'"
    using Cons.IH [OF rest] by blast
  ultimately show ?case
    by (intro exI [of _ "EvGetTransportURL n x # evs"] exI [of _ "vs @ vs'"]) (auto simp: extends_def; blast)
qed

lemma prune_run:
  "run_state (prune L f k) s = (Inr u, s') \<Longrightarrow> extends s [EvPruneFinalizers f k] s' \<and> inst s' = inst s"
  by (auto simp: prune_def b_try_def extends_def split: option.splits)

text \<open>
  What a deletion has to release: the secrets the status tracks, the application credential of the
  spec and the secrets of the two transport URLs; the stranded ones last.
\<close>

definition secrets_released :: "'c Barbican \<Rightarrow> event list \<Rightarrow> bool" where
  "secrets_released i evs \<longleftrightarrow> (\<exists>mid. evs = mid @
       [EvPruneFinalizers TransportConsumerFinalizer [], EvPruneFinalizers ACConsumerFinalizer []] \<and>
     {EvRemoveConsumerFinalizer (ApplicationCredentialSecret (Status i)) ACConsumerFinalizer,
      EvRemoveConsumerFinalizer (spec_AppCredSecret (Base (Spec i))) ACConsumerFinalizer,
      EvRemoveConsumerFinalizer (bs_TransportURLSecret (Status i)) TransportConsumerFinalizer} \<subseteq> set mid \<and>
     (\<forall>n\<in>set_option (bs_NotificationsURLSecret (Status i)).
        EvRemoveConsumerFinalizer n TransportConsumerFinalizer \<in> set mid) \<and>
     (\<forall>tu\<in>{transport_name i, notifications_name i}. \<exists>x. EvGetTransportURL tu x \<in> set mid \<and>
        (\<forall>n\<in>set_option x. EvRemoveConsumerFinalizer n TransportConsumerFinalizer \<in> set mid)))"

lemma release_secrets_run:
  assumes run: "run_state (release_secrets L) s = (Inr u, s')"
  shows "\<exists>evs. extends s evs s' \<and> secrets_released (inst s) evs"
proof -
  let ?i = "inst s"
  let ?n = "case bs_NotificationsURLSecret (Status ?i) of None \<Rightarrow> [] | Some n \<Rightarrow> [n]"
  obtain u1 s1 ys s2 u3 s3 u4 s4 where
    ac: "run_state (for_each (\<lambda>secret. remove_consumer L secret ACConsumerFinalizer)
      [ApplicationCredentialSecret (Status ?i), spec_AppCredSecret (Base (Spec ?i))]) s = (Inr u1, s1)"
    and bus: "run_state (for_fold (bus_secret L) [transport_name ?i, notifications_name ?i]
      [bs_TransportURLSecret (Status ?i)]) s1 = (Inr ys, s2)"
    and tr: "run_state (for_each (\<lambda>secret. remove_consumer L secret TransportConsumerFinalizer) (ys @ ?n)) s2 = (Inr u3, s3)"
    and p1: "run_state (prune L TransportConsumerFinalizer []) s3 = (Inr u4, s4)"
    and p2: "run_state (prune L ACConsumerFinalizer []) s4 = (Inr u, s')"
    using run unfolding release_secrets_def
    by (simp only: run_bind_instance) (elim proceed_Inr, blast)
  obtain e2 zs where e2: "extends s1 e2 s2" and ys: "ys = bs_TransportURLSecret (Status ?i) # zs"
    and urls: "\<forall>n\<in>{transport_name ?i, notifications_name ?i}. \<exists>x. EvGetTransportURL n x \<in> set e2 \<and> set_option x \<subseteq> set zs"
    using bus_secrets_run [OF bus] by auto
  let ?mid = "map (\<lambda>x. EvRemoveConsumerFinalizer x ACConsumerFinalizer)
      [ApplicationCredentialSecret (Status ?i), spec_AppCredSecret (Base (Spec ?i))] @ e2 @
    map (\<lambda>x. EvRemoveConsumerFinalizer x TransportConsumerFinalizer) (ys @ ?n)"
  let ?prunes = "[EvPruneFinalizers TransportConsumerFinalizer [], EvPruneFinalizers ACConsumerFinalizer []]"
  have "extends s (?mid @ ?prunes) s'"
    using remove_consumers_run [OF ac] e2 remove_consumers_run [OF tr] prune_run [OF p1] prune_run [OF p2]
    by (simp add: extends_def)
  moreover have "\<exists>x. EvGetTransportURL tu x \<in> set ?mid \<and>
      (\<forall>n\<in>set_option x. EvRemoveConsumerFinalizer n TransportConsumerFinalizer \<in> set ?mid)"
    if "tu \<in> {transport_name ?i, notifications_name ?i}" for tu
    using urls that ys by fastforce
  then have "secrets_released ?i (?mid @ ?prunes)"
    unfolding secrets_released_def
    by (intro exI [of _ ?mid] conjI ballI) (auto simp: ys)
  ultimately show ?thesis by blast
qed

lemma keeps_try: "state_io_rel (keeps f) m \<Longrightarrow> state_io_rel (keeps f) (b_try m)"
  unfolding b_try_def b_return_def by (intro keep_rules)

lemma keeps_unfinalize: "state_io_rel (keeps f) (unfinalize L e u g p)"
  unfolding unfinalize_def Let_def b_return_def by (intro keep_rules)

lemma keeps_release:
  "state_io_rel (keeps f) (release_database L)" "state_io_rel (keeps f) (release_child L k x)"
  "state_io_rel (keeps f) (release_secrets L)"
  unfolding release_database_def release_child_def release_secrets_def Let_def b_return_def
    remove_consumer_def bus_secret_def prune_def
  by (intro keep_rules keeps_try keeps_unfinalize)+

abbreviation without_own :: "('w, 'c) parentlib \<Rightarrow> string list \<Rightarrow> string list \<times> bool" where
  "without_own L fins \<equiv> RemoveFinalizer L fins (helper_Finalizer L)"

lemma unfinalize_run:
  "run_state (unfinalize L g u get put) s = (Inr x, s') \<Longrightarrow>
   \<exists>evs. extends s evs s' \<and> released_object (without_own L) g u evs \<and> inst s' = inst s"
  by (auto simp: unfinalize_def extends_def Let_def split_beta released_object_def found_def split_option_ex
      split: sum.splits option.splits if_splits)

text \<open>The objects that are owned by the resource and carry the operator's finalizer.\<close>

definition owned_released :: "('w, 'c) parentlib \<Rightarrow> string \<Rightarrow> event list \<Rightarrow> bool" where
  "owned_released L name evs \<longleftrightarrow>
     (EvGetDatabase False \<in> set evs \<or> {EvGetDatabase True, EvDeleteDatabaseFinalizer} \<subseteq> set evs) \<and>
     released_object (without_own L) EvGetKeystoneService EvUpdateKeystoneService evs \<and>
     (\<forall>suffix\<in>{''-api'', ''-worker'', ''-keystone-listener''}.
        released_object (without_own L) (EvGetChild (name @ suffix)) (EvUpdateChild (name @ suffix)) evs)"

lemma release_child_run:
  assumes "run_state (release_child L k x) s = (Inr u, s')"
  shows "\<exists>evs. extends s evs s' \<and> inst s' = inst s \<and> released_object (without_own L)
    (EvGetChild (Name (Meta (inst s)) @ x)) (EvUpdateChild (Name (Meta (inst s)) @ x)) evs"
  using unfinalize_run [OF assms [unfolded release_child_def Let_def run_bind_instance]] by blast

lemma release_database_run:
  "run_state (release_database L) s = (Inr u, s') \<Longrightarrow> \<exists>evs. extends s evs s' \<and> inst s' = inst s \<and>
     (EvGetDatabase False \<in> set evs \<or> {EvGetDatabase True, EvDeleteDatabaseFinalizer} \<subseteq> set evs)"
  by (auto simp: release_database_def b_try_def extends_def split: option.splits if_splits)

definition delete_steps :: "('w, 'c) parentlib \<Rightarrow> ('w, 'c, unit) parent_phase" where
  "delete_steps L = proceed (release_database L) (\<lambda>_. do {
     i \<leftarrow> the_instance;
     proceed (unfinalize L EvGetKeystoneService EvUpdateKeystoneService
       (GetKeystoneServiceWithName L ServiceName (Namespace (Meta i)))
       (KeystoneService_Update L ServiceName (Namespace (Meta i)))) (\<lambda>_.
     proceed (release_child L ''BarbicanAPI'' ''-api'') (\<lambda>_.
     proceed (release_child L ''BarbicanWorker'' ''-worker'') (\<lambda>_.
     proceed (release_child L ''BarbicanKeystoneListener'' ''-keystone-listener'') (\<lambda>_.
     release_secrets L))))
     })"

lemma delete_steps_run:
  assumes run: "run_state (delete_steps L) s = (Inr u, s')"
  shows "inst s' = inst s \<and> (\<exists>evs fin. extends s (evs @ fin) s' \<and>
    owned_released L (Name (Meta (inst s))) evs \<and> secrets_released (inst s) fin)"
proof -
  obtain u0 s0 u1 s1 u2 s2 u3 s3 u4 s4 where
    db: "run_state (release_database L) s = (Inr u0, s0)"
    and ks: "run_state (unfinalize L EvGetKeystoneService EvUpdateKeystoneService
       (GetKeystoneServiceWithName L ServiceName (Namespace (Meta (inst s0))))
       (KeystoneService_Update L ServiceName (Namespace (Meta (inst s0))))) s0 = (Inr u1, s1)"
    and api: "run_state (release_child L ''BarbicanAPI'' ''-api'') s1 = (Inr u2, s2)"
    and worker: "run_state (release_child L ''BarbicanWorker'' ''-worker'') s2 = (Inr u3, s3)"
    and listener: "run_state (release_child L ''BarbicanKeystoneListener'' ''-keystone-listener'') s3 = (Inr u4, s4)"
    and secrets: "run_state (release_secrets L) s4 = (Inr u, s')"
    using run unfolding delete_steps_def by (elim proceed_Inr) (simp only: run_bind_instance, elim proceed_Inr, blast)
  from release_database_run [OF db] unfinalize_run [OF ks] release_child_run [OF api]
    release_child_run [OF worker] release_child_run [OF listener]
  obtain e0 e1 e2 e3 e4 where
    ev: "extends s e0 s0" "extends s0 e1 s1" "extends s1 e2 s2" "extends s2 e3 s3" "extends s3 e4 s4"
    and i: "inst s0 = inst s" "inst s1 = inst s0" "inst s2 = inst s1" "inst s3 = inst s2" "inst s4 = inst s3"
    and rel: "EvGetDatabase False \<in> set e0 \<or> {EvGetDatabase True, EvDeleteDatabaseFinalizer} \<subseteq> set e0"
      "released_object (without_own L) EvGetKeystoneService EvUpdateKeystoneService e1"
      "released_object (without_own L) (EvGetChild (Name (Meta (inst s1)) @ ''-api''))
        (EvUpdateChild (Name (Meta (inst s1)) @ ''-api'')) e2"
      "released_object (without_own L) (EvGetChild (Name (Meta (inst s2)) @ ''-worker''))
        (EvUpdateChild (Name (Meta (inst s2)) @ ''-worker'')) e3"
      "released_object (without_own L) (EvGetChild (Name (Meta (inst s3)) @ ''-keystone-listener''))
        (EvUpdateChild (Name (Meta (inst s3)) @ ''-keystone-listener'')) e4"
    by blast
  obtain e5 where e5: "extends s4 e5 s'" "secrets_released (inst s) e5"
    using release_secrets_run [OF secrets] i by auto
  let ?evs = "e0 @ e1 @ e2 @ e3 @ e4"
  have "owned_released L (Name (Meta (inst s))) ?evs"
    unfolding owned_released_def
    using rel(1) rel(2-5) [THEN released_object_mono, of ?evs] by (auto simp: i)
  moreover have "extends s (?evs @ e5) s'"
    using ev e5(1) by (simp add: extends_def)
  moreover have "inst s' = inst s4"
    using keeps_release(3) [of "\<lambda>i. i" L] secrets by (auto simp: state_io_rel_def keeps_def) (metis snd_conv)
  ultimately show ?thesis
    using e5(2) i by (intro conjI exI [of _ ?evs] exI [of _ e5]) simp_all
qed

text \<open>A phase that returns early only with an error.\<close>

definition errors_only :: "('w, 'c, 'a) parent_phase \<Rightarrow> bool" where
  "errors_only m \<longleftrightarrow> (\<forall>s r s'. run_state m s = (Inl r, s') \<longrightarrow> (\<exists>e. r = Some (failed e)))"

lemma errors_proceed: "errors_only m \<Longrightarrow> (\<And>a. errors_only (f a)) \<Longrightarrow> errors_only (proceed m f)"
  unfolding errors_only_def by (fastforce split: prod.splits sum.splits)

lemma errors_fall: "errors_only (fall_through a)"
  by (simp add: errors_only_def)

lemma errors_loops:
  "(\<And>x. errors_only (f x)) \<Longrightarrow> errors_only (for_each f xs)"
  "(\<And>x b. errors_only (g x b)) \<Longrightarrow> errors_only (for_fold g xs b)"
  by (induction xs arbitrary: b) (auto intro: errors_fall errors_proceed)

lemma errors_instance: "(\<And>i. errors_only (f i)) \<Longrightarrow> errors_only (State_Monad.bind the_instance f)"
  by (simp add: errors_only_def)

lemma errors_try: "errors_only (b_try m)"
  by (auto simp: errors_only_def b_try_def split: option.splits prod.splits)

lemma errors_unfinalize: "errors_only (unfinalize L e u g p)"
  by (auto simp: errors_only_def unfinalize_def Let_def split_beta split: sum.splits option.splits if_splits)

lemma errors_delete: "errors_only (delete_steps L)"
proof -
  have "errors_only (release_database L)"
    by (auto simp: errors_only_def release_database_def b_try_def split: option.splits if_splits)
  moreover have "errors_only (bus_secret L n xs)" for n xs
    by (auto simp: errors_only_def bus_secret_def split: sum.splits if_splits)
  ultimately show ?thesis
    unfolding delete_steps_def release_secrets_def release_child_def remove_consumer_def prune_def Let_def
    by (intro errors_proceed errors_instance errors_loops errors_try errors_unfinalize)
qed

lemma keeps_delete: "state_io_rel (keeps f) (delete_steps L)"
  unfolding delete_steps_def by (intro keep_rules keeps_release keeps_unfinalize)


section \<open>Witnesses\<close>




theorem unused_accounts_unguarded_witness:
  "\<exists>rest. events_of (children_phase ex_condlib (ex_parentlib ''old'' ''new'') ''new'' []) ex_parent_state =
    [EvChild ''BarbicanAPI'' False, EvChild ''BarbicanWorker'' False, EvUnusedAccounts] @ rest"
proof -
  let ?L = "ex_parentlib ''old'' ''new''" and ?i = "inst ex_parent_state"
  have "\<exists>s1. run_state (deploy_child ex_condlib ''BarbicanAPI'' BarbicanAPIReadyCondition
      ''BarbicanAPIReadyErrorMessage'' (''new'' @ ''+'') (apiDeploymentCreateOrUpdate ?L ?i ''new'' [])) ex_parent_state =
        (Inr (''old'' = ''new''), s1) \<and> no_bus (inst s1) \<and>
      trace s1 = trace ex_parent_state @ [EvChild ''BarbicanAPI'' (''old'' = ''new'')]"
    by (rule ex_deploy [where spec = "api_spec ?i ''new''" and d = "ex_run_api (''old'' @ ''+'')"])
      (simp_all add: ex_run_simps fun_eq_iff ex_parent_no_bus)
  then obtain s1 where 1: "run_state (deploy_child ex_condlib ''BarbicanAPI'' BarbicanAPIReadyCondition
      ''BarbicanAPIReadyErrorMessage'' (''new'' @ ''+'') (apiDeploymentCreateOrUpdate ?L ?i ''new'' [])) ex_parent_state =
        (Inr False, s1)" and no1: "no_bus (inst s1)"
    by auto
  have "\<exists>s2. run_state (deploy_child ex_condlib ''BarbicanWorker'' BarbicanWorkerReadyCondition
      ''BarbicanWorkerReadyErrorMessage'' (''new'' @ ''+'') (workerDeploymentCreateOrUpdate ?L ?i ''new'' [])) s1 =
        (Inr (''old'' = ''new''), s2) \<and> no_bus (inst s2) \<and>
      trace s2 = trace s1 @ [EvChild ''BarbicanWorker'' (''old'' = ''new'')]"
    by (rule ex_deploy [where spec = "worker_spec ?i ''new''" and d = "ex_run_worker (''old'' @ ''+'')"])
      (simp_all add: ex_run_simps fun_eq_iff no1)
  then obtain s2 where 2: "run_state (deploy_child ex_condlib ''BarbicanWorker'' BarbicanWorkerReadyCondition
      ''BarbicanWorkerReadyErrorMessage'' (''new'' @ ''+'') (workerDeploymentCreateOrUpdate ?L ?i ''new'' [])) s1 =
        (Inr False, s2)"
    by auto
  show ?thesis
    by (rule unused_accounts_unguarded [OF _ 1 2]) simp
qed

end
