(* ===== verification/Watches.thy ===== *)
theory Watches
  imports Sub_Types
begin

text \<open>
  What brings a resource back to its controller. \<open>SetupWithManager\<close> registers field indexers and the
  watches of a controller; \<open>findObjectsForSrc\<close> maps a changed object to the requests of the resources
  that refer to it, by one list call per watched field. The manager (its cache, the indexers it
  was given, the list calls served from it) is the record \<open>manager\<close> of functions over an abstract \<open>'m\<close>.
\<close>

section \<open>Fields\<close>

abbreviation passwordSecretField :: string where "passwordSecretField \<equiv> ''.spec.secret''"
abbreviation simpleCryptoBackendSecretField :: string where
  "simpleCryptoBackendSecretField \<equiv> ''.spec.simpleCryptoBackendSecret''"
abbreviation caBundleSecretNameField :: string where
  "caBundleSecretNameField \<equiv> ''.spec.tls.caBundleSecretName''"
abbreviation tlsAPIInternalField :: string where
  "tlsAPIInternalField \<equiv> ''.spec.tls.api.internal.secretName''"
abbreviation tlsAPIPublicField :: string where
  "tlsAPIPublicField \<equiv> ''.spec.tls.api.public.secretName''"
abbreviation pkcs11LoginSecretField :: string where
  "pkcs11LoginSecretField \<equiv> ''.spec.pkcs11.loginSecret''"
abbreviation pkcs11ClientDataSecretField :: string where
  "pkcs11ClientDataSecretField \<equiv> ''.spec.pkcs11.clientDataSecret''"
abbreviation kmipClientDataSecretField :: string where
  "kmipClientDataSecretField \<equiv> ''.spec.kmip.clientDataSecret''"
abbreviation topologyField :: string where "topologyField \<equiv> ''.spec.topologyRef.Name''"
abbreviation customServiceConfigSecretsField :: string where
  "customServiceConfigSecretsField \<equiv> ''.spec.customServiceConfigSecrets''"
abbreviation parentBarbicanConfigDataSecretField :: string where
  "parentBarbicanConfigDataSecretField \<equiv> ''.status.parentBarbicanConfigDataSecret''"
abbreviation authAppCredSecretField :: string where
  "authAppCredSecretField \<equiv> ''.spec.auth.applicationCredentialSecret''"

definition workerWatchFields :: "string list" where
  "workerWatchFields = [passwordSecretField, simpleCryptoBackendSecretField,
     caBundleSecretNameField, pkcs11LoginSecretField, pkcs11ClientDataSecretField,
     kmipClientDataSecretField, topologyField, customServiceConfigSecretsField,
     parentBarbicanConfigDataSecretField]"

definition apiWatchFields :: "string list" where
  "apiWatchFields = [passwordSecretField, simpleCryptoBackendSecretField,
     caBundleSecretNameField, tlsAPIInternalField, tlsAPIPublicField, pkcs11LoginSecretField,
     pkcs11ClientDataSecretField, kmipClientDataSecretField, topologyField,
     customServiceConfigSecretsField, parentBarbicanConfigDataSecretField]"

definition listenerWatchFields :: "string list" where
  "listenerWatchFields = [passwordSecretField, simpleCryptoBackendSecretField,
     caBundleSecretNameField, topologyField, customServiceConfigSecretsField,
     parentBarbicanConfigDataSecretField]"

text \<open>The literal of the Barbican's \<open>findObjectsForSrc\<close>.\<close>

definition barbicanWatchFields :: "string list" where
  "barbicanWatchFields = [passwordSecretField, simpleCryptoBackendSecretField,
     pkcs11LoginSecretField, pkcs11ClientDataSecretField, kmipClientDataSecretField,
     authAppCredSecretField]"

section \<open>Indexers\<close>

text \<open>The extractor functions, in the order in which they are registered.\<close>

definition unless_empty :: "string \<Rightarrow> string list" where
  "unless_empty s = (if s = [] then [] else [s])"

definition index_login :: "BarbicanTemplate \<Rightarrow> string list" where
  "index_login t = (case PKCS11 t of None \<Rightarrow> [] | Some p \<Rightarrow> unless_empty (LoginSecret p))"

definition index_pkcs11_data :: "BarbicanTemplate \<Rightarrow> string list" where
  "index_pkcs11_data t =
     (case PKCS11 t of None \<Rightarrow> [] | Some p \<Rightarrow> unless_empty (ClientDataSecret (pkcs11_ClientData p)))"

definition index_kmip_data :: "BarbicanTemplate \<Rightarrow> string list" where
  "index_kmip_data t =
     (case KMIP t of None \<Rightarrow> [] | Some k \<Rightarrow> unless_empty (ClientDataSecret (kmip_ClientData k)))"

definition index_topology :: "TopoRef option \<Rightarrow> string list" where
  "index_topology r = (case r of None \<Rightarrow> [] | Some t \<Rightarrow> [topo_Name t])"

definition index_config_data :: "ObjectMeta \<Rightarrow> string list" where
  "index_config_data m = (let owner = GetOwningBarbicanName m
     in if owner = [] then [] else [owner @ ''-config-data''])"

definition index_tls :: "GenericTLS \<Rightarrow> string list" where
  "index_tls t = (case tls_SecretName t of None \<Rightarrow> [] | Some n \<Rightarrow> [n])"

type_synonym 'i indexers = "(string \<times> ('i \<Rightarrow> string list)) list"

definition Worker_indexers :: "'c BarbicanWorker_cr indexers" where
  "Worker_indexers =
     [(customServiceConfigSecretsField, \<lambda>cr. CustomServiceConfigSecrets (ss_Component (sub_Spec cr))),
      (passwordSecretField, \<lambda>cr. unless_empty (Secret (ss_Template (sub_Spec cr)))),
      (simpleCryptoBackendSecretField,
        \<lambda>cr. unless_empty (SimpleCryptoBackendSecret (ss_Template (sub_Spec cr)))),
      (caBundleSecretNameField, \<lambda>cr. unless_empty (ss_CaBundleSecretName (sub_Spec cr))),
      (pkcs11LoginSecretField, \<lambda>cr. index_login (ss_Template (sub_Spec cr))),
      (pkcs11ClientDataSecretField, \<lambda>cr. index_pkcs11_data (ss_Template (sub_Spec cr))),
      (kmipClientDataSecretField, \<lambda>cr. index_kmip_data (ss_Template (sub_Spec cr))),
      (topologyField, \<lambda>cr. index_topology (ct_TopologyRef (ss_Component (sub_Spec cr)))),
      (parentBarbicanConfigDataSecretField, \<lambda>cr. index_config_data (sub_Meta cr))]"

definition API_indexers :: "'c BarbicanAPI_cr indexers" where
  "API_indexers =
     [(customServiceConfigSecretsField, \<lambda>cr. CustomServiceConfigSecrets (ss_Component (sub_Spec cr))),
      (passwordSecretField, \<lambda>cr. unless_empty (Secret (ss_Template (sub_Spec cr)))),
      (simpleCryptoBackendSecretField,
        \<lambda>cr. unless_empty (SimpleCryptoBackendSecret (ss_Template (sub_Spec cr)))),
      (caBundleSecretNameField, \<lambda>cr. unless_empty (ss_CaBundleSecretName (sub_Spec cr))),
      (tlsAPIInternalField, \<lambda>cr. index_tls (as_Internal (sub_Spec cr))),
      (tlsAPIPublicField, \<lambda>cr. index_tls (as_Public (sub_Spec cr))),
      (pkcs11LoginSecretField, \<lambda>cr. index_login (ss_Template (sub_Spec cr))),
      (pkcs11ClientDataSecretField, \<lambda>cr. index_pkcs11_data (ss_Template (sub_Spec cr))),
      (kmipClientDataSecretField, \<lambda>cr. index_kmip_data (ss_Template (sub_Spec cr))),
      (topologyField, \<lambda>cr. index_topology (ct_TopologyRef (ss_Component (sub_Spec cr)))),
      (parentBarbicanConfigDataSecretField, \<lambda>cr. index_config_data (sub_Meta cr))]"

definition Listener_indexers :: "'c BarbicanKeystoneListener_cr indexers" where
  "Listener_indexers =
     [(customServiceConfigSecretsField, \<lambda>cr. CustomServiceConfigSecrets (ss_Component (sub_Spec cr))),
      (passwordSecretField, \<lambda>cr. unless_empty (Secret (ss_Template (sub_Spec cr)))),
      (simpleCryptoBackendSecretField,
        \<lambda>cr. unless_empty (SimpleCryptoBackendSecret (ss_Template (sub_Spec cr)))),
      (caBundleSecretNameField, \<lambda>cr. unless_empty (ss_CaBundleSecretName (sub_Spec cr))),
      (topologyField, \<lambda>cr. index_topology (ct_TopologyRef (ss_Component (sub_Spec cr)))),
      (parentBarbicanConfigDataSecretField, \<lambda>cr. index_config_data (sub_Meta cr))]"

definition Barbican_indexers :: "'c Barbican indexers" where
  "Barbican_indexers =
     [(authAppCredSecretField, \<lambda>cr. unless_empty (spec_AppCredSecret (Base (Spec cr)))),
      (passwordSecretField, \<lambda>cr. unless_empty (Secret (Template cr))),
      (simpleCryptoBackendSecretField, \<lambda>cr. unless_empty (SimpleCryptoBackendSecret (Template cr))),
      (pkcs11LoginSecretField, \<lambda>cr. index_login (Template cr)),
      (pkcs11ClientDataSecretField, \<lambda>cr. index_pkcs11_data (Template cr)),
      (kmipClientDataSecretField, \<lambda>cr. index_kmip_data (Template cr))]"

section \<open>The manager\<close>

datatype Predicate =
    NoPredicate
  | ResourceVersionChangedPredicate
  | GenerationChangedPredicate
  | KeystoneAPIStatusChangedPredicate

datatype MapFunc = findObjectForSrc_func | findObjectsForSrc_func

record Watch =
  watch_Kind :: string
  watch_MapFunc :: MapFunc
  watch_Predicate :: Predicate

record Builder =
  For :: string
  Owns :: "string list"
  builder_Watches :: "Watch list"

record ('i, 'm) manager =
  IndexField :: "string \<Rightarrow> ('i \<Rightarrow> string list) \<Rightarrow> 'm \<Rightarrow> gerr option \<times> 'm"
  Complete :: "Builder \<Rightarrow> 'm \<Rightarrow> gerr option \<times> 'm"
  ListByField :: "string \<Rightarrow> string \<Rightarrow> string \<Rightarrow> 'm \<Rightarrow> (gerr + 'i list) \<times> 'm"  \<comment> \<open>field, value, namespace\<close>
  ListAll :: "string \<Rightarrow> 'm \<Rightarrow> (gerr + 'i list) \<times> 'm"  \<comment> \<open>namespace\<close>

text \<open>One \<open>IndexField\<close> call per indexer; the first error is returned.\<close>

primrec register :: "('i, 'm) manager \<Rightarrow> 'i indexers \<Rightarrow> 'm \<Rightarrow> gerr option \<times> 'm" where
  "register M [] m = (None, m)"
| "register M (x # xs) m = (case IndexField M (fst x) (snd x) m of
     (Some err, m) \<Rightarrow> (Some err, m)
   | (None, m) \<Rightarrow> register M xs m)"

definition setup_with ::
  "'i indexers \<Rightarrow> Builder \<Rightarrow> ('i, 'm) manager \<Rightarrow> 'm \<Rightarrow> gerr option \<times> 'm" where
  "setup_with indexers builder M m = (case register M indexers m of
     (Some err, m) \<Rightarrow> (Some err, m)
   | (None, m) \<Rightarrow> Complete M builder m)"

definition secret_watch :: Watch where
  "secret_watch = \<lparr>watch_Kind = ''Secret'', watch_MapFunc = findObjectsForSrc_func,
     watch_Predicate = ResourceVersionChangedPredicate\<rparr>"

definition topology_watch :: Watch where
  "topology_watch = \<lparr>watch_Kind = ''Topology'', watch_MapFunc = findObjectsForSrc_func,
     watch_Predicate = GenerationChangedPredicate\<rparr>"

definition Worker_builder :: Builder where
  "Worker_builder =
     \<lparr>For = ''BarbicanWorker'', Owns = [''Deployment''], builder_Watches = [secret_watch, topology_watch]\<rparr>"

definition Worker_SetupWithManager ::
  "('c BarbicanWorker_cr, 'm) manager \<Rightarrow> 'm \<Rightarrow> gerr option \<times> 'm" where
  "Worker_SetupWithManager = setup_with Worker_indexers Worker_builder"

definition API_builder :: Builder where
  "API_builder =
     \<lparr>For = ''BarbicanAPI'', Owns = [''Service'', ''Secret'', ''KeystoneEndpoint'', ''Deployment''],
      builder_Watches = [secret_watch, topology_watch]\<rparr>"

definition API_SetupWithManager ::
  "('c BarbicanAPI_cr, 'm) manager \<Rightarrow> 'm \<Rightarrow> gerr option \<times> 'm" where
  "API_SetupWithManager = setup_with API_indexers API_builder"

definition Listener_builder :: Builder where
  "Listener_builder =
     \<lparr>For = ''BarbicanKeystoneListener'', Owns = [''Deployment''],
      builder_Watches = [secret_watch, topology_watch]\<rparr>"

definition Listener_SetupWithManager ::
  "('c BarbicanKeystoneListener_cr, 'm) manager \<Rightarrow> 'm \<Rightarrow> gerr option \<times> 'm" where
  "Listener_SetupWithManager = setup_with Listener_indexers Listener_builder"

definition Barbican_builder :: Builder where
  "Barbican_builder =
     \<lparr>For = ''Barbican'',
      Owns = [''BarbicanAPI'', ''BarbicanWorker'', ''BarbicanKeystoneListener'', ''TransportURL'',
        ''MariaDBDatabase'', ''MariaDBAccount'', ''KeystoneService'', ''ServiceAccount'', ''Job'', ''Secret'',
        ''ServiceAccount'', ''Role'', ''RoleBinding''],
      builder_Watches = [\<lparr>watch_Kind = ''KeystoneAPI'', watch_MapFunc = findObjectForSrc_func,
        watch_Predicate = KeystoneAPIStatusChangedPredicate\<rparr>, secret_watch]\<rparr>"

definition Barbican_SetupWithManager ::
  "('c Barbican, 'm) manager \<Rightarrow> 'm \<Rightarrow> gerr option \<times> 'm" where
  "Barbican_SetupWithManager = setup_with Barbican_indexers Barbican_builder"

section \<open>Requests for a changed object\<close>

record Request =
  req_Name :: string
  req_Namespace :: string

definition request_for :: "('i \<Rightarrow> ObjectMeta) \<Rightarrow> 'i \<Rightarrow> Request" where
  "request_for meta item = \<lparr>req_Name = Name (meta item), req_Namespace = Namespace (meta item)\<rparr>"

text \<open>
  The loop over the watched fields. In the service controllers a failing list call ends it with the
  requests found so far; in the Barbican controller the field is skipped.
\<close>

primrec requests_until_error ::
  "(string \<Rightarrow> 'm \<Rightarrow> (gerr + 'i list) \<times> 'm) \<Rightarrow> ('i \<Rightarrow> Request) \<Rightarrow> string list \<Rightarrow> Request list \<Rightarrow> 'm \<Rightarrow>
   Request list \<times> 'm" where
  "requests_until_error list_by req [] requests m = (requests, m)"
| "requests_until_error list_by req (field # rest) requests m = (case list_by field m of
     (Inl err, m) \<Rightarrow> (requests, m)
   | (Inr items, m) \<Rightarrow> requests_until_error list_by req rest (requests @ map req items) m)"

primrec requests_skipping_errors ::
  "(string \<Rightarrow> 'm \<Rightarrow> (gerr + 'i list) \<times> 'm) \<Rightarrow> ('i \<Rightarrow> Request) \<Rightarrow> string list \<Rightarrow> Request list \<Rightarrow> 'm \<Rightarrow>
   Request list \<times> 'm" where
  "requests_skipping_errors list_by req [] requests m = (requests, m)"
| "requests_skipping_errors list_by req (field # rest) requests m = (case list_by field m of
     (Inl err, m) \<Rightarrow> requests_skipping_errors list_by req rest requests m
   | (Inr items, m) \<Rightarrow> requests_skipping_errors list_by req rest (requests @ map req items) m)"

definition Worker_findObjectsForSrc ::
  "('c BarbicanWorker_cr, 'm) manager \<Rightarrow> ObjectMeta \<Rightarrow> 'm \<Rightarrow> Request list \<times> 'm" where
  "Worker_findObjectsForSrc M src =
     requests_until_error (\<lambda>field. ListByField M field (Name src) (Namespace src))
       (request_for sub_Meta) workerWatchFields []"

definition API_findObjectsForSrc ::
  "('c BarbicanAPI_cr, 'm) manager \<Rightarrow> ObjectMeta \<Rightarrow> 'm \<Rightarrow> Request list \<times> 'm" where
  "API_findObjectsForSrc M src =
     requests_until_error (\<lambda>field. ListByField M field (Name src) (Namespace src))
       (request_for sub_Meta) apiWatchFields []"

definition Listener_findObjectsForSrc ::
  "('c BarbicanKeystoneListener_cr, 'm) manager \<Rightarrow> ObjectMeta \<Rightarrow> 'm \<Rightarrow> Request list \<times> 'm" where
  "Listener_findObjectsForSrc M src =
     requests_until_error (\<lambda>field. ListByField M field (Name src) (Namespace src))
       (request_for sub_Meta) listenerWatchFields []"

definition Barbican_findObjectsForSrc ::
  "('c Barbican, 'm) manager \<Rightarrow> ObjectMeta \<Rightarrow> 'm \<Rightarrow> Request list \<times> 'm" where
  "Barbican_findObjectsForSrc M src =
     requests_skipping_errors (\<lambda>field. ListByField M field (Name src) (Namespace src))
       (request_for Meta) barbicanWatchFields []"

text \<open>A change of the keystone service concerns every Barbican of its namespace.\<close>

definition Barbican_findObjectForSrc ::
  "('c Barbican, 'm) manager \<Rightarrow> ObjectMeta \<Rightarrow> 'm \<Rightarrow> Request list \<times> 'm" where
  "Barbican_findObjectForSrc M src m = (case ListAll M (Namespace src) m of
     (Inl err, m) \<Rightarrow> ([], m)
   | (Inr items, m) \<Rightarrow> (map (request_for Meta) items, m))"

section \<open>Every reference is found\<close>

text \<open>
  What the code relies on of controller-runtime: a registered indexer stays registered and a list
  call on an indexed field returns exactly the resources of the namespace for which the extractor
  yields the value. \<open>objs\<close> and \<open>idx\<close> are the content of the cache and the registered indexers.
\<close>

definition manager_contract ::
  "('i, 'm) manager \<Rightarrow> ('i \<Rightarrow> ObjectMeta) \<Rightarrow> ('m \<Rightarrow> 'i list) \<Rightarrow>
   ('m \<Rightarrow> string \<Rightarrow> ('i \<Rightarrow> string list) option) \<Rightarrow> bool" where
  "manager_contract M meta objs idx \<longleftrightarrow>
     (\<forall>f x m m'. IndexField M f x m = (None, m') \<longrightarrow> idx m' = (idx m)(f \<mapsto> x)) \<and>
     (\<forall>b m. idx (snd (Complete M b m)) = idx m) \<and>
     (\<forall>f x v ns m. idx m f = Some x \<longrightarrow>
        ListByField M f v ns m = (Inr (filter (\<lambda>i. Namespace (meta i) = ns \<and> v \<in> set (x i)) (objs m)), m))"

text \<open>The names under which a resource is found.\<close>

definition watched_names :: "string list \<Rightarrow> 'i indexers \<Rightarrow> 'i \<Rightarrow> string list" where
  "watched_names fds indexers i = concat (map (\<lambda>f. case map_of indexers f of
     None \<Rightarrow> [] | Some x \<Rightarrow> x i) fds)"

lemmas watched_defs = watched_names_def Worker_indexers_def API_indexers_def Listener_indexers_def
  Barbican_indexers_def workerWatchFields_def apiWatchFields_def listenerWatchFields_def
  barbicanWatchFields_def

lemma register_indexes:
  assumes "manager_contract M meta objs idx" and "register M xs m = (None, m')"
    and "distinct (map fst xs)"
  shows "idx m' = idx m ++ map_of xs"
  using assms(2,3)
proof (induction xs arbitrary: m)
  case (Cons x xs)
  from Cons.prems obtain m1 where 1: "IndexField M (fst x) (snd x) m = (None, m1)"
    and 2: "register M xs m1 = (None, m')"
    by (auto split: prod.splits option.splits)
  from assms(1) 1 have "idx m1 = (idx m)(fst x \<mapsto> snd x)"
    unfolding manager_contract_def by blast
  moreover have "fst x \<notin> dom (map_of xs)"
    using Cons.prems by (simp add: dom_map_of_conv_image_fst)
  ultimately show ?case
    using Cons.IH [OF 2] Cons.prems by (cases x) (auto simp: map_add_def fun_eq_iff split: option.splits)
qed simp

lemma setup_indexes:
  assumes "manager_contract M meta objs idx" and "setup_with xs b M m = (None, m')"
    and "distinct (map fst xs)" and "map_of xs f = Some x"
  shows "idx m' f = Some x"
proof -
  from assms(2) obtain m1 where "register M xs m = (None, m1)" and "m' = snd (Complete M b m1)"
    by (auto simp: setup_with_def split: prod.splits option.splits)
  with assms register_indexes [OF assms(1)] show ?thesis
    by (auto simp: manager_contract_def)
qed

text \<open>The requests when no list call fails.\<close>

definition referring :: "('i \<Rightarrow> ObjectMeta) \<Rightarrow> ('i \<Rightarrow> string list) \<Rightarrow> ObjectMeta \<Rightarrow> 'i list \<Rightarrow> Request set" where
  "referring meta names src items = request_for meta ` {i \<in> set items.
     Namespace (meta i) = Namespace src \<and> Name src \<in> set (names i)}"

lemma referring_single:
  "referring meta names src [x] =
    (if Namespace (meta x) = Namespace src \<and> Name src \<in> set (names x) then {request_for meta x} else {})"
  by (auto simp: referring_def)

lemma until_error_all:
  assumes "\<And>f. f \<in> set fds \<Longrightarrow> list_by f m = (Inr (items f), m)"
  shows "requests_until_error list_by req fds rs m = (rs @ concat (map (map req \<circ> items) fds), m)"
  using assms by (induction fds arbitrary: rs) auto

lemma skipping_errors_all:
  assumes "\<And>f. f \<in> set fds \<Longrightarrow> list_by f m = (Inr (items f), m)"
  shows "requests_skipping_errors list_by req fds rs m = (rs @ concat (map (map req \<circ> items) fds), m)"
  using assms by (induction fds arbitrary: rs) auto

lemma requests_complete:
  assumes contract: "manager_contract M meta objs idx" and su: "setup_with xs b M m = (None, m')"
    and xs: "distinct (map fst xs)" "list_all (\<lambda>f. map_of xs f \<noteq> None) fds"
    and run: "run = requests_until_error \<or> run = requests_skipping_errors"
  shows "set (fst (run (\<lambda>f. ListByField M f (Name src) (Namespace src)) (request_for meta) fds [] m')) =
    referring meta (watched_names fds xs) src (objs m')"
proof -
  define items where "items f = filter (\<lambda>i. Namespace (meta i) = Namespace src \<and>
    Name src \<in> set (case map_of xs f of None \<Rightarrow> [] | Some x \<Rightarrow> x i)) (objs m')" for f
  have calls: "ListByField M f (Name src) (Namespace src) m' = (Inr (items f), m')" if f: "f \<in> set fds" for f
  proof -
    from f xs(2) obtain x where x: "map_of xs f = Some x" by (auto simp: list_all_iff)
    then show ?thesis
      using contract setup_indexes [OF contract su xs(1) x]
      by (simp add: manager_contract_def items_def)
  qed
  have "run (\<lambda>f. ListByField M f (Name src) (Namespace src)) (request_for meta) fds [] m' =
      (concat (map (map (request_for meta) \<circ> items) fds), m')"
    using run by (auto simp: until_error_all [where items = items] skipping_errors_all [where items = items] calls)
  then show ?thesis
    by (auto simp: referring_def watched_names_def items_def)
qed

lemma indexers_distinct:
  "distinct (map fst Worker_indexers)" "distinct (map fst API_indexers)"
  "distinct (map fst Listener_indexers)" "distinct (map fst Barbican_indexers)"
  by (simp_all add: Worker_indexers_def API_indexers_def Listener_indexers_def Barbican_indexers_def)

lemma fields_indexed:
  "list_all (\<lambda>f. map_of Worker_indexers f \<noteq> None) workerWatchFields"
  "list_all (\<lambda>f. map_of API_indexers f \<noteq> None) apiWatchFields"
  "list_all (\<lambda>f. map_of Listener_indexers f \<noteq> None) listenerWatchFields"
  "list_all (\<lambda>f. map_of Barbican_indexers f \<noteq> None) barbicanWatchFields"
  by (simp_all add: Worker_indexers_def API_indexers_def Listener_indexers_def Barbican_indexers_def
      workerWatchFields_def apiWatchFields_def listenerWatchFields_def barbicanWatchFields_def)

text \<open>A manager that meets the contract: the indexers registered so far and the resources.\<close>

definition ex_manager :: "('i \<Rightarrow> ObjectMeta) \<Rightarrow> ('i, 'i indexers \<times> 'i list) manager" where
  "ex_manager meta = \<lparr>
     IndexField = (\<lambda>f x m. if map_of (fst m) f \<noteq> None then (Some (ApiError False ''indexer conflict''), m)
       else (None, ((f, x) # fst m, snd m))),
     Complete = (\<lambda>b m. (None, m)),
     ListByField = (\<lambda>f v ns m. case map_of (fst m) f of
         None \<Rightarrow> (Inl (ApiError False ''no index''), m)
       | Some x \<Rightarrow> (Inr (filter (\<lambda>i. Namespace (meta i) = ns \<and> v \<in> set (x i)) (snd m)), m)),
     ListAll = (\<lambda>ns m. (Inr (filter (\<lambda>i. Namespace (meta i) = ns) (snd m)), m))\<rparr>"

lemma ex_manager_contract: "manager_contract (ex_manager meta) meta snd (\<lambda>m. map_of (fst m))"
  by (auto simp: manager_contract_def ex_manager_def split: if_splits)

lemma ex_register:
  "distinct (map fst (xs @ ys)) \<Longrightarrow>
   register (ex_manager meta) xs (ys, is) = (None, rev xs @ ys, is)"
proof (induction xs arbitrary: ys)
  case (Cons x xs)
  moreover have "map_of ys (fst x) = None"
    using Cons.prems by (simp add: map_of_eq_None_iff)
  ultimately show ?case
    by (cases x) (auto simp: ex_manager_def)
qed simp

lemma ex_setup: "distinct (map fst xs) \<Longrightarrow> setup_with xs b (ex_manager meta) ([], is) = (None, rev xs, is)"
  using ex_register [of xs "[]" meta "is"] by (simp add: setup_with_def) (simp add: ex_manager_def)

section \<open>Failing list calls\<close>

text \<open>List calls only read; \<open>found_by\<close> is what one of them finds.\<close>

definition read_only :: "('i, 'm) manager \<Rightarrow> bool" where
  "read_only M \<longleftrightarrow> (\<forall>f v ns m. snd (ListByField M f v ns m) = m)"

definition found_by :: "('i, 'm) manager \<Rightarrow> ObjectMeta \<Rightarrow> 'm \<Rightarrow> string \<Rightarrow> 'i list option" where
  "found_by M src m f = (case fst (ListByField M f (Name src) (Namespace src) m) of
     Inl _ \<Rightarrow> None | Inr items \<Rightarrow> Some items)"

lemma read_only_calls:
  assumes "read_only M"
  shows "found_by M src m f = None \<Longrightarrow> \<exists>e. ListByField M f (Name src) (Namespace src) m = (Inl e, m)"
    and "found_by M src m f = Some items \<Longrightarrow> ListByField M f (Name src) (Namespace src) m = (Inr items, m)"
proof -
  obtain x where "ListByField M f (Name src) (Namespace src) m = (x, m)"
    using assms unfolding read_only_def by (metis prod.collapse)
  then show "found_by M src m f = None \<Longrightarrow> \<exists>e. ListByField M f (Name src) (Namespace src) m = (Inl e, m)"
    and "found_by M src m f = Some items \<Longrightarrow> ListByField M f (Name src) (Namespace src) m = (Inr items, m)"
    by (auto simp: found_by_def split: sum.splits)
qed

lemma until_error:
  assumes "read_only M"
  shows "requests_until_error (\<lambda>f. ListByField M f (Name src) (Namespace src)) req fds rs m =
    (rs @ concat (map (map req \<circ> the \<circ> found_by M src m) (takeWhile (\<lambda>f. found_by M src m f \<noteq> None) fds)), m)"
proof (induction fds arbitrary: rs)
  case (Cons f fds)
  then show ?case
    using read_only_calls [OF assms, of src m f] by (cases "found_by M src m f") auto
qed simp

lemma skipping_errors:
  assumes "read_only M"
  shows "requests_skipping_errors (\<lambda>f. ListByField M f (Name src) (Namespace src)) req fds rs m =
    (rs @ concat (map (map req \<circ> the \<circ> found_by M src m) (filter (\<lambda>f. found_by M src m f \<noteq> None) fds)), m)"
proof (induction fds arbitrary: rs)
  case (Cons f fds)
  then show ?case
    using read_only_calls [OF assms, of src m f] by (cases "found_by M src m f") auto
qed simp

end
