(* ===== verification/Watch_Properties.thy ===== *)
theory Watch_Properties
  imports Watches Service_Samples
begin

text \<open>
  No reference is overlooked: what the mapping functions of the controllers find, and that the names of
  all secrets a pass reads are among the names by which the resource is found.
\<close>

section \<open>Properties\<close>

text \<open>
  C13. Once \<open>SetupWithManager\<close> returned without an error, a change of an object makes each controller
  request a reconcile of exactly those resources of the object's namespace that refer to its name in
  one of the watched fields: every field the mapping function lists by has an indexer, and no
  reference is overlooked.
\<close>

theorem change_requeues_referrers:
  "(manager_contract MW sub_Meta objsW idxW \<and> Worker_SetupWithManager MW w = (None, w') \<longrightarrow>
      set (fst (Worker_findObjectsForSrc MW src w')) =
        referring sub_Meta (watched_names workerWatchFields Worker_indexers) src (objsW w')) \<and>
   (manager_contract MA sub_Meta objsA idxA \<and> API_SetupWithManager MA a = (None, a') \<longrightarrow>
      set (fst (API_findObjectsForSrc MA src a')) =
        referring sub_Meta (watched_names apiWatchFields API_indexers) src (objsA a')) \<and>
   (manager_contract ML sub_Meta objsL idxL \<and> Listener_SetupWithManager ML l = (None, l') \<longrightarrow>
      set (fst (Listener_findObjectsForSrc ML src l')) =
        referring sub_Meta (watched_names listenerWatchFields Listener_indexers) src (objsL l')) \<and>
   (manager_contract MB Meta objsB idxB \<and> Barbican_SetupWithManager MB b = (None, b') \<longrightarrow>
      set (fst (Barbican_findObjectsForSrc MB src b')) =
        referring Meta (watched_names barbicanWatchFields Barbican_indexers) src (objsB b'))"
  unfolding Worker_findObjectsForSrc_def API_findObjectsForSrc_def Listener_findObjectsForSrc_def
    Barbican_findObjectsForSrc_def
  by (auto simp: requests_complete [OF _ _ indexers_distinct(1) fields_indexed(1)] Worker_SetupWithManager_def
      requests_complete [OF _ _ indexers_distinct(2) fields_indexed(2)] API_SetupWithManager_def
      requests_complete [OF _ _ indexers_distinct(3) fields_indexed(3)] Listener_SetupWithManager_def
      requests_complete [OF _ _ indexers_distinct(4) fields_indexed(4)] Barbican_SetupWithManager_def)

definition ex_changed :: ObjectMeta where
  "ex_changed = ex_meta\<lparr>Name := ''hsm-login''\<rparr>"

theorem change_requeues_referrers_witness:
  "set (fst (Worker_findObjectsForSrc (ex_manager sub_Meta) ex_changed (rev Worker_indexers, [ex_worker ()]))) =
     {\<lparr>req_Name = ''barbican-worker'', req_Namespace = ''openstack''\<rparr>} \<and>
   set (fst (API_findObjectsForSrc (ex_manager sub_Meta) ex_changed (rev API_indexers, [ex_apicr ()]))) =
     {\<lparr>req_Name = ''barbican-api'', req_Namespace = ''openstack''\<rparr>} \<and>
   set (fst (Listener_findObjectsForSrc (ex_manager sub_Meta) ex_changed (rev Listener_indexers, [ex_worker ()]))) =
     {} \<and>
   set (fst (Barbican_findObjectsForSrc (ex_manager Meta) ex_changed (rev Barbican_indexers, [ex_barbican ()]))) =
     {\<lparr>req_Name = ''barbican'', req_Namespace = ''openstack''\<rparr>}"
proof -
  note found = change_requeues_referrers [of "ex_manager sub_Meta" snd "\<lambda>m. map_of (fst m)" "([], [ex_worker ()])"
      "(rev Worker_indexers, [ex_worker ()])" ex_changed
      "ex_manager sub_Meta" snd "\<lambda>m. map_of (fst m)" "([], [ex_apicr ()])" "(rev API_indexers, [ex_apicr ()])"
      "ex_manager sub_Meta" snd "\<lambda>m. map_of (fst m)" "([], [ex_worker ()])" "(rev Listener_indexers, [ex_worker ()])"
      "ex_manager Meta" snd "\<lambda>m. map_of (fst m)" "([], [ex_barbican ()])" "(rev Barbican_indexers, [ex_barbican ()])"]
  have "set (fst (Worker_findObjectsForSrc (ex_manager sub_Meta) ex_changed (rev Worker_indexers, [ex_worker ()]))) =
      referring sub_Meta (watched_names workerWatchFields Worker_indexers) ex_changed [ex_worker ()]"
    "set (fst (API_findObjectsForSrc (ex_manager sub_Meta) ex_changed (rev API_indexers, [ex_apicr ()]))) =
      referring sub_Meta (watched_names apiWatchFields API_indexers) ex_changed [ex_apicr ()]"
    "set (fst (Listener_findObjectsForSrc (ex_manager sub_Meta) ex_changed (rev Listener_indexers, [ex_worker ()]))) =
      referring sub_Meta (watched_names listenerWatchFields Listener_indexers) ex_changed [ex_worker ()]"
    "set (fst (Barbican_findObjectsForSrc (ex_manager Meta) ex_changed (rev Barbican_indexers, [ex_barbican ()]))) =
      referring Meta (watched_names barbicanWatchFields Barbican_indexers) ex_changed [ex_barbican ()]"
    using found by (simp_all add: ex_manager_contract Worker_SetupWithManager_def API_SetupWithManager_def
        Listener_SetupWithManager_def Barbican_SetupWithManager_def ex_setup indexers_distinct)
  moreover have "''hsm-login'' \<in> set (watched_names workerWatchFields Worker_indexers (ex_worker ()))"
    "''hsm-login'' \<in> set (watched_names apiWatchFields API_indexers (ex_apicr ()))"
    "''hsm-login'' \<in> set (watched_names barbicanWatchFields Barbican_indexers (ex_barbican ()))"
    "''hsm-login'' \<notin> set (watched_names listenerWatchFields Listener_indexers (ex_worker ()))"
    by (simp_all add: watched_defs ex_sub_defs ex_template_def ex_component_def ex_meta_def ex_barbican_def
        ex_spec_def index_login_def unless_empty_def index_topology_def index_config_data_def GetOwningBarbicanName_def)
  moreover have "Name ex_changed = ''hsm-login''" "Namespace ex_changed = ''openstack''"
    "sub_Meta (ex_worker ()) = ex_meta\<lparr>Name := ''barbican-worker''\<rparr>"
    "sub_Meta (ex_apicr ()) = ex_meta\<lparr>Name := ''barbican-api''\<rparr>"
    "Meta (ex_barbican ()) = ex_meta" "Name ex_meta = ''barbican''" "Namespace ex_meta = ''openstack''"
    by (simp_all add: ex_changed_def ex_worker_def ex_apicr_def ex_barbican_def ex_meta_def)
  ultimately show ?thesis
    by (simp add: referring_single request_for_def)
qed

section \<open>The secrets a pass reads\<close>

text \<open>The names of the secrets and of the topology that a call reads.\<close>

fun names_read :: "event \<Rightarrow> string list" where
  "names_read (EvVerifySecret n _ _) = [n]"
| "names_read (EvValidateCACert n) = [n]"
| "names_read (EvValidateCerts ns) = ns"
| "names_read (EvGetSecret n) = [n]"
| "names_read (EvEnsureTopology t) = (case t of None \<Rightarrow> [] | Some r \<Rightarrow> [topo_Name r])"
| "names_read _ = []"

definition read_within :: "string set \<Rightarrow> event \<Rightarrow> bool" where
  "read_within N ev \<longleftrightarrow> set (names_read ev) \<subseteq> insert [] N"

text \<open>A run from a resource with this metadata and spec keeps them and reads secrets of \<open>N\<close> only.\<close>

definition within ::
  "ObjectMeta \<times> 's \<Rightarrow> string set \<Rightarrow> ('w, ('s, 't) subcr, event) rstate \<Rightarrow>
   ('w, ('s, 't) subcr, event) rstate \<Rightarrow> bool" where
  "within I N s t \<longleftrightarrow> (identity (inst s) = I \<longrightarrow>
     identity (inst t) = I \<and> emits (read_within N) s t)"

locale covered_reads =
  fixes I :: "ObjectMeta \<times> 's SubSpec_scheme" and N :: "string set"
  assumes shared: "Secret (ss_Template (snd I)) = [] \<or> Secret (ss_Template (snd I)) \<in> N"
      "ss_TransportURLSecret (snd I) \<in> N" "ss_NotificationsURLSecret (snd I) \<in> N"
      "ss_CaBundleSecretName (snd I) = [] \<or> ss_CaBundleSecretName (snd I) \<in> N"
    and custom: "set (CustomServiceConfigSecrets (ss_Component (snd I))) \<subseteq> N"
    and topology: "ct_TopologyRef (ss_Component (snd I)) = Some r \<Longrightarrow> topo_Name r \<in> N"
    and config_data: "GetOwningBarbicanName (fst I) \<noteq> [] \<Longrightarrow> GetOwningBarbicanName (fst I) @ ''-config-data'' \<in> N"

sublocale covered_reads \<subseteq> frame "within I N :: ('w, ('s SubSpec_scheme, 't) subcr, event) rstate \<Rightarrow> _"
  by unfold_locales (auto simp: within_def intro: emit.frame_refl emit.frame_trans)

context covered_reads
begin

lemma instance_within:
  "(\<And>i. identity i = I \<Longrightarrow> state_io_rel (within I N) (f i)) \<Longrightarrow>
   state_io_rel (within I N) (State_Monad.bind the_instance f)"
  by (auto simp: state_io_rel_def within_def split_beta)

lemma call_within: "read_within N ev \<Longrightarrow> state_io_rel (within I N) (invoke ev f)"
  by (auto simp: state_io_rel_def within_def intro: emitsI [where evs = "[ev]"])

lemma call_obs_within: "(\<And>a. read_within N (ev a)) \<Longrightarrow> state_io_rel (within I N) (invoke_obs ev f)"
  by (auto simp: state_io_rel_def within_def intro!: emitsI)

lemma write_within: "(\<And>i. identity (f i) = identity i) \<Longrightarrow> state_io_rel (within I N) (modify f)"
  by (auto simp: state_io_rel_def within_def intro: emit.frame_refl emitsI [where evs = "[]"])

lemma fold_within:
  "(\<And>x b. x \<in> set xs \<Longrightarrow> state_io_rel (within I N) (f x b)) \<Longrightarrow> state_io_rel (within I N) (for_fold f xs b)"
  by (induction xs arbitrary: b) (auto intro: fall_frame proceed_frame)

lemma quiet_steps:
  "state_io_rel (within I N) (set_cond C d)" "state_io_rel (within I N) (mark_true C t m)"
  "state_io_rel (within I N) (set_status f)" "state_io_rel (within I N) (return_with r)"
  "state_io_rel (within I N) (fail_with C d r)"
  unfolding set_cond_def mark_true_def set_status_def return_with_def fail_with_def
  by (intro bind_frame done_frame write_within; simp add: identity_def)+

lemmas within_rules = instance_within frame_rules call_within call_obs_within quiet_steps

lemma spec_of: "identity i = I \<Longrightarrow> sub_Spec i = snd I \<and> sub_Meta i = fst I"
  by (auto simp: identity_def)

lemma check_secret_within: "n = [] \<or> n \<in> N \<Longrightarrow> state_io_rel (within I N) (check_secret C K n fs vars)"
  unfolding check_secret_def verifySecret_def
  by (intro within_rules) (auto simp: read_within_def)

lemma common_within: "state_io_rel (within I N) (check_common_secrets C K vars)"
  unfolding check_common_secrets_def Let_def
  by (intro within_rules check_secret_within) (use shared in \<open>auto simp: identity_def\<close>)

lemma custom_within: "state_io_rel (within I N) (check_custom_secrets C K vars)"
  unfolding check_custom_secrets_def Let_def
  by (intro instance_within fold_within check_secret_within) (use custom in \<open>auto simp: identity_def\<close>)

lemma ca_within: "state_io_rel (within I N) (check_ca_bundle C K vars)"
  unfolding check_ca_bundle_def Let_def
  by (intro within_rules) (use shared in \<open>auto simp: identity_def read_within_def\<close>)

lemma config_within: "state_io_rel (within I N) (service_config C K vars)"
proof -
  have "state_io_rel (within I N) (parent_data K d)" for d
    unfolding parent_data_def Let_def
    by (intro within_rules) (use config_data in \<open>auto simp: identity_def read_within_def\<close>)
  moreover have "state_io_rel (within I N) (custom_secrets K)"
    unfolding custom_secrets_def
    by (intro instance_within fold_within bind_frame case_sum_frame done_frame fall_frame call_within)
      (use custom in \<open>auto simp: identity_def read_within_def\<close>)
  moreover have "state_io_rel (within I N) (GenerateConfigsGeneric K m v p d l b ts)" for m v p d l b ts
    unfolding GenerateConfigsGeneric_def Let_def by (intro within_rules) (simp add: read_within_def)
  ultimately show ?thesis
    unfolding service_config_def generateServiceConfigs_def Let_def by (intro within_rules)
qed

lemma hash_within: "state_io_rel (within I N) (input_hash C K vars)"
  unfolding input_hash_def createHashOfInputHashes_def Let_def by (intro within_rules)

lemma annotations_within: "state_io_rel (within I N) (network_annotations C K)"
  unfolding network_annotations_def Let_def by (intro within_rules) (simp_all add: read_within_def)

lemma apply_within: "state_io_rel (within I N) (apply_deployment C K d)"
  unfolding apply_deployment_def split_def by (intro within_rules) (simp_all add: read_within_def)

lemma verify_networks_within: "state_io_rel (within I N) (verify_networks C K l)"
  unfolding verify_networks_def Let_def by (intro within_rules) (simp_all add: read_within_def)

lemma cleanup_within: "state_io_rel (within I N) (cleanupOldDeployment K m n)"
  unfolding cleanupOldDeployment_def by (intro within_rules) (simp_all add: read_within_def)

lemma confirm_within: "state_io_rel (within I N) (confirm_rollout C K h x)"
  unfolding confirm_rollout_def rollout_confirmed_def Let_def by (intro within_rules cleanup_within) (simp_all add: read_within_def)

lemma conclude_within: "state_io_rel (within I N) (conclude C)"
  unfolding conclude_def by (intro within_rules)

lemma topology_within:
  assumes "\<And>t. SetLast t = upd_status (\<lambda>s. s\<lparr>LastAppliedTopology := t\<rparr>)"
    and "\<And>i. GetSpec i = ct_TopologyRef (ss_Component (sub_Spec i))"
  shows "state_io_rel (within I N)
    (topology_step C (ensureTopology GetSpec GetLast SetLast (upd_conds C) C K fin sel))"
  unfolding topology_step_def ensureTopology_def
  by (intro within_rules write_within)
    (use topology in \<open>auto simp: read_within_def identity_def assms split: option.split\<close>)

lemma steps_within:
  "state_io_rel (within I N) (step_result (reconcileUpdate K))"
  "state_io_rel (within I N) (step_result (reconcileUpgrade K))"
  "state_io_rel (within I N) (step_result (State_Monad.return ok))"
  unfolding step_result_def reconcileUpdate_def reconcileUpgrade_def by (intro within_rules)+

lemmas phases_within = within_rules common_within custom_within ca_within config_within hash_within
  annotations_within apply_within verify_networks_within confirm_within conclude_within
  steps_within

end

text \<open>The secrets of the secret stores, which the API and the Worker check as well.\<close>

locale covered_stores = covered_reads +
  assumes simple_crypto: "SimpleCryptoBackendSecret (ss_Template (snd I)) = [] \<or>
      SimpleCryptoBackendSecret (ss_Template (snd I)) \<in> N"
    and pkcs11: "PKCS11 (ss_Template (snd I)) = Some p \<Longrightarrow>
      (LoginSecret p = [] \<or> LoginSecret p \<in> N) \<and>
      (ClientDataSecret (pkcs11_ClientData p) = [] \<or> ClientDataSecret (pkcs11_ClientData p) \<in> N)"
    and kmip: "KMIP (ss_Template (snd I)) = Some k \<Longrightarrow>
      ClientDataSecret (kmip_ClientData k) = [] \<or> ClientDataSecret (kmip_ClientData k) \<in> N"
begin

lemma store_within: "state_io_rel (within I N) (check_store_secrets C K vars)"
  unfolding check_store_secrets_def Let_def
  by (intro within_rules check_secret_within)
    (use simple_crypto pkcs11 kmip in \<open>auto simp: identity_def\<close>)

end

text \<open>The passes of the KeystoneListener, the Worker and the API.\<close>

locale listener_reads = covered_reads I N for I :: "ObjectMeta \<times> BarbicanKeystoneListenerSpec" and N
begin

lemma listener_within: "state_io_rel (within I N) (Listener_reconcileNormal C K)"
  unfolding Listener_reconcileNormal_def Listener_configure_def Listener_config_def Listener_inputs_def
    Listener_reconcileInit_def Listener_rollout_def Listener_ensureTopology_def Let_def
  by (intro phases_within topology_within) (simp_all add: Listener_SetLastAppliedTopology_def Listener_GetSpecTopologyRef_def)

end

locale worker_reads = covered_stores I N for I :: "ObjectMeta \<times> BarbicanWorkerSpec" and N
begin

lemma worker_within: "state_io_rel (within I N) (Worker_reconcileNormal C K)"
  unfolding Worker_reconcileNormal_def Worker_configure_def Worker_config_def Worker_inputs_def
    Worker_reconcileInit_def Worker_rollout_def Worker_ensureTopology_def Let_def
  by (intro phases_within store_within topology_within) (simp_all add: Worker_SetLastAppliedTopology_def Worker_GetSpecTopologyRef_def)

end

locale api_reads = covered_stores I N for I :: "ObjectMeta \<times> BarbicanAPISpec" and N +
  assumes certs: "set (cert_names (snd I)) \<subseteq> insert [] N"
begin

lemma expose_within: "state_io_rel (within I N) (expose_endpoint C A l e eps)"
  unfolding expose_endpoint_def Let_def split_def by (intro phases_within) (simp add: read_within_def)

lemma api_init_within: "state_io_rel (within I N) (API_reconcileInit C A l)"
  unfolding API_reconcileInit_def split_def
  by (intro phases_within expose_within) (simp add: read_within_def)

lemma api_within: "state_io_rel (within I N) (API_reconcileNormal C A)"
  unfolding API_reconcileNormal_def API_configure_def API_inputs_def check_service_certs_def
    API_rollout_def API_ensureTopology_def Let_def
  by (intro phases_within store_within api_init_within topology_within)
    (use certs in \<open>auto simp: API_SetLastAppliedTopology_def API_GetSpecTopologyRef_def read_within_def identity_def\<close>)

end

text \<open>
  The names by which a resource is found, and the two secrets that the Barbican controller writes into
  the spec itself.
\<close>

definition notified :: "string list \<Rightarrow> ('s SubSpec_scheme, 't) subcr indexers \<Rightarrow> ('s SubSpec_scheme, 't) subcr \<Rightarrow> string set" where
  "notified fds xs i = set (watched_names fds xs i) \<union>
     {ss_TransportURLSecret (sub_Spec i), ss_NotificationsURLSecret (sub_Spec i)}"

lemmas index_defs = unless_empty_def index_login_def index_pkcs11_data_def index_kmip_data_def
  index_topology_def index_config_data_def index_tls_def

interpretation listener_read: listener_reads "identity i"
  "notified listenerWatchFields Listener_indexers (i :: 'c BarbicanKeystoneListener_cr)" for i
  by unfold_locales (auto simp: notified_def watched_defs index_defs identity_def Let_def)

interpretation worker_read: worker_reads "identity i"
  "notified workerWatchFields Worker_indexers (i :: 'c BarbicanWorker_cr)" for i
  by unfold_locales (auto simp: notified_def watched_defs index_defs identity_def Let_def)

interpretation api_read: api_reads "identity i"
  "notified apiWatchFields API_indexers (i :: 'c BarbicanAPI_cr)" for i
  by unfold_locales (auto simp: notified_def watched_defs index_defs identity_def Let_def cert_names_def
      List.map_filter_def split: option.splits)

lemma within_events:
  assumes "state_io_rel (within (identity (inst s)) N) m"
  shows "list_all (read_within N) (events_of m s)"
proof -
  from assms have "emits (read_within N) s (snd (run_state m s))"
    by (auto simp: state_io_rel_def within_def)
  then show ?thesis by (auto simp: emits_def events_of_def)
qed

text \<open>
  C12. Every secret, certificate and topology a pass of a service controller reads (checks, validates or
  takes data from) is one whose change brings the resource back to the controller: its name is empty,
  is among the names the resource is indexed by, or is the bus or the notifications secret, which
  the Barbican controller writes into the spec.
\<close>

theorem read_secrets_watched:
  "list_all (read_within (notified workerWatchFields Worker_indexers (inst sW)))
     (events_of (Worker_reconcileNormal C K) sW) \<and>
   list_all (read_within (notified listenerWatchFields Listener_indexers (inst sL)))
     (events_of (Listener_reconcileNormal C K) sL) \<and>
   list_all (read_within (notified apiWatchFields API_indexers (inst sA)))
     (events_of (API_reconcileNormal C A) sA)"
  by (intro conjI within_events worker_read.worker_within listener_read.listener_within api_read.api_within)

text \<open>
  C40. When list calls fail, a service controller drops all fields from the first failing one on, so
  resources that refer to the object in a later field are not requested; the Barbican controller
  loses the failing fields only.
\<close>

theorem failing_list_drops_fields:
  assumes "read_only MW" "read_only MA" "read_only ML" "read_only MB"
  shows "fst (Worker_findObjectsForSrc MW src w) = concat (map (map (request_for sub_Meta) \<circ> the \<circ> found_by MW src w)
      (takeWhile (\<lambda>f. found_by MW src w f \<noteq> None) workerWatchFields)) \<and>
    fst (API_findObjectsForSrc MA src a) = concat (map (map (request_for sub_Meta) \<circ> the \<circ> found_by MA src a)
      (takeWhile (\<lambda>f. found_by MA src a f \<noteq> None) apiWatchFields)) \<and>
    fst (Listener_findObjectsForSrc ML src l) = concat (map (map (request_for sub_Meta) \<circ> the \<circ> found_by ML src l)
      (takeWhile (\<lambda>f. found_by ML src l f \<noteq> None) listenerWatchFields)) \<and>
    fst (Barbican_findObjectsForSrc MB src b) = concat (map (map (request_for Meta) \<circ> the \<circ> found_by MB src b)
      (filter (\<lambda>f. found_by MB src b f \<noteq> None) barbicanWatchFields))"
  using assms by (simp add: Worker_findObjectsForSrc_def API_findObjectsForSrc_def
      Listener_findObjectsForSrc_def Barbican_findObjectsForSrc_def until_error skipping_errors)

text \<open>Managers whose list call fails for the password field only: every resource refers to the object.\<close>

definition ex_failing :: "('i, 'i) manager" where
  "ex_failing = \<lparr>IndexField = (\<lambda>f x m. (None, m)), Complete = (\<lambda>b m. (None, m)),
     ListByField = (\<lambda>f v ns m. (if f = passwordSecretField then Inl (ApiError False ''timeout'') else Inr [m], m)),
     ListAll = (\<lambda>ns m. (Inr [m], m))\<rparr>"

theorem failing_list_drops_fields_witness:
  "fst (Worker_findObjectsForSrc ex_failing ex_changed (ex_worker ())) = [] \<and>
   fst (API_findObjectsForSrc ex_failing ex_changed (ex_apicr ())) = [] \<and>
   fst (Listener_findObjectsForSrc ex_failing ex_changed (ex_worker ())) = [] \<and>
   fst (Barbican_findObjectsForSrc ex_failing ex_changed (ex_barbican ())) =
     replicate 5 (request_for Meta (ex_barbican ()))"
proof -
  have ro: "read_only (ex_failing :: ('i, 'i) manager)"
    by (simp add: read_only_def ex_failing_def)
  have found: "found_by ex_failing src m f = (if f = passwordSecretField then None else Some [m])"
    for src and m :: 'i and f
    by (simp add: found_by_def ex_failing_def)
  show ?thesis
    using failing_list_drops_fields [OF ro ro ro ro, of ex_changed "ex_worker ()" "ex_apicr ()" "ex_worker ()" "ex_barbican ()"]
    by (simp add: found watched_defs numeral_eq_Suc)
qed

end
