(* ===== verification/Composition.thy ===== *)
theory Composition
  imports Service_Properties Parent_Properties
begin

text \<open>
  The agreement between the Barbican controller and the service controllers on which the release of
  superseded secrets rests. The Barbican controller writes the names of the bus secrets into the spec
  of a service and waits until the status of the service reports their hash; the service reports the
  hash of the names in its spec when its rollout was confirmed.
\<close>

definition input_secrets :: "'s SubSpec_scheme \<Rightarrow> string list" where
  "input_secrets sp = [ss_TransportURLSecret sp, ss_NotificationsURLSecret sp]"

abbreviation applied_hash :: "('w, ('s, ('c, 't) SubStatus_scheme) subcr, event) rstate \<Rightarrow> string" where
  "applied_hash s \<equiv> AppliedInputSecretHash (sub_Status (inst s))"

text \<open>What a run reports: nothing new, or, once confirmed, the hash of the names in the spec.\<close>

definition reports ::
  "(string list \<Rightarrow> gerr + string) \<Rightarrow> ('w, ('s SubSpec_scheme, ('c, 't) SubStatus_scheme) subcr, event) rstate \<Rightarrow>
   ('w, ('s SubSpec_scheme, ('c, 't) SubStatus_scheme) subcr, event) rstate \<Rightarrow> bool" where
  "reports H s t \<longleftrightarrow> sub_Spec (inst t) = sub_Spec (inst s) \<and> (\<exists>evs. trace t = trace s @ evs \<and>
     (applied_hash t = applied_hash s \<or>
      H (input_secrets (sub_Spec (inst s))) = Inr (applied_hash t) \<and> list_ex confirmation evs))"

lemma reportsI:
  assumes "sub_Spec (inst t) = sub_Spec (inst s)" "trace t = trace s @ evs" "applied_hash t = applied_hash s"
  shows "reports H s t"
  using assms by (auto simp: reports_def)

lemma reports_frame: "service_frame (reports H) C (\<lambda>_. True)"
proof unfold_locales
  show "reports H s u" if "reports H s t" "reports H t u" for s t u
    using that by (fastforce simp: reports_def)
  show "reports H s (s\<lparr>world := w, trace := trace s @ [ev]\<rparr>)" for s w ev
    by (rule reportsI [where evs = "[ev]"]) simp_all
qed (auto simp: plain_update_def intro!: reportsI [where evs = "[]"])

interpretation reporting: plain_frame "reports H" C "\<lambda>_. True" for H C
  by (intro plain_frame.intro reports_frame)

interpretation api_reporting: api_frame "reports H" C "\<lambda>_. True" for H C
  by (intro api_frame.intro reports_frame api_frame_axioms.intro) simp

text \<open>The confirmation step writes the hash of the names in the spec.\<close>

lemma rollout_reports:
  assumes "run_state (rollout_confirmed C K x) s = (r, t)"
  shows "sub_Spec (inst t) = sub_Spec (inst s) \<and>
    (applied_hash t = applied_hash s \<or> ObjectHash K (input_secrets (sub_Spec (inst s))) = Inr (applied_hash t))"
proof -
  obtain c s1 where c: "run_state (cleanupOldDeployment K (sub_Meta (inst s)) (Name (sub_Meta (inst s)) @ x)) s = (c, s1)"
    by fastforce
  have "state_io_rel (keeps (\<lambda>i. i)) (cleanupOldDeployment K m n)" for m n
    unfolding cleanupOldDeployment_def by (intro keep_rules)
  from keeps_after [OF this] have "inst s1 = inst s"
    using c by (metis after_def snd_conv)
  then show ?thesis
    using assms c by (auto simp: rollout_confirmed_def Let_def return_with_def input_secrets_def
        split: option.splits sum.splits)
qed

lemma confirm_reports:
  fixes K :: "'w kube" and C :: "'c condlib"
  shows "state_io_rel (reports (ObjectHash K)) (confirm_rollout C K h x)"
  unfolding state_io_rel_def
proof
  fix s :: "('w, ('s SubSpec_scheme, ('c, 't) SubStatus_scheme) subcr, event) rstate"
  define name where "name = Name (sub_Meta (inst s))"
  obtain a w where call: "IsReadyForInput K name (Namespace (sub_Meta (inst s))) h (world s) = (a, w)"
    by fastforce
  obtain r t where run: "run_state (confirm_rollout C K h x) s = (r, t)" by fastforce
  from confirm_caused [OF run] obtain evs where evs: "trace t = trace s @ evs" by blast
  have "reports (ObjectHash K) s t"
  proof (cases "a = Inr True")
    case True
    define s1 where "s1 = s\<lparr>world := w, trace := trace s @ [EvIsReadyForInput name h True]\<rparr>"
    have tail: "run_state (rollout_confirmed C K x) s1 = (r, t)"
      using run call True by (simp add: confirm_rollout_def Let_def name_def s1_def)
    have "state_io_rel (emits (\<lambda>_. True)) (rollout_confirmed C K x)"
      unfolding rollout_confirmed_def Let_def return_with_def
      by (intro emit_rules emits_mark_true emits_set_status emits_mono [OF _ service_frame.cleanup_frame [OF calls_frame]]) simp_all
    then obtain rest where "trace t = trace s1 @ rest"
      using tail by (metis emits_run)
    then have "list_ex confirmation evs"
      using evs by (auto simp: s1_def)
    then show ?thesis
      using rollout_reports [OF tail] evs by (auto simp: reports_def s1_def)
  next
    case False
    then show ?thesis
      using run call evs by (auto simp: confirm_rollout_def Let_def name_def return_with_def reports_def
          split: sum.splits bool.splits if_splits)
  qed
  then show "reports (ObjectHash K) s (snd (run_state (confirm_rollout C K h x) s))"
    by (simp add: run)
qed

lemma services_report:
  "state_io_rel (reports (ObjectHash K)) (Worker_reconcileNormal C K)"
  "state_io_rel (reports (ObjectHash K)) (Listener_reconcileNormal C K)"
  "state_io_rel (reports (ObjectHash (kb A))) (API_reconcileNormal C A)"
  by (rule reporting.worker_normal_frame reporting.listener_normal_frame api_reporting.api_normal_frame;
      (rule confirm_reports | simp))+

text \<open>The names the Barbican controller writes, and waits for.\<close>

lemma notifications_bus_kept:
  assumes "run_state (setup_phase C L) s = (r, s')"
  shows "NotificationsBus (Template (inst s')) = NotificationsBus (Template (inst s))"
proof -
  have "barbican_identity (inst s') = barbican_identity (inst s)"
    using keeps_after [OF setup_same.setup_frame, of C L s] assms by (simp add: after_def)
  then have "Spec (set_service_account (inst s')) = Spec (set_service_account (inst s))"
    by (simp add: barbican_identity_def)
  from arg_cong [OF this, of "\<lambda>sp. NotificationsBus (sb_Template (Base sp))"] show ?thesis
    by (simp add: set_service_account_def)
qed

lemma adopted_secrets:
  assumes run: "run_state (setup_phase C L) s = (Inr (t, n), s')"
    and "adopt_child L (inst s') spec (or_empty n) d = Inr d'"
    and "ss_TransportURLSecret spec = t" "ss_NotificationsURLSecret spec = []"
  shows "input_secrets (sub_Spec d') = [t, or_empty n]"
proof -
  have "n = None \<longleftrightarrow> NotificationsBus (Template (inst s')) = None"
    using setup_run [OF run] notifications_bus_kept [OF run] by auto
  then show ?thesis
    using assms(2-4) by (auto simp: adopt_child_def Let_def input_secrets_def or_empty_def split: sum.splits if_splits)
qed


section \<open>Agreement\<close>

text \<open>\<open>sp\<close> is what the mutation of a child leaves as its spec.\<close>

definition written_by :: "('w, 'c) parentlib \<Rightarrow> 'c Barbican \<Rightarrow> 's SubSpec_scheme \<Rightarrow> string \<Rightarrow> 's SubSpec_scheme \<Rightarrow> bool" where
  "written_by L i spec notif sp \<longleftrightarrow>
     (\<exists>d d' :: ('s SubSpec_scheme, unit) subcr. adopt_child L i spec notif d = Inr d' \<and> sub_Spec d' = sp)"

text \<open>A pass that changes the reported hash, over a spec of any origin and over one of the given origin.\<close>

definition agrees ::
  "(string list \<Rightarrow> gerr + string) \<Rightarrow> ('s SubSpec_scheme \<Rightarrow> bool) \<Rightarrow> string \<Rightarrow>
   (('w, ('s SubSpec_scheme, ('c, 't) SubStatus_scheme) subcr, event) rstate, 'a) state \<Rightarrow> bool" where
  "agrees H current h m \<longleftrightarrow> (\<forall>u. applied_hash (after m u) \<noteq> applied_hash u \<longrightarrow>
     list_ex confirmation (events_of m u) \<and> H (input_secrets (sub_Spec (inst u))) = Inr (applied_hash (after m u)) \<and>
     (current (sub_Spec (inst u)) \<longrightarrow> applied_hash (after m u) = h))"

lemma reports_agrees:
  assumes "state_io_rel (reports H) m" and "\<And>sp. current sp \<Longrightarrow> H (input_secrets sp) = Inr h"
  shows "agrees H current h m"
  unfolding agrees_def
proof (intro allI impI)
  fix u assume "applied_hash (after m u) \<noteq> applied_hash u"
  moreover have "reports H u (after m u)"
    using assms(1) by (simp add: state_io_rel_def after_def)
  ultimately show "list_ex confirmation (events_of m u) \<and>
      H (input_secrets (sub_Spec (inst u))) = Inr (applied_hash (after m u)) \<and>
      (current (sub_Spec (inst u)) \<longrightarrow> applied_hash (after m u) = h)"
    using assms(2) by (auto simp: reports_def after_def events_of_def)
qed

lemma written_secrets:
  assumes "run_state (setup_phase C L) s = (Inr (t, n), s')" and "written_by L (inst s') spec (or_empty n) sp"
    and "ss_TransportURLSecret spec = t" "ss_NotificationsURLSecret spec = []"
  shows "input_secrets sp = [t, or_empty n]"
  using adopted_secrets [OF assms(1) _ assms(3,4)] assms(2) by (auto simp: written_by_def)

lemma spec_secrets:
  "ss_TransportURLSecret (api_spec i t) = t" "ss_NotificationsURLSecret (api_spec i t) = []"
  "ss_TransportURLSecret (worker_spec i t) = t" "ss_NotificationsURLSecret (worker_spec i t) = []"
  "ss_TransportURLSecret (listener_spec i t) = t" "ss_NotificationsURLSecret (listener_spec i t) = []"
  by (simp_all add: api_spec_def worker_spec_def listener_spec_def Let_def)

lemma written_hash:
  assumes "run_state (setup_phase C L) s = (Inr (t, n), s')" and "ObjectHash L [t, or_empty n] = Inr h"
  shows "written_by L (inst s') (api_spec (inst s') t) (or_empty n) sa \<Longrightarrow> ObjectHash L (input_secrets sa) = Inr h"
    "written_by L (inst s') (worker_spec (inst s') t) (or_empty n) sw \<Longrightarrow> ObjectHash L (input_secrets sw) = Inr h"
    "written_by L (inst s') (listener_spec (inst s') t) (or_empty n) sl \<Longrightarrow> ObjectHash L (input_secrets sl) = Inr h"
  using assms(2) by (simp_all add: written_secrets [OF assms(1) _ spec_secrets(1,2)]
    written_secrets [OF assms(1) _ spec_secrets(3,4)] written_secrets [OF assms(1) _ spec_secrets(5,6)])

text \<open>
  C4. The two sides mean the same secrets. Let a pass of the Barbican controller have read the bus
  secret \<open>t\<close> and the notifications secret \<open>n\<close>, so that it waits for the services to report the hash \<open>h\<close>.
  A service whose pass changes the hash it reports has had its rollout confirmed in that pass, reports
  the hash of the names in its own spec, and reports \<open>h\<close> when the spec is the one that the Barbican
  controller writes for these secrets. So a service that uses the current secrets is never waited
  for in vain, and one that reports \<open>h\<close> was confirmed with names of that hash.
\<close>

theorem input_hashes_agree:
  assumes "run_state (setup_phase C L) s = (Inr (t, n), s')" and "ObjectHash L [t, or_empty n] = Inr h"
    and "ObjectHash K = ObjectHash L" and "ObjectHash (kb A) = ObjectHash L"
  shows "agrees (ObjectHash L) (written_by L (inst s') (api_spec (inst s') t) (or_empty n)) h (API_reconcileNormal D A) \<and>
    agrees (ObjectHash L) (written_by L (inst s') (worker_spec (inst s') t) (or_empty n)) h (Worker_reconcileNormal D K) \<and>
    agrees (ObjectHash L) (written_by L (inst s') (listener_spec (inst s') t) (or_empty n)) h (Listener_reconcileNormal D K)"
  using services_report(1,2) [where C = D and K = K] services_report(3) [where C = D and A = A]
  by (auto simp: assms(3,4) intro!: reports_agrees dest: written_hash [OF assms(1,2)])

theorem input_hashes_agree_witness:
  "\<exists>s'. run_state (setup_phase ex_condlib (ex_parentlib ''old'' ''rabbitmq-secret'')) ex_parent_state =
      (Inr (''rabbitmq-secret'', None), s') \<and>
    agrees (ObjectHash ex_kube) (written_by (ex_parentlib ''old'' ''rabbitmq-secret'') (inst s')
      (worker_spec (inst s') ''rabbitmq-secret'') []) ''rabbitmq-secret+'' (Worker_reconcileNormal ex_condlib ex_kube) \<and>
    applied_hash (ex_state []) = [] \<and>
    applied_hash (after (Worker_reconcileNormal ex_condlib ex_kube) (ex_state [])) = ''rabbitmq-secret+''"
proof -
  let ?L = "ex_parentlib ''old'' ''rabbitmq-secret''"
  obtain s' where run: "run_state (setup_phase ex_condlib ?L) ex_parent_state = (Inr (''rabbitmq-secret'', None), s')"
    using runs_setup [of "''rabbitmq-secret''" "''old''"] ex_parent_no_bus by (auto simp: runs_def)
  have hash: "ObjectHash ex_kube = ObjectHash ?L" "ObjectHash (kb ex_apilib) = ObjectHash ?L"
    "ObjectHash ?L [''rabbitmq-secret'', or_empty None] = Inr ''rabbitmq-secret+''"
    by (simp_all add: fun_eq_iff or_empty_def ex_apilib_def kube.defs)
  show ?thesis
    using run input_hashes_agree [OF run hash(3,1,2), of ex_condlib] ex_normal
    by (auto simp: hash(1) or_empty_def ex_state_def ex_sub_defs)
qed

end
