(* ===== verification/Rotation.thy ===== *)
theory Rotation
  imports Parent_Samples
begin

text \<open>
  The protection of the secrets of the message bus and of the notifications bus. A secret that carries
  the consumer finalizer is not revoked by the operator that owns it. The Barbican controller puts the
  finalizer on the current secrets before any service learns of them, and takes it off the secrets it
  tracks when all services report the current ones.

  This theory specifies the effect of the controller's two ends of a pass on the tracked names and the
  set of protected secrets, and shows that \<open>messaging_phase\<close>, \<open>notifications_phase\<close> and
  \<open>rotation_phase\<close> implement it; the interleaving with publications and rollouts is in \<open>Protocol\<close>.
\<close>

section \<open>Specification of the two ends of a pass\<close>

record tracking =
  tr_bus :: string
  tr_notif :: "string option"
  protected :: "string set"

definition protect_spec :: "string \<Rightarrow> tracking \<Rightarrow> tracking" where
  "protect_spec current v =
     v\<lparr>tr_bus := (if tr_bus v = [] then current else tr_bus v), protected := insert current (protected v)\<rparr>"

definition protect_notif_spec :: "string option \<Rightarrow> tracking \<Rightarrow> tracking" where
  "protect_notif_spec current v = (case current of
       None \<Rightarrow> v
     | Some n \<Rightarrow> v\<lparr>tr_notif := (if tr_notif v = None then Some n else tr_notif v), protected := insert n (protected v)\<rparr>)"

definition released :: "bool \<Rightarrow> string \<Rightarrow> string \<Rightarrow> string set \<Rightarrow> string set" where
  "released ready old current H = (if ready \<and> old \<noteq> current then H - {old} else H)"

text \<open>
  The end of a pass: a ready rollout moves the tracked names forward, an unready one leaves them.
  Then everything but the tracked and the current names loses its protection.
\<close>

definition rotate_bus_spec :: "bool \<Rightarrow> string \<Rightarrow> tracking \<Rightarrow> tracking" where
  "rotate_bus_spec ready current v = v\<lparr>tr_bus := (if ready then current else tr_bus v),
     protected := released ready (tr_bus v) current (protected v)\<rparr>"

definition rotate_notif_spec :: "bool \<Rightarrow> string option \<Rightarrow> tracking \<Rightarrow> tracking" where
  "rotate_notif_spec ready current v = (let old = or_empty (tr_notif v) in
     case current of
       Some n \<Rightarrow> v\<lparr>tr_notif := Some (if ready then n else old), protected := released ready old n (protected v)\<rparr>
     | None \<Rightarrow> if old \<noteq> [] \<and> ready then v\<lparr>tr_notif := None, protected := protected v - {old}\<rparr> else v)"

definition prune_spec :: "string \<Rightarrow> string option \<Rightarrow> tracking \<Rightarrow> tracking" where
  "prune_spec current notif v = v\<lparr>protected := protected v \<inter>
     {tr_bus v, current, or_empty (tr_notif v), or_empty notif}\<rparr>"

definition rotate_spec :: "bool \<Rightarrow> string \<Rightarrow> string option \<Rightarrow> tracking \<Rightarrow> tracking" where
  "rotate_spec ready current notif v =
     prune_spec current notif (rotate_notif_spec ready notif (rotate_bus_spec ready current v))"

section \<open>What the code relies on\<close>

text \<open>
  \<open>held\<close> are the secrets of the namespace that carry the transport finalizer. The contract says what the
  finalizer helpers of the infra-operator do to it when they succeed: each acts on one finalizer, the
  rotation releases the old secret only when the rollout is ready and answers with the name to track,
  pruning keeps the finalizers of the listed secrets. The other calls of the two phases are not about
  finalizers.
\<close>

definition consumer_contract :: "('w, 'c) parentlib \<Rightarrow> ('w \<Rightarrow> string set) \<Rightarrow> string \<Rightarrow> bool" where
  "consumer_contract L held ns \<longleftrightarrow>
     (\<forall>s f w w'. ManageSecretConsumerFinalizer L ns s f w = (None, w') \<longrightarrow>
        held w' = (if f = TransportConsumerFinalizer then insert s (held w) else held w)) \<and>
     (\<forall>s f w w'. RemoveSecretConsumerFinalizer L ns s f w = (None, w') \<longrightarrow>
        held w' = (if f = TransportConsumerFinalizer then held w - {s} else held w)) \<and>
     (\<forall>f keep w w'. PruneSecretConsumerFinalizers L ns f keep w = (None, w') \<longrightarrow>
        held w' = (if f = TransportConsumerFinalizer then held w \<inter> set keep else held w)) \<and>
     (\<forall>old cur f ready w n w'. FinalizeSecretRotation L ns old cur f ready w = (Inr n, w') \<longrightarrow>
        (ready \<longrightarrow> n = cur) \<and> (\<not> ready \<and> old \<noteq> [] \<longrightarrow> n = old) \<and>
        held w' = (if f = TransportConsumerFinalizer then released ready old cur (held w) else held w)) \<and>
     (\<forall>f tu w. held (snd (TransportURL_CreateOrUpdate L f tu w)) = held w) \<and>
     (\<forall>n w. held (snd (TransportURL_Delete L n ns w)) = held w)"

definition view :: "('w \<Rightarrow> string set) \<Rightarrow> ('w, 'c) parent_state \<Rightarrow> tracking" where
  "view held s = \<lparr>tr_bus = bs_TransportURLSecret (Status (inst s)),
     tr_notif = bs_NotificationsURLSecret (Status (inst s)), protected = held (world s)\<rparr>"

lemma consumerD:
  assumes "consumer_contract L held ns"
  shows "ManageSecretConsumerFinalizer L ns s f w = (None, w') \<Longrightarrow>
      held w' = (if f = TransportConsumerFinalizer then insert s (held w) else held w)"
    and "RemoveSecretConsumerFinalizer L ns s f w = (None, w') \<Longrightarrow>
      held w' = (if f = TransportConsumerFinalizer then held w - {s} else held w)"
    and "PruneSecretConsumerFinalizers L ns f keep w = (None, w') \<Longrightarrow>
      held w' = (if f = TransportConsumerFinalizer then held w \<inter> set keep else held w)"
    and "FinalizeSecretRotation L ns old cur f ready w = (Inr n, w') \<Longrightarrow>
      (ready \<longrightarrow> n = cur) \<and> (\<not> ready \<and> old \<noteq> [] \<longrightarrow> n = old) \<and>
      held w' = (if f = TransportConsumerFinalizer then released ready old cur (held w) else held w)"
    and "held (snd (TransportURL_CreateOrUpdate L g tu w)) = held w"
    and "held (snd (TransportURL_Delete L n' ns w)) = held w"
  by (insert assms, unfold consumer_contract_def, meson)+

section \<open>The steps of the rotation\<close>

lemma run_rotate:
  assumes "run_state (rotate L old cur fin ready) s = (Inr n, s')"
  shows "\<exists>w'. FinalizeSecretRotation L (Namespace (Meta (inst s))) old cur fin ready (world s) = (Inr n, w') \<and>
    world s' = w' \<and> inst s' = inst s"
  using assms by (auto simp: rotate_def split: sum.splits intro: prod_eqI)

lemma run_try_call:
  assumes "run_state (b_try (invoke ev f)) s = (Inr (), s')"
  shows "f (world s) = (None, world s') \<and> inst s' = inst s"
  using assms by (auto simp: b_try_def split: option.splits intro: prod_eqI)

lemma rotate_bus_refines:
  assumes C: "consumer_contract L held (Namespace (Meta (inst s)))" and "tr_bus (view held s) \<noteq> []"
    and "run_state (rotate L (bs_TransportURLSecret (Status (inst s))) cur TransportConsumerFinalizer ready) s = (Inr n, s1)"
  shows "view held (s1\<lparr>inst := upd_bstatus (\<lambda>x. x\<lparr>bs_TransportURLSecret := n\<rparr>) (inst s1)\<rparr>) =
      rotate_bus_spec ready cur (view held s)"
  using assms run_rotate [OF assms(3)] consumerD(4) [OF C]
  by (fastforce simp: view_def rotate_bus_spec_def)

lemma run_remove_consumer:
  assumes "run_state (remove_consumer L secret fin) s = (Inr (), s')"
  shows "RemoveSecretConsumerFinalizer L (Namespace (Meta (inst s))) secret fin (world s) = (None, world s') \<and>
    inst s' = inst s"
  using assms run_try_call by (fastforce simp: remove_consumer_def)

lemma run_prune:
  assumes "run_state (prune L fin keep) s = (Inr (), s')"
  shows "PruneSecretConsumerFinalizers L (Namespace (Meta (inst s))) fin keep (world s) = (None, world s') \<and>
    inst s' = inst s"
  using assms run_try_call by (fastforce simp: prune_def)

lemma run_transport_deleted:
  assumes "run_state (b_try (transportURLDeleted L n)) s = (Inr (), s')"
  shows "world s' = snd (TransportURL_Delete L n (Namespace (Meta (inst s))) (world s)) \<and> inst s' = inst s"
  using assms by (auto simp: b_try_def transportURLDeleted_def split: option.splits)

lemma rotate_notif_refines:
  assumes C: "consumer_contract L held (Namespace (Meta (inst s)))"
    and old: "notif = None \<or> or_empty (tr_notif (view held s)) \<noteq> []"
    and run: "run_state (rotate_notifications L notif ready) s = (Inr (), s')"
  shows "view held s' = rotate_notif_spec ready notif (view held s) \<and> Meta (inst s') = Meta (inst s) \<and>
    Spec (inst s') = Spec (inst s)"
proof (cases notif)
  case (Some n)
  with run obtain m s1 where
    rot: "run_state (rotate L (or_empty (bs_NotificationsURLSecret (Status (inst s)))) n TransportConsumerFinalizer ready) s = (Inr m, s1)"
    and s': "s' = s1\<lparr>inst := upd_bstatus (\<lambda>x. x\<lparr>bs_NotificationsURLSecret := Some m\<rparr>) (inst s1)\<rparr>"
    by (auto simp: rotate_notifications_def split: prod.splits sum.splits)
  with run_rotate [OF rot] consumerD(4) [OF C] old Some show ?thesis
    by (fastforce simp: view_def rotate_notif_spec_def Let_def)
next
  case None
  define old where "old = or_empty (bs_NotificationsURLSecret (Status (inst s)))"
  show ?thesis
  proof (cases "old \<noteq> [] \<and> ready")
    case True
    with None run have "run_state (proceed (remove_consumer L old TransportConsumerFinalizer) (\<lambda>_.
        proceed (b_try (transportURLDeleted L (notifications_name (inst s)))) (\<lambda>_. do {
          b_status (\<lambda>s. s\<lparr>bs_NotificationsURLSecret := None\<rparr>);
          fall_through ()
        }))) s = (Inr (), s')"
      by (simp add: rotate_notifications_def old_def del: run_proceed)
    then obtain s1 s2 where rem: "run_state (remove_consumer L old TransportConsumerFinalizer) s = (Inr (), s1)"
      and del: "run_state (b_try (transportURLDeleted L (notifications_name (inst s)))) s1 = (Inr (), s2)"
      and s': "s' = s2\<lparr>inst := upd_bstatus (\<lambda>x. x\<lparr>bs_NotificationsURLSecret := None\<rparr>) (inst s2)\<rparr>"
      by (auto elim!: proceed_Inr simp del: run_proceed)
    then show ?thesis
      using run_remove_consumer [OF rem] run_transport_deleted [OF del] consumerD(2,6) [OF C] True None
      by (auto simp: view_def rotate_notif_spec_def Let_def old_def)
  next
    case False
    with None run show ?thesis
      by (auto simp: rotate_notifications_def view_def rotate_notif_spec_def Let_def old_def)
  qed
qed

lemma prune_refines:
  assumes C: "consumer_contract L held (Namespace (Meta (inst s)))"
    and run: "run_state (prune_phase L cur notif) s = (Inr (), s')"
  shows "view held s' = prune_spec cur notif (view held s)"
proof -
  from run obtain s1 where
    1: "run_state (prune L TransportConsumerFinalizer [bs_TransportURLSecret (Status (inst s)), cur,
        or_empty (bs_NotificationsURLSecret (Status (inst s))), or_empty notif]) s = (Inr (), s1)"
    and 2: "run_state (prune L ACConsumerFinalizer [ApplicationCredentialSecret (Status (inst s)),
        spec_AppCredSecret (Base (Spec (inst s)))]) s1 = (Inr (), s')"
    unfolding prune_phase_def run_bind_instance by (auto elim!: proceed_Inr simp del: run_proceed)
  from run_prune [OF 1] run_prune [OF 2] consumerD(3) [OF C] show ?thesis
    by (fastforce simp: view_def prune_spec_def)
qed

lemma bind_status_Inr:
  assumes "run_state (State_Monad.bind (b_status f) g) s = r"
  shows "run_state (g ()) (s\<lparr>inst := upd_bstatus f (inst s)\<rparr>) = r"
  using assms by simp

text \<open>The rotation, whether the rollout is ready or not, with and without a notifications bus.\<close>

lemma rotation_phase_spec:
  assumes C: "consumer_contract L held (Namespace (Meta (inst s)))"
    and tracked: "tr_bus (view held s) \<noteq> []" "notif = None \<or> or_empty (tr_notif (view held s)) \<noteq> []"
    and run: "run_state (rotation_phase L current notif ready) s = (Inr (), s')"
  shows "view held s' = rotate_spec ready current notif (view held s)"
proof -
  from run obtain n s1 where
    1: "run_state (rotate L (bs_TransportURLSecret (Status (inst s))) current TransportConsumerFinalizer ready) s = (Inr n, s1)"
    and r1: "run_state (proceed (rotate_notifications L notif ready) (\<lambda>_. do {
        i \<leftarrow> the_instance;
        proceed (rotate L (ApplicationCredentialSecret (Status i)) (spec_AppCredSecret (Base (Spec i)))
          ACConsumerFinalizer ready) (\<lambda>name. do {
          b_status (\<lambda>s. s\<lparr>ApplicationCredentialSecret := name\<rparr>);
          prune_phase L current notif
        })
      })) (s1\<lparr>inst := upd_bstatus (\<lambda>x. x\<lparr>bs_TransportURLSecret := n\<rparr>) (inst s1)\<rparr>) = (Inr (), s')"
    unfolding rotation_phase_def run_bind_instance by (auto elim!: proceed_Inr simp del: run_proceed)
  define t1 where "t1 = s1\<lparr>inst := upd_bstatus (\<lambda>x. x\<lparr>bs_TransportURLSecret := n\<rparr>) (inst s1)\<rparr>"
  have v1: "view held t1 = rotate_bus_spec ready current (view held s)" "Meta (inst t1) = Meta (inst s)"
    using rotate_bus_refines [OF C tracked(1) 1] run_rotate [OF 1] by (simp_all add: t1_def)
  from r1 obtain s2 where 2: "run_state (rotate_notifications L notif ready) t1 = (Inr (), s2)"
    and r2: "run_state (do {
        i \<leftarrow> the_instance;
        proceed (rotate L (ApplicationCredentialSecret (Status i)) (spec_AppCredSecret (Base (Spec i)))
          ACConsumerFinalizer ready) (\<lambda>name. do {
          b_status (\<lambda>s. s\<lparr>ApplicationCredentialSecret := name\<rparr>);
          prune_phase L current notif
        })
      }) s2 = (Inr (), s')"
    unfolding t1_def [symmetric] by (auto elim!: proceed_Inr simp del: run_proceed)
  have v2: "view held s2 = rotate_notif_spec ready notif (view held t1)" "Meta (inst s2) = Meta (inst s)"
    using rotate_notif_refines [OF _ _ 2, of held] C tracked(2) v1 by (simp_all add: rotate_bus_spec_def)
  from r2 obtain m s3 where
    3: "run_state (rotate L (ApplicationCredentialSecret (Status (inst s2))) (spec_AppCredSecret (Base (Spec (inst s2))))
        ACConsumerFinalizer ready) s2 = (Inr m, s3)"
    and r3: "run_state (prune_phase L current notif)
        (s3\<lparr>inst := upd_bstatus (\<lambda>x. x\<lparr>ApplicationCredentialSecret := m\<rparr>) (inst s3)\<rparr>) = (Inr (), s')"
    unfolding run_bind_instance by (auto elim!: proceed_Inr simp del: run_proceed)
  define t3 where "t3 = s3\<lparr>inst := upd_bstatus (\<lambda>x. x\<lparr>ApplicationCredentialSecret := m\<rparr>) (inst s3)\<rparr>"
  have v3: "view held t3 = view held s2" "Meta (inst t3) = Meta (inst s)"
    using run_rotate [OF 3] consumerD(4) [OF C] v2(2) by (fastforce simp: view_def t3_def)+
  have "view held s' = prune_spec current notif (view held t3)"
    using prune_refines [OF _ r3 [folded t3_def], of held] C v3(2) by simp
  with v1 v2 v3 show ?thesis
    by (simp add: rotate_spec_def)
qed

text \<open>Before anything else in a pass the current secret of the bus is protected.\<close>

lemma messaging_phase_spec:
  assumes C: "consumer_contract L held (Namespace (Meta (inst s)))"
    and run: "run_state (messaging_phase C' L labels) s = (Inr current, s')"
  shows "current \<noteq> [] \<and> view held s' = protect_spec current (view held s)"
proof -
  define i where "i = inst s"
  obtain t w where call: "TransportURL_CreateOrUpdate L (set_transport L i (MessagingBus (Template i)))
      \<lparr>tu_Name = transport_name i, tu_Namespace = Namespace (Meta i), tu_Labels = labels,
       tu_Owners = [], RabbitmqClusterName = [], Username = [], tu_Vhost = [], tu_SecretName = []\<rparr> (world s) = (t, w)"
    by fastforce
  have w: "held w = held (world s)"
    using consumerD(5) [OF C] call by (metis snd_conv)
  from run call obtain url where t: "t = Inr url" and cur: "current = tu_SecretName url" "current \<noteq> []"
    by (auto simp: messaging_phase_def transportURLCreateOrUpdate_def i_def Let_def b_try_def
        split: sum.splits if_splits prod.splits option.splits)
  define w' where "w' = snd (ManageSecretConsumerFinalizer L (Namespace (Meta i)) current TransportConsumerFinalizer w)"
  from run call t cur have "fst (ManageSecretConsumerFinalizer L (Namespace (Meta i)) current TransportConsumerFinalizer w) = None"
    and s': "world s' = w'"
      "bs_TransportURLSecret (Status (inst s')) =
        (if bs_TransportURLSecret (Status i) = [] then current else bs_TransportURLSecret (Status i))"
      "bs_NotificationsURLSecret (Status (inst s')) = bs_NotificationsURLSecret (Status i)"
    by (auto simp: messaging_phase_def transportURLCreateOrUpdate_def i_def Let_def b_try_def manage_finalizer_def
        w'_def split: if_splits prod.splits option.splits)
  then have m: "ManageSecretConsumerFinalizer L (Namespace (Meta i)) current TransportConsumerFinalizer w = (None, w')"
    by (simp add: w'_def prod_eq_iff)
  from consumerD(1) [OF C m [unfolded i_def]] w s' cur show ?thesis
    by (simp add: view_def protect_spec_def i_def)
qed

text \<open>The same for the notifications bus, when there is one; without one nothing changes yet.\<close>

lemma notifications_phase_spec:
  assumes C: "consumer_contract L held (Namespace (Meta (inst s)))"
    and run: "run_state (notifications_phase C' L labels) s = (Inr current, s')"
  shows "current \<noteq> Some [] \<and> view held s' = protect_notif_spec current (view held s)"
proof -
  define i where "i = inst s"
  show ?thesis
  proof (cases "NotificationsBus (Template i)")
    case None
    with run show ?thesis
      by (auto simp: notifications_phase_def i_def view_def protect_notif_spec_def)
  next
    case (Some config)
    obtain t w where call: "TransportURL_CreateOrUpdate L (set_transport L i config)
        \<lparr>tu_Name = notifications_name i, tu_Namespace = Namespace (Meta i), tu_Labels = labels,
         tu_Owners = [], RabbitmqClusterName = [], Username = [], tu_Vhost = [], tu_SecretName = []\<rparr> (world s) = (t, w)"
      by fastforce
    have w: "held w = held (world s)"
      using consumerD(5) [OF C] call by (metis snd_conv)
    from run call Some obtain url where t: "t = Inr url" and cur: "current = Some (tu_SecretName url)" "tu_SecretName url \<noteq> []"
      by (auto simp: notifications_phase_def transportURLCreateOrUpdate_def i_def Let_def b_try_def
          split: sum.splits if_splits prod.splits option.splits)
    define n where "n = tu_SecretName url"
    define w' where "w' = snd (ManageSecretConsumerFinalizer L (Namespace (Meta i)) n TransportConsumerFinalizer w)"
    from run call t cur Some have "fst (ManageSecretConsumerFinalizer L (Namespace (Meta i)) n TransportConsumerFinalizer w) = None"
      and s': "world s' = w'" "bs_TransportURLSecret (Status (inst s')) = bs_TransportURLSecret (Status i)"
        "bs_NotificationsURLSecret (Status (inst s')) =
          (if bs_NotificationsURLSecret (Status i) = None then Some n else bs_NotificationsURLSecret (Status i))"
      by (auto simp: notifications_phase_def transportURLCreateOrUpdate_def i_def Let_def b_try_def manage_finalizer_def
          w'_def n_def split: if_splits prod.splits option.splits)
    then have m: "ManageSecretConsumerFinalizer L (Namespace (Meta i)) n TransportConsumerFinalizer w = (None, w')"
      by (simp add: w'_def prod_eq_iff)
    from consumerD(1) [OF C m [unfolded i_def]] w s' cur show ?thesis
      by (simp add: view_def protect_notif_spec_def i_def n_def)
  qed
qed

text \<open>
  C8. The controller implements the protection of the bus secrets as specified. When \<open>messaging_phase\<close>
  ends without returning, the secret it hands on has a name, carries the finalizer, and is tracked if no
  secret was; \<open>notifications_phase\<close> does the same for the notifications bus, and nothing when that bus
  is disabled. When \<open>rotation_phase\<close> ends without an error, the tracked names and the set of protected
  secrets have changed exactly as \<open>rotate_spec\<close> says, whether the rollout is ready or not, with and
  without a notifications bus, and when that bus was disabled.
\<close>

theorem bus_phases_refine_spec:
  assumes "consumer_contract L held (Namespace (Meta (inst s)))"
  shows "(run_state (messaging_phase C L labels) s = (Inr current, s') \<longrightarrow>
      current \<noteq> [] \<and> view held s' = protect_spec current (view held s)) \<and>
    (run_state (notifications_phase C L labels) s = (Inr notif, u) \<longrightarrow>
      notif \<noteq> Some [] \<and> view held u = protect_notif_spec notif (view held s)) \<and>
    (tr_bus (view held s) \<noteq> [] \<and> (notif = None \<or> or_empty (tr_notif (view held s)) \<noteq> []) \<and>
      run_state (rotation_phase L current notif ready) s = (Inr (), t) \<longrightarrow>
      view held t = rotate_spec ready current notif (view held s))"
  using messaging_phase_spec [OF assms] notifications_phase_spec [OF assms] rotation_phase_spec [OF assms] by blast

section \<open>A sample\<close>

text \<open>The cluster is the list of the secrets that carry the transport finalizer.\<close>

definition ex_rotlib :: "(string list, ex_conds) parentlib" where
  "ex_rotlib = (ex_parentlib [] ''new'')\<lparr>
     ManageSecretConsumerFinalizer := (\<lambda>ns s f w. (None, if f = TransportConsumerFinalizer then s # w else w)),
     RemoveSecretConsumerFinalizer := (\<lambda>ns s f w. (None, if f = TransportConsumerFinalizer then removeAll s w else w)),
     PruneSecretConsumerFinalizers := (\<lambda>ns f keep w.
       (None, if f = TransportConsumerFinalizer then filter (\<lambda>s. s \<in> set keep) w else w)),
     FinalizeSecretRotation := (\<lambda>ns old cur f ready w. (Inr (if ready then cur else old),
       if f = TransportConsumerFinalizer \<and> ready \<and> old \<noteq> cur then removeAll old w else w))\<rparr>"

lemma ex_rotlib_contract: "consumer_contract ex_rotlib set ns"
  unfolding consumer_contract_def
  by (intro conjI allI impI) (auto simp: ex_rotlib_def released_def split: if_splits)

definition ex_rotating :: "string list \<Rightarrow> (string list, ex_conds) parent_state" where
  "ex_rotating w = \<lparr>world = w, inst = upd_bstatus (\<lambda>s. s\<lparr>bs_TransportURLSecret := ''old''\<rparr>) (ex_barbican []), trace = []\<rparr>"

text \<open>The phase runs through on the sample.\<close>

lemma ex_rotation_run:
  "\<exists>s'. run_state (rotation_phase ex_rotlib ''new'' None ready) (ex_rotating w) = (Inr (), s')"
  by (simp add: rotation_phase_def rotate_def rotate_notifications_def prune_phase_def prune_def b_try_def
      ex_rotlib_def or_empty_def ex_rotating_def ex_barbican_def ex_status_def)

theorem bus_phases_refine_spec_witness:
  "view set (after (rotation_phase ex_rotlib ''new'' None True) (ex_rotating [''old'', ''new''])) =
     \<lparr>tr_bus = ''new'', tr_notif = None, protected = {''new''}\<rparr> \<and>
   view set (after (messaging_phase ex_condlib ex_rotlib []) (ex_rotating [''old''])) =
     \<lparr>tr_bus = ''old'', tr_notif = None, protected = {''old'', ''new''}\<rparr>"
proof -
  have start: "view set (ex_rotating w) = \<lparr>tr_bus = ''old'', tr_notif = None, protected = set w\<rparr>" for w
    by (simp add: view_def ex_rotating_def ex_barbican_def ex_status_def)
  obtain t where rot: "run_state (rotation_phase ex_rotlib ''new'' None True) (ex_rotating [''old'', ''new'']) = (Inr (), t)"
    using ex_rotation_run by blast
  have "view set t = rotate_spec True ''new'' None \<lparr>tr_bus = ''old'', tr_notif = None, protected = {''old'', ''new''}\<rparr>"
    using bus_phases_refine_spec [where s = "ex_rotating [''old'', ''new'']", OF ex_rotlib_contract] rot start by simp
  also have "\<dots> = \<lparr>tr_bus = ''new'', tr_notif = None, protected = {''new''}\<rparr>"
    by (auto simp: rotate_spec_def prune_spec_def rotate_notif_spec_def rotate_bus_spec_def released_def or_empty_def)
  finally have end1: "view set t = \<lparr>tr_bus = ''new'', tr_notif = None, protected = {''new''}\<rparr>" .
  have "\<exists>s'. run_state (messaging_phase ex_condlib ex_rotlib []) (ex_rotating [''old'']) = (Inr ''new'', s')"
    by (simp add: messaging_phase_def transportURLCreateOrUpdate_def set_transport_def Let_def ex_transport_def
        manage_finalizer_def b_try_def ex_rotlib_def)
  then obtain s' where mes: "run_state (messaging_phase ex_condlib ex_rotlib []) (ex_rotating [''old'']) = (Inr ''new'', s')"
    by blast
  have "view set s' = protect_spec ''new'' \<lparr>tr_bus = ''old'', tr_notif = None, protected = {''old''}\<rparr>"
    using bus_phases_refine_spec [where s = "ex_rotating [''old'']", OF ex_rotlib_contract] mes start by simp
  then show ?thesis
    using rot mes end1 by (auto simp: after_def protect_spec_def)
qed

text \<open>
  A pass whose rollout is not ready releases nothing by rotation, but its pruning still takes the
  finalizer off every secret that is neither tracked nor current. It does not ask which secret the
  services run with.
\<close>

lemma unready_pass_unprotects:
  assumes "consumer_contract L held (Namespace (Meta (inst s)))"
    and "tr_bus (view held s) \<noteq> []" "tr_notif (view held s) = None"
    and "run_state (rotation_phase L current None False) s = (Inr (), s')"
  shows "protected (view held s') = protected (view held s) \<inter> {tr_bus (view held s), current, []}"
  using rotation_phase_spec [OF assms(1,2) _ assms(4)] assms(3)
  by (simp add: rotate_spec_def prune_spec_def rotate_notif_spec_def rotate_bus_spec_def released_def or_empty_def)

end
