(* ===== verification/Rotation_Errors.thy ===== *)
theory Rotation_Errors
  imports Rotation
begin

text \<open>
  The two ends of a pass when a call in them fails. The status of the resource is written back in any
  case, so what the failed part of the pass left in it counts.
\<close>

section \<open>Specification\<close>

text \<open>A failing read leaves all as it is, or adopts the name, and protects the secret or not.\<close>

definition protect_fails :: "tracking \<Rightarrow> tracking \<Rightarrow> bool" where
  "protect_fails v v' \<longleftrightarrow> v' = v \<or> (\<exists>c. c \<noteq> [] \<and>
     (v' = protect_spec c v \<or> v' = (protect_spec c v)\<lparr>protected := protected v\<rparr>))"

definition protect_notif_fails :: "tracking \<Rightarrow> tracking \<Rightarrow> bool" where
  "protect_notif_fails v v' \<longleftrightarrow> v' = v \<or> (\<exists>n. n \<noteq> [] \<and>
     (v' = protect_notif_spec (Some n) v \<or> v' = (protect_notif_spec (Some n) v)\<lparr>protected := protected v\<rparr>))"

text \<open>
  A failing end of a pass stops at the rotation of the bus secret, at that of the notifications secret, or
  in the pruning, which may have taken some of the finalizers. A rotation that fails does not move the
  tracked name, but may have released the secret.
\<close>

definition bus_fails :: "bool \<Rightarrow> string \<Rightarrow> tracking \<Rightarrow> tracking \<Rightarrow> bool" where
  "bus_fails ready current v v' \<longleftrightarrow> v' = v \<or> v' = v\<lparr>protected := released ready (tr_bus v) current (protected v)\<rparr>"

definition notif_fails :: "bool \<Rightarrow> string option \<Rightarrow> tracking \<Rightarrow> tracking \<Rightarrow> bool" where
  "notif_fails ready current v v' \<longleftrightarrow> (let old = or_empty (tr_notif v) in v' = v \<or> (case current of
       Some n \<Rightarrow> v' = v\<lparr>protected := released ready old n (protected v)\<rparr>
     | None \<Rightarrow> ready \<and> v' = v\<lparr>protected := protected v - {old}\<rparr>))"

definition prune_fails :: "string \<Rightarrow> string option \<Rightarrow> tracking \<Rightarrow> tracking \<Rightarrow> bool" where
  "prune_fails current notif v v' \<longleftrightarrow>
     (\<exists>H. v' = v\<lparr>protected := H\<rparr> \<and> protected (prune_spec current notif v) \<subseteq> H \<and> H \<subseteq> protected v)"

definition rotate_fails :: "bool \<Rightarrow> string \<Rightarrow> string option \<Rightarrow> tracking \<Rightarrow> tracking \<Rightarrow> bool" where
  "rotate_fails ready current notif v v' \<longleftrightarrow> (let v1 = rotate_bus_spec ready current v in
     bus_fails ready current v v' \<or> notif_fails ready notif v1 v' \<or>
     prune_fails current notif (rotate_notif_spec ready notif v1) v')"

section \<open>What the code relies on\<close>

text \<open>
  Whether a call of the finalizer helpers reports an error or not, it has been applied or it has not;
  pruning acts on one secret after the other.
\<close>

definition failure_contract :: "('w, 'c) parentlib \<Rightarrow> ('w \<Rightarrow> string set) \<Rightarrow> string \<Rightarrow> bool" where
  "failure_contract L held ns \<longleftrightarrow>
     (\<forall>s f w. held (snd (ManageSecretConsumerFinalizer L ns s f w)) \<in>
        {held w} \<union> (if f = TransportConsumerFinalizer then {insert s (held w)} else {})) \<and>
     (\<forall>s f w. held (snd (RemoveSecretConsumerFinalizer L ns s f w)) \<in>
        {held w} \<union> (if f = TransportConsumerFinalizer then {held w - {s}} else {})) \<and>
     (\<forall>f keep w. held (snd (PruneSecretConsumerFinalizers L ns f keep w)) \<subseteq> held w \<and>
        (if f = TransportConsumerFinalizer then held w \<inter> set keep else held w) \<subseteq>
          held (snd (PruneSecretConsumerFinalizers L ns f keep w))) \<and>
     (\<forall>old cur f ready w. held (snd (FinalizeSecretRotation L ns old cur f ready w)) \<in>
        {held w} \<union> (if f = TransportConsumerFinalizer then {released ready old cur (held w)} else {}))"

lemma failureD:
  assumes "failure_contract L held ns"
  shows "ManageSecretConsumerFinalizer L ns s f w = (e, w') \<Longrightarrow>
      held w' \<in> {held w} \<union> (if f = TransportConsumerFinalizer then {insert s (held w)} else {})"
    and "RemoveSecretConsumerFinalizer L ns s f w = (e, w') \<Longrightarrow>
      held w' \<in> {held w} \<union> (if f = TransportConsumerFinalizer then {held w - {s}} else {})"
    and "PruneSecretConsumerFinalizers L ns f keep w = (e, w') \<Longrightarrow> held w' \<subseteq> held w \<and>
      (if f = TransportConsumerFinalizer then held w \<inter> set keep else held w) \<subseteq> held w'"
    and "FinalizeSecretRotation L ns old cur f ready w = (r, w') \<Longrightarrow>
      held w' \<in> {held w} \<union> (if f = TransportConsumerFinalizer then {released ready old cur (held w)} else {})"
  using assms unfolding failure_contract_def by (metis snd_conv)+

section \<open>The reads\<close>

lemma protect_failsI:
  assumes "n \<noteq> []" "H \<in> {protected v} \<union> {insert n (protected v)}"
  shows "protect_fails v ((protect_spec n v)\<lparr>protected := H\<rparr>)"
    "protect_notif_fails v ((protect_notif_spec (Some n) v)\<lparr>protected := H\<rparr>)"
proof -
  have "(protect_spec n v)\<lparr>protected := insert n (protected v)\<rparr> = protect_spec n v"
    "(protect_notif_spec (Some n) v)\<lparr>protected := insert n (protected v)\<rparr> = protect_notif_spec (Some n) v"
    by (simp_all add: protect_spec_def protect_notif_spec_def)
  with assms show "protect_fails v ((protect_spec n v)\<lparr>protected := H\<rparr>)"
    "protect_notif_fails v ((protect_notif_spec (Some n) v)\<lparr>protected := H\<rparr>)"
    unfolding protect_fails_def protect_notif_fails_def by (metis Un_iff singletonD)+
qed

definition same_names :: "('w, 'c) parent_state \<Rightarrow> ('w, 'c) parent_state \<Rightarrow> bool" where
  "same_names s s' \<longleftrightarrow> bs_TransportURLSecret (Status (inst s')) = bs_TransportURLSecret (Status (inst s)) \<and>
     bs_NotificationsURLSecret (Status (inst s')) = bs_NotificationsURLSecret (Status (inst s))"

lemma view_names: "same_names s s' \<Longrightarrow> view held s' = (view held s)\<lparr>protected := held (world s')\<rparr>"
  by (simp add: view_def same_names_def)

lemma view_same: "same_names s s' \<Longrightarrow> held (world s') = held (world s) \<Longrightarrow> view held s' = view held s"
  by (simp add: view_def same_names_def)

lemma messaging_phase_fails:
  assumes C: "consumer_contract L held (Namespace (Meta (inst s)))" "failure_contract L held (Namespace (Meta (inst s)))"
    and run: "run_state (messaging_phase C' L labels) s = (Inl r, s')"
  shows "protect_fails (view held s) (view held s')"
proof -
  let ?i = "inst s"
  obtain t w where call: "TransportURL_CreateOrUpdate L (set_transport L ?i (MessagingBus (Template ?i)))
      \<lparr>tu_Name = transport_name ?i, tu_Namespace = Namespace (Meta ?i), tu_Labels = labels,
       tu_Owners = [], RabbitmqClusterName = [], Username = [], tu_Vhost = [], tu_SecretName = []\<rparr> (world s) = (t, w)"
    by fastforce
  have w: "held w = held (world s)"
    using consumerD(5) [OF C(1)] call by (metis snd_conv)
  note phase = messaging_phase_def transportURLCreateOrUpdate_def Let_def call
  have unchanged: "protect_fails (view held s) (view held s')" if "same_names s s'" "world s' = w"
    using view_same [OF that(1), of held] that(2) w by (simp add: protect_fails_def)
  show ?thesis
  proof (cases t)
    case (Inl e)
    with run have "same_names s s' \<and> world s' = w"
      by (simp add: phase, elim conjE, hypsubst, simp add: same_names_def)
    then show ?thesis using unchanged by blast
  next
    case (Inr url)
    define n where "n = tu_SecretName url"
    obtain e w' where manage: "ManageSecretConsumerFinalizer L (Namespace (Meta ?i)) n TransportConsumerFinalizer w = (e, w')"
      by fastforce
    show ?thesis
    proof (cases "n = []")
      case True
      with run Inr have "same_names s s' \<and> world s' = w"
        by (simp add: phase n_def, elim conjE, hypsubst, simp add: same_names_def)
      then show ?thesis using unchanged by blast
    next
      case False
      with run Inr manage have "view held s' = (protect_spec n (view held s))\<lparr>protected := held w'\<rparr>"
        by (cases e; simp add: phase b_try_def manage_finalizer_def n_def; elim conjE; hypsubst;
            simp add: view_def protect_spec_def protect_notif_spec_def)
      moreover have "held w' \<in> {protected (view held s)} \<union> {insert n (protected (view held s))}"
        using failureD(1) [OF C(2) manage] w by (simp add: view_def)
      ultimately show ?thesis
        using protect_failsI(1) [OF False] by metis
    qed
  qed
qed

lemma notifications_phase_fails:
  assumes C: "consumer_contract L held (Namespace (Meta (inst s)))" "failure_contract L held (Namespace (Meta (inst s)))"
    and run: "run_state (notifications_phase C' L labels) s = (Inl r, s')"
  shows "protect_notif_fails (view held s) (view held s')"
proof -
  let ?i = "inst s"
  from run obtain config where config: "NotificationsBus (Template ?i) = Some config"
    by (cases "NotificationsBus (Template ?i)") (simp_all add: notifications_phase_def)
  obtain t w where call: "TransportURL_CreateOrUpdate L (set_transport L ?i config)
      \<lparr>tu_Name = notifications_name ?i, tu_Namespace = Namespace (Meta ?i), tu_Labels = labels,
       tu_Owners = [], RabbitmqClusterName = [], Username = [], tu_Vhost = [], tu_SecretName = []\<rparr> (world s) = (t, w)"
    by fastforce
  have w: "held w = held (world s)"
    using consumerD(5) [OF C(1)] call by (metis snd_conv)
  note phase = notifications_phase_def transportURLCreateOrUpdate_def Let_def call config
  have unchanged: "protect_notif_fails (view held s) (view held s')" if "same_names s s'" "world s' = w"
    using view_same [OF that(1), of held] that(2) w by (simp add: protect_notif_fails_def)
  show ?thesis
  proof (cases t)
    case (Inl e)
    with run have "same_names s s' \<and> world s' = w"
      by (simp add: phase, elim conjE, hypsubst, simp add: same_names_def)
    then show ?thesis using unchanged by blast
  next
    case (Inr url)
    define n where "n = tu_SecretName url"
    obtain e w' where manage: "ManageSecretConsumerFinalizer L (Namespace (Meta ?i)) n TransportConsumerFinalizer w = (e, w')"
      by fastforce
    show ?thesis
    proof (cases "n = []")
      case True
      with run Inr have "same_names s s' \<and> world s' = w"
        by (simp add: phase n_def, elim conjE, hypsubst, simp add: same_names_def)
      then show ?thesis using unchanged by blast
    next
      case False
      with run Inr manage have "view held s' = (protect_notif_spec (Some n) (view held s))\<lparr>protected := held w'\<rparr>"
        by (cases e; simp add: phase b_try_def manage_finalizer_def n_def; elim conjE; hypsubst;
            simp add: view_def protect_spec_def protect_notif_spec_def)
      moreover have "held w' \<in> {protected (view held s)} \<union> {insert n (protected (view held s))}"
        using failureD(1) [OF C(2) manage] w by (simp add: view_def)
      ultimately show ?thesis
        using protect_failsI(2) [OF False] by metis
    qed
  qed
qed

section \<open>The end of a pass\<close>

lemma proceed_Inl:
  assumes "run_state (proceed m f) s = (Inl r, s')"
  obtains "run_state m s = (Inl r, s')" | a s1 where "run_state m s = (Inr a, s1)" "run_state (f a) s1 = (Inl r, s')"
  using assms by (auto split: prod.splits sum.splits)

lemma rotate_error:
  assumes "failure_contract L held (Namespace (Meta (inst s)))"
    and "run_state (rotate L old cur fin ready) s = (Inl r, s')"
  shows "inst s' = inst s \<and> held (world s') \<in>
    {held (world s)} \<union> (if fin = TransportConsumerFinalizer then {released ready old cur (held (world s))} else {})"
proof -
  obtain a w' where call: "FinalizeSecretRotation L (Namespace (Meta (inst s))) old cur fin ready (world s) = (a, w')"
    by fastforce
  with assms(2) have "inst s' = inst s" "world s' = w'"
    by (auto simp: rotate_def split: sum.splits)
  with failureD(4) [OF assms(1) call] show ?thesis by simp
qed

lemma try_error:
  assumes "run_state (b_try (invoke ev f)) s = (Inl r, s')"
  shows "inst s' = inst s \<and> world s' = snd (f (world s))"
  using assms by (auto simp: b_try_def split: option.splits prod.splits)

lemma run_frame_names: "inst s' = inst s \<Longrightarrow> view held s' = (view held s)\<lparr>protected := held (world s')\<rparr>"
  by (simp add: view_def)

lemma bus_error:
  assumes "failure_contract L held (Namespace (Meta (inst s)))"
    and "run_state (rotate L (bs_TransportURLSecret (Status (inst s))) current TransportConsumerFinalizer ready) s = (Inl r, s')"
  shows "bus_fails ready current (view held s) (view held s')"
proof -
  note e = rotate_error [OF assms]
  have "view held s' = (view held s)\<lparr>protected := held (world s')\<rparr>"
    using e by (blast intro: run_frame_names)
  moreover have "held (world s') = held (world s) \<or>
      held (world s') = released ready (bs_TransportURLSecret (Status (inst s))) current (held (world s))"
    using e by auto
  ultimately show ?thesis
    by (elim disjE) (simp_all add: bus_fails_def view_def)
qed

lemma notif_error:
  assumes C: "consumer_contract L held (Namespace (Meta (inst s)))" "failure_contract L held (Namespace (Meta (inst s)))"
    and run: "run_state (rotate_notifications L notif ready) s = (Inl r, s')"
  shows "notif_fails ready notif (view held s) (view held s')"
proof -
  define old where "old = or_empty (bs_NotificationsURLSecret (Status (inst s)))"
  have old: "or_empty (tr_notif (view held s)) = old" "protected (view held s) = held (world s)"
    by (simp_all add: view_def old_def)
  have same: "(view held s)\<lparr>protected := held (world s)\<rparr> = view held s" by (simp add: view_def)
  show ?thesis
  proof (cases notif)
    case (Some n)
    with run have "run_state (rotate L old n TransportConsumerFinalizer ready) s = (Inl r, s')"
      by (auto simp: rotate_notifications_def old_def split: prod.splits sum.splits)
    note e = rotate_error [OF C(2) this]
    then have "view held s' = (view held s)\<lparr>protected := held (world s')\<rparr>"
      by (blast intro: run_frame_names)
    moreover have "held (world s') = held (world s) \<or> held (world s') = released ready old n (held (world s))"
      using e by auto
    ultimately show ?thesis
      unfolding notif_fails_def Let_def old Some option.case by (metis same)
  next
    case None
    have go: "old \<noteq> [] \<and> ready"
    proof (rule ccontr)
      assume "\<not> (old \<noteq> [] \<and> ready)"
      with None have "run_state (rotate_notifications L notif ready) s = (Inr (), s)"
        by (auto simp: rotate_notifications_def old_def)
      with run show False by simp
    qed
    with None run have "run_state (proceed (remove_consumer L old TransportConsumerFinalizer) (\<lambda>_.
        proceed (b_try (transportURLDeleted L (notifications_name (inst s)))) (\<lambda>_. do {
          b_status (\<lambda>s. s\<lparr>bs_NotificationsURLSecret := None\<rparr>);
          fall_through ()
        }))) s = (Inl r, s')"
      by (simp add: rotate_notifications_def old_def del: run_proceed)
    then have "inst s' = inst s \<and> (held (world s') = held (world s) \<or> held (world s') = held (world s) - {old})"
    proof (cases rule: proceed_Inl)
      case 1
      then have "run_state (b_try (invoke (EvRemoveConsumerFinalizer old TransportConsumerFinalizer)
          (RemoveSecretConsumerFinalizer L (Namespace (Meta (inst s))) old TransportConsumerFinalizer))) s = (Inl r, s')"
        by (simp add: remove_consumer_def)
      from try_error [OF this] failureD(2) [OF C(2) prod.collapse [symmetric], of old TransportConsumerFinalizer "world s"]
      show ?thesis by auto
    next
      case (2 a s1)
      have 1: "held (world s1) = held (world s) - {old}" "inst s1 = inst s"
        using run_remove_consumer [OF 2(1) [unfolded unit_eq [of a]]]
          consumerD(2) [OF C(1), of old TransportConsumerFinalizer "world s" "world s1"] by simp_all
      from 2(2) have "run_state (b_try (transportURLDeleted L (notifications_name (inst s)))) s1 = (Inl r, s')"
        by (auto elim!: proceed_Inl simp del: run_proceed)
      then have "inst s' = inst s1 \<and> world s' = snd (TransportURL_Delete L (notifications_name (inst s)) (Namespace (Meta (inst s1))) (world s1))"
        by (simp add: b_try_def transportURLDeleted_def split: option.splits if_splits prod.splits) auto
      then show ?thesis
        using 1 consumerD(6) [OF C(1)] by simp
    qed
    then show ?thesis
      unfolding notif_fails_def Let_def old None option.case using go run_frame_names same by metis
  qed
qed

lemma prune_error:
  assumes C: "consumer_contract L held (Namespace (Meta (inst s)))" "failure_contract L held (Namespace (Meta (inst s)))"
    and run: "run_state (prune_phase L cur notif) s = (Inl r, s')"
  shows "prune_fails cur notif (view held s) (view held s')"
proof -
  have err: "inst s2 = inst s1 \<and> held (world s2) \<subseteq> held (world s1) \<and>
      (if fin = TransportConsumerFinalizer then held (world s1) \<inter> set keep else held (world s1)) \<subseteq> held (world s2)"
    if "run_state (prune L fin keep) s1 = (Inl r', s2)" "inst s1 = inst s" for s1 s2 fin keep r'
  proof -
    have "run_state (b_try (invoke (EvPruneFinalizers fin keep) (PruneSecretConsumerFinalizers L (Namespace (Meta (inst s))) fin keep))) s1 = (Inl r', s2)"
      using that by (simp add: prune_def)
    from try_error [OF this] failureD(3) [OF C(2) prod.collapse [symmetric]] show ?thesis by metis
  qed
  let ?keep = "[bs_TransportURLSecret (Status (inst s)), cur, or_empty (bs_NotificationsURLSecret (Status (inst s))), or_empty notif]"
  from run have "run_state (proceed (prune L TransportConsumerFinalizer ?keep) (\<lambda>_.
      prune L ACConsumerFinalizer [ApplicationCredentialSecret (Status (inst s)), spec_AppCredSecret (Base (Spec (inst s)))])) s = (Inl r, s')"
    by (simp add: prune_phase_def del: run_proceed)
  then have "inst s' = inst s \<and> held (world s') \<subseteq> held (world s) \<and> held (world s) \<inter> set ?keep \<subseteq> held (world s')"
  proof (cases rule: proceed_Inl)
    case 1
    from err [OF this] show ?thesis by simp
  next
    case (2 a s1)
    then have 1: "PruneSecretConsumerFinalizers L (Namespace (Meta (inst s))) TransportConsumerFinalizer ?keep (world s) = (None, world s1)" "inst s1 = inst s"
      using run_prune [of L TransportConsumerFinalizer ?keep s s1] by (cases a; simp)+
    from consumerD(3) [OF C(1) 1(1)] err [OF 2(2) 1(2)] 1(2) show ?thesis by auto
  qed
  then show ?thesis
    by (intro prune_fails_def [THEN iffD2] exI [of _ "held (world s')"]) (auto simp: prune_spec_def view_def)
qed

text \<open>The last part of \<open>rotation_phase\<close>: the application credential and the pruning.\<close>

definition credentials_phase :: "('w, 'c) parentlib \<Rightarrow> string \<Rightarrow> string option \<Rightarrow> bool \<Rightarrow> ('w, 'c, unit) parent_phase" where
  "credentials_phase L current notif ready = do {
     i \<leftarrow> the_instance;
     proceed (rotate L (ApplicationCredentialSecret (Status i)) (spec_AppCredSecret (Base (Spec i)))
       ACConsumerFinalizer ready) (\<lambda>name. do {
       b_status (\<lambda>s. s\<lparr>ApplicationCredentialSecret := name\<rparr>);
       prune_phase L current notif
     })
   }"

lemma credentials_error:
  assumes C: "consumer_contract L held (Namespace (Meta (inst s)))" "failure_contract L held (Namespace (Meta (inst s)))"
    and run: "run_state (credentials_phase L current notif ready) s = (Inl r, s')"
  shows "prune_fails current notif (view held s) (view held s')"
proof -
  from run have "run_state (proceed (rotate L (ApplicationCredentialSecret (Status (inst s))) (spec_AppCredSecret (Base (Spec (inst s))))
      ACConsumerFinalizer ready) (\<lambda>name. do {
        b_status (\<lambda>s. s\<lparr>ApplicationCredentialSecret := name\<rparr>);
        prune_phase L current notif
      })) s = (Inl r, s')"
    by (simp only: credentials_phase_def run_bind_instance)
  then show ?thesis
  proof (cases rule: proceed_Inl)
    case 1
    from rotate_error [OF C(2) this] have "view held s' = view held s" by (simp add: view_def)
    then show ?thesis
      by (intro prune_fails_def [THEN iffD2] exI [of _ "protected (view held s)"]) (simp add: prune_spec_def)
  next
    case (2 m s1)
    define t1 where "t1 = s1\<lparr>inst := upd_bstatus (\<lambda>x. x\<lparr>ApplicationCredentialSecret := m\<rparr>) (inst s1)\<rparr>"
    have t1: "view held t1 = view held s" "Meta (inst t1) = Meta (inst s)"
      using run_rotate [OF 2(1)] consumerD(4) [OF C(1)] by (fastforce simp: view_def t1_def)+
    have "run_state (prune_phase L current notif) t1 = (Inl r, s')"
      using 2(2) by (simp add: t1_def)
    from prune_error [OF _ _ this, of held] C t1 show ?thesis by simp
  qed
qed

text \<open>The whole end of a pass.\<close>

lemma rotation_phase_fails:
  assumes C: "consumer_contract L held (Namespace (Meta (inst s)))" "failure_contract L held (Namespace (Meta (inst s)))"
    and tracked: "tr_bus (view held s) \<noteq> []" "notif = None \<or> or_empty (tr_notif (view held s)) \<noteq> []"
    and run: "run_state (rotation_phase L current notif ready) s = (Inl r, s')"
  shows "rotate_fails ready current notif (view held s) (view held s')"
proof -
  from run have "run_state (proceed (rotate L (bs_TransportURLSecret (Status (inst s))) current TransportConsumerFinalizer ready)
      (\<lambda>n. do {
        b_status (\<lambda>x. x\<lparr>bs_TransportURLSecret := n\<rparr>);
        proceed (rotate_notifications L notif ready) (\<lambda>_. credentials_phase L current notif ready)
      })) s = (Inl r, s')"
    by (simp only: rotation_phase_def run_bind_instance credentials_phase_def)
  then show ?thesis
  proof (cases rule: proceed_Inl)
    case 1
    from bus_error [OF C(2) this] show ?thesis by (simp add: rotate_fails_def Let_def)
  next
    case (2 n s1)
    define t1 where "t1 = s1\<lparr>inst := upd_bstatus (\<lambda>x. x\<lparr>bs_TransportURLSecret := n\<rparr>) (inst s1)\<rparr>"
    have v1: "view held t1 = rotate_bus_spec ready current (view held s)" "Meta (inst t1) = Meta (inst s)"
      using rotate_bus_refines [OF C(1) tracked(1) 2(1)] run_rotate [OF 2(1)] by (simp_all add: t1_def)
    have C1: "consumer_contract L held (Namespace (Meta (inst t1)))" "failure_contract L held (Namespace (Meta (inst t1)))"
      using C v1(2) by simp_all
    from 2(2) have "run_state (proceed (rotate_notifications L notif ready) (\<lambda>_. credentials_phase L current notif ready)) t1 = (Inl r, s')"
      by (simp add: t1_def del: run_proceed)
    then show ?thesis
    proof (cases rule: proceed_Inl)
      case 1
      from notif_error [OF C1 this] v1(1) show ?thesis by (simp add: rotate_fails_def Let_def)
    next
      case (2 u s2)
      have v2: "view held s2 = rotate_notif_spec ready notif (view held t1)" "Meta (inst s2) = Meta (inst s)"
        using rotate_notif_refines [OF C1(1) _ 2(1) [unfolded unit_eq [of u]]] tracked(2) v1 by (simp_all add: rotate_bus_spec_def)
      have "prune_fails current notif (view held s2) (view held s')"
        by (rule credentials_error [OF _ _ 2(2)]) (use C v2(2) in simp_all)
      then show ?thesis
        by (simp add: rotate_fails_def Let_def v2(1) v1(1))
    qed
  qed
qed

end
