(* ===== verification/Protocol.thy ===== *)
theory Protocol
  imports Rotation_Errors
begin

text \<open>
  The protection of the secrets of the message bus and of the notifications bus as a step relation.
  The steps of the Barbican controller (read and protect a name, write the spec of a service and note
  whether the service is ready, finish a pass) and those of the services (take up a spec, start a
  rollout, confirm it) interleave in any order. A pass of the controller may stop after any of its
  steps, or in the middle of one when a call fails. The controller's steps are the specifications of
  \<open>Rotation\<close> and \<open>Rotation_Errors\<close>.


  A secret that is in use, that is, one which pods of a service may read, has to carry the finalizer.
  This is an invariant when a new name only appears after the previous rotation was finished, and
  it fails without that restriction.
\<close>

section \<open>The services\<close>

datatype service = API | Worker | KeystoneListener

text \<open>The names of the bus secret and of the notifications secret; the latter is empty when there is none.\<close>

type_synonym secrets = "string \<times> string"

record rollout =
  specified :: secrets         \<comment> \<open>the names in the spec\<close>
  seen :: secrets              \<comment> \<open>the spec that the last pass of the service was given\<close>
  deployed :: secrets          \<comment> \<open>the names of its latest deployment\<close>
  applied :: secrets           \<comment> \<open>the names it reports as applied\<close>
  ready :: bool                \<comment> \<open>the Ready condition\<close>
  in_use :: "secrets set"      \<comment> \<open>the names its pods may read\<close>

text \<open>A pass of a service starts without the Ready condition; it deploys what it was given.\<close>

definition hand_over :: "secrets \<Rightarrow> rollout \<Rightarrow> rollout" where
  "hand_over x r = r\<lparr>specified := x\<rparr>"

definition receive :: "rollout \<Rightarrow> rollout" where
  "receive r = r\<lparr>seen := specified r, ready := False\<rparr>"

definition deploy :: "rollout \<Rightarrow> rollout" where
  "deploy r = r\<lparr>deployed := seen r, in_use := insert (seen r) (in_use r)\<rparr>"

text \<open>A confirmed rollout has no pods of earlier deployments left.\<close>

definition confirm :: "rollout \<Rightarrow> rollout" where
  "confirm r = r\<lparr>applied := seen r, ready := True, in_use := {deployed r}\<rparr>"

inductive rollout_step :: "rollout \<Rightarrow> rollout \<Rightarrow> bool" where
  receive: "fst (specified r) \<noteq> [] \<Longrightarrow> rollout_step r (receive r)"
| deploy: "fst (seen r) \<noteq> [] \<Longrightarrow> rollout_step r (deploy r)"
| confirm: "fst (seen r) \<noteq> [] \<Longrightarrow> deployed r = seen r \<Longrightarrow> rollout_step r (confirm r)"

text \<open>
  What the Barbican controller asks of a service: the pass it reports on was given the current spec, it
  is ready, and the names it applied are the ones the controller read.
\<close>

definition up_to_date :: "secrets \<Rightarrow> rollout \<Rightarrow> bool" where
  "up_to_date x r \<longleftrightarrow> specified r = x \<and> seen r = x \<and> ready r \<and> applied r = x"

text \<open>A ready service runs what it was given, and nothing else.\<close>

definition sound :: "rollout \<Rightarrow> bool" where
  "sound r \<longleftrightarrow> (ready r \<longrightarrow> deployed r = seen r \<and> in_use r = {deployed r})"

definition uses :: "rollout \<Rightarrow> string set" where
  "uses r = (fst ` in_use r \<union> snd ` in_use r) - {[]}"

lemmas rollout_defs = hand_over_def receive_def deploy_def confirm_def

inductive_cases rollout_elim: "rollout_step r t"

lemma rollout_sound: "rollout_step r t \<Longrightarrow> sound r \<Longrightarrow> sound t"
  by (erule rollout_elim) (auto simp: sound_def rollout_defs)

section \<open>The steps shared by the protocol and the system\<close>

record control =
  bus :: string                        \<comment> \<open>the bus secret that was read last\<close>
  notif :: string                      \<comment> \<open>the notifications secret, empty when the bus is disabled\<close>
  guard :: "service \<Rightarrow> bool"           \<comment> \<open>the services found ready in this pass\<close>
  rollouts :: "service \<Rightarrow> rollout"

abbreviation current :: "'a control_scheme \<Rightarrow> secrets" where
  "current p \<equiv> (bus p, notif p)"

text \<open>One child of the pass: its spec is written, then its readiness is read.\<close>

definition child :: "service \<Rightarrow> 'a control_scheme \<Rightarrow> 'a control_scheme" where
  "child k p = (let r = hand_over (current p) (rollouts p k) in
     p\<lparr>guard := (guard p)(k := up_to_date (current p) r), rollouts := (rollouts p)(k := r)\<rparr>)"

inductive service_step :: "'a control_scheme \<Rightarrow> 'a control_scheme \<Rightarrow> bool" where
  child: "bus p \<noteq> [] \<Longrightarrow> service_step p (child k p)"
| rollout: "rollout_step (rollouts p k) r \<Longrightarrow> service_step p (p\<lparr>rollouts := (rollouts p)(k := r)\<rparr>)"

inductive_cases service_elim: "service_step p q"

section \<open>The protocol\<close>

record protocol = control +
  state :: tracking

abbreviation tracked_notif :: "tracking \<Rightarrow> string" where
  "tracked_notif v \<equiv> or_empty (tr_notif v)"

text \<open>The start of a pass forgets which services were ready.\<close>

definition observe_bus :: "string \<Rightarrow> protocol \<Rightarrow> protocol" where
  "observe_bus c p = p\<lparr>bus := c, guard := (\<lambda>_. False), state := protect_spec c (state p)\<rparr>"

definition observe_notif :: "string option \<Rightarrow> protocol \<Rightarrow> protocol" where
  "observe_notif x p = p\<lparr>notif := or_empty x, guard := (\<lambda>_. False), state := protect_notif_spec x (state p)\<rparr>"

definition optional :: "string \<Rightarrow> string option" where
  "optional n = (if n = [] then None else Some n)"

definition finish :: "protocol \<Rightarrow> protocol" where
  "finish p = p\<lparr>guard := (\<lambda>_. False),
     state := rotate_spec (\<forall>k. guard p k) (bus p) (optional (notif p)) (state p)\<rparr>"

text \<open>A pass that stops in the middle of a phase, with what it left of the tracked names.\<close>

definition stop :: "tracking \<Rightarrow> protocol \<Rightarrow> protocol" where
  "stop v p = p\<lparr>guard := (\<lambda>_. False), state := v\<rparr>"

text \<open>
  A new name is calm when there was none before, or when the previous one is tracked, that is, when its
  rotation was finished.
\<close>

definition calm_change :: "string \<Rightarrow> string \<Rightarrow> string \<Rightarrow> bool" where
  "calm_change new old tracked \<longleftrightarrow> new = old \<or> old = [] \<or> tracked = old"

text \<open>\<open>names\<close> are the names that bus secrets can have; those of notifications secrets are others.\<close>

inductive step :: "bool \<Rightarrow> string set \<Rightarrow> protocol \<Rightarrow> protocol \<Rightarrow> bool" for calm names where
  bus: "c \<noteq> [] \<Longrightarrow> c \<in> names \<Longrightarrow> (calm \<longrightarrow> calm_change c (bus p) (tr_bus (state p))) \<Longrightarrow> step calm names p (observe_bus c p)"
| notifications: "x \<noteq> Some [] \<Longrightarrow> or_empty x \<notin> names - {[]} \<Longrightarrow>
    (calm \<longrightarrow> calm_change (or_empty x) (notif p) (tracked_notif (state p))) \<Longrightarrow> step calm names p (observe_notif x p)"
| service: "service_step p q \<Longrightarrow> step calm names p q"
| finish: "bus p \<noteq> [] \<Longrightarrow> step calm names p (finish p)"
| bus_error: "protect_fails (state p) v \<Longrightarrow> tr_bus v \<in> insert [] names \<Longrightarrow> step calm names p (stop v p)"
| notifications_error: "protect_notif_fails (state p) v \<Longrightarrow> tracked_notif v \<notin> names - {[]} \<Longrightarrow>
    step calm names p (stop v p)"
| finish_error: "bus p \<noteq> [] \<Longrightarrow> rotate_fails (\<forall>k. guard p k) (bus p) (optional (notif p)) (state p) v \<Longrightarrow>
    step calm names p (stop v p)"

definition idle :: rollout where
  "idle = \<lparr>specified = ([], []), seen = ([], []), deployed = ([], []), applied = ([], []), ready = False, in_use = {}\<rparr>"

definition start :: "string set \<Rightarrow> protocol" where
  "start H = \<lparr>bus = [], notif = [], guard = (\<lambda>_. False), rollouts = (\<lambda>_. idle),
     state = \<lparr>tr_bus = [], tr_notif = None, protected = H\<rparr>\<rparr>"

inductive reachable :: "bool \<Rightarrow> string set \<Rightarrow> protocol \<Rightarrow> bool" for calm names where
  initial: "[] \<notin> H \<Longrightarrow> reachable calm names (start H)"
| step: "reachable calm names p \<Longrightarrow> step calm names p q \<Longrightarrow> reachable calm names q"

inductive_cases step_elim: "step calm names p q"

lemmas observe_defs = observe_bus_def observe_notif_def

lemmas spec_defs = protect_spec_def protect_notif_spec_def rotate_spec_def prune_spec_def rotate_notif_spec_def
  rotate_bus_spec_def released_def optional_def

section \<open>What holds in every run\<close>

text \<open>
  The two buses have different secrets, and those that were read last are protected.
\<close>

definition apart :: "string set \<Rightarrow> protocol \<Rightarrow> bool" where
  "apart names p \<longleftrightarrow> {bus p, tr_bus (state p)} \<subseteq> insert [] names \<and>
     {notif p, tracked_notif (state p)} \<inter> (names - {[]}) = {}"

definition read_names :: "protocol \<Rightarrow> string set" where
  "read_names p = {bus p, notif p} - {[]}"

definition plain_inv :: "string set \<Rightarrow> protocol \<Rightarrow> bool" where
  "plain_inv names p \<longleftrightarrow> apart names p \<and> read_names p \<subseteq> protected (state p) \<and> [] \<notin> protected (state p) \<and>
     (tr_bus (state p) = [] \<longrightarrow> bus p = []) \<and> tr_notif (state p) \<noteq> Some [] \<and>
     (tr_notif (state p) = None \<longrightarrow> notif p = [])"

lemmas plain_defs = plain_inv_def apart_def read_names_def

lemma start_plain: "[] \<notin> H \<Longrightarrow> plain_inv names (start H)"
  by (simp add: plain_defs start_def or_empty_def)

lemma service_keeps [simp]:
  "service_step p q \<Longrightarrow> bus q = bus p" "service_step p q \<Longrightarrow> notif q = notif p"
  by (auto simp: child_def Let_def elim: service_elim)

lemma service_state [simp]: "service_step p q \<Longrightarrow> state q = state p"
  by (auto simp: child_def Let_def elim: service_elim)

lemma bus_plain: "plain_inv names p \<Longrightarrow> c \<noteq> [] \<Longrightarrow> c \<in> names \<Longrightarrow> plain_inv names (observe_bus c p)"
  by (auto simp: plain_defs observe_bus_def protect_spec_def)

lemma notifications_plain:
  "plain_inv names p \<Longrightarrow> x \<noteq> Some [] \<Longrightarrow> or_empty x \<notin> names - {[]} \<Longrightarrow> plain_inv names (observe_notif x p)"
  by (cases x) (auto simp: plain_defs observe_notif_def protect_notif_spec_def or_empty_def)

text \<open>The end of a pass, for names that are apart: what is released by rotation is not kept by pruning.\<close>

lemma rotate_notif_name:
  "tr_notif (rotate_spec g c (optional n) v) = (if n \<noteq> [] then Some (if g then n else tracked_notif v)
     else if tracked_notif v \<noteq> [] \<and> g then None else tr_notif v)"
  by (simp add: spec_defs Let_def)

lemma rotate_tracked [simp]:
  "tr_bus (rotate_spec g c x v) = (if g then c else tr_bus v)"
  "tracked_notif (rotate_spec g c (optional n) v) = (if g then n else tracked_notif v)"
  by (simp add: spec_defs Let_def split: option.split) (simp add: rotate_notif_name or_empty_def split: option.split)

lemma rotate_named:
  "tr_notif v \<noteq> Some [] \<Longrightarrow> (n \<noteq> [] \<longrightarrow> tr_notif v \<noteq> None) \<Longrightarrow>
    tr_notif (rotate_spec g c (optional n) v) \<noteq> Some [] \<and> (tr_notif (rotate_spec g c (optional n) v) = None \<longrightarrow> n = [])"
  unfolding rotate_notif_name by (cases "tr_notif v") (auto simp: or_empty_def)

lemma rotate_protected:
  assumes "[] \<notin> protected v" "{tr_bus v} \<inter> {n} \<subseteq> {[]}" "{tracked_notif v} \<inter> {c} \<subseteq> {[]}"
  shows "protected (rotate_spec g c (optional n) v) =
    protected v \<inter> {if g then c else tr_bus v, c, if g then n else tracked_notif v, n}"
proof (cases "n = []")
  case True
  with assms show ?thesis
    by (cases g; cases "tr_notif v") (auto simp: spec_defs or_empty_def)
next
  case False
  with assms show ?thesis
    by (cases g; cases "tr_notif v") (auto simp: spec_defs or_empty_def)
qed

lemma plain_apart:
  assumes "plain_inv names p"
  shows "[] \<notin> protected (state p)" "{tr_bus (state p)} \<inter> {notif p} \<subseteq> {[]}" "{tracked_notif (state p)} \<inter> {bus p} \<subseteq> {[]}"
proof -
  have "{a} \<inter> {b} \<subseteq> {[]}" if "a \<in> insert [] names" "b \<notin> names - {[]}" for a b
    using that by blast
  then show "[] \<notin> protected (state p)" "{tr_bus (state p)} \<inter> {notif p} \<subseteq> {[]}" "{tracked_notif (state p)} \<inter> {bus p} \<subseteq> {[]}"
    using assms unfolding plain_inv_def apart_def by blast+
qed

lemma finish_plain:
  assumes inv: "plain_inv names p"
  shows "plain_inv names (finish p)"
proof -
  have named: "tr_notif (state p) \<noteq> Some []" "notif p \<noteq> [] \<longrightarrow> tr_notif (state p) \<noteq> None"
    using inv by (auto simp: plain_inv_def)
  note prot = rotate_protected [OF plain_apart [OF inv]]
  have after: "state (finish p) = rotate_spec (\<forall>k. guard p k) (bus p) (optional (notif p)) (state p)"
    "bus (finish p) = bus p" "notif (finish p) = notif p"
    by (simp_all add: finish_def)
  show ?thesis
    unfolding plain_inv_def
  proof (intro conjI)
    show "apart names (finish p)"
      using inv by (simp add: plain_inv_def apart_def after)
    show "read_names (finish p) \<subseteq> protected (state (finish p))"
      using inv unfolding read_names_def after prot plain_inv_def by auto
    show "[] \<notin> protected (state (finish p))"
      using inv unfolding after prot plain_inv_def by auto
    show "tr_bus (state (finish p)) = [] \<longrightarrow> bus (finish p) = []"
      using inv by (simp add: plain_inv_def after)
  qed (simp_all add: rotate_named [OF named] after)
qed

text \<open>The end of a pass that fails: the tracked names have moved or not, and the names of use are protected.\<close>

definition needed :: "bool \<Rightarrow> string \<Rightarrow> string \<Rightarrow> tracking \<Rightarrow> string set" where
  "needed g c n v = (if g then {c, n} else {tr_bus v, c, tracked_notif v, n})"

lemma rotate_fails_bounds:
  assumes fails: "rotate_fails g c (optional n) v v'"
    and v: "[] \<notin> protected v" "{tr_bus v} \<inter> {n} \<subseteq> {[]}" "{tracked_notif v} \<inter> {c} \<subseteq> {[]}"
    and named: "tr_notif v \<noteq> Some []" "n \<noteq> [] \<longrightarrow> tr_notif v \<noteq> None"
  shows "tr_bus v' = tr_bus v \<or> g \<and> tr_bus v' = c"
    "tr_notif v' = tr_notif v \<or> tr_notif v' = tr_notif (rotate_spec g c (optional n) v)"
    "protected v' \<subseteq> protected v" "protected v \<inter> needed g c n v \<subseteq> protected v'"
proof -
  let ?v1 = "rotate_bus_spec g c v" and ?P = "protected v"
  let ?v2 = "rotate_notif_spec g (optional n) ?v1"
  let ?w = "rotate_spec g c (optional n) v"
  have w: "?w = prune_spec c (optional n) ?v2" by (simp add: rotate_spec_def)
  have same: "tr_bus ?w = tr_bus ?v2" "tr_notif ?w = tr_notif ?v2" "tr_notif ?v1 = tr_notif v" "tr_bus ?v1 = (if g then c else tr_bus v)"
    "protected ?v1 = released g (tr_bus v) c ?P"
    by (simp_all add: w prune_spec_def rotate_bus_spec_def)
  have bus: "?P \<inter> needed g c n v \<subseteq> released g (tr_bus v) c ?P"
    using v(1,2) unfolding needed_def released_def by auto
  have notif: "released g (tr_bus v) c ?P \<inter> needed g c n v \<subseteq> released g (tracked_notif v) n (released g (tr_bus v) c ?P)"
    using v(1,3) unfolding needed_def released_def by auto
  have all: "?P \<inter> needed g c n v \<subseteq> protected ?w"
    unfolding rotate_protected [OF v] needed_def by auto
  have v2: "protected ?v2 \<subseteq> ?P"
    unfolding rotate_notif_spec_def Let_def rotate_bus_spec_def released_def by (auto split: option.split)
  consider "bus_fails g c v v'" | "notif_fails g (optional n) ?v1 v'" | "prune_fails c (optional n) ?v2 v'"
    using fails unfolding rotate_fails_def Let_def by blast
  then have "(tr_bus v' = tr_bus v \<or> tr_bus v' = tr_bus ?w) \<and> (tr_notif v' = tr_notif v \<or> tr_notif v' = tr_notif ?w) \<and>
      protected v' \<subseteq> ?P \<and> ?P \<inter> needed g c n v \<subseteq> protected v'"
  proof cases
    case 1
    then show ?thesis
      using bus unfolding bus_fails_def released_def by (auto split: if_splits)
  next
    case 2
    have off: "released g (tr_bus v) c ?P \<inter> needed g c n v \<subseteq> released g (tr_bus v) c ?P - {tracked_notif v}" if g "n = []"
      using v(1,3) that unfolding needed_def released_def by auto
    from 2 consider "v' = ?v1" | "v' = ?v1\<lparr>protected := released g (tracked_notif v) n (released g (tr_bus v) c ?P)\<rparr>"
      | "g" "n = []" "v' = ?v1\<lparr>protected := released g (tr_bus v) c ?P - {tracked_notif v}\<rparr>"
      unfolding notif_fails_def Let_def same optional_def by (cases "n = []") auto
    then show ?thesis
    proof cases
      case 1
      then show ?thesis using bus same by (auto simp: released_def split: if_splits)
    next
      case 2
      then show ?thesis using bus notif same by (auto simp: released_def split: if_splits)
    next
      case 3
      then show ?thesis using bus off same by (auto simp: released_def split: if_splits)
    qed
  next
    case 3
    then obtain H where "v' = ?v2\<lparr>protected := H\<rparr>" "protected ?w \<subseteq> H" "H \<subseteq> protected ?v2"
      unfolding prune_fails_def w by blast
    then show ?thesis
      using all v2 same by auto
  qed
  then show "tr_bus v' = tr_bus v \<or> g \<and> tr_bus v' = c"
    "tr_notif v' = tr_notif v \<or> tr_notif v' = tr_notif ?w" "protected v' \<subseteq> ?P" "?P \<inter> needed g c n v \<subseteq> protected v'"
    by (auto split: if_splits)
qed

lemma stop_plain:
  assumes "plain_inv names p" "apart names (stop v p)" "protected (state p) \<inter> {bus p, notif p} \<subseteq> protected v" "[] \<notin> protected v"
    "tr_bus v = [] \<longrightarrow> bus p = []" "tr_notif v \<noteq> Some []" "tr_notif v = None \<longrightarrow> notif p = []"
  shows "plain_inv names (stop v p)"
proof -
  have "read_names p \<subseteq> protected v"
    using assms(1,3) unfolding plain_inv_def read_names_def by blast
  then have "read_names (stop v p) \<subseteq> protected (state (stop v p))" by (simp add: read_names_def stop_def)
  then show ?thesis
    using assms(2,4-) unfolding plain_inv_def by (simp add: stop_def)
qed

lemma bus_error_plain:
  assumes "plain_inv names p" "protect_fails (state p) v" "tr_bus v \<in> insert [] names"
  shows "plain_inv names (stop v p)"
proof -
  have v: "tr_notif v = tr_notif (state p)" "protected (state p) \<subseteq> protected v" "[] \<notin> protected v"
    "tr_bus v = [] \<longrightarrow> tr_bus (state p) = []"
    using assms(1,2) unfolding protect_fails_def protect_spec_def plain_inv_def by (auto split: if_splits)
  have "apart names (stop v p)"
    using assms(1,3) v(1) unfolding plain_inv_def apart_def by (simp add: stop_def)
  then show ?thesis
    by (rule stop_plain [OF assms(1)]) (use assms(1) v in \<open>auto simp: plain_inv_def\<close>)
qed

lemma notifications_error_plain:
  assumes "plain_inv names p" "protect_notif_fails (state p) v" "tracked_notif v \<notin> names - {[]}"
  shows "plain_inv names (stop v p)"
proof -
  have v: "tr_bus v = tr_bus (state p)" "protected (state p) \<subseteq> protected v" "[] \<notin> protected v"
    "tr_notif v = None \<longrightarrow> tr_notif (state p) = None" "tr_notif v \<noteq> Some []"
    using assms(1,2) unfolding protect_notif_fails_def protect_notif_spec_def plain_inv_def by (auto split: if_splits)
  have "apart names (stop v p)"
    using assms(1,3) v(1) unfolding plain_inv_def apart_def by (simp add: stop_def)
  then show ?thesis
    by (rule stop_plain [OF assms(1)]) (use assms(1) v in \<open>auto simp: plain_inv_def\<close>)
qed

lemma finish_error_bounds:
  assumes "plain_inv names p" "rotate_fails g (bus p) (optional (notif p)) (state p) v"
  shows "tr_bus v = tr_bus (state p) \<or> g \<and> tr_bus v = bus p"
    "tracked_notif v = tracked_notif (state p) \<or> g \<and> tracked_notif v = notif p"
    "protected v \<subseteq> protected (state p)" "protected (state p) \<inter> needed g (bus p) (notif p) (state p) \<subseteq> protected v"
    "tr_notif v \<noteq> Some [] \<and> (tr_notif v = None \<longrightarrow> notif p = [])"
proof -
  have named: "tr_notif (state p) \<noteq> Some []" "notif p \<noteq> [] \<longrightarrow> tr_notif (state p) \<noteq> None"
    using assms(1) by (auto simp: plain_inv_def)
  note bounds = rotate_fails_bounds [OF assms(2) plain_apart [OF assms(1)] named]
  show "tr_bus v = tr_bus (state p) \<or> g \<and> tr_bus v = bus p"
    "protected v \<subseteq> protected (state p)" "protected (state p) \<inter> needed g (bus p) (notif p) (state p) \<subseteq> protected v"
    by (rule bounds; assumption)+
  from bounds(2) show "tracked_notif v = tracked_notif (state p) \<or> g \<and> tracked_notif v = notif p"
  proof (rule disjE)
    assume "tr_notif v = tr_notif (rotate_spec g (bus p) (optional (notif p)) (state p))"
    then have "tracked_notif v = (if g then notif p else tracked_notif (state p))"
      using rotate_tracked(2) [of g "bus p" "notif p" "state p"] by simp
    then show ?thesis by (cases g) simp_all
  qed (rule disjI1, simp)
  from bounds(2) show "tr_notif v \<noteq> Some [] \<and> (tr_notif v = None \<longrightarrow> notif p = [])"
    by (rule disjE) (use rotate_named [OF named, where g = g and c = "bus p"] named in \<open>simp, blast\<close>, use rotate_named [OF named, where g = g and c = "bus p"] in simp)
qed

lemma apart_stop:
  assumes "apart names p" "tr_bus v \<in> {tr_bus (state p), bus p}" "tracked_notif v \<in> {tracked_notif (state p), notif p}"
  shows "apart names (stop v p)"
proof -
  have "tr_bus v \<in> insert [] names" "tracked_notif v \<notin> names - {[]}"
    using assms unfolding apart_def by blast+
  with assms(1) show ?thesis unfolding apart_def by (simp add: stop_def)
qed

lemma finish_error_plain:
  assumes "plain_inv names p" "bus p \<noteq> []" "rotate_fails g (bus p) (optional (notif p)) (state p) v"
  shows "plain_inv names (stop v p)"
proof -
  note v = finish_error_bounds [OF assms(1,3)]
  have "apart names (stop v p)"
  proof (rule apart_stop)
    show "apart names p" using assms(1) by (simp add: plain_inv_def)
    show "tr_bus v \<in> {tr_bus (state p), bus p}" "tracked_notif v \<in> {tracked_notif (state p), notif p}"
      using v(1,2) by blast+
  qed
  then show ?thesis
  proof (rule stop_plain [OF assms(1)])
    show "protected (state p) \<inter> {bus p, notif p} \<subseteq> protected v"
      using v(4) unfolding needed_def by (auto split: if_splits)
    show "[] \<notin> protected v"
      using v(3) assms(1) unfolding plain_inv_def by blast
    show "tr_bus v = [] \<longrightarrow> bus p = []"
      using v(1) assms(1,2) unfolding plain_inv_def by (elim disjE) simp_all
  qed (use v(5) in blast)+
qed

lemma step_plain:
  assumes "step calm names p q" "plain_inv names p"
  shows "plain_inv names q"
  using assms(1)
proof (cases rule: step.cases)
  case service
  then show ?thesis using assms(2) by (simp add: plain_defs)
qed (use assms(2) in \<open>blast intro: bus_plain notifications_plain finish_plain bus_error_plain notifications_error_plain
  finish_error_plain\<close>)+

lemma reachable_plain: "reachable calm names p \<Longrightarrow> plain_inv names p"
  by (induction rule: reachable.induct) (auto intro: start_plain step_plain)

section \<open>What holds in calm runs\<close>

text \<open>
  Every name a service was given or uses is tracked or current, and its secret is protected. A service
  that was found ready in the running pass uses the current names only.
\<close>

definition named :: "'a control_scheme \<Rightarrow> tracking \<Rightarrow> secrets \<Rightarrow> bool" where
  "named p v x \<longleftrightarrow> fst x \<in> {[], tr_bus v, bus p} \<and> snd x \<in> {[], tracked_notif v, notif p}"

definition covered :: "'a control_scheme \<Rightarrow> tracking \<Rightarrow> secrets \<Rightarrow> bool" where
  "covered p v x \<longleftrightarrow> named p v x \<and> {fst x, snd x} - {[]} \<subseteq> protected v"

definition rollout_ok :: "protocol \<Rightarrow> service \<Rightarrow> bool" where
  "rollout_ok p k \<longleftrightarrow> (let r = rollouts p k in sound r \<and>
     (\<forall>x \<in> {specified r, seen r, deployed r} \<union> in_use r. covered p (state p) x) \<and>
     (guard p k \<longrightarrow> {specified r, seen r, deployed r} = {current p} \<and> in_use r = {current p}))"

definition calm_inv :: "protocol \<Rightarrow> bool" where
  "calm_inv p \<longleftrightarrow> (\<forall>k. rollout_ok p k)"

lemma calm_invD: "calm_inv p \<Longrightarrow> rollout_ok p k"
  by (simp add: calm_inv_def)

lemma start_calm: "calm_inv (start H)"
  by (simp add: calm_inv_def rollout_ok_def start_def idle_def sound_def covered_def named_def)

text \<open>A calm change of a name keeps the named ones; a pass that begins has found no service ready.\<close>

lemma rollout_ok_mono:
  assumes "rollout_ok p k" "rollouts q = rollouts p" "guard q = (\<lambda>_. False)"
    and "\<And>x. covered p (state p) x \<Longrightarrow> covered q (state q) x"
  shows "rollout_ok q k"
  using assms by (simp add: rollout_ok_def Let_def)

lemma tracked_protect:
  "tr_notif v \<noteq> Some [] \<Longrightarrow> tracked_notif (protect_notif_spec x v) =
    (if tracked_notif v = [] then or_empty x else tracked_notif v)"
  by (auto simp: protect_notif_spec_def or_empty_def split: option.split)

lemma calm_name:
  assumes "a \<in> {[], t, old}" "calm_change n old t" "t = [] \<longrightarrow> old = []"
  shows "(t = [] \<longrightarrow> a \<in> {[], n}) \<and> (t \<noteq> [] \<longrightarrow> a \<in> {[], t, n})"
  using assms by (auto simp: calm_change_def)

lemma bus_calm:
  assumes "calm_inv p" "plain_inv names p" "c \<noteq> []" "calm_change c (bus p) (tr_bus (state p))"
  shows "calm_inv (observe_bus c p)"
  unfolding calm_inv_def
proof
  fix k
  have "named (observe_bus c p) (state (observe_bus c p)) x" if "named p (state p) x" for x
    using that calm_name [of "fst x" "tr_bus (state p)" "bus p" c] assms(2,4)
    by (simp add: named_def observe_bus_def protect_spec_def plain_inv_def)
  moreover have "protected (state p) \<subseteq> protected (state (observe_bus c p))"
    by (auto simp: observe_bus_def protect_spec_def)
  ultimately have "covered (observe_bus c p) (state (observe_bus c p)) x" if "covered p (state p) x" for x
    using that unfolding covered_def by blast
  then show "rollout_ok (observe_bus c p) k"
    by (intro rollout_ok_mono [OF calm_invD [OF assms(1)]]) (simp_all add: observe_bus_def)
qed

lemma notifications_calm:
  assumes "calm_inv p" "plain_inv names p" "calm_change (or_empty x) (notif p) (tracked_notif (state p))"
  shows "calm_inv (observe_notif x p)"
  unfolding calm_inv_def
proof
  fix k
  have "tr_bus (protect_notif_spec x (state p)) = tr_bus (state p)"
    by (simp add: protect_notif_spec_def split: option.split)
  moreover have "tracked_notif (state p) = [] \<longrightarrow> notif p = []" "tr_notif (state p) \<noteq> Some []"
    using assms(2) by (auto simp: plain_inv_def or_empty_def split: option.splits)
  ultimately have "named (observe_notif x p) (state (observe_notif x p)) y" if "named p (state p) y" for y
    using that calm_name [of "snd y" "tracked_notif (state p)" "notif p" "or_empty x"] assms(3)
    by (simp add: named_def observe_notif_def tracked_protect)
  moreover have "protected (state p) \<subseteq> protected (state (observe_notif x p))"
    by (auto simp: observe_notif_def protect_notif_spec_def split: option.split)
  ultimately have "covered (observe_notif x p) (state (observe_notif x p)) y" if "covered p (state p) y" for y
    using that unfolding covered_def by blast
  then show "rollout_ok (observe_notif x p) k"
    by (intro rollout_ok_mono [OF calm_invD [OF assms(1)]]) (simp_all add: observe_notif_def)
qed

text \<open>The part of the invariant that one service keeps on its own.\<close>

definition rollout_fits :: "(secrets \<Rightarrow> bool) \<Rightarrow> secrets option \<Rightarrow> rollout \<Rightarrow> bool" where
  "rollout_fits P x r \<longleftrightarrow> sound r \<and> (\<forall>y \<in> {specified r, seen r, deployed r} \<union> in_use r. P y) \<and>
     (\<forall>y. x = Some y \<longrightarrow> {specified r, seen r, deployed r} = {y} \<and> in_use r = {y})"

lemma rollout_fits: "rollout_ok p k = rollout_fits (covered p (state p)) (if guard p k then Some (current p) else None) (rollouts p k)"
  by (simp add: rollout_ok_def rollout_fits_def Let_def)

lemma rollout_fits_step: "rollout_step r t \<Longrightarrow> rollout_fits P x r \<Longrightarrow> rollout_fits P x t"
  by (erule rollout_elim) (auto simp: rollout_fits_def sound_def rollout_defs)

lemma rollout_calm:
  assumes "rollout_step (rollouts p k) r" "rollout_ok p k"
  shows "rollout_ok (p\<lparr>rollouts := (rollouts p)(k := r)\<rparr>) k"
proof -
  have "covered (p\<lparr>rollouts := f\<rparr>) v = covered p v" for f v
    by (simp add: covered_def named_def fun_eq_iff)
  with rollout_fits_step [OF assms(1) assms(2) [unfolded rollout_fits]] show ?thesis
    by (simp add: rollout_fits split: if_splits)
qed

lemma current_covered:
  assumes "plain_inv names p"
  shows "covered p (state p) (current p)"
  using assms unfolding covered_def named_def plain_inv_def read_names_def by simp

lemma child_calm:
  assumes "rollout_ok p k" "plain_inv names p"
  shows "rollout_ok (child k p) k"
proof -
  have "covered (child k p) v = covered p v" for v
    by (simp add: covered_def named_def fun_eq_iff child_def Let_def)
  with assms(1) current_covered [OF assms(2)] show ?thesis
    by (auto simp: rollout_ok_def Let_def child_def hand_over_def sound_def up_to_date_def)
qed

lemma rollout_ok_other:
  "j \<noteq> k \<Longrightarrow> rollout_ok (p\<lparr>rollouts := (rollouts p)(k := r)\<rparr>) j = rollout_ok p j"
  "j \<noteq> k \<Longrightarrow> rollout_ok (child k p) j = rollout_ok p j"
  by (simp_all add: rollout_ok_def Let_def child_def covered_def named_def)

lemma service_calm:
  assumes "service_step p q" "calm_inv p" "plain_inv names p"
  shows "calm_inv q"
  unfolding calm_inv_def
proof
  fix j
  show "rollout_ok q j"
    using assms(1)
  proof (cases rule: service_step.cases)
    case (child k)
    then show ?thesis
      using child_calm [OF _ assms(3)] rollout_ok_other(2) calm_invD [OF assms(2), of j] by (cases "j = k") auto
  next
    case (rollout k r)
    then show ?thesis
      using rollout_calm rollout_ok_other(1) calm_invD [OF assms(2), of j] by (cases "j = k") auto
  qed
qed

text \<open>The end of a pass, whether it fails or not.\<close>

lemma ended_calm:
  assumes inv: "calm_inv p" "plain_inv names p"
    and q: "bus q = bus p" "notif q = notif p" "rollouts q = rollouts p" "guard q = (\<lambda>_. False)"
    and names: "tr_bus (state q) = tr_bus (state p) \<or> (\<forall>k. guard p k) \<and> tr_bus (state q) = bus p"
      "tracked_notif (state q) = tracked_notif (state p) \<or> (\<forall>k. guard p k) \<and> tracked_notif (state q) = notif p"
    and prot: "protected (state p) \<inter> needed (\<forall>k. guard p k) (bus p) (notif p) (state p) \<subseteq> protected (state q)"
  shows "calm_inv q"
  unfolding calm_inv_def
proof
  fix k
  note k = calm_invD [OF inv(1), of k]
  show "rollout_ok q k"
  proof (cases "\<forall>k. guard p k")
    case True
    have "read_names p \<subseteq> protected (state q)"
      using inv(2) prot True unfolding plain_inv_def read_names_def needed_def by auto
    then have "covered q (state q) (current p)"
      unfolding covered_def named_def read_names_def by (simp add: q)
    with k True show ?thesis
      by (simp add: rollout_ok_def Let_def q)
  next
    case False
    have sub: "{fst x, snd x} - {[]} \<subseteq> needed False (bus p) (notif p) (state p)" if "named p (state p) x" for x
      using that unfolding needed_def named_def by auto
    have "covered q (state q) x" if "covered p (state p) x" for x
      using that sub [of x] names prot False unfolding covered_def
      by (simp add: named_def q) blast
    then show ?thesis
      by (intro rollout_ok_mono [OF k q(3,4)]) 
  qed
qed

lemma finish_calm:
  assumes "calm_inv p" "plain_inv names p"
  shows "calm_inv (finish p)"
proof (rule ended_calm [OF assms])
  let ?g = "\<forall>k. guard p k"
  have s: "state (finish p) = rotate_spec ?g (bus p) (optional (notif p)) (state p)"
    by (simp add: finish_def)
  show "tr_bus (state (finish p)) = tr_bus (state p) \<or> ?g \<and> tr_bus (state (finish p)) = bus p"
    "tracked_notif (state (finish p)) = tracked_notif (state p) \<or> ?g \<and> tracked_notif (state (finish p)) = notif p"
    unfolding s rotate_tracked by (cases ?g; simp)+
  show "protected (state p) \<inter> needed ?g (bus p) (notif p) (state p) \<subseteq> protected (state (finish p))"
    unfolding s rotate_protected [OF plain_apart [OF assms(2)]] needed_def by auto
qed (simp_all add: finish_def)

lemma finish_error_calm:
  assumes "calm_inv p" "plain_inv names p" "rotate_fails (\<forall>k. guard p k) (bus p) (optional (notif p)) (state p) v"
  shows "calm_inv (stop v p)"
  by (rule ended_calm [OF assms(1,2)]) (use finish_error_bounds [OF assms(2,3)] in \<open>simp_all add: stop_def\<close>)

lemma covered_mono:
  assumes "covered p v x" "bus q = bus p" "notif q = notif p" "protected v \<subseteq> protected v'"
    and "tr_bus v' = tr_bus v \<or> tr_bus v = []" "tracked_notif v' = tracked_notif v \<or> tracked_notif v = []"
  shows "covered q v' x"
proof -
  have "fst x \<in> {[], tr_bus v, bus q}" "snd x \<in> {[], tracked_notif v, notif q}"
    using assms(1) unfolding covered_def named_def assms(2,3) by blast+
  moreover have "a \<in> {[], t', b}" if "t' = t \<or> t = []" "a \<in> {[], t, b}" for a t t' b :: string
    using that by auto
  ultimately have "fst x \<in> {[], tr_bus v', bus q}" "snd x \<in> {[], tracked_notif v', notif q}"
    using assms(5,6) by blast+
  then show ?thesis
    using assms(1,4) unfolding covered_def named_def by blast
qed

lemma bus_error_calm:
  assumes "calm_inv p" "protect_fails (state p) v"
  shows "calm_inv (stop v p)"
  unfolding calm_inv_def
proof
  fix k
  have v: "tr_notif v = tr_notif (state p)" "protected (state p) \<subseteq> protected v"
    "tr_bus v = tr_bus (state p) \<or> tr_bus (state p) = []"
    using assms(2) unfolding protect_fails_def protect_spec_def by auto
  have "covered (stop v p) v x" if "covered p (state p) x" for x
    by (rule covered_mono [OF that]) (use v in \<open>simp_all add: stop_def\<close>)
  then show "rollout_ok (stop v p) k"
    by (intro rollout_ok_mono [OF calm_invD [OF assms(1)]]) (simp_all add: stop_def)
qed

lemma notifications_error_calm:
  assumes "calm_inv p" "plain_inv names p" "protect_notif_fails (state p) v"
  shows "calm_inv (stop v p)"
  unfolding calm_inv_def
proof
  fix k
  have "tr_bus v = tr_bus (state p)" "protected (state p) \<subseteq> protected v"
    "tr_notif v = tr_notif (state p) \<or> tr_notif (state p) = None"
    using assms(3) unfolding protect_notif_fails_def protect_notif_spec_def by auto
  then have v: "tr_bus v = tr_bus (state p)" "protected (state p) \<subseteq> protected v"
    "tracked_notif v = tracked_notif (state p) \<or> tracked_notif (state p) = []"
    by (auto simp: or_empty_def)
  have "covered (stop v p) v x" if "covered p (state p) x" for x
    by (rule covered_mono [OF that]) (use v in \<open>simp_all add: stop_def\<close>)
  then show "rollout_ok (stop v p) k"
    by (intro rollout_ok_mono [OF calm_invD [OF assms(1)]]) (simp_all add: stop_def)
qed

lemma step_calm:
  assumes "step True names p q" "calm_inv p" "plain_inv names p"
  shows "calm_inv q"
  using assms(1)
proof (cases rule: step.cases)
  case (bus c)
  then show ?thesis using bus_calm [OF assms(2,3)] by simp
next
  case (notifications x)
  then show ?thesis using notifications_calm [OF assms(2,3)] by simp
next
  case service
  then show ?thesis using service_calm assms(2,3) by blast
next
  case finish
  then show ?thesis using finish_calm assms(2,3) by blast
next
  case (bus_error v)
  then show ?thesis using bus_error_calm assms(2) by blast
next
  case (notifications_error v)
  then show ?thesis using notifications_error_calm assms(2,3) by blast
next
  case (finish_error v)
  then show ?thesis using finish_error_calm assms(2,3) by blast
qed

lemma reachable_calm: "reachable True names p \<Longrightarrow> calm_inv p"
  by (induction rule: reachable.induct) (auto intro: start_calm step_calm reachable_plain)

lemma calm_protected:
  assumes "calm_inv p"
  shows "uses (rollouts p k) \<subseteq> protected (state p)"
proof -
  have "\<forall>x \<in> in_use (rollouts p k). {fst x, snd x} - {[]} \<subseteq> protected (state p)"
    using calm_invD [OF assms, of k] unfolding rollout_ok_def Let_def covered_def by blast
  then show ?thesis unfolding uses_def by blast
qed

section \<open>Runs that finish a rotation\<close>

definition serve :: "service \<Rightarrow> 'a control_scheme \<Rightarrow> 'a control_scheme" where
  "serve k p = p\<lparr>rollouts := (rollouts p)(k := confirm (deploy (receive (rollouts p k))))\<rparr>"

definition roll_out :: "service \<Rightarrow> 'a control_scheme \<Rightarrow> 'a control_scheme" where
  "roll_out k p = child k (serve k (child k p))"

definition complete :: "protocol \<Rightarrow> protocol" where
  "complete p = finish (roll_out KeystoneListener (roll_out Worker (roll_out API p)))"

lemma service_cases: "(\<forall>k. P k) \<longleftrightarrow> P API \<and> P Worker \<and> P KeystoneListener"
  by (metis service.exhaust)

lemma serve_run:
  assumes "fst (specified (rollouts p k)) \<noteq> []"
  shows "service_step\<^sup>*\<^sup>* p (serve k p)"
proof -
  define p1 where "p1 = p\<lparr>rollouts := (rollouts p)(k := receive (rollouts p k))\<rparr>"
  define p2 where "p2 = p1\<lparr>rollouts := (rollouts p1)(k := deploy (rollouts p1 k))\<rparr>"
  define p3 where "p3 = p2\<lparr>rollouts := (rollouts p2)(k := confirm (rollouts p2 k))\<rparr>"
  have "service_step p p1" "service_step p1 p2" "service_step p2 p3"
    unfolding p3_def p2_def p1_def
    by (intro service_step.rollout rollout_step.intros; use assms in \<open>simp add: rollout_defs\<close>)+
  moreover have "p3 = serve k p"
    by (simp add: p3_def p2_def p1_def serve_def)
  ultimately show ?thesis
    by (metis converse_rtranclp_into_rtranclp rtranclp.rtrancl_refl)
qed

lemma roll_out_run:
  assumes "bus p \<noteq> []"
  shows "service_step\<^sup>*\<^sup>* p (roll_out k p)"
proof -
  have "bus (serve k (child k p)) \<noteq> []"
    using assms by (simp add: serve_def child_def Let_def)
  then have "service_step p (child k p)" "service_step (serve k (child k p)) (roll_out k p)"
    unfolding roll_out_def using assms by (blast intro: service_step.child)+
  moreover have "service_step\<^sup>*\<^sup>* (child k p) (serve k (child k p))"
    by (rule serve_run) (simp add: assms child_def Let_def hand_over_def)
  ultimately show ?thesis
    by (meson converse_rtranclp_into_rtranclp rtranclp.rtrancl_into_rtrancl)
qed

lemma roll_out_sel:
  "bus (roll_out k p) = bus p" "notif (roll_out k p) = notif p" "guard (roll_out k p) = (guard p)(k := True)"
  "in_use (rollouts (roll_out k p) j) = (if j = k then {current p} else in_use (rollouts p j))"
  by (simp_all add: roll_out_def serve_def child_def Let_def rollout_defs up_to_date_def)

lemma roll_out_state: "state (roll_out k p) = state p"
  by (simp add: roll_out_def serve_def child_def Let_def)

lemma complete_settles:
  assumes "plain_inv names p" "bus p \<noteq> []"
  shows "bus (complete p) = bus p" "notif (complete p) = notif p" "tr_bus (state (complete p)) = bus p"
    "tracked_notif (state (complete p)) = notif p" "protected (state (complete p)) = {bus p, notif p} - {[]}"
    "in_use (rollouts (complete p) k) = {current p}"
proof -
  define q where "q = roll_out KeystoneListener (roll_out Worker (roll_out API p))"
  have q: "bus q = bus p" "notif q = notif p" "state q = state p" "in_use (rollouts q k) = {current p}" "\<forall>k. guard q k"
    unfolding q_def service_cases by (cases k; simp add: roll_out_sel roll_out_state)+
  have c: "complete p = q\<lparr>guard := (\<lambda>_. False), state := rotate_spec True (bus p) (optional (notif p)) (state p)\<rparr>"
    using q by (simp add: complete_def finish_def flip: q_def)
  have "{bus p, notif p} - {[]} \<subseteq> protected (state p)" "[] \<notin> protected (state p)"
    using assms(1) unfolding plain_inv_def read_names_def by blast+
  then show "protected (state (complete p)) = {bus p, notif p} - {[]}"
    using rotate_protected [OF plain_apart [OF assms(1)], of True] by (simp add: c) blast
  show "bus (complete p) = bus p" "notif (complete p) = notif p" "tr_bus (state (complete p)) = bus p"
    "tracked_notif (state (complete p)) = notif p" "in_use (rollouts (complete p) k) = {current p}"
    by (simp_all add: c q)
qed

end
