(* ===== verification/Protocol_System.thy ===== *)
theory Protocol_System
  imports Protocol
begin

text \<open>
  The controller in the protocol. \<open>bar\<close> is the state of the Barbican controller (cluster and resource),
  on which \<open>messaging_phase\<close>, \<open>notifications_phase\<close> and \<open>rotation_phase\<close> are executed; the services are
  those of \<open>Protocol\<close>. Between the steps the cluster changes in any way that leaves the finalizers alone,
  for example by publishing a new secret, and users edit the spec of the resource, for example to enable
  or disable the notifications bus. A pass may end after any of its steps, or by an error inside one of
  the three phases; the status is kept as the pass left it.
\<close>

record ('w, 'c) system = control +
  bar :: "('w, 'c) parent_state"

definition protocol_of :: "('w \<Rightarrow> string set) \<Rightarrow> ('w, 'c) system \<Rightarrow> protocol" where
  "protocol_of held p = \<lparr>bus = bus p, notif = notif p, guard = guard p, rollouts = rollouts p, state = view held (bar p)\<rparr>"

inductive sys_step ::
  "bool \<Rightarrow> string set \<Rightarrow> 'c condlib \<Rightarrow> ('w, 'c) parentlib \<Rightarrow> ('w \<Rightarrow> string set) \<Rightarrow>
   ('w, 'c) system \<Rightarrow> ('w, 'c) system \<Rightarrow> bool"
  for calm names C L held where
  environment: "held w = held (world (bar p)) \<Longrightarrow>
    sys_step calm names C L held p (p\<lparr>bar := (bar p)\<lparr>world := w, inst := (inst (bar p))\<lparr>Spec := sp\<rparr>\<rparr>\<rparr>)"
| messaging: "run_state (messaging_phase C L labels) (bar p) = (Inr c, s) \<Longrightarrow> c \<in> names \<Longrightarrow>
    (calm \<longrightarrow> calm_change c (bus p) (tr_bus (view held (bar p)))) \<Longrightarrow>
    sys_step calm names C L held p (p\<lparr>bus := c, guard := (\<lambda>_. False), bar := s\<rparr>)"
| notifications: "run_state (notifications_phase C L labels) (bar p) = (Inr x, s) \<Longrightarrow>
    or_empty x \<notin> names - {[]} \<Longrightarrow> (calm \<longrightarrow> calm_change (or_empty x) (notif p) (tracked_notif (view held (bar p)))) \<Longrightarrow>
    sys_step calm names C L held p (p\<lparr>notif := or_empty x, guard := (\<lambda>_. False), bar := s\<rparr>)"
| service: "service_step p q \<Longrightarrow> sys_step calm names C L held p q"
| finish: "bus p \<noteq> [] \<Longrightarrow>
    run_state (rotation_phase L (bus p) (optional (notif p)) (\<forall>k. guard p k)) (bar p) = (Inr (), s) \<Longrightarrow>
    sys_step calm names C L held p (p\<lparr>guard := (\<lambda>_. False), bar := s\<rparr>)"
| messaging_error: "run_state (messaging_phase C L labels) (bar p) = (Inl r, s) \<Longrightarrow>
    tr_bus (view held s) \<in> insert [] names \<Longrightarrow>
    sys_step calm names C L held p (p\<lparr>guard := (\<lambda>_. False), bar := s\<rparr>)"
| notifications_error: "run_state (notifications_phase C L labels) (bar p) = (Inl r, s) \<Longrightarrow>
    tracked_notif (view held s) \<notin> names - {[]} \<Longrightarrow>
    sys_step calm names C L held p (p\<lparr>guard := (\<lambda>_. False), bar := s\<rparr>)"
| finish_error: "bus p \<noteq> [] \<Longrightarrow>
    run_state (rotation_phase L (bus p) (optional (notif p)) (\<forall>k. guard p k)) (bar p) = (Inl r, s) \<Longrightarrow>
    sys_step calm names C L held p (p\<lparr>guard := (\<lambda>_. False), bar := s\<rparr>)"

text \<open>A fresh Barbican resource; no service runs.\<close>

definition sys_start :: "('w \<Rightarrow> string set) \<Rightarrow> ('w, 'c) system \<Rightarrow> bool" where
  "sys_start held p \<longleftrightarrow> bus p = [] \<and> notif p = [] \<and> guard p = (\<lambda>_. False) \<and> rollouts p = (\<lambda>_. idle) \<and>
     bs_TransportURLSecret (Status (inst (bar p))) = [] \<and>
     bs_NotificationsURLSecret (Status (inst (bar p))) = None \<and> [] \<notin> held (world (bar p))"

inductive sys_reachable ::
  "bool \<Rightarrow> string set \<Rightarrow> 'c condlib \<Rightarrow> ('w, 'c) parentlib \<Rightarrow> ('w \<Rightarrow> string set) \<Rightarrow> string \<Rightarrow> ('w, 'c) system \<Rightarrow> bool"
  for calm names C L held ns where
  initial: "sys_start held p \<Longrightarrow> Namespace (Meta (inst (bar p))) = ns \<Longrightarrow> sys_reachable calm names C L held ns p"
| step: "sys_reachable calm names C L held ns p \<Longrightarrow> sys_step calm names C L held p q \<Longrightarrow>
    sys_reachable calm names C L held ns q"

lemma protocol_of_sel [simp]:
  "bus (protocol_of held p) = bus p" "notif (protocol_of held p) = notif p" "guard (protocol_of held p) = guard p"
  "rollouts (protocol_of held p) = rollouts p" "state (protocol_of held p) = view held (bar p)"
  by (simp_all add: protocol_of_def)

lemma view_sel [simp]:
  "tr_bus (view held s) = bs_TransportURLSecret (Status (inst s))"
  "tr_notif (view held s) = bs_NotificationsURLSecret (Status (inst s))"
  "protected (view held s) = held (world s)"
  by (simp_all add: view_def)

section \<open>The phases keep the metadata\<close>

lemma messaging_meta: "run_state (messaging_phase C L l) s = (r, s') \<Longrightarrow> Meta (inst s') = Meta (inst s)"
  using keeps_after [OF setup_same.messaging_frame, of C L l s]
  by (simp add: after_def barbican_identity_def)

lemma notifications_meta: "run_state (notifications_phase C L l) s = (r, s') \<Longrightarrow> Meta (inst s') = Meta (inst s)"
  using keeps_after [OF setup_same.notifications_frame, of C L l s]
  by (simp add: after_def barbican_identity_def)

lemma rotation_meta:
  assumes "run_state (rotation_phase L c n g) s = (r, s')"
  shows "Meta (inst s') = Meta (inst s)"
proof -
  have tries: "state_io_rel (keeps Meta) (b_try m)" if "state_io_rel (keeps Meta) m" for m :: "('a, 'b, gerr option) parent"
    unfolding b_try_def b_return_def by (intro keep_rules that)
  have status: "state_io_rel (keeps Meta) (b_status f)" for f :: "'b BarbicanStatus \<Rightarrow> 'b BarbicanStatus"
    by (simp add: state_io_rel_def keeps_def)
  have "state_io_rel (keeps Meta) (rotation_phase L c n g)"
    unfolding rotation_phase_def rotate_def rotate_notifications_def remove_consumer_def transportURLDeleted_def
      prune_phase_def prune_def b_return_def
    by (intro keep_rules tries status)
  from keeps_after [OF this, of s] assms show ?thesis
    by (simp add: after_def)
qed

section \<open>Simulation\<close>

text \<open>Every step of the system is a step of the protocol, or none.\<close>

lemma protocol_of_child: "protocol_of held (child k p) = child k (protocol_of held p)"
  by (simp add: protocol_of_def child_def Let_def)

lemma protocol_of_rollouts: "protocol_of held (p\<lparr>rollouts := f\<rparr>) = (protocol_of held p)\<lparr>rollouts := f\<rparr>"
  by (simp add: protocol_of_def)

lemma service_simulates:
  assumes "service_step p q"
  shows "service_step (protocol_of held p) (protocol_of held q) \<and> bar q = bar p"
  using assms
proof (cases rule: service_step.cases)
  case (child k)
  then show ?thesis
    using service_step.child [of "protocol_of held p" k] by (simp add: protocol_of_child) (simp add: child_def Let_def)
next
  case (rollout k r)
  then show ?thesis
    using service_step.rollout [of "protocol_of held p" k r] by (simp add: protocol_of_rollouts)
qed

lemma protocol_of_stop:
  "protocol_of held (p\<lparr>guard := (\<lambda>_. False), bar := s\<rparr>) = stop (view held s) (protocol_of held p)"
  by (simp add: protocol_of_def stop_def)

lemma tracked_for_rotation:
  assumes "plain_inv names (protocol_of held p)" "bus p \<noteq> []"
  shows "tr_bus (view held (bar p)) \<noteq> []" "optional (notif p) = None \<or> or_empty (tr_notif (view held (bar p))) \<noteq> []"
  using assms by (auto simp: plain_inv_def optional_def or_empty_def split: option.splits)

lemma sys_step_simulates:
  assumes contract: "consumer_contract L held (Namespace (Meta (inst (bar p))))" "failure_contract L held (Namespace (Meta (inst (bar p))))"
    and inv: "plain_inv names (protocol_of held p)" and "sys_step calm names C L held p q"
  shows "(step calm names)\<^sup>=\<^sup>= (protocol_of held p) (protocol_of held q) \<and> Meta (inst (bar q)) = Meta (inst (bar p))"
  using assms(4)
proof (cases rule: sys_step.cases)
  case (environment w sp)
  then show ?thesis by (simp add: protocol_of_def view_def)
next
  case (messaging labels c s)
  from messaging_phase_spec [OF contract(1) messaging(2)]
  have c: "c \<noteq> []" "view held s = protect_spec c (view held (bar p))" by simp_all
  then have "protocol_of held q = observe_bus c (protocol_of held p)"
    by (simp add: messaging(1) protocol_of_def observe_bus_def)
  with messaging c messaging_meta [OF messaging(2)] show ?thesis
    by (auto intro: step.bus)
next
  case (notifications labels x s)
  from notifications_phase_spec [OF contract(1) notifications(2)]
  have x: "x \<noteq> Some []" "view held s = protect_notif_spec x (view held (bar p))" by simp_all
  then have "protocol_of held q = observe_notif x (protocol_of held p)"
    by (simp add: notifications(1) protocol_of_def observe_notif_def)
  with notifications x notifications_meta [OF notifications(2)] show ?thesis
    by (auto intro: step.notifications)
next
  case service
  then show ?thesis
    using service_simulates [where held = held] by (auto intro: step.service)
next
  case (finish s)
  from rotation_phase_spec [OF contract(1) tracked_for_rotation [OF inv finish(2)] finish(3)]
  have "protocol_of held q = Protocol.finish (protocol_of held p)"
    by (simp add: finish(1) protocol_of_def finish_def)
  with finish rotation_meta [OF finish(3)] show ?thesis
    by (auto intro: step.finish)
next
  case (messaging_error labels r s)
  with messaging_phase_fails [OF contract messaging_error(2)] messaging_meta [OF messaging_error(2)] show ?thesis
    by (auto simp: protocol_of_stop intro: step.bus_error)
next
  case (notifications_error labels r s)
  with notifications_phase_fails [OF contract notifications_error(2)] notifications_meta [OF notifications_error(2)] show ?thesis
    by (auto simp: protocol_of_stop intro: step.notifications_error)
next
  case (finish_error r s)
  with rotation_phase_fails [OF contract tracked_for_rotation [OF inv finish_error(2)] finish_error(3)]
    rotation_meta [OF finish_error(3)] show ?thesis
    by (auto simp: protocol_of_stop intro: step.finish_error)
qed

lemma fresh_start: "sys_start held p \<Longrightarrow> protocol_of held p = start (held (world (bar p)))"
  by (simp add: sys_start_def protocol_of_def start_def view_def)

lemma sys_invariant:
  assumes "sys_reachable calm names C L held ns p" and contract: "consumer_contract L held ns" "failure_contract L held ns"
  shows "reachable calm names (protocol_of held p) \<and> Namespace (Meta (inst (bar p))) = ns"
  using assms(1)
proof (induction rule: sys_reachable.induct)
  case (initial p)
  then show ?case
    by (simp add: fresh_start sys_start_def reachable.initial)
next
  case (step p q)
  then have c: "consumer_contract L held (Namespace (Meta (inst (bar p))))"
    "failure_contract L held (Namespace (Meta (inst (bar p))))"
    using contract by simp_all
  from step.IH have r: "reachable calm names (protocol_of held p)" by blast
  from sys_step_simulates [OF c reachable_plain [OF r] step.hyps(2)] r step.IH show ?case
    by (auto intro: reachable.step)
qed

section \<open>Properties\<close>

text \<open>
  C3. The controller refines the protocol: whatever sequence of passes, complete or ended by an error,
  of rollouts and of changes of the cluster and of the spec leads to a state, the names the code tracks, the finalizers in the cluster and
  the secrets the services were given and use are a reachable state of the protocol; a restriction of
  the new names carries over.
\<close>

theorem controller_refines_protocol:
  assumes "sys_reachable calm names C L held ns p" and "consumer_contract L held ns" and "failure_contract L held ns"
  shows "reachable calm names (protocol_of held p)"
  using sys_invariant [OF assms] by blast

text \<open>
  C1. Secrets in use are protected: if a new secret of a bus reaches the controller only after it
  finished the previous rotation of that bus, then at every moment each secret of the message bus and of
  the notifications bus that pods of the API, the Worker or the KeystoneListener may still read carries
  the consumer finalizer. This holds through first deployments, rotations of both buses at the same
  time, the enabling and disabling of the notifications bus, and passes that end with an error anywhere.
\<close>

theorem used_secrets_protected:
  assumes "sys_reachable True names C L held ns p" and "consumer_contract L held ns" and "failure_contract L held ns"
  shows "uses (rollouts p k) \<subseteq> held (world (bar p))"
proof -
  have "reachable True names (protocol_of held p)" using sys_invariant [OF assms] by blast
  from calm_protected [OF reachable_calm [OF this], of k] show ?thesis by simp
qed

section \<open>Runs of the system\<close>

text \<open>The external calls at the end of a pass succeed, at the latest after a change of the cluster.\<close>

definition responsive :: "('w, 'c) parentlib \<Rightarrow> ('w \<Rightarrow> string set) \<Rightarrow> bool" where
  "responsive L held \<longleftrightarrow> (\<forall>(s :: ('w, 'c) parent_state) c n ready. \<exists>w s'. held w = held (world s) \<and>
     run_state (rotation_phase L c n ready) (s\<lparr>world := w\<rparr>) = (Inr (), s'))"

lemma sys_reachable_steps:
  "(sys_step calm names C L held)\<^sup>*\<^sup>* p q \<Longrightarrow> sys_reachable calm names C L held ns p \<Longrightarrow>
    sys_reachable calm names C L held ns q"
  by (induction rule: rtranclp.induct) (auto intro: sys_reachable.step)

lemma services_run:
  "service_step\<^sup>*\<^sup>* p q \<Longrightarrow> (sys_step calm names C L held)\<^sup>*\<^sup>* p q"
  by (induction rule: rtranclp.induct) (auto intro: sys_step.service rtranclp.rtrancl_into_rtrancl)

lemma environment_step:
  "held w = held (world (bar p)) \<Longrightarrow>
    sys_step calm names C L held p (p\<lparr>bar := (bar p)\<lparr>world := w, inst := (inst (bar p))\<lparr>Spec := sp\<rparr>\<rparr>\<rparr>)"
  by (rule sys_step.environment)

lemma can_finish:
  assumes "responsive L held" "consumer_contract L held (Namespace (Meta (inst (bar p))))" "bus p \<noteq> []"
    and inv: "plain_inv names (protocol_of held p)"
  obtains q where "(sys_step calm names C L held)\<^sup>*\<^sup>* p q" "protocol_of held q = finish (protocol_of held p)"
    "Meta (inst (bar q)) = Meta (inst (bar p))"
proof -
  let ?g = "\<forall>k. guard p k" and ?n = "optional (notif p)"
  from assms(1) obtain w s' where w: "held w = held (world (bar p))"
    and run: "run_state (rotation_phase L (bus p) ?n ?g) ((bar p)\<lparr>world := w\<rparr>) = (Inr (), s')"
    unfolding responsive_def by blast
  define p1 where "p1 = p\<lparr>bar := (bar p)\<lparr>world := w\<rparr>\<rparr>"
  have "sys_step calm names C L held p p1"
    using environment_step [of held w p, OF w, where sp = "Spec (inst (bar p))"] by (simp add: p1_def)
  moreover have "sys_step calm names C L held p1 (p1\<lparr>guard := (\<lambda>_. False), bar := s'\<rparr>)"
    by (rule sys_step.finish) (use run assms(3) in \<open>simp_all add: p1_def\<close>)
  ultimately have "(sys_step calm names C L held)\<^sup>*\<^sup>* p (p1\<lparr>guard := (\<lambda>_. False), bar := s'\<rparr>)"
    by (meson converse_rtranclp_into_rtranclp rtranclp.rtrancl_refl)
  moreover note tracked_for_rotation [OF inv assms(3)]
  then have "view held s' = rotate_spec ?g (bus p) ?n (view held (bar p))"
    using rotation_phase_spec [OF _ _ _ run, of held] assms(2) w by (simp add: view_def)
  then have "protocol_of held (p1\<lparr>guard := (\<lambda>_. False), bar := s'\<rparr>) = finish (protocol_of held p)"
    by (simp add: protocol_of_def finish_def p1_def)
  moreover have "Meta (inst (bar (p1\<lparr>guard := (\<lambda>_. False), bar := s'\<rparr>))) = Meta (inst (bar p))"
    using rotation_meta [OF run] by simp
  ultimately show thesis by (rule that)
qed

lemma roll_out_system:
  assumes "bus p \<noteq> []"
  shows "(sys_step calm names C L held)\<^sup>*\<^sup>* p (roll_out k p)" "bar (roll_out k p) = bar p"
    "protocol_of held (roll_out k p) = roll_out k (protocol_of held p)"
  by (rule services_run [OF roll_out_run [OF assms]])
    (simp_all add: roll_out_def serve_def child_def Let_def protocol_of_def)

text \<open>From any state the system can run through the rotation to the names that were read last.\<close>

lemma can_complete:
  assumes L: "responsive L held" "consumer_contract L held (Namespace (Meta (inst (bar p))))" "bus p \<noteq> []"
    and inv: "plain_inv names (protocol_of held p)"
  obtains q where "(sys_step calm names C L held)\<^sup>*\<^sup>* p q" "protocol_of held q = complete (protocol_of held p)"
    "Meta (inst (bar q)) = Meta (inst (bar p))"
proof -
  define r where "r = roll_out KeystoneListener (roll_out Worker (roll_out API p))"
  have bus: "bus (roll_out Worker (roll_out API p)) \<noteq> []" "bus (roll_out API p) \<noteq> []"
    using L(3) by (simp_all add: roll_out_sel)
  note run = roll_out_system [OF L(3)] roll_out_system [OF bus(2)] roll_out_system [OF bus(1)]
  have r: "(sys_step calm names C L held)\<^sup>*\<^sup>* p r" "bar r = bar p" "bus r = bus p" "notif r = notif p"
    "protocol_of held r = roll_out KeystoneListener (roll_out Worker (roll_out API (protocol_of held p)))"
    unfolding r_def by (rule rtranclp_trans [OF rtranclp_trans [OF run(1) run(4)] run(7)]) (simp_all add: run roll_out_sel)
  have "plain_inv names (protocol_of held r)"
    using inv by (simp add: plain_defs r(5) roll_out_sel roll_out_state)
  from can_finish [OF L(1) _ _ this] L(2,3) obtain q where
    "(sys_step calm names C L held)\<^sup>*\<^sup>* r q" "protocol_of held q = finish (protocol_of held r)" "Meta (inst (bar q)) = Meta (inst (bar r))"
    by (metis r(2,3))
  then show thesis
    using r by (intro that [of q]) (auto simp: complete_def intro: rtranclp_trans)
qed


section \<open>A system that runs\<close>

text \<open>
  The cluster is a list: the name of the published bus secret, that of the published notifications
  secret, and the secrets that carry the finalizer.
\<close>

definition ex_held :: "string list \<Rightarrow> string set" where
  "ex_held w = set (drop 2 w)"

definition ex_put :: "string list \<Rightarrow> string list \<Rightarrow> string list" where
  "ex_put w xs = hd w # hd (tl w) # xs"

lemma ex_held_put [simp]: "ex_held (ex_put w xs) = set xs" "ex_held (c # n # xs) = set xs"
  by (simp_all add: ex_held_def ex_put_def)

definition ex_buslib :: "(string list, ex_conds) parentlib" where
  "ex_buslib = (ex_parentlib [] [])\<lparr>
     TransportURL_CreateOrUpdate := (\<lambda>f tu w. ((case f tu of
         Inl e \<Rightarrow> Inl e
       | Inr tu \<Rightarrow> Inr (ex_transport (if tu_Name tu = ''barbican-barbican-transport'' then hd w else hd (tl w)) tu)), w)),
     ManageSecretConsumerFinalizer := (\<lambda>ns s f w.
       (None, if f = TransportConsumerFinalizer then ex_put w (s # drop 2 w) else w)),
     RemoveSecretConsumerFinalizer := (\<lambda>ns s f w.
       (None, if f = TransportConsumerFinalizer then ex_put w (removeAll s (drop 2 w)) else w)),
     PruneSecretConsumerFinalizers := (\<lambda>ns f keep w.
       (None, if f = TransportConsumerFinalizer then ex_put w (filter (\<lambda>s. s \<in> set keep) (drop 2 w)) else w)),
     FinalizeSecretRotation := (\<lambda>ns old cur f ready w. (Inr (if ready then cur else old),
       if f = TransportConsumerFinalizer \<and> ready \<and> old \<noteq> cur then ex_put w (removeAll old (drop 2 w)) else w))\<rparr>"

lemma ex_held_drop: "set (drop 2 w) = ex_held w"
  by (simp add: ex_held_def)

lemma ex_buslib_contract: "consumer_contract ex_buslib ex_held ns"
  unfolding consumer_contract_def
  by (intro conjI allI impI) (auto simp: ex_buslib_def ex_held_drop released_def split: if_splits)

lemma ex_buslib_failures: "failure_contract ex_buslib ex_held ns"
  unfolding failure_contract_def
  by (intro conjI allI) (auto simp: ex_buslib_def ex_held_drop released_def)

lemma ex_bus_responsive: "responsive ex_buslib ex_held"
  unfolding responsive_def
proof (intro allI)
  fix s :: "(string list, ex_conds) parent_state" and c n ready
  show "\<exists>w s'. ex_held w = ex_held (world s) \<and>
      run_state (rotation_phase ex_buslib c n ready) (s\<lparr>world := w\<rparr>) = (Inr (), s')"
    by (intro exI [of _ "world s"])
      (simp add: rotation_phase_def rotate_def rotate_notifications_def prune_phase_def prune_def b_try_def
        remove_consumer_def transportURLDeleted_def ex_buslib_def split: option.split)
qed

definition ex_system :: "(string list, ex_conds) system" where
  "ex_system = \<lparr>bus = [], notif = [], guard = (\<lambda>_. False), rollouts = (\<lambda>_. idle),
     bar = \<lparr>world = [], inst = ex_barbican [], trace = []\<rparr>\<rparr>"

definition ex_names :: "string set" where
  "ex_names = {''first'', ''second'', ''third''}"

abbreviation ex_reachable :: "bool \<Rightarrow> (string list, ex_conds) system \<Rightarrow> bool" where
  "ex_reachable calm \<equiv> sys_reachable calm ex_names ex_condlib ex_buslib ex_held ''openstack''"

abbreviation ex_runs :: "bool \<Rightarrow> (string list, ex_conds) system \<Rightarrow> (string list, ex_conds) system \<Rightarrow> bool" where
  "ex_runs calm \<equiv> (sys_step calm ex_names ex_condlib ex_buslib ex_held)\<^sup>*\<^sup>*"

lemma ex_initial: "ex_reachable calm ex_system" "protocol_of ex_held ex_system = start {}" "Meta (inst (bar ex_system)) = ex_meta"
proof -
  have start: "sys_start ex_held ex_system"
    by (simp add: sys_start_def ex_system_def ex_held_def ex_barbican_def ex_status_def)
  then show "ex_reachable calm ex_system"
    by (rule sys_reachable.initial) (simp add: ex_system_def ex_barbican_def ex_meta_def)
  show "protocol_of ex_held ex_system = start {}"
    using fresh_start [OF start] by (simp add: ex_system_def ex_held_def)
qed (simp add: ex_system_def ex_barbican_def)

text \<open>The two reads of a pass, after a change of the cluster or of the spec.\<close>

lemma can_read_bus:
  assumes "Meta (inst (bar p)) = ex_meta" "c \<in> ex_names" "calm \<longrightarrow> calm_change c (bus p) (tr_bus (view ex_held (bar p)))"
  obtains q where "ex_runs calm p q" "protocol_of ex_held q = observe_bus c (protocol_of ex_held p)" "Meta (inst (bar q)) = ex_meta"
proof -
  define w where "w = c # [] # drop 2 (world (bar p))"
  define p1 where "p1 = p\<lparr>bar := (bar p)\<lparr>world := w\<rparr>\<rparr>"
  have w: "ex_held w = ex_held (world (bar p))" by (simp add: w_def ex_held_drop)
  have "c \<noteq> []" using assms(2) by (auto simp: ex_names_def)
  then obtain s where run: "run_state (messaging_phase ex_condlib ex_buslib []) (bar p1) = (Inr c, s)"
    by (simp add: messaging_phase_def transportURLCreateOrUpdate_def set_transport_def Let_def w_def p1_def
        ex_transport_def manage_finalizer_def b_try_def ex_buslib_def transport_name_def assms(1) ex_meta_def)
  define q where "q = p1\<lparr>bus := c, guard := (\<lambda>_. False), bar := s\<rparr>"
  have "sys_step calm ex_names ex_condlib ex_buslib ex_held p p1"
    using environment_step [of ex_held w p, OF w, where sp = "Spec (inst (bar p))"] by (simp add: p1_def)
  moreover have "sys_step calm ex_names ex_condlib ex_buslib ex_held p1 q"
    unfolding q_def by (rule sys_step.messaging [OF run assms(2)]) (use assms(3) w in \<open>simp add: p1_def calm_change_def\<close>)
  moreover have "protocol_of ex_held q = observe_bus c (protocol_of ex_held p)"
    using messaging_phase_spec [OF ex_buslib_contract run] w
    by (simp add: q_def p1_def protocol_of_def observe_bus_def view_def)
  moreover have "Meta (inst (bar q)) = ex_meta"
    using messaging_meta [OF run] assms(1) by (simp add: q_def p1_def)
  ultimately show thesis
    by (meson that converse_rtranclp_into_rtranclp rtranclp.rtrancl_refl)
qed

lemma can_read_notifications:
  assumes "Meta (inst (bar p)) = ex_meta" "n \<notin> ex_names" "calm \<longrightarrow> calm_change n (notif p) (tracked_notif (view ex_held (bar p)))"
  obtains q where "ex_runs calm p q" "protocol_of ex_held q = observe_notif (optional n) (protocol_of ex_held p)"
    "Meta (inst (bar q)) = ex_meta"
proof -
  define w where "w = [] # n # drop 2 (world (bar p))"
  define sp where "sp = (let i = Spec (inst (bar p)); b = Base i in i\<lparr>Base := b\<lparr>sb_Template := (sb_Template b)\<lparr>
    NotificationsBus := (if n = [] then None else Some (MessagingBus (sb_Template b)))\<rparr>\<rparr>\<rparr>)"
  define p1 where "p1 = p\<lparr>bar := (bar p)\<lparr>world := w, inst := (inst (bar p))\<lparr>Spec := sp\<rparr>\<rparr>\<rparr>"
  have w: "ex_held w = ex_held (world (bar p))" by (simp add: w_def ex_held_drop)
  obtain s where run: "run_state (notifications_phase ex_condlib ex_buslib []) (bar p1) = (Inr (optional n), s)"
    by (cases "n = []"; simp add: notifications_phase_def transportURLCreateOrUpdate_def set_transport_def Let_def w_def p1_def
        ex_transport_def manage_finalizer_def b_try_def ex_buslib_def notifications_name_def assms(1) ex_meta_def sp_def optional_def)
  define q where "q = p1\<lparr>notif := or_empty (optional n), guard := (\<lambda>_. False), bar := s\<rparr>"
  have n: "or_empty (optional n) = n" by (simp add: optional_def or_empty_def)
  have "sys_step calm ex_names ex_condlib ex_buslib ex_held p p1"
    unfolding p1_def by (rule environment_step [OF w])
  moreover have "sys_step calm ex_names ex_condlib ex_buslib ex_held p1 q"
    unfolding q_def by (rule sys_step.notifications [OF run])
      (use assms(2,3) w in \<open>simp_all add: p1_def calm_change_def n\<close>)
  moreover have "protocol_of ex_held q = observe_notif (optional n) (protocol_of ex_held p)"
    using notifications_phase_spec [OF ex_buslib_contract run] w
    by (simp add: q_def p1_def protocol_of_def observe_notif_def view_def)
  moreover have "Meta (inst (bar q)) = ex_meta"
    using notifications_meta [OF run] assms(1) by (simp add: q_def p1_def)
  ultimately show thesis
    by (meson that converse_rtranclp_into_rtranclp rtranclp.rtrancl_refl)
qed

text \<open>The first deployment: all services run with \<open>first\<close> and \<open>events\<close>.\<close>

definition ex_deployed :: protocol where
  "ex_deployed = complete (observe_notif (Some ''events'') (observe_bus ''first'' (start {})))"

lemma ex_deployed_state:
  "bus ex_deployed = ''first''" "notif ex_deployed = ''events''" "tr_bus (state ex_deployed) = ''first''"
  "tracked_notif (state ex_deployed) = ''events''" "protected (state ex_deployed) = {''first'', ''events''}"
  "in_use (rollouts ex_deployed k) = {(''first'', ''events'')}"
proof -
  have "plain_inv ex_names (observe_bus ''first'' (start {}))"
    by (intro bus_plain start_plain) (simp_all add: ex_names_def)
  then have "plain_inv ex_names (observe_notif (Some ''events'') (observe_bus ''first'' (start {})))"
    by (rule notifications_plain) (simp_all add: ex_names_def or_empty_def)
  note settles = complete_settles [OF this, folded ex_deployed_def]
  show "bus ex_deployed = ''first''" "notif ex_deployed = ''events''" "tr_bus (state ex_deployed) = ''first''"
    "tracked_notif (state ex_deployed) = ''events''" "protected (state ex_deployed) = {''first'', ''events''}"
    "in_use (rollouts ex_deployed k) = {(''first'', ''events'')}"
    using settles by (auto simp: observe_defs or_empty_def)
qed

lemma ex_reachable_plain: "ex_reachable calm p \<Longrightarrow> plain_inv ex_names (protocol_of ex_held p)"
  using sys_invariant [OF _ ex_buslib_contract ex_buslib_failures] reachable_plain by blast

lemma ex_first:
  obtains p where "ex_reachable calm p" "protocol_of ex_held p = ex_deployed" "Meta (inst (bar p)) = ex_meta"
proof -
  obtain q where q: "ex_runs calm ex_system q" "protocol_of ex_held q = observe_bus ''first'' (start {})" "Meta (inst (bar q)) = ex_meta"
  proof (rule can_read_bus [OF ex_initial(3), of "''first''" calm, unfolded ex_initial(2)])
    show "calm \<longrightarrow> calm_change ''first'' (bus ex_system) (tr_bus (view ex_held (bar ex_system)))"
      by (simp add: calm_change_def ex_system_def)
  qed (simp add: ex_names_def)
  have nq: "notif q = []" "view ex_held (bar q) = state (observe_bus ''first'' (start {}))"
    using arg_cong [OF q(2), of notif] arg_cong [OF q(2), of state] by (simp_all add: observe_bus_def start_def)
  obtain r where r: "ex_runs calm q r" "protocol_of ex_held r = observe_notif (optional ''events'') (protocol_of ex_held q)" "Meta (inst (bar r)) = ex_meta"
    by (rule can_read_notifications [OF q(3), of "''events''" calm])
      (simp_all add: nq ex_names_def calm_change_def observe_bus_def protect_spec_def start_def or_empty_def)
  have reach: "ex_reachable calm r"
    using sys_reachable_steps [OF r(1) sys_reachable_steps [OF q(1) ex_initial(1)]] .
  have "bus r \<noteq> []"
    using arg_cong [OF r(2), of bus] q(2) by (simp add: observe_defs)
  then obtain p where p: "ex_runs calm r p" "protocol_of ex_held p = complete (protocol_of ex_held r)" "Meta (inst (bar p)) = ex_meta"
    using can_complete [OF ex_bus_responsive ex_buslib_contract _ ex_reachable_plain [OF reach]] r(3) by metis
  show thesis
    by (rule that [OF sys_reachable_steps [OF p(1) reach] _ p(3)]) (simp add: p(2) r(2) q(2) ex_deployed_def optional_def)
qed

text \<open>Then the notifications bus is disabled; until the services follow, its secret stays in use.\<close>

lemma ex_disabled:
  obtains p where "ex_reachable calm p" "bus p = ''first''" "notif p = []" "uses (rollouts p API) = {''first'', ''events''}"
proof -
  obtain p where p: "ex_reachable calm p" "protocol_of ex_held p = ex_deployed" "Meta (inst (bar p)) = ex_meta"
    using ex_first .
  have np: "notif p = ''events''" "tracked_notif (view ex_held (bar p)) = ''events''"
    using ex_deployed_state unfolding p(2) [symmetric] by simp_all
  obtain q where q: "ex_runs calm p q" "protocol_of ex_held q = observe_notif (optional []) (protocol_of ex_held p)"
    by (rule can_read_notifications [OF p(3), of "[]" calm]) (use np in \<open>simp_all add: ex_names_def calm_change_def\<close>)
  have "rollouts q API = rollouts p API" "bus q = bus p" "notif q = []"
    using arg_cong [OF q(2), of rollouts] arg_cong [OF q(2), of bus] arg_cong [OF q(2), of notif]
    by (simp_all add: observe_defs optional_def or_empty_def)
  moreover have "in_use (rollouts p API) = {(''first'', ''events'')}" "bus p = ''first''"
    using ex_deployed_state unfolding p(2) [symmetric] by simp_all
  ultimately show thesis
    using sys_reachable_steps [OF q(1) p(1)] by (intro that [of q]) (auto simp: uses_def)
qed

theorem controller_refines_protocol_witness:
  "\<exists>p. ex_reachable True p \<and> bus p = ''first'' \<and> notif p = [] \<and> reachable True ex_names (protocol_of ex_held p)"
proof -
  obtain p where p: "ex_reachable True p" "bus p = ''first''" "notif p = []"
    using ex_disabled by blast
  with controller_refines_protocol [OF p(1) ex_buslib_contract ex_buslib_failures] show ?thesis by blast
qed

theorem used_secrets_protected_witness:
  "\<exists>p. ex_reachable True p \<and> notif p = [] \<and> uses (rollouts p API) = {''first'', ''events''} \<and>
     uses (rollouts p API) \<subseteq> ex_held (world (bar p))"
proof -
  obtain p where p: "ex_reachable True p" "notif p = []" "uses (rollouts p API) = {''first'', ''events''}"
    using ex_disabled by blast
  with used_secrets_protected [OF p(1) ex_buslib_contract ex_buslib_failures, of API] show ?thesis by blast
qed


text \<open>
  C17. Without that restriction the protection fails. Two secrets are published in quick succession: the
  API has rolled out to the second one when the third arrives, the rollout as a whole is not ready, and
  the pass prunes the finalizer of the second secret while the pods of the API still use it. Every call
  behaves as its contract says.
\<close>

theorem rapid_rotation_unprotects:
  "\<exists>p. consumer_contract ex_buslib ex_held ''openstack'' \<and> failure_contract ex_buslib ex_held ''openstack'' \<and>
     ex_reachable False p \<and> uses (rollouts p API) = {''second'', ''events''} \<and> ex_held (world (bar p)) = {''first'', ''third'', ''events''}"
proof -
  obtain p where p: "ex_reachable False p" "protocol_of ex_held p = ex_deployed" "Meta (inst (bar p)) = ex_meta"
    using ex_first .
  obtain q where q: "ex_runs False p q" "protocol_of ex_held q = observe_bus ''second'' ex_deployed" "Meta (inst (bar q)) = ex_meta"
    using can_read_bus [OF p(3), of "''second''" False] by (auto simp: p(2) ex_names_def)
  have "bus q \<noteq> []"
    using arg_cong [OF q(2), of bus] by (simp add: observe_bus_def)
  note r = roll_out_system(1,2) [OF this, where k = API]
    roll_out_system(3) [OF this, where k = API and held = ex_held, unfolded q(2)]
  obtain t where t: "ex_runs False (roll_out API q) t"
    "protocol_of ex_held t = observe_bus ''third'' (roll_out API (observe_bus ''second'' ex_deployed))" "Meta (inst (bar t)) = ex_meta"
    using can_read_bus [of "roll_out API q" "''third''" False] q(3) by (auto simp: r ex_names_def)
  have reach: "ex_reachable False t"
    using sys_reachable_steps [OF t(1) sys_reachable_steps [OF r(1) sys_reachable_steps [OF q(1) p(1)]]] .
  have "bus t \<noteq> []"
    using arg_cong [OF t(2), of bus] by (simp add: observe_bus_def)
  then obtain u where u: "ex_runs False t u" "protocol_of ex_held u = finish (protocol_of ex_held t)"
    using can_finish [OF ex_bus_responsive ex_buslib_contract _ ex_reachable_plain [OF reach]] by metis
  have "rollouts u API = rollouts (finish (protocol_of ex_held t)) API" "ex_held (world (bar u)) = protected (state (finish (protocol_of ex_held t)))"
    unfolding u(2) [symmetric] by simp_all
  moreover have "uses (rollouts (finish (protocol_of ex_held t)) API) = {''second'', ''events''}"
    by (auto simp: finish_def t(2) observe_bus_def roll_out_sel uses_def ex_deployed_state)
  moreover have "protected (state (finish (protocol_of ex_held t))) = {''first'', ''third'', ''events''}"
  proof -
    let ?t = "protocol_of ex_held t"
    have g: "(\<forall>k. guard ?t k) = False" by (simp add: t(2) observe_bus_def)
    have v: "state ?t = protect_spec ''third'' (protect_spec ''second'' (state ex_deployed))"
      by (simp add: t(2) observe_bus_def roll_out_state)
    have names: "tr_bus (state ?t) = ''first''" "tracked_notif (state ?t) = ''events''"
      "protected (state ?t) = {''third'', ''second'', ''first'', ''events''}"
      unfolding v by (simp_all add: protect_spec_def ex_deployed_state)
    have read: "bus ?t = ''third''" "notif ?t = ''events''"
      by (simp_all add: t(2) observe_bus_def roll_out_sel ex_deployed_state)
    have "protected (state (finish ?t)) = protected (rotate_spec False (bus ?t) (optional (notif ?t)) (state ?t))"
      unfolding finish_def g by simp
    also have "\<dots> = protected (state ?t) \<inter> {tr_bus (state ?t), bus ?t, tracked_notif (state ?t), notif ?t}"
      using rotate_protected [OF plain_apart [OF ex_reachable_plain [OF reach]], of False] by simp
    also have "\<dots> = {''first'', ''third'', ''events''}"
      unfolding names read by auto
    finally show ?thesis .
  qed
  ultimately show ?thesis
    using ex_buslib_contract ex_buslib_failures sys_reachable_steps [OF u(1) reach] by (intro exI [of _ u]) simp
qed

end
