(* ===== verification/Credential_Rotation.thy ===== *)
theory Credential_Rotation
  imports Rotation
begin

text \<open>
  The rotation of the application credential. The message bus and notifications secrets are named in
  the children's specs and hashed into the input the children must have applied before a superseded
  secret is released. The application credential reaches the pods only through the rendered
  configuration: its name is in no child's spec and in no hash. This theory states that as
  non-interference: \<open>blind f m\<close> says that a run of \<open>m\<close> is not affected by the part of the instance that
  \<open>f\<close> replaces.
\<close>

section \<open>Non-interference\<close>

definition map_inst :: "('i \<Rightarrow> 'i) \<Rightarrow> ('w, 'i, 'e) rstate \<Rightarrow> ('w, 'i, 'e) rstate" where
  "map_inst f s = s\<lparr>inst := f (inst s)\<rparr>"

lemma map_inst_simps [simp]:
  "inst (map_inst f s) = f (inst s)" "world (map_inst f s) = world s" "trace (map_inst f s) = trace s"
  by (simp_all add: map_inst_def)

definition blind :: "('i \<Rightarrow> 'i) \<Rightarrow> (('w, 'i, 'e) rstate, 'a) state \<Rightarrow> bool" where
  "blind f m \<longleftrightarrow> (\<forall>s. run_state m (map_inst f s) =
     (fst (run_state m s), map_inst f (snd (run_state m s))))"

named_theorems blind_rules "runs that a part of the instance does not affect"

lemma blind_return [blind_rules]: "blind f (State_Monad.return a)"
  by (simp add: blind_def)

lemma blind_fall [blind_rules]: "blind f (fall_through a)"
  and blind_done [blind_rules]: "blind f (done_with r)"
  and blind_b_return [blind_rules]: "blind f (b_return q)"
  by (simp_all add: blind_def)

lemma blind_invoke [blind_rules]: "blind f (invoke ev g)"
  and blind_invoke_obs [blind_rules]: "blind f (invoke_obs obs g)"
  by (simp_all add: blind_def map_inst_def)

lemma blind_modify: "(\<And>i. g (f i) = f (g i)) \<Longrightarrow> blind f (modify g)"
  by (simp add: blind_def map_inst_def)

lemma blind_bind [blind_rules]:
  assumes "blind f m" "\<And>a. blind f (k a)"
  shows "blind f (State_Monad.bind m k)"
  using assms unfolding blind_def by (simp split: prod.splits)

lemma blind_proceed [blind_rules]:
  assumes "blind f m" "\<And>a. blind f (k a)"
  shows "blind f (proceed m k)"
  unfolding proceed_def
  by (rule blind_bind [OF assms(1)]) (auto split: sum.splits intro: assms(2) blind_return)

text \<open>The continuation may read the instance where the replaced part makes no difference.\<close>

lemma blind_instance [blind_rules]:
  assumes "\<And>i. k (f i) = k i" "\<And>i. blind f (k i)"
  shows "blind f (State_Monad.bind the_instance k)"
  using assms by (simp add: blind_def)

lemma blind_if [blind_rules]: "blind f m \<Longrightarrow> blind f n \<Longrightarrow> blind f (if b then m else n)"
  by simp

lemma blind_sum [blind_rules]:
  "(\<And>a. blind f (g a)) \<Longrightarrow> (\<And>b. blind f (k b)) \<Longrightarrow> blind f (case x of Inl a \<Rightarrow> g a | Inr b \<Rightarrow> k b)"
  by (simp split: sum.split)

lemma blind_option [blind_rules]:
  "blind f m \<Longrightarrow> (\<And>a. blind f (g a)) \<Longrightarrow> blind f (case x of None \<Rightarrow> m | Some a \<Rightarrow> g a)"
  by (simp split: option.split)

section \<open>The children do not see the application credential\<close>

definition with_credential :: "string \<Rightarrow> 'c Barbican \<Rightarrow> 'c Barbican" where
  "with_credential x i =
     i\<lparr>Spec := (Spec i)\<lparr>Base := (Base (Spec i))\<lparr>spec_AppCredSecret := x\<rparr>\<rparr>\<rparr>"

lemma inherit_credential [simp]: "inherit (b\<lparr>spec_AppCredSecret := x\<rparr>) ct = inherit b ct"
  by (auto simp: inherit_def Let_def)

lemma with_credential_simps [simp]:
  "Meta (with_credential x i) = Meta i" "Status (with_credential x i) = Status i"
  "Template (with_credential x i) = Template i"
  "spec_AppCredSecret (Base (Spec (with_credential x i))) = x"
  "api_spec (with_credential x i) t = api_spec i t"
  "worker_spec (with_credential x i) t = worker_spec i t"
  "listener_spec (with_credential x i) t = listener_spec i t"
  "adopt_child L (with_credential x i) = adopt_child L i"
  by (simp_all add: with_credential_def api_spec_def worker_spec_def listener_spec_def
      adopt_child_def fun_eq_iff Let_def)

lemma blind_status [blind_rules]:
  "blind (with_credential x) (b_status g)"
  "blind (with_credential x) (b_set C d)"
  "blind (with_credential x) (b_mark C t m)"
  by (simp_all add: b_status_def b_set_def b_mark_def blind_modify with_credential_def
      upd_bconds_def upd_bstatus_def)

lemma blind_steps [blind_rules]:
  "blind (with_credential x) m \<Longrightarrow> blind (with_credential x) (b_try m)"
  "blind (with_credential x) (b_fail C d r)"
  unfolding b_try_def b_fail_def by (intro blind_rules | assumption)+

lemma blind_deploy [blind_rules]: "blind (with_credential x) (deploy_child C kind t m h call)"
  unfolding deploy_child_def by (intro blind_rules)

lemma blind_children: "blind (with_credential x) (children_phase C L bus notif)"
proof -
  have "blind (with_credential x) (last_child C L bus notif h ready)" for h ready
    unfolding last_child_def by (intro blind_rules) simp_all
  then show ?thesis
    unfolding children_phase_def by (intro blind_instance blind_proceed blind_rules)
      (simp split: sum.split)
qed


section \<open>The rotation of the credential\<close>

lemma frame_kept:
  "state_io_rel (keeps f) m \<Longrightarrow> run_state m s = (r, s') \<Longrightarrow> f (inst s') = f (inst s)"
  by (metis keeps_def state_io_relD snd_conv)

lemma notifications_keep_credential:
  "state_io_rel (keeps (\<lambda>i. (Spec i, ApplicationCredentialSecret (Status i)))) (rotate_notifications L n g)"
  unfolding rotate_notifications_def rotate_def remove_consumer_def transportURLDeleted_def b_try_def
    b_return_def b_status_def
  by (intro keep_rules; simp add: state_io_rel_def keeps_def)

text \<open>The pass that completes ends with the rotation of the tracked credential to the one in the spec.\<close>

lemma rotation_finalizes_credential:
  assumes "run_state (rotation_phase L t n g) s = (Inr u, s')"
  shows "EvFinalizeRotation (ApplicationCredentialSecret (Status (inst s)))
    (spec_AppCredSecret (Base (Spec (inst s)))) ACConsumerFinalizer g \<in> set (trace s')"
proof -
  let ?ac = "\<lambda>i. (Spec i, ApplicationCredentialSecret (Status i))"
  from assms obtain n1 s1 where
    1: "run_state (rotate L (bs_TransportURLSecret (Status (inst s))) t TransportConsumerFinalizer g) s = (Inr n1, s1)"
    and r1: "run_state (proceed (rotate_notifications L n g) (\<lambda>_. do {
        i \<leftarrow> the_instance;
        proceed (rotate L (ApplicationCredentialSecret (Status i)) (spec_AppCredSecret (Base (Spec i)))
          ACConsumerFinalizer g) (\<lambda>name. do {
          b_status (\<lambda>s. s\<lparr>ApplicationCredentialSecret := name\<rparr>);
          prune_phase L t n
        })
      })) (s1\<lparr>inst := upd_bstatus (\<lambda>x. x\<lparr>bs_TransportURLSecret := n1\<rparr>) (inst s1)\<rparr>) = (Inr u, s')"
    unfolding rotation_phase_def run_bind_instance by (auto elim!: proceed_Inr simp del: run_proceed)
  then obtain s2 where
    2: "run_state (rotate_notifications L n g)
      (s1\<lparr>inst := upd_bstatus (\<lambda>x. x\<lparr>bs_TransportURLSecret := n1\<rparr>) (inst s1)\<rparr>) = (Inr (), s2)"
    and r2: "run_state (do {
        i \<leftarrow> the_instance;
        proceed (rotate L (ApplicationCredentialSecret (Status i)) (spec_AppCredSecret (Base (Spec i)))
          ACConsumerFinalizer g) (\<lambda>name. do {
          b_status (\<lambda>s. s\<lparr>ApplicationCredentialSecret := name\<rparr>);
          prune_phase L t n
        })
      }) s2 = (Inr u, s')"
    by (auto elim!: proceed_Inr simp del: run_proceed)
  have same: "?ac (inst s2) = ?ac (inst s)"
    using frame_kept [OF notifications_keep_credential 2] run_rotate [OF 1] by simp
  from r2 obtain m s3 where
    3: "run_state (rotate L (ApplicationCredentialSecret (Status (inst s2))) (spec_AppCredSecret (Base (Spec (inst s2))))
        ACConsumerFinalizer g) s2 = (Inr m, s3)"
    and r3: "run_state (prune_phase L t n)
        (s3\<lparr>inst := upd_bstatus (\<lambda>x. x\<lparr>ApplicationCredentialSecret := m\<rparr>) (inst s3)\<rparr>) = (Inr u, s')"
    unfolding run_bind_instance by (auto elim!: proceed_Inr simp del: run_proceed)
  have "EvFinalizeRotation (ApplicationCredentialSecret (Status (inst s)))
      (spec_AppCredSecret (Base (Spec (inst s)))) ACConsumerFinalizer g \<in> set (trace s3)"
    using 3 same by (auto simp: rotate_def split: sum.splits)
  moreover have "state_io_rel (emits (\<lambda>_. True)) (prune_phase L t n)"
    unfolding prune_phase_def prune_def by (intro emit_rules emits_try) simp_all
  from emits_trace [OF this r3] obtain evs where "trace s' = trace s3 @ evs" by auto
  ultimately show ?thesis by simp
qed

text \<open>
  C5. Nothing the controller does for the children depends on the name of the application
  credential, neither the specs it writes nor the readiness it reads off them: had the spec named
  any other secret, the phase would make the same calls and give the same answer. So when the
  credential is rotated while the three services report ready for their current inputs, they are
  reported ready again in the very pass that renders the new credential, and the pass releases the
  consumer finalizer of the old one (\<open>g\<close> is the guard of the release) although the pods still
  run with it. The comment where the new secret is protected promises the opposite.
\<close>

theorem credential_release_unguarded:
  assumes "run_state (children_phase C L t (or_empty n)) s = (Inr g, s2)"
  shows "run_state (children_phase C L t (or_empty n)) (map_inst (with_credential new) s) =
      (Inr g, map_inst (with_credential new) s2) \<and>
    (\<forall>u s3. run_state (rotation_phase L t n g) (map_inst (with_credential new) s2) = (Inr u, s3) \<longrightarrow>
      EvFinalizeRotation (ApplicationCredentialSecret (Status (inst s2))) new ACConsumerFinalizer g
        \<in> set (trace s3))"
  using blind_children [of new C L t "or_empty n"] assms
    rotation_finalizes_credential [of L t n g "map_inst (with_credential new) s2"]
  by (auto simp: blind_def)

text \<open>
  The sample: all services run with the current bus secret and the credential changes to \<open>ac-2\<close>. The
  guard is up in the same pass, and the pass releases the tracked credential.
\<close>

lemma ex_rotation_runs:
  "\<exists>s3. run_state (rotation_phase (ex_parentlib a c) c None g) s = (Inr (), s3)"
proof -
  have "\<exists>s'. run_state (rotate_notifications (ex_parentlib a c) None g) u = (Inr (), s')" for u
    by (auto simp: rotate_notifications_def remove_consumer_def transportURLDeleted_def b_try_def)
  then obtain f where "run_state (rotate_notifications (ex_parentlib a c) None g) u = (Inr (), f u)" for u
    by metis
  then show ?thesis by (simp add: rotation_phase_def rotate_def prune_phase_def prune_def b_try_def)
qed

theorem credential_release_unguarded_witness:
  "\<exists>s2 s3 old. run_state (children_phase ex_condlib (ex_parentlib ''bus'' ''bus'') ''bus'' [])
      (map_inst (with_credential ''ac-2'') ex_parent_state) = (Inr True, s2) \<and>
    run_state (rotation_phase (ex_parentlib ''bus'' ''bus'') ''bus'' None True) s2 = (Inr (), s3) \<and>
    EvFinalizeRotation old ''ac-2'' ACConsumerFinalizer True \<in> set (trace s3)"
proof -
  obtain s2 where "run_state (children_phase ex_condlib (ex_parentlib ''bus'' ''bus'') ''bus'' (or_empty None))
      ex_parent_state = (Inr True, s2)"
    using ex_deployed [OF ex_parent_no_bus, of "''bus''" "''bus''"] by (auto simp: or_empty_def)
  note pass = credential_release_unguarded [OF this, of "''ac-2''"]
  obtain s3 where "run_state (rotation_phase (ex_parentlib ''bus'' ''bus'') ''bus'' None True)
      (map_inst (with_credential ''ac-2'') s2) = (Inr (), s3)"
    using ex_rotation_runs by blast
  with pass show ?thesis by (auto simp: or_empty_def)
qed

end
