(* ===== verification/Schema.thy ===== *)
theory Schema
  imports Webhook Parent_Properties
begin

text \<open>
  The bounds that the kubebuilder markers of the type files put on a resource. The API server checks
  them after the defaulting webhook and before the validating one, for the Barbican and again for
  each child the operator writes. An optional list is absent when it is empty
  (\<open>omitempty\<close>), so its minimum length only concerns lists that are there.
\<close>

section \<open>The markers\<close>

text \<open>\<open>Enum=simple_crypto;pkcs11;kmip\<close> on \<open>SecretStore\<close>.\<close>

definition store_ok :: "SecretStore \<Rightarrow> bool" where
  "store_ok s \<longleftrightarrow> s \<in> set [SecretStoreSimpleCrypto, SecretStorePKCS11, SecretStoreKMIP]"

text \<open>\<open>MinItems=1\<close>, \<open>MaxItems=3\<close>, \<open>listType=set\<close>; the additional keys are a set, too.\<close>

definition template_ok :: "BarbicanTemplate \<Rightarrow> bool" where
  "template_ok t \<longleftrightarrow>
     list_all store_ok (EnabledSecretStores t) \<and> length (EnabledSecretStores t) \<le> 3 \<and>
     distinct (EnabledSecretStores t) \<and> store_ok (GlobalDefaultSecretStore t) \<and>
     distinct (SimpleCryptoAdditionalKEKs (PasswordSelectors t))"

text \<open>\<open>Minimum=0\<close> and \<open>Maximum=32\<close> on \<open>Replicas\<close>.\<close>

definition component_ok :: "BarbicanComponentTemplate \<Rightarrow> bool" where
  "component_ok c \<longleftrightarrow> (case Replicas c of None \<Rightarrow> True | Some n \<Rightarrow> 0 \<le> n \<and> n \<le> 32)"

text \<open>\<open>Minimum=10\<close> on the API timeout of the Barbican.\<close>

definition base_ok :: "BarbicanSpecBase \<Rightarrow> bool" where
  "base_ok b \<longleftrightarrow> template_ok (sb_Template b) \<and> 10 \<le> sb_APITimeout b"

definition spec_ok :: "BarbicanSpec \<Rightarrow> bool" where
  "spec_ok s \<longleftrightarrow> base_ok (Base s) \<and> component_ok (atc_Component (at_Core (BarbicanAPI s))) \<and>
     component_ok (wt_Component (BarbicanWorker s)) \<and>
     component_ok (lt_Component (BarbicanKeystoneListener s))"

definition core_spec_ok :: "BarbicanSpecCore \<Rightarrow> bool" where
  "core_spec_ok s \<longleftrightarrow> base_ok (core_Base s) \<and> component_ok (atc_Component (core_BarbicanAPI s)) \<and>
     component_ok (core_BarbicanWorker s) \<and> component_ok (core_BarbicanKeystoneListener s)"

definition sub_spec_ok :: "'a SubSpec_scheme \<Rightarrow> bool" where
  "sub_spec_ok s \<longleftrightarrow> template_ok (ss_Template s) \<and> component_ok (ss_Component s)"

lemmas schema_defs = template_ok_def component_ok_def base_ok_def spec_ok_def core_spec_ok_def
  sub_spec_ok_def

section \<open>Defaulting and the children keep the bounds\<close>

lemma base_default_ok: "base_ok (SpecBase_Default b) \<longleftrightarrow> base_ok b"
  by (simp add: SpecBase_Default_def base_ok_def template_ok_def Let_def)

lemma spec_default_ok: "spec_ok (BarbicanSpec_Default d s) \<longleftrightarrow> spec_ok s"
  by (simp add: BarbicanSpec_Default_def spec_ok_def base_default_ok Let_def)


lemma inherit_ok [simp]: "component_ok (inherit b c) \<longleftrightarrow> component_ok c"
  by (auto simp: inherit_def component_ok_def Let_def)

lemma children_ok:
  assumes "spec_ok (Spec i)"
  shows "adopt_child L i (api_spec i t) n a = Inr a' \<Longrightarrow>
      sub_spec_ok (sub_Spec a') \<and> 10 \<le> as_APITimeout (sub_Spec a')"
    and "adopt_child L i (worker_spec i t) n w = Inr w' \<Longrightarrow> sub_spec_ok (sub_Spec w')"
    and "adopt_child L i (listener_spec i t) n k = Inr k' \<Longrightarrow> sub_spec_ok (sub_Spec k')"
  using assms
  by (auto simp: spec_ok_def sub_spec_ok_def base_ok_def api_spec_def worker_spec_def
      listener_spec_def Let_def dest: adopt_child_result(4))

text \<open>
  C26. The bounds of the schema survive the operator. The defaulting webhook neither breaks nor repairs
  them on a Barbican; on the core spec of the control plane it turns the missing timeout into the
  default, and this is the only change that matters to the schema. Every child that the controller
  writes from a Barbican within the bounds is within the bounds of its own schema, with the API
  timeout at least the minimum of the top level, so the API server never rejects a child for the
  bounds.
\<close>

theorem written_specs_valid:
  "(spec_ok (BarbicanSpec_Default d s) \<longleftrightarrow> spec_ok s) \<and>
   (core_spec_ok (BarbicanSpecCore_Default d c) \<longleftrightarrow>
      core_spec_ok (core_Base_update (sb_APITimeout_update
        (\<lambda>t. if t = 0 then BarbicanAPITimeout d else t)) c)) \<and>
   (spec_ok (Spec i) \<longrightarrow>
      (adopt_child L i (api_spec i t) n a = Inr a' \<longrightarrow>
         sub_spec_ok (sub_Spec a') \<and> 10 \<le> as_APITimeout (sub_Spec a')) \<and>
      (adopt_child L i (worker_spec i t) n w = Inr w' \<longrightarrow> sub_spec_ok (sub_Spec w')) \<and>
      (adopt_child L i (listener_spec i t) n k = Inr k' \<longrightarrow> sub_spec_ok (sub_Spec k')))"
proof -
  have "core_spec_ok (BarbicanSpecCore_Default d c) \<longleftrightarrow>
      core_spec_ok (core_Base_update (sb_APITimeout_update
        (\<lambda>t. if t = 0 then BarbicanAPITimeout d else t)) c)"
    unfolding BarbicanSpecCore_Default_def core_spec_ok_def Let_def
    by (simp add: base_default_ok) (simp add: base_ok_def)
  then show ?thesis
    by (simp add: spec_default_ok) (blast dest: children_ok)
qed


text \<open>The sample: its children are within the bounds.\<close>

theorem written_specs_valid_witness:
  "\<exists>a'. adopt_child (ex_parentlib [] []) (ex_barbican ([] :: ex_conds))
      (api_spec (ex_barbican ([] :: ex_conds)) ''bus'') [] (ex_run_api []) = Inr a' \<and>
    sub_spec_ok (sub_Spec a') \<and> 10 \<le> as_APITimeout (sub_Spec a')"
proof -
  obtain a' where a: "adopt_child (ex_parentlib [] []) (ex_barbican ([] :: ex_conds))
      (api_spec (ex_barbican ([] :: ex_conds)) ''bus'') [] (ex_run_api []) = Inr a'"
    using ex_adopted by blast
  have "spec_ok (Spec (ex_barbican ([] :: ex_conds)))"
    by (simp add: ex_defs schema_defs store_ok_def)
  with a written_specs_valid [of d s c "ex_barbican ([] :: ex_conds)" "ex_parentlib [] []" "''bus''" "[]" "ex_run_api []" a'
      "ex_run_worker []" "ex_run_worker []" "ex_run_worker []" "ex_run_worker []" for d s c]
  show ?thesis by blast
qed

section \<open>Bounds on the workloads\<close>

definition replicas_bounded :: "Deployment \<Rightarrow> bool" where
  "replicas_bounded d \<longleftrightarrow> (case d_Replicas d of None \<Rightarrow> True | Some n \<Rightarrow> 0 \<le> n \<and> n \<le> 32)"

lemma place_pods_replicas [simp]: "d_Replicas (place_pods P sel topo cmp d) = d_Replicas d"
  by (simp add: place_pods_def Let_def split: option.split)

lemma deployment_replicas:
  "Worker_Deployment P w h l an topo ks = Some d \<Longrightarrow> d_Replicas d = Replicas (ss_Component (sub_Spec w))"
  "Listener_Deployment P k h l an topo ks = Some d \<Longrightarrow> d_Replicas d = Replicas (ss_Component (sub_Spec k))"
  "API_Deployment P a h l an topo ks = Some (Inr d) \<Longrightarrow> d_Replicas d = Replicas (ss_Component (sub_Spec a))"
  by (auto simp: Worker_Deployment_def Listener_Deployment_def API_Deployment_def Let_def
      split: option.splits sum.splits)

lemma inherit_replicas [simp]: "Replicas (inherit b c) = Replicas c"
  by (auto simp: inherit_def Let_def)

text \<open>
  C15. From the Barbican to the pods: every deployment that the service controllers make for a child
  written from a Barbican within its bounds asks for exactly the replicas that the Barbican sets for
  that component, at most 32 and never a negative number, whichever topology, node selector or
  overwrite keys apply.
\<close>

theorem deployments_bounded:
  assumes "spec_ok (Spec i)"
    and "adopt_child L i (api_spec i t) n a = Inr a'"
    and "adopt_child L i (worker_spec i t) n w = Inr w'"
    and "adopt_child L i (listener_spec i t) n k = Inr k'"
  shows "(API_Deployment P a' h l an topo ks = Some (Inr d) \<longrightarrow> replicas_bounded d \<and>
      d_Replicas d = Replicas (atc_Component (at_Core (BarbicanAPI (Spec i))))) \<and>
    (Worker_Deployment P w' h l an topo ks = Some d \<longrightarrow> replicas_bounded d \<and>
      d_Replicas d = Replicas (wt_Component (BarbicanWorker (Spec i)))) \<and>
    (Listener_Deployment P k' h l an topo ks = Some d \<longrightarrow> replicas_bounded d \<and>
      d_Replicas d = Replicas (lt_Component (BarbicanKeystoneListener (Spec i))))"
  using assms(1) adopt_child_result(4) [OF assms(2)] adopt_child_result(4) [OF assms(3)]
    adopt_child_result(4) [OF assms(4)]
  by (auto simp: replicas_bounded_def spec_ok_def component_ok_def api_spec_def worker_spec_def
      listener_spec_def Let_def dest!: deployment_replicas)

theorem deployments_bounded_witness:
  "\<exists>w' d. adopt_child (ex_parentlib [] []) (ex_barbican ([] :: ex_conds))
      (worker_spec (ex_barbican ([] :: ex_conds)) ''bus'') [] (ex_run_worker []) = Inr w' \<and>
    Worker_Deployment ex_podlib w' ''h'' [] [] None [] = Some d \<and> d_Replicas d = Some 1"
proof -
  let ?L = "ex_parentlib [] []" and ?i = "ex_barbican ([] :: ex_conds)"
  obtain a' where a: "adopt_child ?L ?i (api_spec ?i ''bus'') [] (ex_run_api []) = Inr a'"
    using ex_adopted by blast
  obtain w' where w: "adopt_child ?L ?i (worker_spec ?i ''bus'') [] (ex_run_worker []) = Inr w'"
    using ex_adopted by blast
  obtain k' where k: "adopt_child ?L ?i (listener_spec ?i ''bus'') [] (ex_run_worker []) = Inr k'"
    using ex_adopted by blast
  have "ExtraMounts (ss_Template (sub_Spec w')) = []"
    using adopt_child_result(4) [OF w] by (simp add: worker_spec_def ex_defs)
  moreover have "add_extra (GetExtraVolumes K [] svc) v m = Some (v, m)" for K svc v m
    by (simp add: GetExtraVolumes_def add_extra_def)
  ultimately obtain d where d: "Worker_Deployment ex_podlib w' ''h'' [] [] None [] = Some d"
    by (simp add: Worker_Deployment_def Let_def GetWorkerVolumesAndMounts_def split_beta)
  have "spec_ok (Spec ?i)" by (simp add: ex_defs schema_defs store_ok_def)
  from deployments_bounded [OF this a w k, of ex_podlib "''h''" "[]" "[]" None "[]" d] d
  have "d_Replicas d = Some 1" by (simp add: ex_defs)
  with w d show ?thesis by blast
qed


section \<open>The default secret store\<close>

text \<open>
  The sections of \<open>templates/barbican/config/00-default.conf\<close> that get the line
  \<open>global_default = true\<close>: one for each store, under the flag of the store and the test for the
  default.
\<close>

definition default_sections :: "tval gomap \<Rightarrow> string list" where
  "default_sections m = map snd (filter
     (\<lambda>(flag, store). map_get m flag = Some (TBool True) \<and>
        map_get m ''GlobalDefaultSecretStore'' = Some (TStr store))
     [(''SimpleCryptoEnabled'', ''simple_crypto''), (''PKCS11Enabled'', ''pkcs11''),
      (''KMIPEnabled'', ''kmip'')])"

definition enabled_stores :: "BarbicanTemplate \<Rightarrow> SecretStore list" where
  "enabled_stores t =
     (if EnabledSecretStores t = [] then [SecretStoreSimpleCrypto] else EnabledSecretStores t)"

definition with_default_store :: "SecretStore \<Rightarrow> BarbicanSpec \<Rightarrow> BarbicanSpec" where
  "with_default_store g =
     Base_update (sb_Template_update (GlobalDefaultSecretStore_update (\<lambda>_. g)))"

text \<open>Neither the schema nor the webhook compares the default with the enabled stores.\<close>

lemma default_store_free:
  "spec_ok s \<Longrightarrow> store_ok g \<Longrightarrow> spec_ok (with_default_store g s)"
  "BarbicanSpec_ValidateCreate W (with_default_store g s) q ns = BarbicanSpec_ValidateCreate W s q ns"
proof -
  have stores: "ValidateSecretStores (t\<lparr>GlobalDefaultSecretStore := g\<rparr>) q e = ValidateSecretStores t q e" for t e
    by (simp add: ValidateSecretStores_def ValidateClientDataPaths_def ValidateKMIP_def
        ValidatePKCS11_def store_enabled_def cong: if_cong option.case_cong)
  show "BarbicanSpec_ValidateCreate W (with_default_store g s) q ns = BarbicanSpec_ValidateCreate W s q ns"
    by (simp add: BarbicanSpec_ValidateCreate_def with_default_store_def stores ValidateBarbicanTopology_def)
qed (simp add: with_default_store_def schema_defs)

lemma admitted_pkcs11:
  "ValidateSecretStores t p [] = [] \<Longrightarrow> store_enabled t SecretStorePKCS11 \<Longrightarrow> PKCS11 t \<noteq> None"
  by (auto simp: ValidateSecretStores_def ValidateClientDataPaths_def ValidateKMIP_def
      ValidatePKCS11_def Let_def split: if_splits option.splits)

text \<open>The flags of the parameters after the PKCS11 step.\<close>

lemma store_flags:
  fixes L :: "('w, 'c) parentlib"
  assumes "GenerateSecretStoreTemplateMap (EnabledSecretStores (Template (inst s))) g = Inr stores"
    and "map_get params ''PKCS11Enabled'' = None" and "g \<noteq> []"
    and "run_state (pkcs11_login L (maps_Copy params stores)) s = (Inr m, s')"
  shows "map_get m ''GlobalDefaultSecretStore'' = Some (TStr g)"
    and "map_get m ''SimpleCryptoEnabled'' =
      Some (TBool (SecretStoreSimpleCrypto \<in> set (enabled_stores (Template (inst s)))))"
    and "map_get m ''KMIPEnabled'' =
      Some (TBool (SecretStoreKMIP \<in> set (enabled_stores (Template (inst s)))))"
    and "map_get m ''PKCS11Enabled'' = (if PKCS11 (Template (inst s)) \<noteq> None \<and>
      store_enabled (Template (inst s)) SecretStorePKCS11 then Some (TBool True) else None)"
  using assms
  by (auto simp: GenerateSecretStoreTemplateMap_def Let_def enabled_stores_def pkcs11_login_def
      b_secret_def split: option.splits if_splits sum.splits prod.splits)

text \<open>
  C27. For an admitted Barbican, exactly one store of the rendered configuration is the global default
  when the configured default is among the enabled stores, and none is otherwise. Nothing checks that
  it is: any of the three stores passes the schema as the default, and the webhook's answer does not
  depend on it. Since the schema fills in simple_crypto, a resource that enables only pkcs11 or only
  kmip is admitted and renders multiple stores without a default.
\<close>

theorem default_store_unchecked:
  assumes "spec_ok (Spec (inst s))" and "ValidateSecretStores (Template (inst s)) p [] = []"
    and "GenerateSecretStoreTemplateMap (EnabledSecretStores (Template (inst s)))
      (GlobalDefaultSecretStore (Template (inst s))) = Inr stores"
    and "map_get params ''PKCS11Enabled'' = None"
    and "run_state (pkcs11_login L (maps_Copy params stores)) s = (Inr m, s')"
  shows "default_sections m =
      (if GlobalDefaultSecretStore (Template (inst s)) \<in> set (enabled_stores (Template (inst s)))
       then [GlobalDefaultSecretStore (Template (inst s))] else []) \<and>
    (\<forall>g. store_ok g \<longrightarrow> spec_ok (with_default_store g (Spec (inst s))) \<and>
      BarbicanSpec_ValidateCreate W (with_default_store g (Spec (inst s))) q ns =
        BarbicanSpec_ValidateCreate W (Spec (inst s)) q ns)"
proof -
  let ?t = "Template (inst s)"
  have g: "store_ok (GlobalDefaultSecretStore ?t)"
    using assms(1) by (simp add: schema_defs)
  then have "GlobalDefaultSecretStore ?t \<noteq> []" by (auto simp: store_ok_def)
  note flags = store_flags [OF assms(3,4) this assms(5)]
  have "PKCS11 ?t \<noteq> None \<and> store_enabled ?t SecretStorePKCS11 \<longleftrightarrow>
      SecretStorePKCS11 \<in> set (enabled_stores ?t)"
    using admitted_pkcs11 [OF assms(2)] by (auto simp: enabled_stores_def store_enabled_def)
  with flags g have "default_sections m =
      (if GlobalDefaultSecretStore ?t \<in> set (enabled_stores ?t) then [GlobalDefaultSecretStore ?t] else [])"
    by (auto simp: default_sections_def store_ok_def)
  then show ?thesis using assms(1) default_store_free by blast
qed

text \<open>The sample with pkcs11 as its only store, and the default of the schema.\<close>

definition ex_only_pkcs11 :: "(string list, ex_conds) parent_state" where
  "ex_only_pkcs11 = ex_parent_state\<lparr>inst := (ex_barbican [])\<lparr>Spec :=
     Base_update (sb_Template_update (EnabledSecretStores_update (\<lambda>_. [SecretStorePKCS11]))) ex_spec\<rparr>\<rparr>"

theorem default_store_unchecked_witness:
  "\<exists>stores m s'. GenerateSecretStoreTemplateMap [SecretStorePKCS11] SecretStoreSimpleCrypto = Inr stores \<and>
    run_state (pkcs11_login (ex_parentlib [] []) (maps_Copy [] stores)) ex_only_pkcs11 = (Inr m, s') \<and>
    default_sections m = []"
proof -
  have spec: "EnabledSecretStores (Template (inst ex_only_pkcs11)) = [SecretStorePKCS11]"
    "GlobalDefaultSecretStore (Template (inst ex_only_pkcs11)) = SecretStoreSimpleCrypto"
    and ok: "spec_ok (Spec (inst ex_only_pkcs11))"
    and admitted: "ValidateSecretStores (Template (inst ex_only_pkcs11)) [] [] = []"
    by (simp_all add: ex_only_pkcs11_def ex_parent_state_def ex_defs schema_defs store_ok_def
        ValidateSecretStores_def ValidateClientDataPaths_def ValidateKMIP_def ValidatePKCS11_def
        store_enabled_def)
  obtain stores where stores: "GenerateSecretStoreTemplateMap [SecretStorePKCS11] SecretStoreSimpleCrypto = Inr stores"
    by (simp add: GenerateSecretStoreTemplateMap_def Let_def)
  have "\<exists>m s'. run_state (pkcs11_login (ex_parentlib [] []) (maps_Copy [] stores)) ex_only_pkcs11 = (Inr m, s')"
    by (simp add: pkcs11_login_def b_secret_def split: option.split)
  then obtain m s' where run:
    "run_state (pkcs11_login (ex_parentlib [] []) (maps_Copy [] stores)) ex_only_pkcs11 = (Inr m, s')" by blast
  have "default_sections m = []"
    using default_store_unchecked [OF ok admitted _ _ run] stores spec by (simp add: enabled_stores_def)
  with stores run show ?thesis by blast
qed

end
