(* ===== verification/Messages.thy ===== *)
theory Messages
  imports Kube
begin

text \<open>
  The texts of the conditions: the names and the formats that this repository declares
  (\<open>api/v1beta1/conditions.go\<close> and the constants of \<open>barbican_controller.go\<close>), and the formatting
  that the condition package applies to them. The rest of the development carries a message as the
  name of its format and the arguments; \<open>own_text\<close> gives the text where the format is the repository's
  own.
\<close>

section \<open>Formats\<close>

text \<open>\<open>Sprintf\<close> for formats whose only verb is \<open>%s\<close>, with Go's marks for too few and too many arguments.\<close>

fun Sprintf :: "string \<Rightarrow> string list \<Rightarrow> string" where
  "Sprintf [] [] = []"
| "Sprintf [] (x # xs) = ''%!(EXTRA)''"
| "Sprintf (c # d # f) args =
     (if c = CHR ''%'' \<and> d = CHR ''s''
      then (case args of [] \<Rightarrow> ''%!s(MISSING)'' @ Sprintf f [] | x # xs \<Rightarrow> x @ Sprintf f xs)
      else c # Sprintf (d # f) args)"
| "Sprintf [c] args = c # Sprintf [] args"

fun verbs :: "string \<Rightarrow> nat" where
  "verbs (c # d # f) = (if c = CHR ''%'' \<and> d = CHR ''s'' then Suc (verbs f) else verbs (d # f))"
| "verbs _ = 0"

definition own_formats :: "(string \<times> string) list" where
  "own_formats =
     [(''BarbicanAPIReadyInitMessage'', ''BarbicanAPI not started''),
      (''BarbicanAPIReadyErrorMessage'', ''BarbicanAPI error occured %s''),
      (''BarbicanWorkerReadyInitMessage'', ''BarbicanWorker not started''),
      (''BarbicanWorkerReadyErrorMessage'', ''BarbicanWorker error occured %s''),
      (''BarbicanKeystoneListenerReadyInitMessage'', ''BarbicanKeystoneListener not started''),
      (''BarbicanKeystoneListenerReadyErrorMessage'', ''BarbicanKeystoneListener error occured %s''),
      (''BarbicanRabbitMQTransportURLReadyRunningMessage'',
       ''BarbicanRabbitMQTransportURL creation in progress''),
      (''BarbicanRabbitMQTransportURLReadyMessage'',
       ''BarbicanRabbitMQTransportURL successfully created''),
      (''BarbicanRabbitMQTransportURLReadyErrorMessage'',
       ''BarbicanRabbitMQTransportURL error occured %s''),
      (''BarbicanNetworkAttachmentsReadyErrorMessage'',
       ''NetworkAttachments error occurred; not all pods have interfaces with IPs as configured in NetworkAttachments: %s'')]"

definition job_formats :: "(string \<times> string) list" where
  "job_formats =
     [(''PKCS11PrepReadyInitMessage'', ''PKCS11 Prep job not started''),
      (''PKCS11PrepReadyMessage'', ''PKCS11 Prep job completed''),
      (''PKCS11PrepReadyErrorMessage'', ''PKCS11 Prep job error occurred %s''),
      (''PKCS11PrepReadyRunningMessage'', ''PKCS11 Prep job is still running''),
      (''PKCS11PrepReadyNotRunMessage'', ''PKCS11 Prep job not run'')]"

definition own_text :: "message \<Rightarrow> string option" where
  "own_text m = (case m of Msg name args \<Rightarrow>
     map_option (\<lambda>f. Sprintf f args) (map_of (own_formats @ job_formats) name))"

text \<open>The names of the condition types that the repository declares.\<close>

fun own_type :: "ctype \<Rightarrow> string option" where
  "own_type BarbicanAPIReadyCondition = Some ''BarbicanAPIReady''"
| "own_type BarbicanWorkerReadyCondition = Some ''BarbicanWorkerReady''"
| "own_type BarbicanKeystoneListenerReadyCondition = Some ''BarbicanKeystoneListenerReady''"
| "own_type BarbicanRabbitMQTransportURLReadyCondition = Some ''BarbicanRabbitMQTransportURLReady''"
| "own_type PKCS11PrepReadyCondition = Some ''PKCS11PrepReady''"
| "own_type _ = None"

section \<open>Well-formed messages\<close>

text \<open>
  With as many arguments as verbs, formatting loses nothing: the text has the characters of the
  format that are no verb and those of all the arguments.
\<close>

lemma Sprintf_length:
  "length args = verbs f \<Longrightarrow>
   length (Sprintf f args) + 2 * verbs f = length f + length (concat args)"
proof (induction f args rule: Sprintf.induct)
  case (3 c d f args)
  then show ?case by (cases args) (auto split: if_splits)
qed auto

text \<open>The error formats take one argument, the others none, and no two names are the same.\<close>

definition error_format :: "string \<Rightarrow> bool" where
  "error_format name \<longleftrightarrow> drop (length name - 12) name = ''ErrorMessage''"

lemma own_formats_arity:
  "list_all (\<lambda>(name, f). verbs f = (if error_format name then 1 else 0)) (own_formats @ job_formats)"
  "distinct (map fst (own_formats @ job_formats))"
  by (simp_all add: own_formats_def job_formats_def error_format_def)

lemma own_types_distinct: "own_type s = own_type t \<Longrightarrow> own_type s \<noteq> None \<Longrightarrow> s = t"
  by (cases s; cases t; simp)

end
