(* ===== verification/Deep_Copy.thy ===== *)
theory Deep_Copy
  imports Prelude "HOL-Library.AList"
begin

text \<open>
  What the generated \<open>DeepCopyInto\<close> functions are made of. The rest of the development treats
  Go values as mathematical values; a deep copy is about the memory behind them, so this layer has
  an explicit one. A Go value is a scalar, the nil pointer, slice or map, a reference to a cell, or a
  struct laid out in place; a cell holds the variable a pointer points to, the backing array of a
  slice (taken whole) or the entries of a map.

  \<open>gty\<close> is the declared type of a value and \<open>read\<close> the tree the value denotes at that type.
  The locale \<open>copier\<close> is the contract of a function that copies values of a type: the
  result denotes the same tree and does so through new cells only, and the old cells are untouched.
  The building blocks the generator composes (assignment, \<open>new\<close>, \<open>make\<close> of a slice or a map, a
  call of the field type's own \<open>DeepCopyInto\<close>) are shown to satisfy it once, here.
\<close>

section \<open>Memory\<close>

type_synonym addr = nat

datatype gval =
    Scalar string
  | Nil_ref
  | Ref addr
  | Struct "(string \<times> gval) list"

datatype cell =
    Pointee gval
  | Backing "gval list"
  | Entries "(string \<times> gval) list"

record heap =
  cells :: "addr \<Rightarrow> cell option"
  next_addr :: addr

text \<open>A new cell, and a store into an existing one.\<close>

definition alloc :: "cell \<Rightarrow> heap \<Rightarrow> addr \<times> heap" where
  "alloc c h = (next_addr h, h\<lparr>cells := (cells h)(next_addr h \<mapsto> c), next_addr := Suc (next_addr h)\<rparr>)"

definition store :: "addr \<Rightarrow> cell \<Rightarrow> heap \<Rightarrow> heap" where
  "store a c h = h\<lparr>cells := (cells h)(a \<mapsto> c)\<rparr>"

definition closed :: "heap \<Rightarrow> bool" where
  "closed h \<longleftrightarrow> (\<forall>a\<ge>next_addr h. cells h a = None)"

definition grows :: "heap \<Rightarrow> heap \<Rightarrow> bool" where
  "grows h g \<longleftrightarrow> next_addr h \<le> next_addr g \<and> (\<forall>a<next_addr h. cells g a = cells h a)"

lemma grows_refl [simp, intro]: "grows h h"
  by (simp add: grows_def)

lemma grows_trans [trans]: "grows h g \<Longrightarrow> grows g k \<Longrightarrow> grows h k"
  by (auto simp: grows_def)

lemma alloc_closed: "closed h \<Longrightarrow> closed (snd (alloc c h))"
  by (simp add: closed_def alloc_def)

lemma alloc_grows: "grows h (snd (alloc c h))"
  by (simp add: grows_def alloc_def)

lemma store_closed: "closed h \<Longrightarrow> a < next_addr h \<Longrightarrow> closed (store a c h)"
  by (simp add: closed_def store_def)

lemma store_grows: "grows h g \<Longrightarrow> next_addr h \<le> a \<Longrightarrow> grows h (store a c g)"
  by (simp add: grows_def store_def)

lemma next_addr_store [simp]: "next_addr (store a c h) = next_addr h"
  by (simp add: store_def)

lemma cells_store [simp]: "cells (store a c h) = (cells h)(a \<mapsto> c)"
  by (simp add: store_def)

section \<open>Types and what a value denotes\<close>

datatype gty =
    GScalar
  | GPtr gty
  | GSlice gty
  | GMap gty
  | GStruct "(string \<times> gty) list"

datatype tree =
    TScalar string
  | TNil
  | TPtr tree
  | TSlice "tree list"
  | TMap "(string \<times> tree) list"
  | TStruct "(string \<times> tree) list"

fun sequence_opt :: "'a option list \<Rightarrow> 'a list option" where
  "sequence_opt [] = Some []"
| "sequence_opt (None # xs) = None"
| "sequence_opt (Some x # xs) = map_option ((#) x) (sequence_opt xs)"

lemma sequence_opt_iff: "sequence_opt xs = Some ys \<longleftrightarrow> xs = map Some ys"
proof (induction xs arbitrary: ys rule: sequence_opt.induct)
  case (3 x xs)
  then show ?case by (cases ys) auto
qed auto

lemma sequence_opt_map: "sequence_opt (map f xs) = Some ys \<longleftrightarrow> list_all2 (\<lambda>x y. f x = Some y) xs ys"
  unfolding sequence_opt_iff
proof (induction xs arbitrary: ys)
  case (Cons x xs)
  then show ?case by (cases ys) auto
qed simp

text \<open>
  The tree a value of a type denotes, \<open>None\<close> for a value that is not of the type: a reference
  to a missing cell or to one of another kind, a field that is not there.
\<close>

fun read :: "heap \<Rightarrow> gty \<Rightarrow> gval \<Rightarrow> tree option" where
  "read h GScalar (Scalar s) = Some (TScalar s)"
| "read h (GPtr ty) (Ref a) =
     (case cells h a of Some (Pointee x) \<Rightarrow> map_option TPtr (read h ty x) | _ \<Rightarrow> None)"
| "read h (GSlice ty) (Ref a) =
     (case cells h a of
        Some (Backing xs) \<Rightarrow> map_option TSlice (sequence_opt (map (read h ty) xs))
      | _ \<Rightarrow> None)"
| "read h (GMap ty) (Ref a) =
     (case cells h a of
        Some (Entries kvs) \<Rightarrow>
          map_option (\<lambda>ts. TMap (zip (map fst kvs) ts))
            (sequence_opt (map (read h ty) (map snd kvs)))
      | _ \<Rightarrow> None)"
| "read h (GPtr ty) Nil_ref = Some TNil"
| "read h (GSlice ty) Nil_ref = Some TNil"
| "read h (GMap ty) Nil_ref = Some TNil"
| "read h (GStruct fs) (Struct vs) =
     map_option (\<lambda>ts. TStruct (zip (map fst fs) ts))
       (sequence_opt (map (\<lambda>kt. case map_of vs (fst kt) of
                                  None \<Rightarrow> None
                                | Some x \<Rightarrow> read h (snd kt) x) fs))"
| "read h _ _ = None"

text \<open>A type without references: an assignment copies it.\<close>

fun flat :: "gty \<Rightarrow> bool" where
  "flat GScalar = True"
| "flat (GStruct fs) = list_all (\<lambda>kt. flat (snd kt)) fs"
| "flat _ = False"


lemma read_flat:
  assumes "flat ty"
  shows "read g ty x = read h ty x"
  using assms
proof (induction h ty x rule: read.induct)
  case (8 h fs vs)
  have "(case map_of vs (fst kt) of None \<Rightarrow> None | Some x \<Rightarrow> read g (snd kt) x) =
        (case map_of vs (fst kt) of None \<Rightarrow> None | Some x \<Rightarrow> read h (snd kt) x)"
    if "kt \<in> set fs" for kt
    using 8 that by (auto simp: list_all_iff split: option.splits)
  then show ?case by (simp cong: map_cong)
qed auto

text \<open>Reading only follows cells that are there, so a larger memory reads the same tree.\<close>

lemma read_mono:
  assumes "\<And>a c. cells h a = Some c \<Longrightarrow> cells g a = Some c"
    and "read h ty x = Some t"
  shows "read g ty x = Some t"
  using assms
proof (induction h ty x arbitrary: t rule: read.induct)
  case (2 h ty a)
  then show ?case by (fastforce split: option.splits cell.splits)
next
  case (3 h ty a)
  from "3.prems"(2) obtain xs ts where x: "cells h a = Some (Backing xs)"
    and ts: "list_all2 (\<lambda>x y. read h ty x = Some y) xs ts" and t: "t = TSlice ts"
    by (auto simp: sequence_opt_map split: option.splits cell.splits)
  have "list_all2 (\<lambda>x y. read g ty x = Some y) xs ts"
    using ts by (rule list.rel_mono_strong) (use 3 x in auto)
  then show ?case using x t "3.prems"(1) by (simp add: sequence_opt_map)
next
  case (4 h ty a)
  from "4.prems"(2) obtain kvs ts where x: "cells h a = Some (Entries kvs)"
    and ts: "list_all2 (\<lambda>x y. read h ty x = Some y) (map snd kvs) ts"
    and t: "t = TMap (zip (map fst kvs) ts)"
    by (auto simp: sequence_opt_map simp del: map_map split: option.splits cell.splits)
  have "list_all2 (\<lambda>x y. read g ty x = Some y) (map snd kvs) ts"
    using ts by (rule list.rel_mono_strong) (use 4 x in auto)
  then have "sequence_opt (map (read g ty) (map snd kvs)) = Some ts"
    by (simp only: sequence_opt_map)
  then show ?case using x t "4.prems"(1) by simp
next
  case (8 h fs vs)
  let ?r = "\<lambda>h kt. case map_of vs (fst kt) of None \<Rightarrow> None | Some x \<Rightarrow> read h (snd kt) x"
  from "8.prems"(2) obtain ts where ts: "list_all2 (\<lambda>kt y. ?r h kt = Some y) fs ts"
    and t: "t = TStruct (zip (map fst fs) ts)"
    by (auto simp: sequence_opt_map)
  have "list_all2 (\<lambda>kt y. ?r g kt = Some y) fs ts"
    using ts by (rule list.rel_mono_strong) (use 8 in \<open>auto split: option.splits\<close>)
  then show ?case using t by (auto simp: sequence_opt_map)
qed auto


section \<open>What a value owns\<close>

text \<open>
  \<open>owned lo h ty x t\<close>: \<open>x\<close> denotes \<open>t\<close> through the cells from \<open>lo\<close> up to the end of
  \<open>h\<close> only, whatever the other cells hold.
\<close>

definition owned :: "addr \<Rightarrow> heap \<Rightarrow> gty \<Rightarrow> gval \<Rightarrow> tree \<Rightarrow> bool" where
  "owned lo h ty x t \<longleftrightarrow>
     (\<forall>g. (\<forall>a. lo \<le> a \<and> a < next_addr h \<longrightarrow> cells g a = cells h a) \<longrightarrow> read g ty x = Some t)"

lemma owned_read: "owned lo h ty x t \<Longrightarrow> read h ty x = Some t"
  by (simp add: owned_def)

lemma owned_weaken:
  fixes g h :: heap
  assumes o: "owned lo h ty x t" and lo: "lo' \<le> lo" and n: "next_addr h \<le> next_addr g"
    and eq: "\<And>a. lo \<le> a \<Longrightarrow> a < next_addr h \<Longrightarrow> cells g a = cells h a"
  shows "owned lo' g ty x t"
  unfolding owned_def
proof (intro allI impI)
  fix k :: heap assume "\<forall>a. lo' \<le> a \<and> a < next_addr g \<longrightarrow> cells k a = cells g a"
  then have "\<forall>a. lo \<le> a \<and> a < next_addr h \<longrightarrow> cells k a = cells h a"
    using lo n eq by simp
  then show "read k ty x = Some t" using o by (simp add: owned_def)
qed

lemma owned_grows:
  fixes g h :: heap
  shows "owned lo h ty x t \<Longrightarrow> grows h g \<Longrightarrow> owned lo g ty x t"
  by (rule owned_weaken [of lo h ty x t lo]) (auto simp: grows_def)

lemma owned_flat: "flat ty \<Longrightarrow> read h ty x = Some t \<Longrightarrow> owned lo g ty x t"
  unfolding owned_def by (metis read_flat)

lemma owned_ptr:
  assumes "owned lo h ty y t" "cells h a = Some (Pointee y)" "lo \<le> a" "a < next_addr h"
  shows "owned lo h (GPtr ty) (Ref a) (TPtr t)"
  using assms by (auto simp: owned_def)

lemma owned_slice:
  assumes "list_all2 (owned lo h ty) ys ts" "cells h a = Some (Backing ys)"
    and "lo \<le> a" "a < next_addr h"
  shows "owned lo h (GSlice ty) (Ref a) (TSlice ts)"
  unfolding owned_def
proof (intro allI impI)
  fix g :: heap assume g: "\<forall>a. lo \<le> a \<and> a < next_addr h \<longrightarrow> cells g a = cells h a"
  have "list_all2 (\<lambda>x y. read g ty x = Some y) ys ts"
    using assms(1) by (rule list_all2_mono) (use g in \<open>simp add: owned_def\<close>)
  then show "read g (GSlice ty) (Ref a) = Some (TSlice ts)"
    using assms g by (simp add: sequence_opt_map)
qed

lemma owned_map:
  assumes "list_all2 (owned lo h ty) ys ts" "cells h a = Some (Entries (zip ks ys))"
    and "length ks = length ys" "lo \<le> a" "a < next_addr h"
  shows "owned lo h (GMap ty) (Ref a) (TMap (zip ks ts))"
  unfolding owned_def
proof (intro allI impI)
  fix g :: heap assume g: "\<forall>a. lo \<le> a \<and> a < next_addr h \<longrightarrow> cells g a = cells h a"
  have "list_all2 (\<lambda>x y. read g ty x = Some y) ys ts"
    using assms(1) by (rule list_all2_mono) (use g in \<open>simp add: owned_def\<close>)
  then have "sequence_opt (map (read g ty) ys) = Some ts"
    by (simp only: sequence_opt_map)
  then show "read g (GMap ty) (Ref a) = Some (TMap (zip ks ts))"
    using assms g by simp
qed

lemma owned_struct:
  assumes "list_all2 (\<lambda>kt t. \<exists>x. map_of vs (fst kt) = Some x \<and> owned lo h (snd kt) x t) fs ts"
  shows "owned lo h (GStruct fs) (Struct vs) (TStruct (zip (map fst fs) ts))"
  unfolding owned_def
proof (intro allI impI)
  fix g :: heap assume g: "\<forall>a. lo \<le> a \<and> a < next_addr h \<longrightarrow> cells g a = cells h a"
  have "list_all2 (\<lambda>kt t. (case map_of vs (fst kt) of None \<Rightarrow> None
                            | Some x \<Rightarrow> read g (snd kt) x) = Some t) fs ts"
    using assms by (rule list_all2_mono) (use g in \<open>auto simp: owned_def\<close>)
  then show "read g (GStruct fs) (Struct vs) = Some (TStruct (zip (map fst fs) ts))"
    by (auto simp: sequence_opt_map)
qed

section \<open>The statements of the generated functions\<close>

type_synonym copier_fun = "gval \<Rightarrow> heap \<Rightarrow> gval \<times> heap"

text \<open>\<open>*out = *in\<close>, \<open>copy(*out, *in)\<close> and \<open>(*out)[key] = val\<close> assign the value as it is.\<close>

definition assign :: copier_fun where
  "assign x h = (x, h)"

text \<open>\<open>if in.X != nil { *out = new(T); ... }\<close>: a nil pointer stays nil.\<close>

definition copy_new :: "copier_fun \<Rightarrow> copier_fun" where
  "copy_new f x h =
     (case x of
        Ref a \<Rightarrow>
          (case cells h a of
             Some (Pointee y) \<Rightarrow>
               (let (b, h1) = alloc (Pointee Nil_ref) h;
                    (z, h2) = f y h1
                in (Ref b, store b (Pointee z) h2))
           | _ \<Rightarrow> (x, h))
      | _ \<Rightarrow> (x, h))"

fun copy_elems :: "copier_fun \<Rightarrow> gval list \<Rightarrow> heap \<Rightarrow> gval list \<times> heap" where
  "copy_elems f [] h = ([], h)"
| "copy_elems f (x # xs) h =
     (let (y, h1) = f x h; (ys, h2) = copy_elems f xs h1 in (y # ys, h2))"

text \<open>
  \<open>make([]T, len(*in))\<close> and \<open>make(map[K]V, len(*in))\<close> with the loop that fills the new cell.
  Nothing reads the cell before the loop ends, so it is stored filled.
\<close>

definition copy_slice :: "copier_fun \<Rightarrow> copier_fun" where
  "copy_slice f x h =
     (case x of
        Ref a \<Rightarrow>
          (case cells h a of
             Some (Backing xs) \<Rightarrow>
               (let (b, h1) = alloc (Backing []) h;
                    (ys, h2) = copy_elems f xs h1
                in (Ref b, store b (Backing ys) h2))
           | _ \<Rightarrow> (x, h))
      | _ \<Rightarrow> (x, h))"

definition copy_map :: "copier_fun \<Rightarrow> copier_fun" where
  "copy_map f x h =
     (case x of
        Ref a \<Rightarrow>
          (case cells h a of
             Some (Entries kvs) \<Rightarrow>
               (let (b, h1) = alloc (Entries []) h;
                    (ys, h2) = copy_elems f (map snd kvs) h1
                in (Ref b, store b (Entries (zip (map fst kvs) ys)) h2))
           | _ \<Rightarrow> (x, h))
      | _ \<Rightarrow> (x, h))"

text \<open>
  \<open>*out = *in\<close> followed by one statement for each listed field, which reads the field of \<open>in\<close>
  and sets the one of \<open>out\<close>.
\<close>

fun sel :: "string \<Rightarrow> gval \<Rightarrow> gval" where
  "sel k (Struct vs) = (case map_of vs k of Some x \<Rightarrow> x | None \<Rightarrow> Nil_ref)"
| "sel k _ = Nil_ref"

fun upd :: "string \<Rightarrow> gval \<Rightarrow> gval \<Rightarrow> gval" where
  "upd k x (Struct vs) = Struct (AList.update k x vs)"
| "upd k x v = v"

fun run_steps :: "(string \<times> copier_fun) list \<Rightarrow> gval \<Rightarrow> gval \<Rightarrow> heap \<Rightarrow> gval \<times> heap" where
  "run_steps [] v out h = (out, h)"
| "run_steps ((k, f) # steps) v out h =
     (let (x, h1) = f (sel k v) h in run_steps steps v (upd k x out) h1)"

definition copy_struct :: "(string \<times> copier_fun) list \<Rightarrow> copier_fun" where
  "copy_struct steps v h = run_steps steps v v h"

section \<open>The contract\<close>

locale copier =
  fixes ty :: gty and f :: copier_fun
  assumes copies: "\<lbrakk>closed h; read h ty x = Some t\<rbrakk> \<Longrightarrow>
      closed (snd (f x h)) \<and> grows h (snd (f x h)) \<and>
      owned (next_addr h) (snd (f x h)) ty (fst (f x h)) t"
begin

lemma copies_closed: "\<lbrakk>closed h; read h ty x = Some t; f x h = (y, g)\<rbrakk> \<Longrightarrow> closed g"
  and copies_grows: "\<lbrakk>closed h; read h ty x = Some t; f x h = (y, g)\<rbrakk> \<Longrightarrow> grows h g"
  and copies_owned: "\<lbrakk>closed h; read h ty x = Some t; f x h = (y, g)\<rbrakk> \<Longrightarrow>
    owned (next_addr h) g ty y t"
  using copies [of h x t] by auto

text \<open>The copy denotes the same tree, and neither side sees what is later stored on the other.\<close>

lemma isolated:
  assumes "closed h" "read h ty x = Some t" "f x h = (y, g)"
  shows "read g ty y = Some t" "read g ty x = Some t"
    and "(\<And>a. next_addr h \<le> a \<Longrightarrow> cells k a = cells g a) \<Longrightarrow> read k ty y = Some t"
    and "(\<And>a. a < next_addr h \<Longrightarrow> cells k a = cells g a) \<Longrightarrow> read k ty x = Some t"
proof -
  note c = copies [OF assms(1,2), unfolded assms(3) fst_conv snd_conv]
  show "read g ty y = Some t" using c by (blast dest: owned_read)
  show "read k ty y = Some t" if "\<And>a. next_addr h \<le> a \<Longrightarrow> cells k a = cells g a"
    using c that by (simp add: owned_def)
  have old: "read k ty x = Some t" if "\<And>a. a < next_addr h \<Longrightarrow> cells k a = cells g a" for k
  proof (rule read_mono [OF _ assms(2)])
    fix a d assume "cells h a = Some d"
    moreover from this have "a < next_addr h"
      using assms(1) by (metis closed_def leI option.distinct(1))
    ultimately show "cells k a = Some d" using that c by (simp add: grows_def)
  qed
  show "read k ty x = Some t" if "\<And>a. a < next_addr h \<Longrightarrow> cells k a = cells g a"
    by (rule old) (rule that)
  show "read g ty x = Some t" by (rule old) simp
qed

end


section \<open>The building blocks meet the contract\<close>

lemma copier_flat: "flat ty \<Longrightarrow> copier ty assign"
  by unfold_locales (simp add: assign_def owned_flat)

lemma copies_elems:
  fixes h :: heap
  assumes f: "copier ty f"
  shows "\<lbrakk>closed h; list_all2 (\<lambda>x t. read h ty x = Some t) xs ts; copy_elems f xs h = (ys, g)\<rbrakk> \<Longrightarrow>
    closed g \<and> grows h g \<and> length ys = length xs \<and> list_all2 (owned (next_addr h) g ty) ys ts"
proof (induction xs arbitrary: h ts ys)
  case (Cons x xs)
  from Cons.prems(2) obtain t ts' where ts: "ts = t # ts'" "read h ty x = Some t"
    and rest: "list_all2 (\<lambda>x t. read h ty x = Some t) xs ts'" by (auto simp: list_all2_Cons1)
  obtain y h1 where y: "f x h = (y, h1)" by fastforce
  obtain ys' where ys: "copy_elems f xs h1 = (ys', g)" "ys = y # ys'"
    using Cons.prems(3) y by (auto split: prod.splits)
  note y_ok = copier.copies [OF f Cons.prems(1) ts(2), unfolded y fst_conv snd_conv]
  have "list_all2 (\<lambda>x t. read h1 ty x = Some t) xs ts'"
    using rest by (rule list_all2_mono) (metis copier.isolated(2) f Cons.prems(1) ts(2) y
        read_mono y_ok closed_def grows_def leI option.distinct(1))
  from Cons.IH [OF conjunct1 [OF y_ok] this ys(1)]
  have IH: "closed g" "grows h1 g" "length ys' = length xs"
    "list_all2 (owned (next_addr h1) g ty) ys' ts'" by auto
  have "owned (next_addr h) g ty y t" using y_ok IH(2) by (blast intro: owned_grows)
  moreover have "list_all2 (owned (next_addr h) g ty) ys' ts'"
    using IH(4) by (rule list_all2_mono) (use y_ok in \<open>auto simp: grows_def intro: owned_weaken\<close>)
  ultimately show ?case using y_ok IH ts ys by (auto intro: grows_trans)
qed simp

text \<open>The cell of a copied reference: allocated first, filled last.\<close>

lemma filled_cell:
  fixes h g :: heap
  assumes "closed h" "alloc c h = (b, h1)" "closed g" "grows h1 g"
  shows "b = next_addr h" "closed (store b d g)" "grows h (store b d g)"
    and "next_addr h1 = Suc (next_addr h)" "b < next_addr g" "closed h1" "grows h h1"
    and "owned (next_addr h1) g ty x t \<Longrightarrow> owned (next_addr h) (store b d g) ty x t"
proof -
  show b: "b = next_addr h" and n: "next_addr h1 = Suc (next_addr h)"
    and h1: "closed h1" "grows h h1"
    using assms(1,2) alloc_closed [of h c] alloc_grows [of h c] by (auto simp: alloc_def)
  show lt: "b < next_addr g" using assms(4) b n by (simp add: grows_def)
  show "closed (store b d g)" by (rule store_closed) (use assms lt in simp_all)
  show "grows h (store b d g)"
    by (rule store_grows) (use grows_trans [OF h1(2) assms(4)] b in simp_all)
  show "owned (next_addr h1) g ty x t \<Longrightarrow> owned (next_addr h) (store b d g) ty x t"
    by (rule owned_weaken) (use b n in auto)
qed

lemma read_alloc:
  fixes h :: heap
  assumes "closed h" "read h ty x = Some t"
  shows "read (snd (alloc c h)) ty x = Some t"
  using assms by (auto intro!: read_mono [OF _ assms(2)] simp: alloc_def closed_def)

lemma copier_new:
  assumes f: "copier ty f"
  shows "copier (GPtr ty) (copy_new f)"
proof
  fix h :: heap and x t
  assume h: "closed h" and r: "read h (GPtr ty) x = Some t"
  show "closed (snd (copy_new f x h)) \<and> grows h (snd (copy_new f x h)) \<and>
    owned (next_addr h) (snd (copy_new f x h)) (GPtr ty) (fst (copy_new f x h)) t"
  proof (cases x)
    case (Ref a)
    with r obtain y ty' where a: "cells h a = Some (Pointee y)" "read h ty y = Some ty'"
      and t: "t = TPtr ty'" by (auto split: option.splits cell.splits)
    obtain b h1 where b: "alloc (Pointee Nil_ref) h = (b, h1)" by fastforce
    obtain z g where z: "f y h1 = (z, g)" by fastforce
    have h1: "closed h1" "read h1 ty y = Some ty'"
      using alloc_closed [OF h, of "Pointee Nil_ref"] read_alloc [OF h a(2), of "Pointee Nil_ref"] b
      by auto
    note z_ok = copier.copies [OF f h1, unfolded z fst_conv snd_conv]
    note cell = filled_cell [OF h b, of g, OF conjunct1 [OF z_ok]]
    have "grows h1 g" using z_ok by blast
    note cell = cell [OF this]
    have "owned (next_addr h) (store b (Pointee z) g) (GPtr ty) (Ref b) t"
      unfolding t by (rule owned_ptr) (use cell z_ok in simp_all)
    then show ?thesis using cell Ref a b z by (simp add: copy_new_def)
  qed (use h r in \<open>auto simp: copy_new_def owned_def\<close>)
qed

lemma copier_slice:
  assumes f: "copier ty f"
  shows "copier (GSlice ty) (copy_slice f)"
proof
  fix h :: heap and x t
  assume h: "closed h" and r: "read h (GSlice ty) x = Some t"
  show "closed (snd (copy_slice f x h)) \<and> grows h (snd (copy_slice f x h)) \<and>
    owned (next_addr h) (snd (copy_slice f x h)) (GSlice ty) (fst (copy_slice f x h)) t"
  proof (cases x)
    case (Ref a)
    with r obtain xs ts where a: "cells h a = Some (Backing xs)"
      "list_all2 (\<lambda>x t. read h ty x = Some t) xs ts" and t: "t = TSlice ts"
      by (auto simp: sequence_opt_map split: option.splits cell.splits)
    obtain b h1 where b: "alloc (Backing []) h = (b, h1)" by fastforce
    obtain ys g where ys: "copy_elems f xs h1 = (ys, g)" by fastforce
    have "closed h1" using alloc_closed [OF h, of "Backing []"] b by simp
    moreover have "list_all2 (\<lambda>x t. read h1 ty x = Some t) xs ts"
      using a(2) by (rule list_all2_mono) (use read_alloc [OF h, of ty _ _ "Backing []"] b in auto)
    ultimately have ys_ok: "closed g" "grows h1 g" "list_all2 (owned (next_addr h1) g ty) ys ts"
      using copies_elems [OF f _ _ ys] by auto
    note cell = filled_cell [OF h b ys_ok(1,2)]
    have "owned (next_addr h) (store b (Backing ys) g) (GSlice ty) (Ref b) t"
      unfolding t by (rule owned_slice)
        (use cell in \<open>auto intro!: list_all2_mono [OF ys_ok(3)]\<close>)
    then show ?thesis using cell Ref a b ys by (simp add: copy_slice_def)
  qed (use h r in \<open>auto simp: copy_slice_def owned_def\<close>)
qed

lemma copier_map:
  assumes f: "copier ty f"
  shows "copier (GMap ty) (copy_map f)"
proof
  fix h :: heap and x t
  assume h: "closed h" and r: "read h (GMap ty) x = Some t"
  show "closed (snd (copy_map f x h)) \<and> grows h (snd (copy_map f x h)) \<and>
    owned (next_addr h) (snd (copy_map f x h)) (GMap ty) (fst (copy_map f x h)) t"
  proof (cases x)
    case (Ref a)
    with r obtain kvs ts where a: "cells h a = Some (Entries kvs)"
      "list_all2 (\<lambda>x t. read h ty x = Some t) (map snd kvs) ts"
      and t: "t = TMap (zip (map fst kvs) ts)"
      by (auto simp: sequence_opt_map simp del: map_map split: option.splits cell.splits)
    obtain b h1 where b: "alloc (Entries []) h = (b, h1)" by fastforce
    obtain ys g where ys: "copy_elems f (map snd kvs) h1 = (ys, g)" by fastforce
    have "closed h1" using alloc_closed [OF h, of "Entries []"] b by simp
    moreover have "list_all2 (\<lambda>x t. read h1 ty x = Some t) (map snd kvs) ts"
      using a(2) by (rule list_all2_mono) (use read_alloc [OF h, of ty _ _ "Entries []"] b in auto)
    ultimately have ys_ok: "closed g" "grows h1 g" "length ys = length kvs"
      "list_all2 (owned (next_addr h1) g ty) ys ts"
      using copies_elems [OF f _ _ ys] by auto
    note cell = filled_cell [OF h b ys_ok(1,2)]
    have "owned (next_addr h) (store b (Entries (zip (map fst kvs) ys)) g) (GMap ty) (Ref b) t"
      unfolding t by (rule owned_map)
        (use cell ys_ok(3) in \<open>auto intro!: list_all2_mono [OF ys_ok(4)]\<close>)
    then show ?thesis using cell Ref a b ys by (simp add: copy_map_def)
  qed (use h r in \<open>auto simp: copy_map_def owned_def\<close>)
qed


text \<open>
  A statement list is adequate for a struct type when every field with a reference in it has its
  statement: a field that only the first assignment copies must be flat.
\<close>

definition covers :: "(string \<times> gty) list \<Rightarrow> (string \<times> copier_fun) list \<Rightarrow> bool" where
  "covers fs steps \<longleftrightarrow>
     list_all (\<lambda>kt. case map_of steps (fst kt) of
                      None \<Rightarrow> flat (snd kt)
                    | Some f \<Rightarrow> copier (snd kt) f) fs \<and>
     distinct (map fst fs) \<and> distinct (map fst steps) \<and> set (map fst steps) \<subseteq> set (map fst fs)"

lemma read_kept:
  fixes h g :: heap
  assumes "closed h" "grows h g" "read h ty x = Some t"
  shows "read g ty x = Some t"
proof (rule read_mono [OF _ assms(3)])
  fix a c assume c: "cells h a = Some c"
  then have "a < next_addr h" using assms(1) by (metis closed_def leI option.distinct(1))
  then show "cells g a = Some c" using assms(2) c by (simp add: grows_def)
qed

lemma steps_copy:
  fixes h :: heap
  assumes "closed h"
    and "\<And>k f. (k, f) \<in> set steps \<Longrightarrow> copier (T k) f \<and> read h (T k) (sel k v) = Some (t k)"
    and "run_steps steps v (Struct out) h = (w, g)"
  shows "closed g \<and> grows h g \<and>
    (\<exists>out'. w = Struct out' \<and>
       (\<forall>k. k \<notin> fst ` set steps \<longrightarrow> map_of out' k = map_of out k) \<and>
       (\<forall>k\<in>fst ` set steps. \<exists>x. map_of out' k = Some x \<and> owned (next_addr h) g (T k) x (t k)))"
  using assms
proof (induction steps arbitrary: h out)
  case (Cons s steps)
  obtain k f where s: "s = (k, f)" by fastforce
  obtain x h1 where x: "f (sel k v) h = (x, h1)" by fastforce
  have f: "copier (T k) f" and r: "read h (T k) (sel k v) = Some (t k)"
    using Cons.prems(2) s by auto
  note x_ok = copier.copies [OF f Cons.prems(1) r, unfolded x fst_conv snd_conv]
  have run: "run_steps steps v (Struct (AList.update k x out)) h1 = (w, g)"
    using Cons.prems(3) s x by simp
  have "copier (T j) d \<and> read h1 (T j) (sel j v) = Some (t j)" if "(j, d) \<in> set steps" for j d
    using Cons.prems(1,2) that x_ok by (auto intro: read_kept)
  from Cons.IH [OF conjunct1 [OF x_ok] this run]
  obtain out' where IH: "closed g" "grows h1 g" "w = Struct out'"
    and others: "\<And>j. j \<notin> fst ` set steps \<Longrightarrow> map_of out' j = map_of (AList.update k x out) j"
    and later: "\<And>j. j \<in> fst ` set steps \<Longrightarrow>
      \<exists>y. map_of out' j = Some y \<and> owned (next_addr h1) g (T j) y (t j)" by blast
  have lo: "owned (next_addr h1) g ty y u \<Longrightarrow> owned (next_addr h) g ty y u" for ty y u
    by (rule owned_weaken [of "next_addr h1" g]) (use x_ok in \<open>auto simp: grows_def\<close>)
  have "\<exists>y. map_of out' j = Some y \<and> owned (next_addr h) g (T j) y (t j)"
    if "j \<in> fst ` set (s # steps)" for j
  proof (cases "j \<in> fst ` set steps")
    case True
    then show ?thesis using later lo by blast
  next
    case False
    then have "j = k" using that s by auto
    then show ?thesis
      using others [OF False] x_ok IH(2) by (auto simp: update_conv intro: owned_grows)
  qed
  moreover have "map_of out' j = map_of out j" if "j \<notin> fst ` set (s # steps)" for j
    using others [of j] that s by (auto simp: update_conv)
  ultimately show ?case using IH x_ok by (blast intro: grows_trans)
qed (auto simp: grows_def)

lemma copier_struct:
  assumes "covers fs steps"
  shows "copier (GStruct fs) (copy_struct steps)"
proof
  fix h :: heap and x u
  assume h: "closed h" and r: "read h (GStruct fs) x = Some u"
  then obtain vs where x: "x = Struct vs" by (cases x) auto
  let ?r = "\<lambda>kt t. \<exists>y. map_of vs (fst kt) = Some y \<and> read h (snd kt) y = Some t"
  from r x obtain ts where u: "u = TStruct (zip (map fst fs) ts)"
    and "list_all2 (\<lambda>kt t. (case map_of vs (fst kt) of None \<Rightarrow> None
                             | Some y \<Rightarrow> read h (snd kt) y) = Some t) fs ts"
    by (auto simp: sequence_opt_map)
  from this(2) have ts: "list_all2 ?r fs ts"
    by (rule list_all2_mono) (auto split: option.splits)
  define T where "T k = the (map_of fs k)" for k
  define t where "t k = the (read h (T k) (sel k x))" for k
  have T: "T (fst kt) = snd kt" if "kt \<in> set fs" for kt
  proof -
    have "map_of fs (fst kt) = Some (snd kt)"
      using that assms by (intro map_of_is_SomeI) (simp_all add: covers_def)
    then show ?thesis by (simp add: T_def)
  qed
  have pointwise: "\<exists>y. map_of vs (fst kt) = Some y \<and> read h (snd kt) y = Some d \<and> t (fst kt) = d"
    if "(kt, d) \<in> set (zip fs ts)" for kt d
  proof -
    from that have "kt \<in> set fs" by (rule set_zip_leftD)
    moreover from ts that obtain y where "map_of vs (fst kt) = Some y" "read h (snd kt) y = Some d"
      by (auto simp: list_all2_iff)
    ultimately show ?thesis using T x by (simp add: t_def)
  qed
  have step: "copier (T k) f \<and> read h (T k) (sel k x) = Some (t k)" if "(k, f) \<in> set steps" for k f
  proof -
    from assms that obtain ty where kt: "(k, ty) \<in> set fs" by (force simp: covers_def)
    then have "copier (T k) f"
      using assms that T by (force simp: covers_def list_all_iff)
    moreover obtain d where z: "((k, ty), d) \<in> set (zip fs ts)"
      using list_all2_lengthD [OF ts] kt by (rule in_set_impl_in_set_zip1)
    obtain y where "map_of vs k = Some y" "read h ty y = Some d" "t k = d"
      using pointwise [OF z] by auto
    then have "read h (T k) (sel k x) = Some (t k)" using T [OF kt] x by simp
    ultimately show ?thesis by blast
  qed
  obtain w g where run: "run_steps steps x (Struct vs) h = (w, g)" by fastforce
  from steps_copy [OF h step run]
  obtain out where g: "closed g" "grows h g" and w: "w = Struct out"
    and others: "\<And>k. k \<notin> fst ` set steps \<Longrightarrow> map_of out k = map_of vs k"
    and copied: "\<And>k. k \<in> fst ` set steps \<Longrightarrow>
      \<exists>y. map_of out k = Some y \<and> owned (next_addr h) g (T k) y (t k)" by blast
  have "\<exists>y. map_of out (fst kt) = Some y \<and> owned (next_addr h) g (snd kt) y d"
    if z: "(kt, d) \<in> set (zip fs ts)" for kt d
  proof (cases "fst kt \<in> fst ` set steps")
    case True
    then show ?thesis using copied [OF True] pointwise [OF z] T set_zip_leftD [OF z] by auto
  next
    case False
    then have "flat (snd kt)"
      using assms set_zip_leftD [OF z]
      by (auto simp: covers_def list_all_iff map_of_eq_None_iff split: option.splits)
    then show ?thesis using others [OF False] pointwise [OF z] by (auto intro: owned_flat)
  qed
  then have "owned (next_addr h) g (GStruct fs) w u"
    unfolding w u using ts by (intro owned_struct) (auto simp: list_all2_iff)
  then show "closed (snd (copy_struct steps x h)) \<and> grows h (snd (copy_struct steps x h)) \<and>
    owned (next_addr h) (snd (copy_struct steps x h)) (GStruct fs) (fst (copy_struct steps x h)) u"
    using g run x by (simp add: copy_struct_def)
qed

section \<open>Copying by the type\<close>

text \<open>
  The reference: the copy that the type itself prescribes, every field by its own type. The
  operator's library types come with their own \<open>DeepCopyInto\<close>; this is what those do on a type of
  a given shape.
\<close>

fun deep_of :: "gty \<Rightarrow> copier_fun" where
  "deep_of GScalar = assign"
| "deep_of (GPtr ty) = copy_new (deep_of ty)"
| "deep_of (GSlice ty) = copy_slice (deep_of ty)"
| "deep_of (GMap ty) = copy_map (deep_of ty)"
| "deep_of (GStruct fs) = copy_struct (map (\<lambda>kt. (fst kt, deep_of (snd kt))) fs)"

fun distinct_fields :: "gty \<Rightarrow> bool" where
  "distinct_fields GScalar = True"
| "distinct_fields (GPtr ty) = distinct_fields ty"
| "distinct_fields (GSlice ty) = distinct_fields ty"
| "distinct_fields (GMap ty) = distinct_fields ty"
| "distinct_fields (GStruct fs) \<longleftrightarrow>
     distinct (map fst fs) \<and> list_all (\<lambda>kt. distinct_fields (snd kt)) fs"

lemma copier_deep_of: "distinct_fields ty \<Longrightarrow> copier ty (deep_of ty)"
proof (induction ty rule: deep_of.induct)
  case (5 fs)
  have own: "map_of (map (\<lambda>kt. (fst kt, deep_of (snd kt))) fs) (fst kt) = Some (deep_of (snd kt))"
    if "kt \<in> set fs" for kt
    by (rule map_of_is_SomeI) (use that 5 in \<open>auto simp: comp_def\<close>)
  have "list_all (\<lambda>kt. case map_of (map (\<lambda>kt. (fst kt, deep_of (snd kt))) fs) (fst kt) of
      None \<Rightarrow> flat (snd kt) | Some f \<Rightarrow> copier (snd kt) f) fs"
    unfolding list_all_iff
  proof
    fix kt assume kt: "kt \<in> set fs"
    show "case map_of (map (\<lambda>kt. (fst kt, deep_of (snd kt))) fs) (fst kt) of
        None \<Rightarrow> flat (snd kt) | Some f \<Rightarrow> copier (snd kt) f"
      unfolding own [OF kt] using 5 kt by (simp add: list_all_iff)
  qed
  then have "covers fs (map (\<lambda>kt. (fst kt, deep_of (snd kt))) fs)"
    using 5 by (simp add: covers_def comp_def)
  then show ?case by (simp add: copier_struct)
qed (simp_all add: copier_flat copier_new copier_slice copier_map)

end
