(* ===== verification/Deep_Copy_Types.thy ===== *)
theory Deep_Copy_Types
  imports Deep_Copy
begin

text \<open>
  \<open>api/v1beta1/zz_generated.deepcopy.go\<close>, type by type: for each struct \<open>T\<close> of the API package its
  declared type \<open>T_ty\<close> (the fields of \<open>type T struct\<close> in order, an embedded struct under its type's
  name), the generated \<open>T_DeepCopyInto\<close> as the list of its statements, \<open>T_DeepCopy\<close>, and
  \<open>T_DeepCopyObject\<close> for the eight registered kinds. The lemma \<open>copier_T\<close> says that the function
  meets the contract of its type.

  The types of other packages are parameters: \<open>shape\<close> gives their declared types and \<open>ext\<close> their
  own \<open>DeepCopyInto\<close>. \<open>library_types\<close> is what the generated code relies on: each library function
  copies its type, and the library types the generator assigns as a whole (\<open>TypeMeta\<close>, the bus
  configuration, the topology reference, \<open>tls.Ca\<close>) hold no references.
\<close>

named_theorems copiers "the functions that meet the contract of their type"

type_synonym types_of = "string \<Rightarrow> gty"
type_synonym copiers_of = "string \<Rightarrow> copier_fun"

definition library_types :: "types_of \<Rightarrow> copiers_of \<Rightarrow> bool" where
  "library_types shape ext \<longleftrightarrow>
     (\<forall>n. copier (shape n) (ext n)) \<and>
     flat (shape ''TypeMeta'') \<and> flat (shape ''RabbitMqConfig'') \<and>
     flat (shape ''TopoRef'') \<and> flat (shape ''tls.Ca'')"

lemma library_copiers [copiers]: "library_types shape ext \<Longrightarrow> copier (shape n) (ext n)"
  by (simp add: library_types_def)

lemma library_flat [copiers]:
  "library_types shape ext \<Longrightarrow> flat (shape ''TypeMeta'')"
  "library_types shape ext \<Longrightarrow> flat (shape ''RabbitMqConfig'')"
  "library_types shape ext \<Longrightarrow> flat (shape ''TopoRef'')"
  "library_types shape ext \<Longrightarrow> flat (shape ''tls.Ca'')"
  by (simp_all add: library_types_def)

lemmas block_copiers [copiers] = copier_flat copier_new copier_slice copier_map

text \<open>
  The body of every \<open>DeepCopy\<close>: nil for nil, else a new variable that \<open>DeepCopyInto\<close> fills; and of
  every \<open>DeepCopyObject\<close>: the copied pointer as an interface value, the nil interface for nil.
\<close>

definition deep_copy :: "copier_fun \<Rightarrow> copier_fun" where
  "deep_copy into p h = (if p = Nil_ref then (Nil_ref, h) else copy_new into p h)"

record Object =
  obj_Kind :: string
  obj_Value :: gval

definition deep_copy_object :: "string \<Rightarrow> copier_fun \<Rightarrow> gval \<Rightarrow> heap \<Rightarrow> Object option \<times> heap" where
  "deep_copy_object kind DeepCopy p h =
     (let (c, g) = DeepCopy p h
      in if c \<noteq> Nil_ref then (Some \<lparr>obj_Kind = kind, obj_Value = c\<rparr>, g) else (None, g))"

lemma copier_deep_copy: "copier ty into \<Longrightarrow> copier (GPtr ty) (deep_copy into)"
  by (drule copier_new) (auto simp: copier_def deep_copy_def owned_def)

section \<open>Templates\<close>

definition BarbicanDefaults_ty :: gty where
  "BarbicanDefaults_ty = GStruct
    [(''APIContainerImageURL'', GScalar), (''WorkerContainerImageURL'', GScalar),
     (''KeystoneListenerContainerImageURL'', GScalar), (''BarbicanAPITimeout'', GScalar)]"

definition BarbicanDefaults_DeepCopyInto :: copier_fun where
  "BarbicanDefaults_DeepCopyInto = copy_struct []"

definition BarbicanDefaults_DeepCopy :: copier_fun where
  "BarbicanDefaults_DeepCopy = deep_copy BarbicanDefaults_DeepCopyInto"

lemma copier_BarbicanDefaults [copiers]:
  "copier BarbicanDefaults_ty BarbicanDefaults_DeepCopyInto"
  by (simp add: BarbicanDefaults_ty_def BarbicanDefaults_DeepCopyInto_def
      copier_struct covers_def copiers)

definition AuthSpec_ty :: gty where
  "AuthSpec_ty = GStruct
    [(''ApplicationCredentialSecret'', GScalar)]"

definition AuthSpec_DeepCopyInto :: copier_fun where
  "AuthSpec_DeepCopyInto = copy_struct []"

definition AuthSpec_DeepCopy :: copier_fun where
  "AuthSpec_DeepCopy = deep_copy AuthSpec_DeepCopyInto"

lemma flat_AuthSpec [copiers, simp]: "flat AuthSpec_ty"
  by (simp add: AuthSpec_ty_def)

lemma copier_AuthSpec [copiers]: "copier AuthSpec_ty AuthSpec_DeepCopyInto"
  by (simp add: AuthSpec_ty_def AuthSpec_DeepCopyInto_def
      copier_struct covers_def copiers)

definition ClientDataSpec_ty :: gty where
  "ClientDataSpec_ty = GStruct
    [(''ClientDataSecret'', GScalar), (''ClientDataPath'', GScalar)]"

definition ClientDataSpec_DeepCopyInto :: copier_fun where
  "ClientDataSpec_DeepCopyInto = copy_struct []"

definition ClientDataSpec_DeepCopy :: copier_fun where
  "ClientDataSpec_DeepCopy = deep_copy ClientDataSpec_DeepCopyInto"

lemma flat_ClientDataSpec [copiers, simp]: "flat ClientDataSpec_ty"
  by (simp add: ClientDataSpec_ty_def)

lemma copier_ClientDataSpec [copiers]: "copier ClientDataSpec_ty ClientDataSpec_DeepCopyInto"
  by (simp add: ClientDataSpec_ty_def ClientDataSpec_DeepCopyInto_def
      copier_struct covers_def copiers)

definition PasswordSelector_ty :: gty where
  "PasswordSelector_ty = GStruct
    [(''Service'', GScalar), (''SimpleCryptoKEK'', GScalar), (''PKCS11Pin'', GScalar),
     (''SimpleCryptoAdditionalKEKs'', GSlice GScalar)]"

definition PasswordSelector_DeepCopyInto :: copier_fun where
  "PasswordSelector_DeepCopyInto = copy_struct
    [(''SimpleCryptoAdditionalKEKs'', copy_slice assign)]"

definition PasswordSelector_DeepCopy :: copier_fun where
  "PasswordSelector_DeepCopy = deep_copy PasswordSelector_DeepCopyInto"

lemma copier_PasswordSelector [copiers]:
  "copier PasswordSelector_ty PasswordSelector_DeepCopyInto"
  by (simp add: PasswordSelector_ty_def PasswordSelector_DeepCopyInto_def
      copier_struct covers_def copiers)

definition BarbicanPKCS11Template_ty :: gty where
  "BarbicanPKCS11Template_ty = GStruct
    [(''LoginSecret'', GScalar), (''ClientDataSpec'', ClientDataSpec_ty)]"

definition BarbicanPKCS11Template_DeepCopyInto :: copier_fun where
  "BarbicanPKCS11Template_DeepCopyInto = copy_struct
    [(''ClientDataSpec'', assign)]"

definition BarbicanPKCS11Template_DeepCopy :: copier_fun where
  "BarbicanPKCS11Template_DeepCopy = deep_copy BarbicanPKCS11Template_DeepCopyInto"

lemma flat_BarbicanPKCS11Template [copiers, simp]: "flat BarbicanPKCS11Template_ty"
  by (simp add: BarbicanPKCS11Template_ty_def)

lemma copier_BarbicanPKCS11Template [copiers]:
  "copier BarbicanPKCS11Template_ty BarbicanPKCS11Template_DeepCopyInto"
  by (simp add: BarbicanPKCS11Template_ty_def BarbicanPKCS11Template_DeepCopyInto_def
      copier_struct covers_def copiers)

definition BarbicanKMIPTemplate_ty :: gty where
  "BarbicanKMIPTemplate_ty = GStruct
    [(''ClientDataSpec'', ClientDataSpec_ty)]"

definition BarbicanKMIPTemplate_DeepCopyInto :: copier_fun where
  "BarbicanKMIPTemplate_DeepCopyInto = copy_struct
    [(''ClientDataSpec'', assign)]"

definition BarbicanKMIPTemplate_DeepCopy :: copier_fun where
  "BarbicanKMIPTemplate_DeepCopy = deep_copy BarbicanKMIPTemplate_DeepCopyInto"

lemma flat_BarbicanKMIPTemplate [copiers, simp]: "flat BarbicanKMIPTemplate_ty"
  by (simp add: BarbicanKMIPTemplate_ty_def)

lemma copier_BarbicanKMIPTemplate [copiers]:
  "copier BarbicanKMIPTemplate_ty BarbicanKMIPTemplate_DeepCopyInto"
  by (simp add: BarbicanKMIPTemplate_ty_def BarbicanKMIPTemplate_DeepCopyInto_def
      copier_struct covers_def copiers)

definition BarbicanExtraVolMounts_ty :: "types_of \<Rightarrow> gty" where
  "BarbicanExtraVolMounts_ty shape = GStruct
    [(''Name'', GScalar), (''Region'', GScalar), (''VolMounts'', GSlice (shape ''VolMounts''))]"

definition BarbicanExtraVolMounts_DeepCopyInto :: "copiers_of \<Rightarrow> copier_fun" where
  "BarbicanExtraVolMounts_DeepCopyInto ext = copy_struct
    [(''VolMounts'', copy_slice (ext ''VolMounts''))]"

definition BarbicanExtraVolMounts_DeepCopy :: "copiers_of \<Rightarrow> copier_fun" where
  "BarbicanExtraVolMounts_DeepCopy ext = deep_copy (BarbicanExtraVolMounts_DeepCopyInto ext)"

lemma copier_BarbicanExtraVolMounts [copiers]: "library_types shape ext \<Longrightarrow>
    copier (BarbicanExtraVolMounts_ty shape) (BarbicanExtraVolMounts_DeepCopyInto ext)"
  by (simp add: BarbicanExtraVolMounts_ty_def BarbicanExtraVolMounts_DeepCopyInto_def
      copier_struct covers_def copiers)

definition BarbicanTemplate_ty :: "types_of \<Rightarrow> gty" where
  "BarbicanTemplate_ty shape = GStruct
    [(''ServiceUser'', GScalar), (''DatabaseInstance'', GScalar),
     (''DatabaseAccount'', GScalar), (''RabbitMqClusterName'', GScalar),
     (''MessagingBus'', shape ''RabbitMqConfig''),
     (''NotificationsBus'', GPtr (shape ''RabbitMqConfig'')),
     (''SimpleCryptoBackendSecret'', GScalar), (''Secret'', GScalar),
     (''PasswordSelectors'', PasswordSelector_ty), (''ServiceAccount'', GScalar),
     (''PKCS11'', GPtr BarbicanPKCS11Template_ty),
     (''KMIP'', GPtr BarbicanKMIPTemplate_ty), (''EnabledSecretStores'', GSlice GScalar),
     (''GlobalDefaultSecretStore'', GScalar),
     (''ExtraMounts'', GSlice (BarbicanExtraVolMounts_ty shape))]"

definition BarbicanTemplate_DeepCopyInto :: "copiers_of \<Rightarrow> copier_fun" where
  "BarbicanTemplate_DeepCopyInto ext = copy_struct
    [(''MessagingBus'', assign), (''NotificationsBus'', copy_new assign),
     (''PasswordSelectors'', PasswordSelector_DeepCopyInto), (''PKCS11'', copy_new assign),
     (''KMIP'', copy_new assign), (''EnabledSecretStores'', copy_slice assign),
     (''ExtraMounts'', copy_slice (BarbicanExtraVolMounts_DeepCopyInto ext))]"

definition BarbicanTemplate_DeepCopy :: "copiers_of \<Rightarrow> copier_fun" where
  "BarbicanTemplate_DeepCopy ext = deep_copy (BarbicanTemplate_DeepCopyInto ext)"

lemma copier_BarbicanTemplate [copiers]: "library_types shape ext \<Longrightarrow>
    copier (BarbicanTemplate_ty shape) (BarbicanTemplate_DeepCopyInto ext)"
  by (simp add: BarbicanTemplate_ty_def BarbicanTemplate_DeepCopyInto_def
      copier_struct covers_def copiers)

definition BarbicanComponentTemplate_ty :: "types_of \<Rightarrow> gty" where
  "BarbicanComponentTemplate_ty shape = GStruct
    [(''NodeSelector'', GPtr (GMap GScalar)), (''Replicas'', GPtr GScalar),
     (''CustomServiceConfig'', GScalar), (''DefaultConfigOverwrite'', GMap GScalar),
     (''CustomServiceConfigSecrets'', GSlice GScalar),
     (''Resources'', shape ''ResourceRequirements''), (''NetworkAttachments'', GSlice GScalar),
     (''TopologyRef'', GPtr (shape ''TopoRef''))]"

definition BarbicanComponentTemplate_DeepCopyInto :: "copiers_of \<Rightarrow> copier_fun" where
  "BarbicanComponentTemplate_DeepCopyInto ext = copy_struct
    [(''NodeSelector'', copy_new (copy_map assign)), (''Replicas'', copy_new assign),
     (''DefaultConfigOverwrite'', copy_map assign),
     (''CustomServiceConfigSecrets'', copy_slice assign),
     (''Resources'', ext ''ResourceRequirements''),
     (''NetworkAttachments'', copy_slice assign), (''TopologyRef'', copy_new assign)]"

definition BarbicanComponentTemplate_DeepCopy :: "copiers_of \<Rightarrow> copier_fun" where
  "BarbicanComponentTemplate_DeepCopy ext =
     deep_copy (BarbicanComponentTemplate_DeepCopyInto ext)"

lemma copier_BarbicanComponentTemplate [copiers]: "library_types shape ext \<Longrightarrow>
    copier (BarbicanComponentTemplate_ty shape) (BarbicanComponentTemplate_DeepCopyInto ext)"
  by (simp add: BarbicanComponentTemplate_ty_def BarbicanComponentTemplate_DeepCopyInto_def
      copier_struct covers_def copiers)

definition APIOverrideSpec_ty :: "types_of \<Rightarrow> gty" where
  "APIOverrideSpec_ty shape = GStruct
    [(''Service'', GMap (shape ''RoutedOverrideSpec''))]"

definition APIOverrideSpec_DeepCopyInto :: "copiers_of \<Rightarrow> copier_fun" where
  "APIOverrideSpec_DeepCopyInto ext = copy_struct
    [(''Service'', copy_map (ext ''RoutedOverrideSpec''))]"

definition APIOverrideSpec_DeepCopy :: "copiers_of \<Rightarrow> copier_fun" where
  "APIOverrideSpec_DeepCopy ext = deep_copy (APIOverrideSpec_DeepCopyInto ext)"

lemma copier_APIOverrideSpec [copiers]: "library_types shape ext \<Longrightarrow>
    copier (APIOverrideSpec_ty shape) (APIOverrideSpec_DeepCopyInto ext)"
  by (simp add: APIOverrideSpec_ty_def APIOverrideSpec_DeepCopyInto_def
      copier_struct covers_def copiers)

section \<open>Specs, statuses and resources\<close>

definition BarbicanSpecBase_ty :: "types_of \<Rightarrow> gty" where
  "BarbicanSpecBase_ty shape = GStruct
    [(''BarbicanTemplate'', BarbicanTemplate_ty shape), (''PreserveJobs'', GScalar),
     (''NodeSelector'', GPtr (GMap GScalar)), (''CustomServiceConfig'', GScalar),
     (''DefaultConfigOverwrite'', GMap GScalar), (''APITimeout'', GScalar),
     (''Auth'', AuthSpec_ty), (''TopologyRef'', GPtr (shape ''TopoRef''))]"

definition BarbicanSpecBase_DeepCopyInto :: "copiers_of \<Rightarrow> copier_fun" where
  "BarbicanSpecBase_DeepCopyInto ext = copy_struct
    [(''BarbicanTemplate'', BarbicanTemplate_DeepCopyInto ext),
     (''NodeSelector'', copy_new (copy_map assign)),
     (''DefaultConfigOverwrite'', copy_map assign), (''Auth'', assign),
     (''TopologyRef'', copy_new assign)]"

definition BarbicanSpecBase_DeepCopy :: "copiers_of \<Rightarrow> copier_fun" where
  "BarbicanSpecBase_DeepCopy ext = deep_copy (BarbicanSpecBase_DeepCopyInto ext)"

lemma copier_BarbicanSpecBase [copiers]: "library_types shape ext \<Longrightarrow>
    copier (BarbicanSpecBase_ty shape) (BarbicanSpecBase_DeepCopyInto ext)"
  by (simp add: BarbicanSpecBase_ty_def BarbicanSpecBase_DeepCopyInto_def
      copier_struct covers_def copiers)

definition BarbicanAPITemplateCore_ty :: "types_of \<Rightarrow> gty" where
  "BarbicanAPITemplateCore_ty shape = GStruct
    [(''BarbicanComponentTemplate'', BarbicanComponentTemplate_ty shape),
     (''EnableSecureRBAC'', GScalar), (''Override'', APIOverrideSpec_ty shape),
     (''TLS'', shape ''tls.API''), (''APITimeout'', GScalar)]"

definition BarbicanAPITemplateCore_DeepCopyInto :: "copiers_of \<Rightarrow> copier_fun" where
  "BarbicanAPITemplateCore_DeepCopyInto ext = copy_struct
    [(''BarbicanComponentTemplate'', BarbicanComponentTemplate_DeepCopyInto ext),
     (''Override'', APIOverrideSpec_DeepCopyInto ext), (''TLS'', ext ''tls.API'')]"

definition BarbicanAPITemplateCore_DeepCopy :: "copiers_of \<Rightarrow> copier_fun" where
  "BarbicanAPITemplateCore_DeepCopy ext = deep_copy (BarbicanAPITemplateCore_DeepCopyInto ext)"

lemma copier_BarbicanAPITemplateCore [copiers]: "library_types shape ext \<Longrightarrow>
    copier (BarbicanAPITemplateCore_ty shape) (BarbicanAPITemplateCore_DeepCopyInto ext)"
  by (simp add: BarbicanAPITemplateCore_ty_def BarbicanAPITemplateCore_DeepCopyInto_def
      copier_struct covers_def copiers)

definition BarbicanAPITemplate_ty :: "types_of \<Rightarrow> gty" where
  "BarbicanAPITemplate_ty shape = GStruct
    [(''BarbicanAPITemplateCore'', BarbicanAPITemplateCore_ty shape),
     (''ContainerImage'', GScalar)]"

definition BarbicanAPITemplate_DeepCopyInto :: "copiers_of \<Rightarrow> copier_fun" where
  "BarbicanAPITemplate_DeepCopyInto ext = copy_struct
    [(''BarbicanAPITemplateCore'', BarbicanAPITemplateCore_DeepCopyInto ext)]"

definition BarbicanAPITemplate_DeepCopy :: "copiers_of \<Rightarrow> copier_fun" where
  "BarbicanAPITemplate_DeepCopy ext = deep_copy (BarbicanAPITemplate_DeepCopyInto ext)"

lemma copier_BarbicanAPITemplate [copiers]: "library_types shape ext \<Longrightarrow>
    copier (BarbicanAPITemplate_ty shape) (BarbicanAPITemplate_DeepCopyInto ext)"
  by (simp add: BarbicanAPITemplate_ty_def BarbicanAPITemplate_DeepCopyInto_def
      copier_struct covers_def copiers)

definition BarbicanWorkerTemplateCore_ty :: "types_of \<Rightarrow> gty" where
  "BarbicanWorkerTemplateCore_ty shape = GStruct
    [(''BarbicanComponentTemplate'', BarbicanComponentTemplate_ty shape)]"

definition BarbicanWorkerTemplateCore_DeepCopyInto :: "copiers_of \<Rightarrow> copier_fun" where
  "BarbicanWorkerTemplateCore_DeepCopyInto ext = copy_struct
    [(''BarbicanComponentTemplate'', BarbicanComponentTemplate_DeepCopyInto ext)]"

definition BarbicanWorkerTemplateCore_DeepCopy :: "copiers_of \<Rightarrow> copier_fun" where
  "BarbicanWorkerTemplateCore_DeepCopy ext =
     deep_copy (BarbicanWorkerTemplateCore_DeepCopyInto ext)"

lemma copier_BarbicanWorkerTemplateCore [copiers]: "library_types shape ext \<Longrightarrow>
    copier (BarbicanWorkerTemplateCore_ty shape) (BarbicanWorkerTemplateCore_DeepCopyInto ext)"
  by (simp add: BarbicanWorkerTemplateCore_ty_def BarbicanWorkerTemplateCore_DeepCopyInto_def
      copier_struct covers_def copiers)

definition BarbicanWorkerTemplate_ty :: "types_of \<Rightarrow> gty" where
  "BarbicanWorkerTemplate_ty shape = GStruct
    [(''BarbicanWorkerTemplateCore'', BarbicanWorkerTemplateCore_ty shape),
     (''ContainerImage'', GScalar)]"

definition BarbicanWorkerTemplate_DeepCopyInto :: "copiers_of \<Rightarrow> copier_fun" where
  "BarbicanWorkerTemplate_DeepCopyInto ext = copy_struct
    [(''BarbicanWorkerTemplateCore'', BarbicanWorkerTemplateCore_DeepCopyInto ext)]"

definition BarbicanWorkerTemplate_DeepCopy :: "copiers_of \<Rightarrow> copier_fun" where
  "BarbicanWorkerTemplate_DeepCopy ext = deep_copy (BarbicanWorkerTemplate_DeepCopyInto ext)"

lemma copier_BarbicanWorkerTemplate [copiers]: "library_types shape ext \<Longrightarrow>
    copier (BarbicanWorkerTemplate_ty shape) (BarbicanWorkerTemplate_DeepCopyInto ext)"
  by (simp add: BarbicanWorkerTemplate_ty_def BarbicanWorkerTemplate_DeepCopyInto_def
      copier_struct covers_def copiers)

definition BarbicanKeystoneListenerTemplateCore_ty :: "types_of \<Rightarrow> gty" where
  "BarbicanKeystoneListenerTemplateCore_ty shape = GStruct
    [(''BarbicanComponentTemplate'', BarbicanComponentTemplate_ty shape)]"

definition BarbicanKeystoneListenerTemplateCore_DeepCopyInto :: "copiers_of \<Rightarrow> copier_fun" where
  "BarbicanKeystoneListenerTemplateCore_DeepCopyInto ext = copy_struct
    [(''BarbicanComponentTemplate'', BarbicanComponentTemplate_DeepCopyInto ext)]"

definition BarbicanKeystoneListenerTemplateCore_DeepCopy :: "copiers_of \<Rightarrow> copier_fun" where
  "BarbicanKeystoneListenerTemplateCore_DeepCopy ext =
     deep_copy (BarbicanKeystoneListenerTemplateCore_DeepCopyInto ext)"

lemma copier_BarbicanKeystoneListenerTemplateCore [copiers]:
  "library_types shape ext \<Longrightarrow>
    copier (BarbicanKeystoneListenerTemplateCore_ty shape) (BarbicanKeystoneListenerTemplateCore_DeepCopyInto ext)"
  by (simp add: BarbicanKeystoneListenerTemplateCore_ty_def BarbicanKeystoneListenerTemplateCore_DeepCopyInto_def
      copier_struct covers_def copiers)

definition BarbicanKeystoneListenerTemplate_ty :: "types_of \<Rightarrow> gty" where
  "BarbicanKeystoneListenerTemplate_ty shape = GStruct
    [(''BarbicanKeystoneListenerTemplateCore'', BarbicanKeystoneListenerTemplateCore_ty shape),
     (''ContainerImage'', GScalar)]"

definition BarbicanKeystoneListenerTemplate_DeepCopyInto :: "copiers_of \<Rightarrow> copier_fun" where
  "BarbicanKeystoneListenerTemplate_DeepCopyInto ext = copy_struct
    [(''BarbicanKeystoneListenerTemplateCore'', BarbicanKeystoneListenerTemplateCore_DeepCopyInto ext)]"

definition BarbicanKeystoneListenerTemplate_DeepCopy :: "copiers_of \<Rightarrow> copier_fun" where
  "BarbicanKeystoneListenerTemplate_DeepCopy ext =
     deep_copy (BarbicanKeystoneListenerTemplate_DeepCopyInto ext)"

lemma copier_BarbicanKeystoneListenerTemplate [copiers]:
  "library_types shape ext \<Longrightarrow>
    copier (BarbicanKeystoneListenerTemplate_ty shape) (BarbicanKeystoneListenerTemplate_DeepCopyInto ext)"
  by (simp add: BarbicanKeystoneListenerTemplate_ty_def BarbicanKeystoneListenerTemplate_DeepCopyInto_def
      copier_struct covers_def copiers)

definition BarbicanSpec_ty :: "types_of \<Rightarrow> gty" where
  "BarbicanSpec_ty shape = GStruct
    [(''BarbicanSpecBase'', BarbicanSpecBase_ty shape),
     (''BarbicanAPI'', BarbicanAPITemplate_ty shape),
     (''BarbicanWorker'', BarbicanWorkerTemplate_ty shape),
     (''BarbicanKeystoneListener'', BarbicanKeystoneListenerTemplate_ty shape)]"

definition BarbicanSpec_DeepCopyInto :: "copiers_of \<Rightarrow> copier_fun" where
  "BarbicanSpec_DeepCopyInto ext = copy_struct
    [(''BarbicanSpecBase'', BarbicanSpecBase_DeepCopyInto ext),
     (''BarbicanAPI'', BarbicanAPITemplate_DeepCopyInto ext),
     (''BarbicanWorker'', BarbicanWorkerTemplate_DeepCopyInto ext),
     (''BarbicanKeystoneListener'', BarbicanKeystoneListenerTemplate_DeepCopyInto ext)]"

definition BarbicanSpec_DeepCopy :: "copiers_of \<Rightarrow> copier_fun" where
  "BarbicanSpec_DeepCopy ext = deep_copy (BarbicanSpec_DeepCopyInto ext)"

lemma copier_BarbicanSpec [copiers]: "library_types shape ext \<Longrightarrow>
    copier (BarbicanSpec_ty shape) (BarbicanSpec_DeepCopyInto ext)"
  by (simp add: BarbicanSpec_ty_def BarbicanSpec_DeepCopyInto_def
      copier_struct covers_def copiers)

definition BarbicanStatus_ty :: "types_of \<Rightarrow> gty" where
  "BarbicanStatus_ty shape = GStruct
    [(''Hash'', GMap GScalar), (''ServiceID'', GScalar),
     (''Conditions'', GSlice (shape ''Condition'')), (''BarbicanAPIReadyCount'', GScalar),
     (''BarbicanWorkerReadyCount'', GScalar),
     (''BarbicanKeystoneListenerReadyCount'', GScalar), (''TransportURLSecret'', GScalar),
     (''NotificationsURLSecret'', GPtr GScalar), (''DatabaseHostname'', GScalar),
     (''ApplicationCredentialSecret'', GScalar), (''ObservedGeneration'', GScalar)]"

definition BarbicanStatus_DeepCopyInto :: "copiers_of \<Rightarrow> copier_fun" where
  "BarbicanStatus_DeepCopyInto ext = copy_struct
    [(''Hash'', copy_map assign), (''Conditions'', copy_slice (ext ''Condition'')),
     (''NotificationsURLSecret'', copy_new assign)]"

definition BarbicanStatus_DeepCopy :: "copiers_of \<Rightarrow> copier_fun" where
  "BarbicanStatus_DeepCopy ext = deep_copy (BarbicanStatus_DeepCopyInto ext)"

lemma copier_BarbicanStatus [copiers]: "library_types shape ext \<Longrightarrow>
    copier (BarbicanStatus_ty shape) (BarbicanStatus_DeepCopyInto ext)"
  by (simp add: BarbicanStatus_ty_def BarbicanStatus_DeepCopyInto_def
      copier_struct covers_def copiers)

definition Barbican_ty :: "types_of \<Rightarrow> gty" where
  "Barbican_ty shape = GStruct
    [(''TypeMeta'', shape ''TypeMeta''), (''ObjectMeta'', shape ''ObjectMeta''),
     (''Spec'', BarbicanSpec_ty shape), (''Status'', BarbicanStatus_ty shape)]"

definition Barbican_DeepCopyInto :: "copiers_of \<Rightarrow> copier_fun" where
  "Barbican_DeepCopyInto ext = copy_struct
    [(''TypeMeta'', assign), (''ObjectMeta'', ext ''ObjectMeta''),
     (''Spec'', BarbicanSpec_DeepCopyInto ext), (''Status'', BarbicanStatus_DeepCopyInto ext)]"

definition Barbican_DeepCopy :: "copiers_of \<Rightarrow> copier_fun" where
  "Barbican_DeepCopy ext = deep_copy (Barbican_DeepCopyInto ext)"

definition Barbican_DeepCopyObject ::
  "copiers_of \<Rightarrow> gval \<Rightarrow> heap \<Rightarrow> Object option \<times> heap" where
  "Barbican_DeepCopyObject ext =
     deep_copy_object ''Barbican'' (Barbican_DeepCopy ext)"

lemma copier_Barbican [copiers]: "library_types shape ext \<Longrightarrow>
    copier (Barbican_ty shape) (Barbican_DeepCopyInto ext)"
  by (simp add: Barbican_ty_def Barbican_DeepCopyInto_def
      copier_struct covers_def copiers)

definition BarbicanAPISpec_ty :: "types_of \<Rightarrow> gty" where
  "BarbicanAPISpec_ty shape = GStruct
    [(''BarbicanTemplate'', BarbicanTemplate_ty shape),
     (''BarbicanAPITemplate'', BarbicanAPITemplate_ty shape), (''DatabaseHostname'', GScalar),
     (''TransportURLSecret'', GScalar), (''NotificationsURLSecret'', GScalar)]"

definition BarbicanAPISpec_DeepCopyInto :: "copiers_of \<Rightarrow> copier_fun" where
  "BarbicanAPISpec_DeepCopyInto ext = copy_struct
    [(''BarbicanTemplate'', BarbicanTemplate_DeepCopyInto ext),
     (''BarbicanAPITemplate'', BarbicanAPITemplate_DeepCopyInto ext)]"

definition BarbicanAPISpec_DeepCopy :: "copiers_of \<Rightarrow> copier_fun" where
  "BarbicanAPISpec_DeepCopy ext = deep_copy (BarbicanAPISpec_DeepCopyInto ext)"

lemma copier_BarbicanAPISpec [copiers]: "library_types shape ext \<Longrightarrow>
    copier (BarbicanAPISpec_ty shape) (BarbicanAPISpec_DeepCopyInto ext)"
  by (simp add: BarbicanAPISpec_ty_def BarbicanAPISpec_DeepCopyInto_def
      copier_struct covers_def copiers)

definition BarbicanAPIStatus_ty :: "types_of \<Rightarrow> gty" where
  "BarbicanAPIStatus_ty shape = GStruct
    [(''ReadyCount'', GScalar), (''Hash'', GMap GScalar), (''APIEndpoints'', GMap GScalar),
     (''Conditions'', GSlice (shape ''Condition'')),
     (''NetworkAttachments'', GMap (GSlice GScalar)), (''DatabaseHostname'', GScalar),
     (''ObservedGeneration'', GScalar), (''AppliedInputSecretHash'', GScalar),
     (''LastAppliedTopology'', GPtr (shape ''TopoRef''))]"

definition BarbicanAPIStatus_DeepCopyInto :: "copiers_of \<Rightarrow> copier_fun" where
  "BarbicanAPIStatus_DeepCopyInto ext = copy_struct
    [(''Hash'', copy_map assign), (''APIEndpoints'', copy_map assign),
     (''Conditions'', copy_slice (ext ''Condition'')),
     (''NetworkAttachments'', copy_map (copy_slice assign)),
     (''LastAppliedTopology'', copy_new assign)]"

definition BarbicanAPIStatus_DeepCopy :: "copiers_of \<Rightarrow> copier_fun" where
  "BarbicanAPIStatus_DeepCopy ext = deep_copy (BarbicanAPIStatus_DeepCopyInto ext)"

lemma copier_BarbicanAPIStatus [copiers]: "library_types shape ext \<Longrightarrow>
    copier (BarbicanAPIStatus_ty shape) (BarbicanAPIStatus_DeepCopyInto ext)"
  by (simp add: BarbicanAPIStatus_ty_def BarbicanAPIStatus_DeepCopyInto_def
      copier_struct covers_def copiers)

definition BarbicanAPI_ty :: "types_of \<Rightarrow> gty" where
  "BarbicanAPI_ty shape = GStruct
    [(''TypeMeta'', shape ''TypeMeta''), (''ObjectMeta'', shape ''ObjectMeta''),
     (''Spec'', BarbicanAPISpec_ty shape), (''Status'', BarbicanAPIStatus_ty shape)]"

definition BarbicanAPI_DeepCopyInto :: "copiers_of \<Rightarrow> copier_fun" where
  "BarbicanAPI_DeepCopyInto ext = copy_struct
    [(''TypeMeta'', assign), (''ObjectMeta'', ext ''ObjectMeta''),
     (''Spec'', BarbicanAPISpec_DeepCopyInto ext),
     (''Status'', BarbicanAPIStatus_DeepCopyInto ext)]"

definition BarbicanAPI_DeepCopy :: "copiers_of \<Rightarrow> copier_fun" where
  "BarbicanAPI_DeepCopy ext = deep_copy (BarbicanAPI_DeepCopyInto ext)"

definition BarbicanAPI_DeepCopyObject ::
  "copiers_of \<Rightarrow> gval \<Rightarrow> heap \<Rightarrow> Object option \<times> heap" where
  "BarbicanAPI_DeepCopyObject ext =
     deep_copy_object ''BarbicanAPI'' (BarbicanAPI_DeepCopy ext)"

lemma copier_BarbicanAPI [copiers]: "library_types shape ext \<Longrightarrow>
    copier (BarbicanAPI_ty shape) (BarbicanAPI_DeepCopyInto ext)"
  by (simp add: BarbicanAPI_ty_def BarbicanAPI_DeepCopyInto_def
      copier_struct covers_def copiers)

definition BarbicanAPIList_ty :: "types_of \<Rightarrow> gty" where
  "BarbicanAPIList_ty shape = GStruct
    [(''TypeMeta'', shape ''TypeMeta''), (''ListMeta'', shape ''ListMeta''),
     (''Items'', GSlice (BarbicanAPI_ty shape))]"

definition BarbicanAPIList_DeepCopyInto :: "copiers_of \<Rightarrow> copier_fun" where
  "BarbicanAPIList_DeepCopyInto ext = copy_struct
    [(''TypeMeta'', assign), (''ListMeta'', ext ''ListMeta''),
     (''Items'', copy_slice (BarbicanAPI_DeepCopyInto ext))]"

definition BarbicanAPIList_DeepCopy :: "copiers_of \<Rightarrow> copier_fun" where
  "BarbicanAPIList_DeepCopy ext = deep_copy (BarbicanAPIList_DeepCopyInto ext)"

definition BarbicanAPIList_DeepCopyObject ::
  "copiers_of \<Rightarrow> gval \<Rightarrow> heap \<Rightarrow> Object option \<times> heap" where
  "BarbicanAPIList_DeepCopyObject ext =
     deep_copy_object ''BarbicanAPIList'' (BarbicanAPIList_DeepCopy ext)"

lemma copier_BarbicanAPIList [copiers]: "library_types shape ext \<Longrightarrow>
    copier (BarbicanAPIList_ty shape) (BarbicanAPIList_DeepCopyInto ext)"
  by (simp add: BarbicanAPIList_ty_def BarbicanAPIList_DeepCopyInto_def
      copier_struct covers_def copiers)

definition BarbicanKeystoneListenerSpec_ty :: "types_of \<Rightarrow> gty" where
  "BarbicanKeystoneListenerSpec_ty shape = GStruct
    [(''BarbicanTemplate'', BarbicanTemplate_ty shape),
     (''BarbicanKeystoneListenerTemplate'', BarbicanKeystoneListenerTemplate_ty shape),
     (''DatabaseHostname'', GScalar), (''TransportURLSecret'', GScalar),
     (''NotificationsURLSecret'', GScalar), (''TLS'', shape ''tls.Ca'')]"

definition BarbicanKeystoneListenerSpec_DeepCopyInto :: "copiers_of \<Rightarrow> copier_fun" where
  "BarbicanKeystoneListenerSpec_DeepCopyInto ext = copy_struct
    [(''BarbicanTemplate'', BarbicanTemplate_DeepCopyInto ext),
     (''BarbicanKeystoneListenerTemplate'', BarbicanKeystoneListenerTemplate_DeepCopyInto ext),
     (''TLS'', assign)]"

definition BarbicanKeystoneListenerSpec_DeepCopy :: "copiers_of \<Rightarrow> copier_fun" where
  "BarbicanKeystoneListenerSpec_DeepCopy ext =
     deep_copy (BarbicanKeystoneListenerSpec_DeepCopyInto ext)"

lemma copier_BarbicanKeystoneListenerSpec [copiers]: "library_types shape ext \<Longrightarrow>
    copier (BarbicanKeystoneListenerSpec_ty shape) (BarbicanKeystoneListenerSpec_DeepCopyInto ext)"
  by (simp add: BarbicanKeystoneListenerSpec_ty_def BarbicanKeystoneListenerSpec_DeepCopyInto_def
      copier_struct covers_def copiers)

definition BarbicanKeystoneListenerStatus_ty :: "types_of \<Rightarrow> gty" where
  "BarbicanKeystoneListenerStatus_ty shape = GStruct
    [(''ReadyCount'', GScalar), (''Hash'', GMap GScalar),
     (''Conditions'', GSlice (shape ''Condition'')),
     (''NetworkAttachments'', GMap (GSlice GScalar)), (''DatabaseHostname'', GScalar),
     (''ObservedGeneration'', GScalar), (''AppliedInputSecretHash'', GScalar),
     (''LastAppliedTopology'', GPtr (shape ''TopoRef''))]"

definition BarbicanKeystoneListenerStatus_DeepCopyInto :: "copiers_of \<Rightarrow> copier_fun" where
  "BarbicanKeystoneListenerStatus_DeepCopyInto ext = copy_struct
    [(''Hash'', copy_map assign), (''Conditions'', copy_slice (ext ''Condition'')),
     (''NetworkAttachments'', copy_map (copy_slice assign)),
     (''LastAppliedTopology'', copy_new assign)]"

definition BarbicanKeystoneListenerStatus_DeepCopy :: "copiers_of \<Rightarrow> copier_fun" where
  "BarbicanKeystoneListenerStatus_DeepCopy ext =
     deep_copy (BarbicanKeystoneListenerStatus_DeepCopyInto ext)"

lemma copier_BarbicanKeystoneListenerStatus [copiers]: "library_types shape ext \<Longrightarrow>
    copier (BarbicanKeystoneListenerStatus_ty shape) (BarbicanKeystoneListenerStatus_DeepCopyInto ext)"
  by (simp add: BarbicanKeystoneListenerStatus_ty_def BarbicanKeystoneListenerStatus_DeepCopyInto_def
      copier_struct covers_def copiers)

definition BarbicanKeystoneListener_ty :: "types_of \<Rightarrow> gty" where
  "BarbicanKeystoneListener_ty shape = GStruct
    [(''TypeMeta'', shape ''TypeMeta''), (''ObjectMeta'', shape ''ObjectMeta''),
     (''Spec'', BarbicanKeystoneListenerSpec_ty shape),
     (''Status'', BarbicanKeystoneListenerStatus_ty shape)]"

definition BarbicanKeystoneListener_DeepCopyInto :: "copiers_of \<Rightarrow> copier_fun" where
  "BarbicanKeystoneListener_DeepCopyInto ext = copy_struct
    [(''TypeMeta'', assign), (''ObjectMeta'', ext ''ObjectMeta''),
     (''Spec'', BarbicanKeystoneListenerSpec_DeepCopyInto ext),
     (''Status'', BarbicanKeystoneListenerStatus_DeepCopyInto ext)]"

definition BarbicanKeystoneListener_DeepCopy :: "copiers_of \<Rightarrow> copier_fun" where
  "BarbicanKeystoneListener_DeepCopy ext = deep_copy (BarbicanKeystoneListener_DeepCopyInto ext)"

definition BarbicanKeystoneListener_DeepCopyObject ::
  "copiers_of \<Rightarrow> gval \<Rightarrow> heap \<Rightarrow> Object option \<times> heap" where
  "BarbicanKeystoneListener_DeepCopyObject ext =
     deep_copy_object ''BarbicanKeystoneListener'' (BarbicanKeystoneListener_DeepCopy ext)"

lemma copier_BarbicanKeystoneListener [copiers]: "library_types shape ext \<Longrightarrow>
    copier (BarbicanKeystoneListener_ty shape) (BarbicanKeystoneListener_DeepCopyInto ext)"
  by (simp add: BarbicanKeystoneListener_ty_def BarbicanKeystoneListener_DeepCopyInto_def
      copier_struct covers_def copiers)

definition BarbicanKeystoneListenerList_ty :: "types_of \<Rightarrow> gty" where
  "BarbicanKeystoneListenerList_ty shape = GStruct
    [(''TypeMeta'', shape ''TypeMeta''), (''ListMeta'', shape ''ListMeta''),
     (''Items'', GSlice (BarbicanKeystoneListener_ty shape))]"

definition BarbicanKeystoneListenerList_DeepCopyInto :: "copiers_of \<Rightarrow> copier_fun" where
  "BarbicanKeystoneListenerList_DeepCopyInto ext = copy_struct
    [(''TypeMeta'', assign), (''ListMeta'', ext ''ListMeta''),
     (''Items'', copy_slice (BarbicanKeystoneListener_DeepCopyInto ext))]"

definition BarbicanKeystoneListenerList_DeepCopy :: "copiers_of \<Rightarrow> copier_fun" where
  "BarbicanKeystoneListenerList_DeepCopy ext =
     deep_copy (BarbicanKeystoneListenerList_DeepCopyInto ext)"

definition BarbicanKeystoneListenerList_DeepCopyObject ::
  "copiers_of \<Rightarrow> gval \<Rightarrow> heap \<Rightarrow> Object option \<times> heap" where
  "BarbicanKeystoneListenerList_DeepCopyObject ext =
     deep_copy_object ''BarbicanKeystoneListenerList'' (BarbicanKeystoneListenerList_DeepCopy ext)"

lemma copier_BarbicanKeystoneListenerList [copiers]: "library_types shape ext \<Longrightarrow>
    copier (BarbicanKeystoneListenerList_ty shape) (BarbicanKeystoneListenerList_DeepCopyInto ext)"
  by (simp add: BarbicanKeystoneListenerList_ty_def BarbicanKeystoneListenerList_DeepCopyInto_def
      copier_struct covers_def copiers)

definition BarbicanList_ty :: "types_of \<Rightarrow> gty" where
  "BarbicanList_ty shape = GStruct
    [(''TypeMeta'', shape ''TypeMeta''), (''ListMeta'', shape ''ListMeta''),
     (''Items'', GSlice (Barbican_ty shape))]"

definition BarbicanList_DeepCopyInto :: "copiers_of \<Rightarrow> copier_fun" where
  "BarbicanList_DeepCopyInto ext = copy_struct
    [(''TypeMeta'', assign), (''ListMeta'', ext ''ListMeta''),
     (''Items'', copy_slice (Barbican_DeepCopyInto ext))]"

definition BarbicanList_DeepCopy :: "copiers_of \<Rightarrow> copier_fun" where
  "BarbicanList_DeepCopy ext = deep_copy (BarbicanList_DeepCopyInto ext)"

definition BarbicanList_DeepCopyObject ::
  "copiers_of \<Rightarrow> gval \<Rightarrow> heap \<Rightarrow> Object option \<times> heap" where
  "BarbicanList_DeepCopyObject ext =
     deep_copy_object ''BarbicanList'' (BarbicanList_DeepCopy ext)"

lemma copier_BarbicanList [copiers]: "library_types shape ext \<Longrightarrow>
    copier (BarbicanList_ty shape) (BarbicanList_DeepCopyInto ext)"
  by (simp add: BarbicanList_ty_def BarbicanList_DeepCopyInto_def
      copier_struct covers_def copiers)

definition BarbicanSpecCore_ty :: "types_of \<Rightarrow> gty" where
  "BarbicanSpecCore_ty shape = GStruct
    [(''BarbicanSpecBase'', BarbicanSpecBase_ty shape),
     (''BarbicanAPI'', BarbicanAPITemplateCore_ty shape),
     (''BarbicanWorker'', BarbicanWorkerTemplateCore_ty shape),
     (''BarbicanKeystoneListener'', BarbicanKeystoneListenerTemplateCore_ty shape)]"

definition BarbicanSpecCore_DeepCopyInto :: "copiers_of \<Rightarrow> copier_fun" where
  "BarbicanSpecCore_DeepCopyInto ext = copy_struct
    [(''BarbicanSpecBase'', BarbicanSpecBase_DeepCopyInto ext),
     (''BarbicanAPI'', BarbicanAPITemplateCore_DeepCopyInto ext),
     (''BarbicanWorker'', BarbicanWorkerTemplateCore_DeepCopyInto ext),
     (''BarbicanKeystoneListener'', BarbicanKeystoneListenerTemplateCore_DeepCopyInto ext)]"

definition BarbicanSpecCore_DeepCopy :: "copiers_of \<Rightarrow> copier_fun" where
  "BarbicanSpecCore_DeepCopy ext = deep_copy (BarbicanSpecCore_DeepCopyInto ext)"

lemma copier_BarbicanSpecCore [copiers]: "library_types shape ext \<Longrightarrow>
    copier (BarbicanSpecCore_ty shape) (BarbicanSpecCore_DeepCopyInto ext)"
  by (simp add: BarbicanSpecCore_ty_def BarbicanSpecCore_DeepCopyInto_def
      copier_struct covers_def copiers)

definition BarbicanWorkerSpec_ty :: "types_of \<Rightarrow> gty" where
  "BarbicanWorkerSpec_ty shape = GStruct
    [(''BarbicanTemplate'', BarbicanTemplate_ty shape),
     (''BarbicanWorkerTemplate'', BarbicanWorkerTemplate_ty shape),
     (''DatabaseHostname'', GScalar), (''TransportURLSecret'', GScalar),
     (''NotificationsURLSecret'', GScalar), (''TLS'', shape ''tls.Ca'')]"

definition BarbicanWorkerSpec_DeepCopyInto :: "copiers_of \<Rightarrow> copier_fun" where
  "BarbicanWorkerSpec_DeepCopyInto ext = copy_struct
    [(''BarbicanTemplate'', BarbicanTemplate_DeepCopyInto ext),
     (''BarbicanWorkerTemplate'', BarbicanWorkerTemplate_DeepCopyInto ext), (''TLS'', assign)]"

definition BarbicanWorkerSpec_DeepCopy :: "copiers_of \<Rightarrow> copier_fun" where
  "BarbicanWorkerSpec_DeepCopy ext = deep_copy (BarbicanWorkerSpec_DeepCopyInto ext)"

lemma copier_BarbicanWorkerSpec [copiers]: "library_types shape ext \<Longrightarrow>
    copier (BarbicanWorkerSpec_ty shape) (BarbicanWorkerSpec_DeepCopyInto ext)"
  by (simp add: BarbicanWorkerSpec_ty_def BarbicanWorkerSpec_DeepCopyInto_def
      copier_struct covers_def copiers)

definition BarbicanWorkerStatus_ty :: "types_of \<Rightarrow> gty" where
  "BarbicanWorkerStatus_ty shape = GStruct
    [(''ReadyCount'', GScalar), (''Hash'', GMap GScalar),
     (''Conditions'', GSlice (shape ''Condition'')),
     (''NetworkAttachments'', GMap (GSlice GScalar)), (''DatabaseHostname'', GScalar),
     (''ObservedGeneration'', GScalar), (''AppliedInputSecretHash'', GScalar),
     (''LastAppliedTopology'', GPtr (shape ''TopoRef''))]"

definition BarbicanWorkerStatus_DeepCopyInto :: "copiers_of \<Rightarrow> copier_fun" where
  "BarbicanWorkerStatus_DeepCopyInto ext = copy_struct
    [(''Hash'', copy_map assign), (''Conditions'', copy_slice (ext ''Condition'')),
     (''NetworkAttachments'', copy_map (copy_slice assign)),
     (''LastAppliedTopology'', copy_new assign)]"

definition BarbicanWorkerStatus_DeepCopy :: "copiers_of \<Rightarrow> copier_fun" where
  "BarbicanWorkerStatus_DeepCopy ext = deep_copy (BarbicanWorkerStatus_DeepCopyInto ext)"

lemma copier_BarbicanWorkerStatus [copiers]: "library_types shape ext \<Longrightarrow>
    copier (BarbicanWorkerStatus_ty shape) (BarbicanWorkerStatus_DeepCopyInto ext)"
  by (simp add: BarbicanWorkerStatus_ty_def BarbicanWorkerStatus_DeepCopyInto_def
      copier_struct covers_def copiers)

definition BarbicanWorker_ty :: "types_of \<Rightarrow> gty" where
  "BarbicanWorker_ty shape = GStruct
    [(''TypeMeta'', shape ''TypeMeta''), (''ObjectMeta'', shape ''ObjectMeta''),
     (''Spec'', BarbicanWorkerSpec_ty shape), (''Status'', BarbicanWorkerStatus_ty shape)]"

definition BarbicanWorker_DeepCopyInto :: "copiers_of \<Rightarrow> copier_fun" where
  "BarbicanWorker_DeepCopyInto ext = copy_struct
    [(''TypeMeta'', assign), (''ObjectMeta'', ext ''ObjectMeta''),
     (''Spec'', BarbicanWorkerSpec_DeepCopyInto ext),
     (''Status'', BarbicanWorkerStatus_DeepCopyInto ext)]"

definition BarbicanWorker_DeepCopy :: "copiers_of \<Rightarrow> copier_fun" where
  "BarbicanWorker_DeepCopy ext = deep_copy (BarbicanWorker_DeepCopyInto ext)"

definition BarbicanWorker_DeepCopyObject ::
  "copiers_of \<Rightarrow> gval \<Rightarrow> heap \<Rightarrow> Object option \<times> heap" where
  "BarbicanWorker_DeepCopyObject ext =
     deep_copy_object ''BarbicanWorker'' (BarbicanWorker_DeepCopy ext)"

lemma copier_BarbicanWorker [copiers]: "library_types shape ext \<Longrightarrow>
    copier (BarbicanWorker_ty shape) (BarbicanWorker_DeepCopyInto ext)"
  by (simp add: BarbicanWorker_ty_def BarbicanWorker_DeepCopyInto_def
      copier_struct covers_def copiers)

definition BarbicanWorkerList_ty :: "types_of \<Rightarrow> gty" where
  "BarbicanWorkerList_ty shape = GStruct
    [(''TypeMeta'', shape ''TypeMeta''), (''ListMeta'', shape ''ListMeta''),
     (''Items'', GSlice (BarbicanWorker_ty shape))]"

definition BarbicanWorkerList_DeepCopyInto :: "copiers_of \<Rightarrow> copier_fun" where
  "BarbicanWorkerList_DeepCopyInto ext = copy_struct
    [(''TypeMeta'', assign), (''ListMeta'', ext ''ListMeta''),
     (''Items'', copy_slice (BarbicanWorker_DeepCopyInto ext))]"

definition BarbicanWorkerList_DeepCopy :: "copiers_of \<Rightarrow> copier_fun" where
  "BarbicanWorkerList_DeepCopy ext = deep_copy (BarbicanWorkerList_DeepCopyInto ext)"

definition BarbicanWorkerList_DeepCopyObject ::
  "copiers_of \<Rightarrow> gval \<Rightarrow> heap \<Rightarrow> Object option \<times> heap" where
  "BarbicanWorkerList_DeepCopyObject ext =
     deep_copy_object ''BarbicanWorkerList'' (BarbicanWorkerList_DeepCopy ext)"

lemma copier_BarbicanWorkerList [copiers]: "library_types shape ext \<Longrightarrow>
    copier (BarbicanWorkerList_ty shape) (BarbicanWorkerList_DeepCopyInto ext)"
  by (simp add: BarbicanWorkerList_ty_def BarbicanWorkerList_DeepCopyInto_def
      copier_struct covers_def copiers)

section \<open>All of them\<close>

text \<open>The structs that need no library type meet the contract as they are.\<close>

interpretation password_selector: copier PasswordSelector_ty PasswordSelector_DeepCopyInto
  by (rule copier_PasswordSelector)

interpretation client_data: copier ClientDataSpec_ty ClientDataSpec_DeepCopyInto
  by (rule copier_ClientDataSpec)

interpretation pkcs11_template: copier BarbicanPKCS11Template_ty BarbicanPKCS11Template_DeepCopyInto
  by (rule copier_BarbicanPKCS11Template)

interpretation kmip_template: copier BarbicanKMIPTemplate_ty BarbicanKMIPTemplate_DeepCopyInto
  by (rule copier_BarbicanKMIPTemplate)

text \<open>The structs of the package, each with its type and its copy function.\<close>

definition deep_copies ::
  "types_of \<Rightarrow> copiers_of \<Rightarrow> (string \<times> gty \<times> copier_fun) list" where
  "deep_copies shape ext =
    [(''BarbicanDefaults'', BarbicanDefaults_ty,
      BarbicanDefaults_DeepCopyInto),
     (''AuthSpec'', AuthSpec_ty,
      AuthSpec_DeepCopyInto),
     (''ClientDataSpec'', ClientDataSpec_ty,
      ClientDataSpec_DeepCopyInto),
     (''PasswordSelector'', PasswordSelector_ty,
      PasswordSelector_DeepCopyInto),
     (''BarbicanPKCS11Template'', BarbicanPKCS11Template_ty,
      BarbicanPKCS11Template_DeepCopyInto),
     (''BarbicanKMIPTemplate'', BarbicanKMIPTemplate_ty,
      BarbicanKMIPTemplate_DeepCopyInto),
     (''BarbicanExtraVolMounts'', BarbicanExtraVolMounts_ty shape,
      BarbicanExtraVolMounts_DeepCopyInto ext),
     (''BarbicanTemplate'', BarbicanTemplate_ty shape,
      BarbicanTemplate_DeepCopyInto ext),
     (''BarbicanComponentTemplate'', BarbicanComponentTemplate_ty shape,
      BarbicanComponentTemplate_DeepCopyInto ext),
     (''APIOverrideSpec'', APIOverrideSpec_ty shape,
      APIOverrideSpec_DeepCopyInto ext),
     (''BarbicanSpecBase'', BarbicanSpecBase_ty shape,
      BarbicanSpecBase_DeepCopyInto ext),
     (''BarbicanAPITemplateCore'', BarbicanAPITemplateCore_ty shape,
      BarbicanAPITemplateCore_DeepCopyInto ext),
     (''BarbicanAPITemplate'', BarbicanAPITemplate_ty shape,
      BarbicanAPITemplate_DeepCopyInto ext),
     (''BarbicanWorkerTemplateCore'', BarbicanWorkerTemplateCore_ty shape,
      BarbicanWorkerTemplateCore_DeepCopyInto ext),
     (''BarbicanWorkerTemplate'', BarbicanWorkerTemplate_ty shape,
      BarbicanWorkerTemplate_DeepCopyInto ext),
     (''BarbicanKeystoneListenerTemplateCore'', BarbicanKeystoneListenerTemplateCore_ty shape,
      BarbicanKeystoneListenerTemplateCore_DeepCopyInto ext),
     (''BarbicanKeystoneListenerTemplate'', BarbicanKeystoneListenerTemplate_ty shape,
      BarbicanKeystoneListenerTemplate_DeepCopyInto ext),
     (''BarbicanSpec'', BarbicanSpec_ty shape,
      BarbicanSpec_DeepCopyInto ext),
     (''BarbicanStatus'', BarbicanStatus_ty shape,
      BarbicanStatus_DeepCopyInto ext),
     (''Barbican'', Barbican_ty shape,
      Barbican_DeepCopyInto ext),
     (''BarbicanAPISpec'', BarbicanAPISpec_ty shape,
      BarbicanAPISpec_DeepCopyInto ext),
     (''BarbicanAPIStatus'', BarbicanAPIStatus_ty shape,
      BarbicanAPIStatus_DeepCopyInto ext),
     (''BarbicanAPI'', BarbicanAPI_ty shape,
      BarbicanAPI_DeepCopyInto ext),
     (''BarbicanAPIList'', BarbicanAPIList_ty shape,
      BarbicanAPIList_DeepCopyInto ext),
     (''BarbicanKeystoneListenerSpec'', BarbicanKeystoneListenerSpec_ty shape,
      BarbicanKeystoneListenerSpec_DeepCopyInto ext),
     (''BarbicanKeystoneListenerStatus'', BarbicanKeystoneListenerStatus_ty shape,
      BarbicanKeystoneListenerStatus_DeepCopyInto ext),
     (''BarbicanKeystoneListener'', BarbicanKeystoneListener_ty shape,
      BarbicanKeystoneListener_DeepCopyInto ext),
     (''BarbicanKeystoneListenerList'', BarbicanKeystoneListenerList_ty shape,
      BarbicanKeystoneListenerList_DeepCopyInto ext),
     (''BarbicanList'', BarbicanList_ty shape,
      BarbicanList_DeepCopyInto ext),
     (''BarbicanSpecCore'', BarbicanSpecCore_ty shape,
      BarbicanSpecCore_DeepCopyInto ext),
     (''BarbicanWorkerSpec'', BarbicanWorkerSpec_ty shape,
      BarbicanWorkerSpec_DeepCopyInto ext),
     (''BarbicanWorkerStatus'', BarbicanWorkerStatus_ty shape,
      BarbicanWorkerStatus_DeepCopyInto ext),
     (''BarbicanWorker'', BarbicanWorker_ty shape,
      BarbicanWorker_DeepCopyInto ext),
     (''BarbicanWorkerList'', BarbicanWorkerList_ty shape,
      BarbicanWorkerList_DeepCopyInto ext)]"

lemma deep_copies_copier:
  "library_types shape ext \<Longrightarrow> (n, ty, into) \<in> set (deep_copies shape ext) \<Longrightarrow> copier ty into"
  by (auto simp: deep_copies_def intro: copiers)

end
