(* ===== verification/Process.thy ===== *)
theory Process
  imports Kube Handler "HOL-Library.Sublist"
begin

text \<open>
  The manager process (\<open>cmd/main.go\<close>): the flags, the TLS options of the two servers, and the start-up
  sequence. The code shares the slice of TLS options between the webhook server and the metrics
  server and appends to both, so slices are modelled with their backing arrays. A slice of the
  process is a length and an address into the list of arrays; \<open>append\<close> writes in place when the array
  has room and otherwise copies into a new one, whose capacity the runtime chooses (\<open>grow\<close>).
\<close>

section \<open>Slices\<close>

record slice =
  arr :: nat  \<comment> \<open>the backing array\<close>
  len :: nat

type_synonym 'a arrays = "'a list list"  \<comment> \<open>the length of an array is its capacity\<close>

definition slice_elems :: "'a arrays \<Rightarrow> slice \<Rightarrow> 'a list" where
  "slice_elems h s = take (len s) (h ! arr s)"

text \<open>\<open>append(s, x)\<close>; \<open>z\<close> is the zero value that fills the spare room.\<close>

definition slice_append :: "(nat \<Rightarrow> nat) \<Rightarrow> 'a \<Rightarrow> 'a \<Rightarrow> slice \<Rightarrow> 'a arrays \<Rightarrow> slice \<times> 'a arrays" where
  "slice_append grow z x s h =
     (if len s < length (h ! arr s)
      then (s\<lparr>len := len s + 1\<rparr>, h[arr s := (h ! arr s)[len s := x]])
      else (let a = slice_elems h s @ [x]
        in (\<lparr>arr = length h, len = len s + 1\<rparr>,
            h @ [a @ replicate (grow (len s + 1) - (len s + 1)) z])))"

section \<open>Flags\<close>

record flags =
  metricsAddr :: string
  probeAddr :: string
  enableLeaderElection :: bool
  secureMetrics :: bool
  webhookCertPath :: string
  webhookCertName :: string
  webhookCertKey :: string
  metricsCertPath :: string
  metricsCertName :: string
  metricsCertKey :: string
  pprofBindAddress :: string
  webhookPort :: int
  enableHTTP2 :: bool

definition default_flags :: flags where
  "default_flags = \<lparr>metricsAddr = ''0'', probeAddr = '':8081'', enableLeaderElection = False,
     secureMetrics = True, webhookCertPath = [], webhookCertName = ''tls.crt'', webhookCertKey = ''tls.key'',
     metricsCertPath = [], metricsCertName = ''tls.crt'', metricsCertKey = ''tls.key'',
     pprofBindAddress = [], webhookPort = 9443, enableHTTP2 = False\<rparr>"

section \<open>TLS options\<close>

datatype tls_version = VersionTLS12 | VersionTLS13

datatype watcher = WebhookCert | MetricsCert

text \<open>The closures of the code, and the zero value of a function type.\<close>

datatype tls_opt = MinTLS13 | DisableHTTP2 | UseCertificate watcher | NilOpt

record tls_config =
  MinVersion :: "tls_version option"
  NextProtos :: "string list"
  GetCertificate :: "watcher option"

fun apply_opt :: "tls_opt \<Rightarrow> tls_config \<Rightarrow> tls_config" where
  "apply_opt MinTLS13 c = c\<lparr>MinVersion := Some VersionTLS13\<rparr>"
| "apply_opt DisableHTTP2 c = c\<lparr>NextProtos := [''http/1.1'']\<rparr>"
| "apply_opt (UseCertificate w) c = c\<lparr>GetCertificate := Some w\<rparr>"
| "apply_opt NilOpt c = c"

definition tls_config_of :: "tls_opt list \<Rightarrow> tls_config" where
  "tls_config_of opts = fold apply_opt opts \<lparr>MinVersion = None, NextProtos = [], GetCertificate = None\<rparr>"

abbreviation append_opt :: "(nat \<Rightarrow> nat) \<Rightarrow> tls_opt \<Rightarrow> slice \<Rightarrow> tls_opt arrays \<Rightarrow> slice \<times> tls_opt arrays" where
  "append_opt grow \<equiv> slice_append grow NilOpt"

text \<open>The nil slice has no backing array: an empty one.\<close>

definition tls_options :: "(nat \<Rightarrow> nat) \<Rightarrow> flags \<Rightarrow> slice \<times> tls_opt arrays" where
  "tls_options grow f = (let
     (tlsOpts, h) = append_opt grow MinTLS13 \<lparr>arr = 0, len = 0\<rparr> [[]]
   in (if \<not> enableHTTP2 f then append_opt grow DisableHTTP2 tlsOpts h else (tlsOpts, h)))"

definition webhook_options :: "(nat \<Rightarrow> nat) \<Rightarrow> flags \<Rightarrow> slice \<Rightarrow> tls_opt arrays \<Rightarrow> slice \<times> tls_opt arrays" where
  "webhook_options grow f tlsOpts h =
     (if length (webhookCertPath f) > 0 then append_opt grow (UseCertificate WebhookCert) tlsOpts h
      else (tlsOpts, h))"

definition metrics_options :: "(nat \<Rightarrow> nat) \<Rightarrow> flags \<Rightarrow> slice \<Rightarrow> tls_opt arrays \<Rightarrow> slice \<times> tls_opt arrays" where
  "metrics_options grow f tlsOpts h =
     (if length (metricsCertPath f) > 0 then append_opt grow (UseCertificate MetricsCert) tlsOpts h
      else (tlsOpts, h))"

text \<open>The options the two servers see when they start: the slices are read after both appends.\<close>

definition server_options :: "(nat \<Rightarrow> nat) \<Rightarrow> flags \<Rightarrow> tls_opt list \<times> tls_opt list" where
  "server_options grow f = (let
     (tlsOpts, h) = tls_options grow f;
     (webhookTLSOpts, h) = webhook_options grow f tlsOpts h;
     (metricsTLSOpts, h) = metrics_options grow f tlsOpts h
   in (slice_elems h webhookTLSOpts, slice_elems h metricsTLSOpts))"

section \<open>The start-up sequence\<close>

datatype checker = Ping | WebhookStarted

record metrics_server =
  BindAddress :: string
  SecureServing :: bool
  metrics_TLSOpts :: "tls_opt list"
  WithAuthenticationAndAuthorization :: bool

record manager_options =
  mo_Metrics :: metrics_server
  webhook_Port :: int
  webhook_TLSOpts :: "tls_opt list"
  HealthProbeBindAddress :: string
  PprofBindAddress :: string
  LeaderElection :: bool
  LeaderElectionID :: string

datatype main_event =
    CertWatcher string string
  | SetManagerOptions manager_options
  | NewManager
  | GetConfig
  | NewForConfig
  | SetupController string
  | SetupDefaults
  | SetupWebhook
  | AddWatcher watcher
  | AddHealthzCheck checker
  | AddReadyzCheck checker
  | StartManager

text \<open>The calls the process makes that can fail.\<close>

record 'w mainlib =
  main_call :: "main_event \<Rightarrow> 'w \<Rightarrow> gerr option \<times> 'w"
  filepath_Join :: "string \<Rightarrow> string \<Rightarrow> string"

text \<open>
  \<open>if err := ...; err != nil { os.Exit(1) }\<close>: the left summand is the exit of the process. \<open>inst\<close>
  is not used.
\<close>

datatype exit = Exit1

type_synonym ('w, 'a) process = "(('w, unit, main_event) rstate, exit + 'a) state"

definition must :: "'w mainlib \<Rightarrow> main_event \<Rightarrow> ('w, unit) process" where
  "must L ev = do {
     e \<leftarrow> invoke ev (main_call L ev);
     case e of None \<Rightarrow> fall_through () | Some err \<Rightarrow> done_with Exit1
   }"

definition controllers :: "string list" where
  "controllers = [''BarbicanAPI'', ''Barbican'', ''BarbicanWorker'', ''BarbicanKeystoneListener'']"

definition watch_certs :: "'w mainlib \<Rightarrow> string \<Rightarrow> string \<Rightarrow> string \<Rightarrow> ('w, unit) process" where
  "watch_certs L path name key =
     (if length path > 0 then must L (CertWatcher (filepath_Join L path name) (filepath_Join L path key))
      else fall_through ())"

definition main_options :: "(nat \<Rightarrow> nat) \<Rightarrow> flags \<Rightarrow> manager_options" where
  "main_options grow f = (let (webhookTLSOpts, metricsTLSOpts) = server_options grow f in
     \<lparr>mo_Metrics = \<lparr>BindAddress = metricsAddr f, SecureServing = secureMetrics f,
        metrics_TLSOpts = metricsTLSOpts, WithAuthenticationAndAuthorization = secureMetrics f\<rparr>,
      webhook_Port = webhookPort f, webhook_TLSOpts = webhookTLSOpts,
      HealthProbeBindAddress = probeAddr f, PprofBindAddress = pprofBindAddress f,
      LeaderElection = enableLeaderElection f, LeaderElectionID = ''8cc931b9.openstack.org''\<rparr>)"

text \<open>\<open>enable_webhooks\<close> is the value of the environment variable, empty when unset.\<close>

definition main :: "'w mainlib \<Rightarrow> (nat \<Rightarrow> nat) \<Rightarrow> flags \<Rightarrow> string \<Rightarrow> ('w, unit) process" where
  "main L grow f enable_webhooks = (let
     checker = (if enable_webhooks \<noteq> ''false'' then WebhookStarted else Ping)
   in
     proceed (watch_certs L (webhookCertPath f) (webhookCertName f) (webhookCertKey f)) (\<lambda>_.
     proceed (watch_certs L (metricsCertPath f) (metricsCertName f) (metricsCertKey f)) (\<lambda>_.
     proceed (must L (SetManagerOptions (main_options grow f))) (\<lambda>_.
     proceed (must L NewManager) (\<lambda>_.
     proceed (must L GetConfig) (\<lambda>_.
     proceed (must L NewForConfig) (\<lambda>_.
     proceed (for_each (\<lambda>c. must L (SetupController c)) controllers) (\<lambda>_. do {
     invoke SetupDefaults (\<lambda>w. ((), w));
     proceed (if enable_webhooks \<noteq> ''false'' then must L SetupWebhook else fall_through ()) (\<lambda>_.
     proceed (if length (metricsCertPath f) > 0 then must L (AddWatcher MetricsCert) else fall_through ()) (\<lambda>_.
     proceed (if length (webhookCertPath f) > 0 then must L (AddWatcher WebhookCert) else fall_through ()) (\<lambda>_.
     proceed (must L (AddHealthzCheck checker)) (\<lambda>_.
     proceed (must L (AddReadyzCheck checker)) (\<lambda>_.
     must L StartManager)))))
     }))))))))"

section \<open>The order of the start-up\<close>

text \<open>All calls of a start-up that succeeds.\<close>

definition start_sequence :: "'w mainlib \<Rightarrow> (nat \<Rightarrow> nat) \<Rightarrow> flags \<Rightarrow> string \<Rightarrow> main_event list" where
  "start_sequence L grow f enable_webhooks = (let
     checker = (if enable_webhooks \<noteq> ''false'' then WebhookStarted else Ping);
     watch = (\<lambda>path name key. if path \<noteq> [] then [CertWatcher (filepath_Join L path name) (filepath_Join L path key)] else [])
   in watch (webhookCertPath f) (webhookCertName f) (webhookCertKey f) @
     watch (metricsCertPath f) (metricsCertName f) (metricsCertKey f) @
     [SetManagerOptions (main_options grow f), NewManager, GetConfig, NewForConfig] @
     map SetupController controllers @ [SetupDefaults] @
     (if enable_webhooks \<noteq> ''false'' then [SetupWebhook] else []) @
     (if metricsCertPath f \<noteq> [] then [AddWatcher MetricsCert] else []) @
     (if webhookCertPath f \<noteq> [] then [AddWatcher WebhookCert] else []) @
     [AddHealthzCheck checker, AddReadyzCheck checker, StartManager])"

text \<open>A part of the process goes through a sequence of calls, in order, and leaves it only by exiting.\<close>

definition goes_through :: "('w, 'a) process \<Rightarrow> main_event list \<Rightarrow> bool" where
  "goes_through m evs \<longleftrightarrow> (\<forall>s r t. run_state m s = (r, t) \<longrightarrow>
     (\<exists>p. trace t = trace s @ p \<and> prefix p evs \<and> (r \<noteq> Inl Exit1 \<longrightarrow> p = evs)))"

lemma through_must: "goes_through (must L ev) [ev]"
  by (auto simp: goes_through_def must_def split: option.splits)

lemma through_fall: "goes_through (fall_through a) []"
  by (simp add: goes_through_def)

lemma through_proceed:
  assumes "goes_through m xs" and "\<And>a. goes_through (f a) ys"
  shows "goes_through (proceed m f) (xs @ ys)"
  unfolding goes_through_def
proof (intro allI impI)
  fix s :: "('a, unit, main_event) rstate" and r t
  assume run: "run_state (proceed m f) s = (r, t)"
  obtain x s1 where m: "run_state m s = (x, s1)" by fastforce
  with assms(1) obtain p where p: "trace s1 = trace s @ p" "prefix p xs" "x \<noteq> Inl Exit1 \<longrightarrow> p = xs"
    unfolding goes_through_def by blast
  show "\<exists>p. trace t = trace s @ p \<and> prefix p (xs @ ys) \<and> (r \<noteq> Inl Exit1 \<longrightarrow> p = xs @ ys)"
  proof (cases x)
    case (Inl e)
    with run m p show ?thesis by (cases e) auto
  next
    case (Inr a)
    with run m have "run_state (f a) s1 = (r, t)" by simp
    with assms(2) obtain q where "trace t = trace s1 @ q" "prefix q ys" "r \<noteq> Inl Exit1 \<longrightarrow> q = ys"
      unfolding goes_through_def by blast
    with p Inr show ?thesis by auto
  qed
qed

lemma through_after:
  assumes "goes_through m ys"
  shows "goes_through (State_Monad.bind (invoke ev g) (\<lambda>_. m)) (ev # ys)"
  unfolding goes_through_def
proof (intro allI impI)
  fix s :: "('a, unit, main_event) rstate" and r t
  assume "run_state (State_Monad.bind (invoke ev g) (\<lambda>_. m)) s = (r, t)"
  then have "run_state m (s\<lparr>world := snd (g (world s)), trace := trace s @ [ev]\<rparr>) = (r, t)" by simp
  with assms obtain p where "trace t = (trace s @ [ev]) @ p" "prefix p ys" "r \<noteq> Inl Exit1 \<longrightarrow> p = ys"
    unfolding goes_through_def by fastforce
  then show "\<exists>p. trace t = trace s @ p \<and> prefix p (ev # ys) \<and> (r \<noteq> Inl Exit1 \<longrightarrow> p = ev # ys)"
    by (intro exI [of _ "ev # p"]) simp
qed

lemma through_if: "goes_through m xs \<Longrightarrow> goes_through (if b then m else fall_through ()) (if b then xs else [])"
  by (simp add: through_fall)

lemma through_each: "(\<And>x. goes_through (f x) [g x]) \<Longrightarrow> goes_through (for_each f xs) (map g xs)"
proof (induction xs)
  case (Cons x xs)
  then show ?case
    using through_proceed [of "f x" "[g x]" "\<lambda>_. for_each f xs" "map g xs"] by simp
qed (simp add: through_fall)

lemma main_through: "goes_through (main L grow f env) (start_sequence L grow f env)"
proof -
  have certs: "goes_through (watch_certs L path name key)
      (if path \<noteq> [] then [CertWatcher (filepath_Join L path name) (filepath_Join L path key)] else [])" for path name key
    by (simp add: watch_certs_def through_must through_fall)
  have rest: "goes_through (proceed (must L ev) (\<lambda>_. m)) (ev # ys)" if "goes_through m ys" for ev m ys
    using through_proceed [OF through_must that, of L ev] by simp
  show ?thesis
    unfolding main_def start_sequence_def Let_def length_greater_0_conv append_Cons append_Nil
    by (intro through_proceed certs rest through_after through_if through_each through_must)
qed

section \<open>Properties\<close>

text \<open>
  C30. The manager starts last: whatever fails, the process makes a prefix of its start-up sequence,
  in which both certificate watchers, the client, all four controllers, the defaults, the webhook (unless
  disabled) and the health checks precede the start of the manager; it ends without an exit only after
  the whole sequence.
\<close>

theorem manager_starts_last:
  "prefix (events_of (main L grow f env) s) (start_sequence L grow f env) \<and>
   (result_of (main L grow f env) s = Inr () \<longrightarrow>
     events_of (main L grow f env) s = start_sequence L grow f env) \<and>
   last (start_sequence L grow f env) = StartManager \<and>
   map SetupController [''BarbicanAPI'', ''Barbican'', ''BarbicanWorker'', ''BarbicanKeystoneListener''] =
     filter (\<lambda>e. \<exists>c. e = SetupController c) (start_sequence L grow f env)"
proof (intro conjI)
  obtain r t where run: "run_state (main L grow f env) s = (r, t)" by fastforce
  with main_through [of L grow f env] obtain p where "trace t = trace s @ p"
    "prefix p (start_sequence L grow f env)" "r \<noteq> Inl Exit1 \<longrightarrow> p = start_sequence L grow f env"
    unfolding goes_through_def by blast
  with run show "prefix (events_of (main L grow f env) s) (start_sequence L grow f env)"
    "result_of (main L grow f env) s = Inr () \<longrightarrow> events_of (main L grow f env) s = start_sequence L grow f env"
    by (auto simp: events_of_def result_of_def)
qed (simp_all add: start_sequence_def controllers_def Let_def)

theorem manager_starts_last_witness:
  "events_of (main \<lparr>main_call = (\<lambda>ev w. (None, w)), filepath_Join = (\<lambda>a b. a @ b)\<rparr> id default_flags [])
     \<lparr>world = (), inst = (), trace = []\<rparr> =
   start_sequence \<lparr>main_call = (\<lambda>ev (w :: unit). (None, w)), filepath_Join = (\<lambda>a b. a @ b)\<rparr> id default_flags []"
proof -
  let ?L = "\<lparr>main_call = (\<lambda>ev (w :: unit). (None, w)), filepath_Join = (\<lambda>a b. a @ b)\<rparr>"
  have "result_of (main ?L id default_flags []) \<lparr>world = (), inst = (), trace = []\<rparr> = Inr ()"
    by (simp add: result_of_def main_def Let_def watch_certs_def must_def controllers_def default_flags_def)
  with manager_starts_last [of ?L id default_flags "[]" "\<lparr>world = (), inst = (), trace = []\<rparr>"]
  show ?thesis by (simp only: simp_thms)
qed

text \<open>The servers' configurations.\<close>

definition server_tls :: "flags \<Rightarrow> watcher option \<Rightarrow> tls_config" where
  "server_tls f cert = \<lparr>MinVersion = Some VersionTLS13,
     NextProtos = (if enableHTTP2 f then [] else [''http/1.1'']), GetCertificate = cert\<rparr>"

text \<open>
  C31. The TLS configuration of the two servers: TLS 1.3 at least, HTTP/2 switched off unless it was asked
  for, and each server presents its own certificate. Both take the first options from the same slice;
  they stay independent because the runtime leaves no spare room in an array of one or two options.
\<close>

theorem servers_configured:
  assumes "grow 1 \<le> 1" and "grow 2 \<le> 2"
  shows "tls_config_of (fst (server_options grow f)) =
      server_tls f (if webhookCertPath f \<noteq> [] then Some WebhookCert else None) \<and>
    tls_config_of (snd (server_options grow f)) =
      server_tls f (if metricsCertPath f \<noteq> [] then Some MetricsCert else None)"
  using assms
  by (auto simp: server_options_def tls_options_def webhook_options_def metrics_options_def Let_def
      slice_append_def slice_elems_def tls_config_of_def server_tls_def numeral_2_eq_2 nth_append)

definition ex_flags :: flags where
  "ex_flags = default_flags\<lparr>webhookCertPath := ''/webhook'', metricsCertPath := ''/metrics''\<rparr>"

theorem servers_configured_witness:
  "GetCertificate (tls_config_of (fst (server_options id ex_flags))) = Some WebhookCert \<and>
   GetCertificate (tls_config_of (snd (server_options id ex_flags))) = Some MetricsCert"
  using servers_configured [of id ex_flags] by (simp add: server_tls_def ex_flags_def)

text \<open>
  The language promises no more than that \<open>append\<close> allocates enough room. With a runtime that
  allocates spare room the two appends write to the same element, and the webhook server would present the
  certificate of the metrics server.
\<close>

lemma shared_slice_hazard:
  "\<exists>grow. (\<forall>n. n \<le> grow n) \<and>
     GetCertificate (tls_config_of (fst (server_options grow ex_flags))) = Some MetricsCert"
proof (intro exI conjI allI)
  show "n \<le> max 4 n" for n :: nat by simp
  show "GetCertificate (tls_config_of (fst (server_options (max 4) ex_flags))) = Some MetricsCert"
    by (simp add: server_options_def tls_options_def webhook_options_def metrics_options_def Let_def
        slice_append_def slice_elems_def tls_config_of_def ex_flags_def default_flags_def numeral_eq_Suc)
qed

end
