(* ===== verification/Scheme.thy ===== *)
theory Scheme
  imports Deep_Copy_Types Watches Process
begin

text \<open>
  How the kinds of the operator become known to its process: the \<open>init\<close> functions of the API
  package's type files register their objects with the package's \<open>SchemeBuilder\<close>
  (\<open>api/v1beta1/groupversion_info.go\<close>), and the \<open>init\<close> function of \<open>cmd/main.go\<close> adds this and
  six other packages to the scheme the manager is given, panicking on the first error. The RBAC
  markers above the \<open>Reconcile\<close> methods, from which the operator's role is generated, are listed
  with them: a watch needs both the registration and the permission.

  The scheme itself and the other packages' \<open>AddToScheme\<close> are parameters (\<open>schemelib\<close>); which kinds
  a package registers is an argument \<open>kinds_of\<close>.
\<close>

section \<open>The package's registrations\<close>

record GroupVersion =
  gv_Group :: string
  gv_Version :: string

text \<open>A registered object: its kind, its type and the method through which it is copied.\<close>

record prototype =
  proto_Kind :: string
  proto_Type :: gty
  proto_DeepCopyObject :: "gval \<Rightarrow> heap \<Rightarrow> Object option \<times> heap"

record SchemeBuilder =
  sb_GroupVersion :: GroupVersion
  sb_Objects :: "prototype list"

definition Register :: "prototype list \<Rightarrow> SchemeBuilder \<Rightarrow> SchemeBuilder" where
  "Register objs b = b\<lparr>sb_Objects := sb_Objects b @ objs\<rparr>"

definition new_SchemeBuilder :: SchemeBuilder where
  "new_SchemeBuilder =
     \<lparr>sb_GroupVersion = \<lparr>gv_Group = ''barbican.openstack.org'', gv_Version = ''v1beta1''\<rparr>,
      sb_Objects = []\<rparr>"

definition Barbican_init :: "types_of \<Rightarrow> copiers_of \<Rightarrow> SchemeBuilder \<Rightarrow> SchemeBuilder" where
  "Barbican_init shape ext = Register
     [\<lparr>proto_Kind = ''Barbican'', proto_Type = Barbican_ty shape,
       proto_DeepCopyObject = Barbican_DeepCopyObject ext\<rparr>,
      \<lparr>proto_Kind = ''BarbicanList'', proto_Type = BarbicanList_ty shape,
       proto_DeepCopyObject = BarbicanList_DeepCopyObject ext\<rparr>]"

definition BarbicanAPI_init :: "types_of \<Rightarrow> copiers_of \<Rightarrow> SchemeBuilder \<Rightarrow> SchemeBuilder" where
  "BarbicanAPI_init shape ext = Register
     [\<lparr>proto_Kind = ''BarbicanAPI'', proto_Type = BarbicanAPI_ty shape,
       proto_DeepCopyObject = BarbicanAPI_DeepCopyObject ext\<rparr>,
      \<lparr>proto_Kind = ''BarbicanAPIList'', proto_Type = BarbicanAPIList_ty shape,
       proto_DeepCopyObject = BarbicanAPIList_DeepCopyObject ext\<rparr>]"

definition BarbicanKeystoneListener_init ::
  "types_of \<Rightarrow> copiers_of \<Rightarrow> SchemeBuilder \<Rightarrow> SchemeBuilder" where
  "BarbicanKeystoneListener_init shape ext = Register
     [\<lparr>proto_Kind = ''BarbicanKeystoneListener'', proto_Type = BarbicanKeystoneListener_ty shape,
       proto_DeepCopyObject = BarbicanKeystoneListener_DeepCopyObject ext\<rparr>,
      \<lparr>proto_Kind = ''BarbicanKeystoneListenerList'',
       proto_Type = BarbicanKeystoneListenerList_ty shape,
       proto_DeepCopyObject = BarbicanKeystoneListenerList_DeepCopyObject ext\<rparr>]"

definition BarbicanWorker_init :: "types_of \<Rightarrow> copiers_of \<Rightarrow> SchemeBuilder \<Rightarrow> SchemeBuilder" where
  "BarbicanWorker_init shape ext = Register
     [\<lparr>proto_Kind = ''BarbicanWorker'', proto_Type = BarbicanWorker_ty shape,
       proto_DeepCopyObject = BarbicanWorker_DeepCopyObject ext\<rparr>,
      \<lparr>proto_Kind = ''BarbicanWorkerList'', proto_Type = BarbicanWorkerList_ty shape,
       proto_DeepCopyObject = BarbicanWorkerList_DeepCopyObject ext\<rparr>]"

text \<open>The builder once the package is initialised, its files in the order of their names.\<close>

definition registered :: "types_of \<Rightarrow> copiers_of \<Rightarrow> SchemeBuilder" where
  "registered shape ext =
     BarbicanWorker_init shape ext (BarbicanKeystoneListener_init shape ext
       (BarbicanAPI_init shape ext (Barbican_init shape ext new_SchemeBuilder)))"

section \<open>The scheme of the process\<close>

record 'w schemelib =
  AddToScheme :: "string \<Rightarrow> 'w \<Rightarrow> gerr option \<times> 'w"  \<comment> \<open>of an imported package\<close>
  AddKnownTypes :: "SchemeBuilder \<Rightarrow> 'w \<Rightarrow> gerr option \<times> 'w"

text \<open>\<open>utilruntime.Must\<close> for one call after the other: the first error is a panic.\<close>

datatype panic = Panic gerr

primrec must_each :: "('w \<Rightarrow> gerr option \<times> 'w) list \<Rightarrow> 'w \<Rightarrow> (panic + unit) \<times> 'w" where
  "must_each [] w = (Inr (), w)"
| "must_each (f # fs) w = (case f w of
     (Some err, w) \<Rightarrow> (Inl (Panic err), w)
   | (None, w) \<Rightarrow> must_each fs w)"

definition main_init ::
  "'w schemelib \<Rightarrow> types_of \<Rightarrow> copiers_of \<Rightarrow> 'w \<Rightarrow> (panic + unit) \<times> 'w" where
  "main_init L shape ext = must_each
     [AddToScheme L ''clientgoscheme'',
      AddKnownTypes L (registered shape ext),
      AddToScheme L ''mariadbv1'', AddToScheme L ''keystonev1'', AddToScheme L ''rabbitmqv1'',
      AddToScheme L ''networkv1'', AddToScheme L ''topologyv1'']"

section \<open>The operator's role\<close>

text \<open>
  A marker: the API group, the resource and the verbs it grants. The core group is written \<open>core\<close>
  or empty in the source, and is \<open>core\<close> here; the last marker of the Barbican controller is limited to
  two resource names, which are left out.
\<close>

record rbac_rule =
  rule_Group :: string
  rule_Resource :: string
  rule_Verbs :: "string list"

abbreviation rule :: "string \<Rightarrow> string \<Rightarrow> string list \<Rightarrow> rbac_rule" where
  "rule g r vs \<equiv> \<lparr>rule_Group = g, rule_Resource = r, rule_Verbs = vs\<rparr>"

abbreviation reading :: "string list" where
  "reading \<equiv> [''get'', ''list'', ''watch'']"

abbreviation all_but_delete :: "string list" where
  "all_but_delete \<equiv> [''get'', ''list'', ''watch'', ''create'', ''update'', ''patch'']"

abbreviation managing :: "string list" where
  "managing \<equiv> [''get'', ''list'', ''watch'', ''create'', ''update'', ''patch'', ''delete'']"

definition Barbican_rules :: "rbac_rule list" where
  "Barbican_rules =
     [rule ''barbican.openstack.org'' ''barbicans'' managing,
      rule ''barbican.openstack.org'' ''barbicans/status'' [''get'', ''update'', ''patch''],
      rule ''barbican.openstack.org'' ''barbicans/finalizers'' [''update'', ''patch''],
      rule ''barbican.openstack.org'' ''barbicanapis'' managing,
      rule ''barbican.openstack.org'' ''barbicanapis/status'' [''get'', ''update'', ''patch''],
      rule ''barbican.openstack.org'' ''barbicanapis/finalizers'' [''update'', ''patch''],
      rule ''barbican.openstack.org'' ''barbicanworkers'' managing,
      rule ''barbican.openstack.org'' ''barbicanworkers/status'' [''get'', ''update'', ''patch''],
      rule ''barbican.openstack.org'' ''barbicanworkers/finalizers'' [''update'', ''patch''],
      rule ''barbican.openstack.org'' ''barbicankeystonelisteners'' managing,
      rule ''barbican.openstack.org'' ''barbicankeystonelisteners/status''
        [''get'', ''update'', ''patch''],
      rule ''barbican.openstack.org'' ''barbicankeystonelisteners/finalizers'' [''update'', ''patch''],
      rule ''keystone.openstack.org'' ''keystoneapis'' reading,
      rule ''keystone.openstack.org'' ''keystoneservices'' managing,
      rule ''keystone.openstack.org'' ''keystoneendpoints'' managing,
      rule ''apps'' ''deployments'' managing,
      rule ''core'' ''secrets'' managing,
      rule ''core'' ''configmaps'' managing,
      rule ''core'' ''services'' managing,
      rule ''core'' ''pods'' [''get'', ''list''],
      rule ''rabbitmq.openstack.org'' ''transporturls'' managing,
      rule ''batch'' ''jobs'' managing,
      rule ''mariadb.openstack.org'' ''mariadbaccounts'' managing,
      rule ''mariadb.openstack.org'' ''mariadbaccounts/finalizers'' [''update''],
      rule ''mariadb.openstack.org'' ''mariadbdatabases'' managing,
      rule ''k8s.cni.cncf.io'' ''network-attachment-definitions'' reading,
      rule ''core'' ''serviceaccounts'' all_but_delete,
      rule ''rbac.authorization.k8s.io'' ''roles'' all_but_delete,
      rule ''rbac.authorization.k8s.io'' ''rolebindings'' all_but_delete,
      rule ''security.openshift.io'' ''securitycontextconstraints'' [''use'']]"

text \<open>
  The three service controllers have the same four markers, all of them on the API's resource.
\<close>

definition service_rules :: "rbac_rule list" where
  "service_rules =
     [rule ''barbican.openstack.org'' ''barbicanapis'' managing,
      rule ''barbican.openstack.org'' ''barbicanapis/status'' [''get'', ''update'', ''patch''],
      rule ''barbican.openstack.org'' ''barbicanapis/finalizers'' [''update'', ''patch''],
      rule ''topology.openstack.org'' ''topologies'' [''get'', ''list'', ''watch'', ''update'']]"

definition operator_role :: "rbac_rule list" where
  "operator_role = Barbican_rules @ service_rules"

text \<open>The group and the resource name of a kind, as the API servers serve it.\<close>

definition resource_of :: "string \<Rightarrow> (string \<times> string) option" where
  "resource_of = map_of
     [(''Barbican'', ''barbican.openstack.org'', ''barbicans''),
      (''BarbicanAPI'', ''barbican.openstack.org'', ''barbicanapis''),
      (''BarbicanWorker'', ''barbican.openstack.org'', ''barbicanworkers''),
      (''BarbicanKeystoneListener'', ''barbican.openstack.org'', ''barbicankeystonelisteners''),
      (''KeystoneAPI'', ''keystone.openstack.org'', ''keystoneapis''),
      (''KeystoneService'', ''keystone.openstack.org'', ''keystoneservices''),
      (''KeystoneEndpoint'', ''keystone.openstack.org'', ''keystoneendpoints''),
      (''MariaDBDatabase'', ''mariadb.openstack.org'', ''mariadbdatabases''),
      (''MariaDBAccount'', ''mariadb.openstack.org'', ''mariadbaccounts''),
      (''TransportURL'', ''rabbitmq.openstack.org'', ''transporturls''),
      (''Topology'', ''topology.openstack.org'', ''topologies''),
      (''Deployment'', ''apps'', ''deployments''), (''Job'', ''batch'', ''jobs''),
      (''Secret'', ''core'', ''secrets''), (''Service'', ''core'', ''services''),
      (''ServiceAccount'', ''core'', ''serviceaccounts''),
      (''Role'', ''rbac.authorization.k8s.io'', ''roles''),
      (''RoleBinding'', ''rbac.authorization.k8s.io'', ''rolebindings'')]"

text \<open>The verbs a role grants on a kind.\<close>

definition granted :: "rbac_rule list \<Rightarrow> string \<Rightarrow> string list" where
  "granted role kind = (case resource_of kind of
     None \<Rightarrow> []
   | Some (g, r) \<Rightarrow>
       concat (map rule_Verbs (filter (\<lambda>p. rule_Resource p = r \<and> rule_Group p = g) role)))"

definition allowed :: "rbac_rule list \<Rightarrow> string \<Rightarrow> string \<Rightarrow> bool" where
  "allowed role kind verb \<longleftrightarrow> verb \<in> set (granted role kind)"

end
