(* ===== verification/Scheme_Properties.thy ===== *)
theory Scheme_Properties
  imports Scheme
begin

text \<open>
  What the generated copy functions and the registrations give the process: a cached object and
  its copies never share memory, a registered object is copied to one of its own kind, and every
  kind a controller watches or owns is in the scheme and permitted by the role.
\<close>

section \<open>Copies are isolated\<close>

text \<open>
  C14. For every struct of the API package the generated \<open>DeepCopyInto\<close> makes a complete and
  independent copy: the copy denotes the same value, at the same type; whatever is stored
  afterwards in memory that existed before the copy does not show in the copy, and whatever is stored
  in the copy's memory does not show in the original. So no field that holds a reference is left
  to the shallow first assignment.
\<close>

theorem deep_copies_isolated:
  assumes "library_types shape ext" and "(n, ty, into) \<in> set (deep_copies shape ext)"
    and "closed h" and "read h ty x = Some t" and "into x h = (y, g)"
  shows "read g ty y = Some t \<and> read g ty x = Some t \<and>
    (\<forall>k. (\<forall>a\<ge>next_addr h. cells k a = cells g a) \<longrightarrow> read k ty y = Some t) \<and>
    (\<forall>k. (\<forall>a<next_addr h. cells k a = cells g a) \<longrightarrow> read k ty x = Some t)"
  using copier.isolated [OF deep_copies_copier [OF assms(1,2)] assms(3-5)] by blast

text \<open>A memory with one password selector whose list of further keys has its own array.\<close>

definition ex_heap :: heap where
  "ex_heap = \<lparr>cells = (\<lambda>a. if a = 0 then Some (Backing [Scalar ''KEK2'']) else None), next_addr = 1\<rparr>"

definition ex_selector :: gval where
  "ex_selector = Struct [(''Service'', Scalar ''BarbicanPassword''),
     (''SimpleCryptoKEK'', Scalar ''SimpleCryptoKEK''), (''PKCS11Pin'', Scalar ''PKCS11Pin''),
     (''SimpleCryptoAdditionalKEKs'', Ref 0)]"

definition ex_tree :: tree where
  "ex_tree = TStruct [(''Service'', TScalar ''BarbicanPassword''),
     (''SimpleCryptoKEK'', TScalar ''SimpleCryptoKEK''), (''PKCS11Pin'', TScalar ''PKCS11Pin''),
     (''SimpleCryptoAdditionalKEKs'', TSlice [TScalar ''KEK2''])]"

text \<open>Library types of one scalar field, with the copy function that such a type gets.\<close>

definition ex_shape :: types_of where
  "ex_shape n = GStruct [(''value'', GScalar)]"

definition ex_ext :: copiers_of where
  "ex_ext n = deep_of (ex_shape n)"

lemma ex_library_types: "library_types ex_shape ex_ext"
proof -
  have "copier (ex_shape n) (ex_ext n)" for n
    unfolding ex_ext_def by (rule copier_deep_of) (simp add: ex_shape_def)
  then show ?thesis by (simp add: library_types_def ex_shape_def)
qed

lemma ex_closed: "closed ex_heap"
  by (simp add: closed_def ex_heap_def)

lemma ex_read: "read ex_heap PasswordSelector_ty ex_selector = Some ex_tree"
  by (simp add: PasswordSelector_ty_def ex_heap_def ex_selector_def ex_tree_def)

text \<open>Overwriting the original's array leaves the copy as it was.\<close>

theorem deep_copies_isolated_witness:
  "read (store 0 (Backing [Scalar ''other'']) (snd (PasswordSelector_DeepCopyInto ex_selector ex_heap)))
     PasswordSelector_ty (fst (PasswordSelector_DeepCopyInto ex_selector ex_heap)) = Some ex_tree"
proof -
  have "(''PasswordSelector'', PasswordSelector_ty, PasswordSelector_DeepCopyInto)
      \<in> set (deep_copies ex_shape ex_ext)"
    by (simp add: deep_copies_def)
  moreover obtain y g where "PasswordSelector_DeepCopyInto ex_selector ex_heap = (y, g)" by fastforce
  ultimately show ?thesis
    using deep_copies_isolated [OF ex_library_types _ ex_closed ex_read, of _ _ y g]
    by (simp add: ex_heap_def)
qed

section \<open>Registered objects\<close>

lemma object_copied:
  assumes "copier ty into" and "closed h" and "read h (GPtr ty) p = Some t"
    and obj: "deep_copy_object kind (deep_copy into) p h = (obj, g)"
  shows "p = Nil_ref \<Longrightarrow> obj = None \<and> g = h"
    and "p \<noteq> Nil_ref \<Longrightarrow> \<exists>q. obj = Some \<lparr>obj_Kind = kind, obj_Value = q\<rparr> \<and>
      read g (GPtr ty) q = Some t \<and>
      (\<forall>k. (\<forall>a\<ge>next_addr h. cells k a = cells g a) \<longrightarrow> read k (GPtr ty) q = Some t) \<and>
      (\<forall>k. (\<forall>a<next_addr h. cells k a = cells g a) \<longrightarrow> read k (GPtr ty) p = Some t)"
proof -
  show "p = Nil_ref \<Longrightarrow> obj = None \<and> g = h"
    using obj by (simp add: deep_copy_object_def deep_copy_def)
next
  assume p: "p \<noteq> Nil_ref"
  obtain q g' where q: "deep_copy into p h = (q, g')" by fastforce
  note iso = copier.isolated [OF copier_deep_copy [OF assms(1)] assms(2,3) q]
  have "t \<noteq> TNil" using p assms(3) by (cases p) (auto split: option.splits cell.splits)
  then have "q \<noteq> Nil_ref" using iso(1) by auto
  then have "obj = Some \<lparr>obj_Kind = kind, obj_Value = q\<rparr>" "g = g'"
    using obj q by (auto simp: deep_copy_object_def)
  then show "\<exists>q. obj = Some \<lparr>obj_Kind = kind, obj_Value = q\<rparr> \<and>
      read g (GPtr ty) q = Some t \<and>
      (\<forall>k. (\<forall>a\<ge>next_addr h. cells k a = cells g a) \<longrightarrow> read k (GPtr ty) q = Some t) \<and>
      (\<forall>k. (\<forall>a<next_addr h. cells k a = cells g a) \<longrightarrow> read k (GPtr ty) p = Some t)"
    using iso by blast
qed

lemmas registered_defs = registered_def Barbican_init_def BarbicanAPI_init_def
  BarbicanKeystoneListener_init_def BarbicanWorker_init_def Register_def new_SchemeBuilder_def

lemma its_copier:
  "copier ty into \<Longrightarrow> \<exists>i. copier ty i \<and>
     deep_copy_object kind (deep_copy into) = deep_copy_object kind (deep_copy i)"
  by blast

text \<open>Each registration is \<open>DeepCopyObject\<close> of a copier of its type.\<close>

lemma registered_copier:
  assumes "library_types shape ext" and "obj \<in> set (sb_Objects (registered shape ext))"
  shows "\<exists>into. copier (proto_Type obj) into \<and>
    proto_DeepCopyObject obj = deep_copy_object (proto_Kind obj) (deep_copy into)"
  using assms
  by (auto intro!: its_copier intro: copiers simp: registered_defs Barbican_DeepCopyObject_def BarbicanList_DeepCopyObject_def
      BarbicanAPI_DeepCopyObject_def BarbicanAPIList_DeepCopyObject_def
      BarbicanWorker_DeepCopyObject_def BarbicanWorkerList_DeepCopyObject_def
      BarbicanKeystoneListener_DeepCopyObject_def BarbicanKeystoneListenerList_DeepCopyObject_def
      Barbican_DeepCopy_def BarbicanList_DeepCopy_def BarbicanAPI_DeepCopy_def
      BarbicanAPIList_DeepCopy_def BarbicanWorker_DeepCopy_def BarbicanWorkerList_DeepCopy_def
      BarbicanKeystoneListener_DeepCopy_def BarbicanKeystoneListenerList_DeepCopy_def)

text \<open>
  C28. Each of the eight objects that the package registers is copied to an object of the registered
  kind: \<open>DeepCopyObject\<close> of a nil pointer is the nil interface, not an interface holding nil, and
  touches no memory; of any other pointer it is a new object of the same kind that denotes the same
  value and shares no memory with the original.
\<close>

theorem registered_objects_copied:
  assumes "library_types shape ext" and "obj \<in> set (sb_Objects (registered shape ext))"
    and "closed h" and "read h (GPtr (proto_Type obj)) p = Some t"
    and "proto_DeepCopyObject obj p h = (c, g)"
  shows "if p = Nil_ref then c = None \<and> g = h
    else \<exists>q. c = Some \<lparr>obj_Kind = proto_Kind obj, obj_Value = q\<rparr> \<and>
      read g (GPtr (proto_Type obj)) q = Some t \<and>
      (\<forall>k. (\<forall>a\<ge>next_addr h. cells k a = cells g a) \<longrightarrow> read k (GPtr (proto_Type obj)) q = Some t) \<and>
      (\<forall>k. (\<forall>a<next_addr h. cells k a = cells g a) \<longrightarrow> read k (GPtr (proto_Type obj)) p = Some t)"
proof -
  obtain into where "copier (proto_Type obj) into"
    and "proto_DeepCopyObject obj = deep_copy_object (proto_Kind obj) (deep_copy into)"
    using registered_copier [OF assms(1,2)] by blast
  from object_copied [OF this(1) assms(3,4) assms(5) [unfolded this(2)]] show ?thesis by simp
qed

text \<open>An empty list of Barbicans in memory.\<close>

definition ex_list_heap :: heap where
  "ex_list_heap = \<lparr>cells = (\<lambda>a. if a = 0
     then Some (Pointee (Struct [(''TypeMeta'', Struct [(''value'', Scalar ''BarbicanList'')]),
       (''ListMeta'', Struct [(''value'', Scalar [])]), (''Items'', Nil_ref)])) else None),
     next_addr = 1\<rparr>"

definition ex_list_tree :: tree where
  "ex_list_tree = TPtr (TStruct [(''TypeMeta'', TStruct [(''value'', TScalar ''BarbicanList'')]),
     (''ListMeta'', TStruct [(''value'', TScalar [])]), (''Items'', TNil)])"

theorem registered_objects_copied_witness:
  "\<exists>q. fst (BarbicanList_DeepCopyObject ex_ext (Ref 0) ex_list_heap) =
      Some \<lparr>obj_Kind = ''BarbicanList'', obj_Value = q\<rparr> \<and>
    read (snd (BarbicanList_DeepCopyObject ex_ext (Ref 0) ex_list_heap))
      (GPtr (BarbicanList_ty ex_shape)) q = Some ex_list_tree"
proof -
  let ?o = "\<lparr>proto_Kind = ''BarbicanList'', proto_Type = BarbicanList_ty ex_shape,
    proto_DeepCopyObject = BarbicanList_DeepCopyObject ex_ext\<rparr>"
  have o: "?o \<in> set (sb_Objects (registered ex_shape ex_ext))" by (simp add: registered_defs)
  have "closed ex_list_heap" by (simp add: closed_def ex_list_heap_def)
  moreover have "read ex_list_heap (GPtr (proto_Type ?o)) (Ref 0) = Some ex_list_tree"
    by (simp add: ex_list_heap_def ex_list_tree_def BarbicanList_ty_def ex_shape_def)
  moreover obtain c g where "proto_DeepCopyObject ?o (Ref 0) ex_list_heap = (c, g)" by fastforce
  ultimately show ?thesis
    using registered_objects_copied [OF ex_library_types o, of ex_list_heap "Ref 0" ex_list_tree c g]
    by auto
qed


section \<open>Kinds the controllers work on\<close>

text \<open>
  The contract of the scheme: a package's \<open>AddToScheme\<close> that returns no error adds the kinds of the
  package, \<open>AddKnownTypes\<close> those of the registered objects, and nothing is ever removed.
\<close>

definition scheme_contract ::
  "'w schemelib \<Rightarrow> ('w \<Rightarrow> string \<Rightarrow> bool) \<Rightarrow> (string \<Rightarrow> string list) \<Rightarrow> bool" where
  "scheme_contract L knows kinds_of \<longleftrightarrow>
     (\<forall>p w w'. AddToScheme L p w = (None, w') \<longrightarrow>
        (\<forall>k. knows w' k \<longleftrightarrow> knows w k \<or> k \<in> set (kinds_of p))) \<and>
     (\<forall>b w w'. AddKnownTypes L b w = (None, w') \<longrightarrow>
        (\<forall>k. knows w' k \<longleftrightarrow> knows w k \<or> k \<in> set (map proto_Kind (sb_Objects b))))"

text \<open>The kinds of the imported packages that the controllers use.\<close>

definition package_kinds :: "string \<Rightarrow> string list" where
  "package_kinds p = (case map_of
     [(''clientgoscheme'', [''Secret'', ''Service'', ''ServiceAccount'', ''Deployment'', ''Job'',
         ''Role'', ''RoleBinding'']),
      (''mariadbv1'', [''MariaDBDatabase'', ''MariaDBAccount'']),
      (''keystonev1'', [''KeystoneAPI'', ''KeystoneService'', ''KeystoneEndpoint'']),
      (''rabbitmqv1'', [''TransportURL'']),
      (''networkv1'', [''NetworkAttachmentDefinition'']), (''topologyv1'', [''Topology''])] p of
     None \<Rightarrow> [] | Some ks \<Rightarrow> ks)"

definition builder_kinds :: "Builder \<Rightarrow> string list" where
  "builder_kinds b = For b # Owns b @ map watch_Kind (builder_Watches b)"

lemmas builder_defs = Worker_builder_def API_builder_def Listener_builder_def Barbican_builder_def
  secret_watch_def topology_watch_def

lemma must_each_done:
  "must_each fs w = (Inr (), w') \<Longrightarrow>
   (\<And>f u u'. f \<in> set fs \<Longrightarrow> f u = (None, u') \<Longrightarrow> P u \<Longrightarrow> P u') \<Longrightarrow> P w \<Longrightarrow> P w'"
proof (induction fs arbitrary: w)
  case (Cons f fs)
  then obtain u where "f w = (None, u)" "must_each fs u = (Inr (), w')"
    by (auto split: prod.splits option.splits)
  with Cons show ?case by (metis list.set_intros)
qed simp

text \<open>A kind added by one of the calls is known at the end.\<close>

lemma must_each_adds:
  "must_each fs w = (Inr (), w') \<Longrightarrow>
   (\<And>f u u'. f \<in> set fs \<Longrightarrow> f u = (None, u') \<Longrightarrow> knows u k \<Longrightarrow> knows u' k) \<Longrightarrow>
   f \<in> set fs \<Longrightarrow> (\<And>u u'. f u = (None, u') \<Longrightarrow> knows u' k) \<Longrightarrow> knows w' k"
proof (induction fs arbitrary: w)
  case (Cons g fs)
  then obtain u where u: "g w = (None, u)" "must_each fs u = (Inr (), w')"
    by (auto split: prod.splits option.splits)
  show ?case
  proof (cases "f = g")
    case True
    then have "knows u k" using Cons.prems(4) u(1) by blast
    with must_each_done [of fs u w' "\<lambda>u. knows u k"] u(2) Cons.prems(2) show ?thesis
      by (meson list.set_intros(2))
  next
    case False
    with Cons.prems u(2) show ?thesis by (intro Cons.IH [of u]) auto
  qed
qed simp

lemma main_init_knows:
  assumes "scheme_contract L knows kinds_of" and "main_init L shape ext w = (Inr (), w')"
    and "k \<in> set (map proto_Kind (sb_Objects (registered shape ext))) \<or>
      (\<exists>p\<in>{''clientgoscheme'', ''mariadbv1'', ''keystonev1'', ''rabbitmqv1'', ''networkv1'', ''topologyv1''}.
         k \<in> set (kinds_of p))"
  shows "knows w' k"
proof -
  note C = assms(1) [unfolded scheme_contract_def]
  let ?fs = "[AddToScheme L ''clientgoscheme'', AddKnownTypes L (registered shape ext),
      AddToScheme L ''mariadbv1'', AddToScheme L ''keystonev1'', AddToScheme L ''rabbitmqv1'',
      AddToScheme L ''networkv1'', AddToScheme L ''topologyv1'']"
  have "\<exists>f\<in>set ?fs. \<forall>u u'. f u = (None, u') \<longrightarrow> knows u' k"
    using assms(3) C by auto
  then obtain f where f: "f \<in> set ?fs" "\<And>u u'. f u = (None, u') \<Longrightarrow> knows u' k" by blast
  have keeps: "knows u' k" if "g \<in> set ?fs" "g u = (None, u')" "knows u k" for g u u'
    using that C by auto
  show ?thesis
    by (rule must_each_adds [of ?fs w w' knows k f, OF assms(2) [unfolded main_init_def] keeps f])
qed

text \<open>The kinds of the builders are registered, and the role covers them.\<close>

definition all_builders :: "Builder list" where
  "all_builders = [Barbican_builder, API_builder, Worker_builder, Listener_builder]"

lemma builder_kinds_registered:
  "list_all (\<lambda>k. k \<in> set (map proto_Kind (sb_Objects (registered shape ext))) \<or>
     list_ex (\<lambda>p. k \<in> set (package_kinds p))
       [''clientgoscheme'', ''mariadbv1'', ''keystonev1'', ''rabbitmqv1'', ''networkv1'', ''topologyv1''])
     (concat (map builder_kinds all_builders))"
  by (simp add: all_builders_def builder_defs builder_kinds_def registered_defs package_kinds_def)

lemma role_grants:
  "granted operator_role ''Barbican'' = managing"
  "granted operator_role ''BarbicanAPI'' = managing @ managing"
  "granted operator_role ''BarbicanWorker'' = managing"
  "granted operator_role ''BarbicanKeystoneListener'' = managing"
  "granted operator_role ''KeystoneAPI'' = reading"
  "granted operator_role ''KeystoneService'' = managing"
  "granted operator_role ''KeystoneEndpoint'' = managing"
  "granted operator_role ''MariaDBDatabase'' = managing"
  "granted operator_role ''MariaDBAccount'' = managing"
  "granted operator_role ''TransportURL'' = managing"
  "granted operator_role ''Topology'' = [''get'', ''list'', ''watch'', ''update'']"
  "granted operator_role ''Deployment'' = managing"
  "granted operator_role ''Job'' = managing"
  "granted operator_role ''Secret'' = managing"
  "granted operator_role ''Service'' = managing"
  "granted operator_role ''ServiceAccount'' = all_but_delete"
  "granted operator_role ''Role'' = all_but_delete"
  "granted operator_role ''RoleBinding'' = all_but_delete"
  by (simp_all add: granted_def resource_of_def operator_role_def Barbican_rules_def
      service_rules_def cong: conj_cong)

lemma role_reads:
  "list_all (\<lambda>k. list_all (allowed operator_role k) reading) (concat (map builder_kinds all_builders))"
  by (simp add: all_builders_def builder_defs builder_kinds_def allowed_def role_grants)

lemma role_manages:
  "list_all (\<lambda>k. list_all (allowed operator_role k) all_but_delete) (concat (map Owns all_builders))"
  by (simp add: all_builders_def builder_defs allowed_def role_grants)

text \<open>
  C29. When the process gets past its \<open>init\<close> (no \<open>AddToScheme\<close> failed, else it panics), every kind that
  a controller is built for, owns or watches is in the scheme, the role allows to get, list and watch
  it, and a kind that a controller owns may also be created, updated and patched. The hypotheses are
  the contract of the scheme and that the imported packages register the kinds they are imported for.
\<close>

theorem watched_kinds_usable:
  assumes "scheme_contract L knows kinds_of"
    and "\<And>p. set (package_kinds p) \<subseteq> set (kinds_of p)"
    and "main_init L shape ext w = (Inr (), w')"
    and "b \<in> {Barbican_builder, API_builder, Worker_builder, Listener_builder}"
    and "k \<in> set (builder_kinds b)"
  shows "knows w' k \<and> (\<forall>v\<in>set reading. allowed operator_role k v) \<and>
    (k \<in> set (Owns b) \<longrightarrow> (\<forall>v\<in>set all_but_delete. allowed operator_role k v))"
proof -
  have b: "b \<in> set all_builders" using assms(4) by (auto simp: all_builders_def)
  then have k: "k \<in> set (concat (map builder_kinds all_builders))" using assms(5) by auto
  have own: "k \<in> set (Owns b) \<Longrightarrow> k \<in> set (concat (map Owns all_builders))" using b by auto
  have "k \<in> set (map proto_Kind (sb_Objects (registered shape ext))) \<or>
      (\<exists>p\<in>set [''clientgoscheme'', ''mariadbv1'', ''keystonev1'', ''rabbitmqv1'', ''networkv1'', ''topologyv1''].
         k \<in> set (package_kinds p))"
    using builder_kinds_registered [of shape ext] k unfolding list_all_iff list_ex_iff by blast
  then have "knows w' k"
    using assms(2) by (intro main_init_knows [OF assms(1,3)]) fastforce
  then show ?thesis
    using k own role_reads role_manages unfolding list_all_iff by blast
qed

text \<open>A scheme that is the list of its kinds.\<close>

definition ex_schemelib :: "string list schemelib" where
  "ex_schemelib = \<lparr>AddToScheme = (\<lambda>p w. (None, w @ package_kinds p)),
     AddKnownTypes = (\<lambda>b w. (None, w @ map proto_Kind (sb_Objects b)))\<rparr>"

theorem watched_kinds_usable_witness:
  "''Topology'' \<in> set (snd (main_init ex_schemelib ex_shape ex_ext [])) \<and>
   allowed operator_role ''Topology'' ''watch''"
proof -
  have "scheme_contract ex_schemelib (\<lambda>w k. k \<in> set w) package_kinds"
    by (simp add: scheme_contract_def ex_schemelib_def)
  moreover have "main_init ex_schemelib ex_shape ex_ext [] =
      (Inr (), snd (main_init ex_schemelib ex_shape ex_ext []))"
    by (simp add: main_init_def ex_schemelib_def)
  moreover have "''Topology'' \<in> set (builder_kinds Worker_builder)"
    by (simp add: builder_defs builder_kinds_def)
  ultimately show ?thesis
    using watched_kinds_usable [of ex_schemelib "\<lambda>w k. k \<in> set w" package_kinds ex_shape ex_ext "[]"
        "snd (main_init ex_schemelib ex_shape ex_ext [])" Worker_builder "''Topology''"]
    by simp
qed

end
