(* ===== verification/Totality.thy ===== *)
theory Totality
  imports Parent_Samples
begin

text \<open>
  No pass ends in a panic. \<open>None\<close> is the outcome of a pass that dereferences a nil pointer; the code
  does so only where it ignores a failed conversion of an extra volume. Everything else a pass can
  meet, errors of the cluster included, is answered with a result and an error value.
\<close>

definition returns :: "('s, 'r option + 'a) state \<Rightarrow> bool" where
  "returns m \<longleftrightarrow> (\<forall>s. fst (run_state m s) \<noteq> Inl None)"

definition answers :: "('s, 'r option) state \<Rightarrow> bool" where
  "answers m \<longleftrightarrow> (\<forall>s. fst (run_state m s) \<noteq> None)"

text \<open>The conversion of extra volumes never fails.\<close>

definition convertible :: "vollib \<Rightarrow> bool" where
  "convertible L \<longleftrightarrow> (\<forall>v. ToCoreVolumeSource L v \<noteq> None)"

lemma returns_bind: "(\<And>a. returns (f a)) \<Longrightarrow> returns (State_Monad.bind m f)"
  by (simp add: returns_def split_beta)

lemma returns_case: "returns m \<Longrightarrow> run_state m s = (Inl r, t) \<Longrightarrow> r \<noteq> None"
  unfolding returns_def by (metis fst_conv)

lemma returns_proceed: "returns m \<Longrightarrow> (\<And>a. returns (f a)) \<Longrightarrow> returns (proceed m f)"
  unfolding returns_def [of "proceed m f"]
  by (auto simp: returns_def [of "f a" for a] dest: returns_case split: prod.split sum.split)

lemma returns_steps:
  "returns (fall_through a)" "returns (return_with r)" "returns (fail_with C d r)"
  "returns (b_return r)" "returns (b_fail B d r)"
  by (simp_all add: returns_def return_with_def fail_with_def b_return_def b_fail_def)

lemma returns_if: "(b \<Longrightarrow> returns m) \<Longrightarrow> (\<not> b \<Longrightarrow> returns n) \<Longrightarrow> returns (if b then m else n)"
  by simp

lemma returns_sum: "(\<And>a. returns (f a)) \<Longrightarrow> (\<And>b. returns (g b)) \<Longrightarrow> returns (case x of Inl a \<Rightarrow> f a | Inr b \<Rightarrow> g b)"
  by (cases x) simp_all

lemma returns_option:
  "(x = None \<Longrightarrow> returns m) \<Longrightarrow> (\<And>a. returns (f a)) \<Longrightarrow> returns (case x of None \<Rightarrow> m | Some a \<Rightarrow> f a)"
  by (cases x) simp_all

lemma returns_prod: "(\<And>a b. returns (f a b)) \<Longrightarrow> returns (case x of (a, b) \<Rightarrow> f a b)"
  by (cases x) simp

lemma returns_for_each: "(\<And>x. returns (f x)) \<Longrightarrow> returns (for_each f xs)"
  by (induction xs) (auto intro: returns_steps returns_proceed)

lemma returns_for_fold: "(\<And>x b. returns (f x b)) \<Longrightarrow> returns (for_fold f xs b)"
  by (induction xs arbitrary: b) (auto intro: returns_steps returns_proceed)

lemma returns_try: "returns (b_try m)"
  unfolding b_try_def by (intro returns_bind returns_option returns_steps)

lemmas returns_rules = returns_proceed returns_bind returns_steps returns_if returns_sum returns_option
  returns_prod returns_for_each returns_for_fold returns_try

lemma answers_finally: "returns m \<Longrightarrow> (\<And>a. answers (f a)) \<Longrightarrow> answers (finally_run m f)"
  unfolding answers_def by (auto dest: returns_case split: prod.split sum.split)

lemma answers_return: "answers (State_Monad.return (Some r))"
  by (simp add: answers_def)

lemma answers_bind: "(\<And>a. answers (f a)) \<Longrightarrow> answers (State_Monad.bind m f)"
  by (simp add: answers_def split_beta)

lemma answers_if: "answers m \<Longrightarrow> answers n \<Longrightarrow> answers (if b then m else n)"
  by simp

lemma answers_prod: "(\<And>a b. answers (f a b)) \<Longrightarrow> answers (case x of (a, b) \<Rightarrow> f a b)"
  by (cases x) simp

lemmas answers_rules = answers_finally answers_return answers_bind answers_if answers_prod

section \<open>Pods\<close>

lemma extra_some: "convertible L \<Longrightarrow> \<exists>vs. extra_volumes L xs = Some vs"
  by (induction xs) (auto simp: convertible_def split: option.split)

lemma propagated_some: "convertible L \<Longrightarrow> \<exists>vm. propagated_volumes L xs = Some vm"
  by (induction xs) (auto dest: extra_some split: option.splits)

lemma extra_mounts_some:
  assumes "convertible L"
  shows "add_extra (GetExtraVolumes L xs svc) vs ms \<noteq> None"
  using propagated_some [OF assms] by (auto simp: add_extra_def GetExtraVolumes_def)

lemma deployments_some:
  assumes "convertible (vl P)"
  shows "Worker_Deployment P w h l a t ks \<noteq> None" "Listener_Deployment P k h l a t ks \<noteq> None"
    "API_Deployment P i h l a t ks \<noteq> None"
  by (simp_all add: extra_mounts_some [OF assms] Worker_Deployment_def Listener_Deployment_def API_Deployment_def
      Let_def split_beta GetWorkerVolumesAndMounts_def GetListenerVolumesAndMounts_def GetAPIVolumesAndMounts_def
      del: not_None_eq split: option.split sum.split)

section \<open>The phases\<close>

lemma check_returns: "returns (check_secret C K n fs vars)"
  unfolding check_secret_def by (intro returns_rules)

lemma b_check_returns: "returns (b_check C L n fs vars)"
  unfolding b_check_def by (intro returns_rules)

lemma common_returns: "returns (check_common_secrets C K vars)"
  unfolding check_common_secrets_def Let_def by (intro returns_rules check_returns)

lemma store_returns: "returns (check_store_secrets C K vars)"
  unfolding check_store_secrets_def Let_def by (intro returns_rules check_returns)

lemma custom_returns: "returns (check_custom_secrets C K vars)"
  unfolding check_custom_secrets_def Let_def by (intro returns_rules check_returns)

lemma ca_returns: "returns (check_ca_bundle C K vars)"
  unfolding check_ca_bundle_def Let_def by (intro returns_rules)

lemma config_returns: "returns (service_config C K vars)"
  unfolding service_config_def by (intro returns_rules)

lemma hash_returns: "returns (input_hash C K vars)"
  unfolding input_hash_def by (intro returns_rules)

lemma annotations_returns: "returns (network_annotations C K)"
  unfolding network_annotations_def Let_def by (intro returns_rules)

lemma step_returns: "returns (step_result m)"
  unfolding step_result_def by (intro returns_rules)

lemma topology_returns: "returns (topology_step C m)"
  unfolding topology_step_def by (intro returns_rules)

lemma apply_returns: "returns (apply_deployment C K d)"
  unfolding apply_deployment_def split_def by (intro returns_rules)

lemma verify_returns: "returns (verify_networks C K l)"
  unfolding verify_networks_def Let_def by (intro returns_rules)

lemma confirmed_returns: "returns (rollout_confirmed C K x)"
  unfolding rollout_confirmed_def Let_def by (intro returns_rules)

lemma confirm_returns: "returns (confirm_rollout C K h x)"
  unfolding confirm_rollout_def Let_def by (intro returns_rules confirmed_returns)

lemma conclude_answers: "answers (conclude C)"
  unfolding conclude_def by (intro answers_rules)

lemma release_answers: "answers (release_topology K)"
  unfolding release_topology_def by (intro answers_rules)

lemmas service_returns = common_returns store_returns custom_returns ca_returns config_returns hash_returns
  annotations_returns step_returns topology_returns apply_returns verify_returns confirm_returns
  returns_rules conclude_answers release_answers answers_rules

lemma worker_answers:
  assumes "convertible (vl K)"
  shows "answers (Worker_reconcileNormal C K)"
  unfolding Worker_reconcileNormal_def Worker_configure_def Worker_config_def Worker_inputs_def
    Worker_rollout_def Let_def
  by (intro service_returns) (simp add: deployments_some [OF assms] del: not_None_eq)

lemma listener_answers:
  assumes "convertible (vl K)"
  shows "answers (Listener_reconcileNormal C K)"
  unfolding Listener_reconcileNormal_def Listener_configure_def Listener_config_def Listener_inputs_def
    Listener_rollout_def Let_def
  by (intro service_returns) (simp add: deployments_some [OF assms] del: not_None_eq)

lemma certs_returns: "returns (check_service_certs C K vars)"
  unfolding check_service_certs_def by (intro returns_rules)

lemma expose_returns: "returns (expose_endpoint C A l e eps)"
  unfolding expose_endpoint_def Let_def split_def by (intro returns_rules)

lemma api_init_returns: "returns (API_reconcileInit C A l)"
  unfolding API_reconcileInit_def split_def by (intro returns_rules expose_returns)

lemma api_answers:
  assumes "convertible (vl (kb A))"
  shows "answers (API_reconcileNormal C A)"
  unfolding API_reconcileNormal_def API_configure_def API_inputs_def API_rollout_def Let_def
  by (intro service_returns certs_returns api_init_returns)
    (simp add: deployments_some [OF assms] del: not_None_eq)

lemma endpoint_returns: "returns (release_endpoint A)"
  unfolding release_endpoint_def Let_def by (intro returns_rules)

lemma delete_answers:
  "answers (Worker_reconcileDelete K)" "answers (Listener_reconcileDelete K)" "answers (API_reconcileDelete A)"
  by (simp_all add: Worker_reconcileDelete_def Listener_reconcileDelete_def API_reconcileDelete_def
      release_answers answers_finally endpoint_returns)

section \<open>The Barbican controller\<close>

lemma messaging_returns: "returns (messaging_phase C L l)"
  unfolding messaging_phase_def Let_def by (intro returns_rules)

lemma notifications_returns: "returns (notifications_phase C L l)"
  unfolding notifications_phase_def Let_def by (intro returns_rules)

lemma secrets_returns: "returns (secrets_phase C L)"
  unfolding secrets_phase_def Let_def by (intro returns_rules b_check_returns)

lemma database_returns: "returns (ensureDB C L)"
  unfolding ensureDB_def Let_def split_def by (intro returns_rules)

lemma b_config_returns: "returns (config_phase C L v l db t n)"
  unfolding config_phase_def Let_def by (intro returns_rules)

lemma b_annotations_returns: "returns (b_annotations C L)"
  unfolding b_annotations_def Let_def by (intro returns_rules)

lemma rbac_returns: "returns (rbac_step C L)"
  unfolding rbac_step_def Let_def split_def by (intro returns_rules)

lemma keystone_returns: "returns (keystone_step C L l)"
  unfolding keystone_step_def Let_def split_def by (intro returns_rules)

lemma job_returns: "returns (run_job C L t p k j)"
  unfolding run_job_def Let_def split_def by (intro returns_rules)

lemma b_init_returns: "returns (Barbican_reconcileInit C L l a)"
  unfolding Barbican_reconcileInit_def
  by (intro returns_rules rbac_returns keystone_returns job_returns)
    (simp add: PKCS11PrepJob_def Let_def split_beta split: option.splits)

lemma deploy_returns: "returns (deploy_child C k t m h f)"
  unfolding deploy_child_def Let_def by (intro returns_rules)

lemma last_child_returns: "returns (last_child C L t n h r)"
  unfolding last_child_def by (intro returns_rules deploy_returns)

lemma children_return: "returns (children_phase C L t n)"
  unfolding children_phase_def by (intro returns_rules deploy_returns last_child_returns)

lemma rotation_returns: "returns (rotation_phase L t n g)"
  unfolding rotation_phase_def rotate_def rotate_notifications_def remove_consumer_def prune_phase_def prune_def
  by (intro returns_rules)

lemma barbican_answers: "answers (Barbican_reconcileNormal C L)"
  unfolding Barbican_reconcileNormal_def setup_phase_def Let_def
  by (intro answers_rules returns_rules messaging_returns notifications_returns secrets_returns database_returns
      b_config_returns b_annotations_returns b_init_returns children_return rotation_returns)

lemma barbican_delete_answers: "answers (Barbican_reconcileDelete L)"
  unfolding Barbican_reconcileDelete_def release_database_def unfinalize_def release_child_def release_secrets_def
    bus_secret_def remove_consumer_def prune_def Let_def split_def
  by (intro answers_rules returns_rules)

section \<open>The reconcile functions\<close>

lemma begin_returns: "returns (begin_reconcile C K cl new)"
  unfolding begin_reconcile_def Let_def split_def by (intro returns_rules)

lemma bodies_answer:
  "convertible (vl K) \<Longrightarrow> answers (Worker_body C K new)"
  "convertible (vl K) \<Longrightarrow> answers (Listener_body C K new)"
  "convertible (vl (kb A)) \<Longrightarrow> answers (API_body C A new)"
  "answers (Barbican_body C L new)"
proof -
  show "convertible (vl K) \<Longrightarrow> answers (Worker_body C K new)"
    unfolding Worker_body_def by (intro answers_rules begin_returns delete_answers worker_answers)
  show "convertible (vl K) \<Longrightarrow> answers (Listener_body C K new)"
    unfolding Listener_body_def by (intro answers_rules begin_returns delete_answers listener_answers)
  show "convertible (vl (kb A)) \<Longrightarrow> answers (API_body C A new)"
    unfolding API_body_def by (intro answers_rules begin_returns delete_answers api_answers)
  show "answers (Barbican_body C L new)"
    unfolding Barbican_body_def Let_def split_def
    by (intro answers_rules barbican_answers barbican_delete_answers)
qed

lemma around_answers:
  assumes "\<And>new. answers (body new)"
  shows "fst (reconcile_around C cs upd get newHelper patch body w) \<noteq> None"
proof -
  have "run_state (body new) s \<noteq> (None, t)" for new s t
    using assms [of new] unfolding answers_def by (metis fst_conv)
  then show ?thesis
    by (auto simp: reconcile_around_def Let_def split: prod.split sum.split option.split)
qed

text \<open>
  C16. Every call of a \<open>Reconcile\<close> function returns: whatever the cluster answers, on every path through
  the checks, the configuration, the rollout, the rotation and the deletion, the caller gets a result and
  an error value and never a panic. The service controllers need for this that extra volumes can be
  converted, because the code drops the error of that conversion; the Barbican controller needs nothing,
  its dereference of the PKCS11 section is guarded.
\<close>

theorem reconcile_always_answers:
  "(convertible (vl K) \<longrightarrow> fst (Worker_Reconcile C K getW helperW patchW w) \<noteq> None \<and>
      fst (Listener_Reconcile C K getL helperL patchL w) \<noteq> None) \<and>
   (convertible (vl (kb A)) \<longrightarrow> fst (API_Reconcile C A getA helperA patchA w) \<noteq> None) \<and>
   fst (Barbican_Reconcile C L getB helperB patchB w) \<noteq> None"
  unfolding Worker_Reconcile_def Listener_Reconcile_def API_Reconcile_def Barbican_Reconcile_def
  by (intro conjI impI around_answers bodies_answer)

theorem reconcile_always_answers_witness:
  "fst (Worker_Reconcile ex_condlib ex_kube (\<lambda>w. (Inr (ex_worker []), w)) (\<lambda>_. None) (\<lambda>_ w. (None, w)) []) \<noteq> None \<and>
   fst (Listener_Reconcile ex_condlib ex_kube (\<lambda>w. (Inr (ex_worker []), w)) (\<lambda>_. None) (\<lambda>_ w. (None, w)) []) \<noteq> None \<and>
   fst (API_Reconcile ex_condlib ex_apilib (\<lambda>w. (Inr (ex_apicr []), w)) (\<lambda>_. None) (\<lambda>_ w. (None, w)) []) \<noteq> None \<and>
   fst (Barbican_Reconcile ex_condlib (ex_parentlib [] ''s'') (\<lambda>w. (Inr (ex_barbican []), w)) (\<lambda>_. None) (\<lambda>_ w. (None, w)) []) \<noteq> None"
proof -
  have "convertible (vl ex_kube)" "convertible (vl (kb ex_apilib))"
    by (simp_all add: convertible_def ex_apilib_def ex_kube_simps ex_podlib_def vollib.truncate_def kube.truncate_def apilib.defs)
  with reconcile_always_answers [where C = ex_condlib and K = ex_kube and A = ex_apilib
      and L = "ex_parentlib [] ''s''" and getW = "\<lambda>w. (Inr (ex_worker []), w)" and helperW = "\<lambda>_. None"
      and patchW = "\<lambda>_ w. (None, w)" and getL = "\<lambda>w. (Inr (ex_worker []), w)" and helperL = "\<lambda>_. None"
      and patchL = "\<lambda>_ w. (None, w)" and getA = "\<lambda>w. (Inr (ex_apicr []), w)" and helperA = "\<lambda>_. None"
      and patchA = "\<lambda>_ w. (None, w)" and getB = "\<lambda>w. (Inr (ex_barbican []), w)" and helperB = "\<lambda>_. None"
      and patchB = "\<lambda>_ w. (None, w)" and w = "[]"]
  show ?thesis by (simp only: simp_thms)
qed

end
