(* ===== verification/Finalizers.thy ===== *)
theory Finalizers
  imports Parent_Samples
begin

text \<open>
  The life of a resource: the first pass puts the operator's finalizer on it, the deletion pass takes
  it off again, and nothing else changes the list.
\<close>

text \<open>What the code relies on of the controllerutil package.\<close>

definition finalizer_contract :: "('w, 'z) kube_scheme \<Rightarrow> bool" where
  "finalizer_contract K \<longleftrightarrow>
     (\<forall>fs f. AddFinalizer K fs f = (if f \<in> set fs then (fs, False) else (fs @ [f], True))) \<and>
     (\<forall>fs f. RemoveFinalizer K fs f = (filter (\<lambda>g. g \<noteq> f) fs, f \<in> set fs))"

lemma finalizer_ops:
  assumes "finalizer_contract K"
  shows "AddFinalizer K fs f = (if f \<in> set fs then (fs, False) else (fs @ [f], True))"
    "RemoveFinalizer K fs f = (filter (\<lambda>g. g \<noteq> f) fs, f \<in> set fs)"
  using assms by (simp_all add: finalizer_contract_def)

text \<open>The resource is marked as deleted between the two passes.\<close>

definition mark_deleted :: "('w, ('s, 't) subcr, event) rstate \<Rightarrow> ('w, ('s, 't) subcr, event) rstate" where
  "mark_deleted s = s\<lparr>inst := (inst s)\<lparr>sub_Meta := (sub_Meta (inst s))\<lparr>Deleted := True\<rparr>\<rparr>\<rparr>"

lemma set_status_run: "run_state (set_status f) s = ((), s\<lparr>inst := upd_status f (inst s)\<rparr>)"
  by simp

lemma first_pass:
  assumes "finalizer_contract K" and "\<not> Deleted (sub_Meta (inst s))"
    and "helper_Finalizer K \<notin> set (Finalizers (sub_Meta (inst s)))"
  shows "\<exists>t. run_state (begin_reconcile C K cl new) s = (Inl (Some ok), t) \<and>
    sub_Meta (inst t) = (sub_Meta (inst s))\<lparr>Finalizers := Finalizers (sub_Meta (inst s)) @ [helper_Finalizer K]\<rparr>"
  using assms by (simp add: begin_reconcile_def Let_def finalizer_ops return_with_def)

lemma later_pass:
  assumes "Deleted (sub_Meta (inst s))"
  shows "\<exists>t. run_state (begin_reconcile C K cl False) s = (Inr (), t) \<and> sub_Meta (inst t) = sub_Meta (inst s)"
  using assms by (simp add: begin_reconcile_def Let_def return_with_def split_beta)

lemma release_topology_removes:
  assumes "finalizer_contract K" and "run_state (release_topology K) s = (Some (r, None), t)"
  shows "Finalizers (sub_Meta (inst t)) = filter (\<lambda>g. g \<noteq> helper_Finalizer K) (Finalizers (sub_Meta (inst s)))"
  using assms
  by (auto simp: release_topology_def remove_own_finalizer_def finalizer_ops split_beta Let_def split: if_splits)

text \<open>The first pass, \<open>n\<close> more passes, and the mark of the deletion.\<close>

definition lifetime ::
  "(bool \<Rightarrow> (('w, ('s, 't) subcr, event) rstate, outcome option) state) \<Rightarrow> nat \<Rightarrow>
   ('w, ('s, 't) subcr, event) rstate \<Rightarrow> ('w, ('s, 't) subcr, event) rstate" where
  "lifetime body n s = mark_deleted ((after (body False) ^^ n) (after (body True) s))"

definition unprotected :: "('w, 'z) kube_scheme \<Rightarrow> ('w2, ('s, 't) subcr, event) rstate \<Rightarrow> bool" where
  "unprotected K s \<longleftrightarrow> \<not> Deleted (sub_Meta (inst s)) \<and> helper_Finalizer K \<notin> set (Finalizers (sub_Meta (inst s)))"

text \<open>
  What a controller's body does to the metadata when the finalizer operations behave (\<open>ok\<close>): \<open>puts\<close> in
  the first pass, \<open>holds\<close> in the passes of a living resource, \<open>takes\<close> in the pass that deletes it.
\<close>

locale finalizing =
  fixes body :: "bool \<Rightarrow> (('w, ('s, 't) subcr, event) rstate, outcome option) state" and fin :: string
    and ok :: bool
  assumes puts: "ok \<Longrightarrow> \<not> Deleted (sub_Meta (inst s)) \<Longrightarrow> fin \<notin> set (Finalizers (sub_Meta (inst s))) \<Longrightarrow>
      sub_Meta (inst (after (body new) s)) = (sub_Meta (inst s))\<lparr>Finalizers := Finalizers (sub_Meta (inst s)) @ [fin]\<rparr>"
    and holds: "ok \<Longrightarrow> \<not> Deleted (sub_Meta (inst s)) \<Longrightarrow> fin \<in> set (Finalizers (sub_Meta (inst s))) \<Longrightarrow>
      sub_Meta (inst (after (body False) s)) = sub_Meta (inst s)"
    and takes: "ok \<Longrightarrow> Deleted (sub_Meta (inst s)) \<Longrightarrow> result_of (body False) s = Some (r, None) \<Longrightarrow>
      Finalizers (sub_Meta (inst (after (body False) s))) = filter (\<lambda>g. g \<noteq> fin) (Finalizers (sub_Meta (inst s)))"
begin

lemma middle:
  "ok \<Longrightarrow> \<not> Deleted (sub_Meta (inst s)) \<Longrightarrow> fin \<in> set (Finalizers (sub_Meta (inst s))) \<Longrightarrow>
   sub_Meta (inst ((after (body False) ^^ n) s)) = sub_Meta (inst s)"
  by (induction n) (simp_all add: holds)

lemma roundtrip:
  assumes ok and "\<not> Deleted (sub_Meta (inst s))" "fin \<notin> set (Finalizers (sub_Meta (inst s)))"
    and "result_of (body False) (lifetime body n s) = Some (r, None)"
  shows "Finalizers (sub_Meta (inst (after (body False) (lifetime body n s)))) = Finalizers (sub_Meta (inst s))"
proof -
  let ?t = "after (body True) s"
  have t: "sub_Meta (inst ?t) = (sub_Meta (inst s))\<lparr>Finalizers := Finalizers (sub_Meta (inst s)) @ [fin]\<rparr>"
    by (rule puts [OF assms(1-3)])
  then have "sub_Meta (inst ((after (body False) ^^ n) ?t)) = sub_Meta (inst ?t)"
    using assms(1,2) by (intro middle) simp_all
  with t have m: "sub_Meta (inst (lifetime body n s)) =
      (sub_Meta (inst s))\<lparr>Finalizers := Finalizers (sub_Meta (inst s)) @ [fin], Deleted := True\<rparr>"
    by (simp add: lifetime_def mark_deleted_def)
  then have "Finalizers (sub_Meta (inst (after (body False) (lifetime body n s)))) =
      filter (\<lambda>g. g \<noteq> fin) (Finalizers (sub_Meta (inst s)) @ [fin])"
    using takes [OF assms(1) _ assms(4)] by simp
  also have "\<dots> = Finalizers (sub_Meta (inst s))"
    using assms(3) by (simp, induction "Finalizers (sub_Meta (inst s))") (auto intro: filter_True)
  finally show ?thesis .
qed

end

lemma living_pass:
  assumes "finalizer_contract K" and "\<not> Deleted (sub_Meta (inst s))"
    and "helper_Finalizer K \<in> set (Finalizers (sub_Meta (inst s)))"
  shows "\<exists>t. run_state (begin_reconcile C K cl False) s = (Inr (), t) \<and> sub_Meta (inst t) = sub_Meta (inst s)"
  using assms by (simp add: begin_reconcile_def Let_def finalizer_ops return_with_def)

text \<open>The three bodies, after their first steps.\<close>

lemma living_normal:
  "state_io_rel (keeps identity) (Worker_reconcileNormal C K)"
  "state_io_rel (keeps identity) (Listener_reconcileNormal C K)"
  "state_io_rel (keeps identity) (API_reconcileNormal C A)"
proof -
  show "state_io_rel (keeps identity) (Worker_reconcileNormal C K)"
    by (intro same.worker_normal_frame same.confirm_frame) (simp_all add: keeps_def identity_def)
  show "state_io_rel (keeps identity) (Listener_reconcileNormal C K)"
    by (intro same.listener_normal_frame same.confirm_frame) (simp_all add: keeps_def identity_def)
  show "state_io_rel (keeps identity) (API_reconcileNormal C A)"
    by (intro api_same.api_normal_frame api_same.confirm_frame) (simp_all add: keeps_def identity_def)
qed

lemma normal_meta:
  "state_io_rel (keeps identity) m \<Longrightarrow> sub_Meta (inst (snd (run_state m s))) = sub_Meta (inst s)"
  using keeps_after [of identity m s] by (simp add: identity_def after_def)

interpretation worker_life: finalizing "Worker_body C K" "helper_Finalizer K" "finalizer_contract K"
  for C :: "'c condlib" and K :: "'w kube"
proof
  fix s :: "('w, 'c) worker_state" and new r
  assume K: "finalizer_contract K"
  show "sub_Meta (inst (after (Worker_body C K new) s)) =
      (sub_Meta (inst s))\<lparr>Finalizers := Finalizers (sub_Meta (inst s)) @ [helper_Finalizer K]\<rparr>"
    if "\<not> Deleted (sub_Meta (inst s))" "helper_Finalizer K \<notin> set (Finalizers (sub_Meta (inst s)))"
    using first_pass [OF K, of "s" C Worker_conditions new] that by (auto simp: Worker_body_def after_def)
  show "sub_Meta (inst (after (Worker_body C K False) s)) = sub_Meta (inst s)"
    if "\<not> Deleted (sub_Meta (inst s))" "helper_Finalizer K \<in> set (Finalizers (sub_Meta (inst s)))"
    using living_pass [OF K, of "s" C Worker_conditions] that
    by (auto simp: Worker_body_def after_def normal_meta living_normal)
  show "Finalizers (sub_Meta (inst (after (Worker_body C K False) s))) =
      filter (\<lambda>g. g \<noteq> helper_Finalizer K) (Finalizers (sub_Meta (inst s)))"
    if "Deleted (sub_Meta (inst s))" "result_of (Worker_body C K False) s = Some (r, None)"
    using later_pass [of "s" C K Worker_conditions] that
    by (auto simp: Worker_body_def Worker_reconcileDelete_def after_def result_of_def
        release_topology_removes [OF K prod_eqI])
qed

interpretation listener_life: finalizing "Listener_body C K" "helper_Finalizer K" "finalizer_contract K"
  for C :: "'c condlib" and K :: "'w kube"
proof
  fix s :: "('w, 'c) listener_state" and new r
  assume K: "finalizer_contract K"
  show "sub_Meta (inst (after (Listener_body C K new) s)) =
      (sub_Meta (inst s))\<lparr>Finalizers := Finalizers (sub_Meta (inst s)) @ [helper_Finalizer K]\<rparr>"
    if "\<not> Deleted (sub_Meta (inst s))" "helper_Finalizer K \<notin> set (Finalizers (sub_Meta (inst s)))"
    using first_pass [OF K, of "s\<lparr>inst := upd_conds C (\<lambda>_. cond_empty C) (inst s)\<rparr>" C Listener_conditions new] that by (auto simp: Listener_body_def after_def)
  show "sub_Meta (inst (after (Listener_body C K False) s)) = sub_Meta (inst s)"
    if "\<not> Deleted (sub_Meta (inst s))" "helper_Finalizer K \<in> set (Finalizers (sub_Meta (inst s)))"
    using living_pass [OF K, of "s\<lparr>inst := upd_conds C (\<lambda>_. cond_empty C) (inst s)\<rparr>" C Listener_conditions] that
    by (auto simp: Listener_body_def after_def normal_meta living_normal)
  show "Finalizers (sub_Meta (inst (after (Listener_body C K False) s))) =
      filter (\<lambda>g. g \<noteq> helper_Finalizer K) (Finalizers (sub_Meta (inst s)))"
    if "Deleted (sub_Meta (inst s))" "result_of (Listener_body C K False) s = Some (r, None)"
    using later_pass [of "s\<lparr>inst := upd_conds C (\<lambda>_. cond_empty C) (inst s)\<rparr>" C K Listener_conditions] that
    by (auto simp: Listener_body_def Listener_reconcileDelete_def after_def result_of_def
        release_topology_removes [OF K prod_eqI])
qed

lemma release_endpoint_inst: "inst (snd (run_state (release_endpoint A) s)) = inst s"
  using keeps_after [of "\<lambda>i. i" "release_endpoint A" s]
  by (simp add: after_def release_endpoint_def Let_def return_with_def keep_rules split_def)

lemma release_endpoint_errors: "run_state (release_endpoint A) s = (Inl x, t) \<Longrightarrow> \<exists>e. x = Some (failed e)"
  by (auto simp: release_endpoint_def Let_def return_with_def split_beta split: sum.splits if_splits option.splits)

interpretation api_life: finalizing "API_body C A" "helper_Finalizer (kb A)" "finalizer_contract (kb A)"
  for C :: "'c condlib" and A :: "('w, 'c) apilib"
proof
  fix s :: "('w, 'c) api_state" and new r
  assume K: "finalizer_contract (kb A)"
  show "sub_Meta (inst (after (API_body C A new) s)) =
      (sub_Meta (inst s))\<lparr>Finalizers := Finalizers (sub_Meta (inst s)) @ [helper_Finalizer (kb A)]\<rparr>"
    if "\<not> Deleted (sub_Meta (inst s))" "helper_Finalizer (kb A) \<notin> set (Finalizers (sub_Meta (inst s)))"
    using first_pass [OF K, of s C API_conditions new] that by (auto simp: API_body_def after_def)
  show "sub_Meta (inst (after (API_body C A False) s)) = sub_Meta (inst s)"
    if "\<not> Deleted (sub_Meta (inst s))" "helper_Finalizer (kb A) \<in> set (Finalizers (sub_Meta (inst s)))"
    using living_pass [OF K, of s C API_conditions] that
    by (auto simp: API_body_def after_def normal_meta living_normal)
  show "Finalizers (sub_Meta (inst (after (API_body C A False) s))) =
      filter (\<lambda>g. g \<noteq> helper_Finalizer (kb A)) (Finalizers (sub_Meta (inst s)))"
    if del: "Deleted (sub_Meta (inst s))" "result_of (API_body C A False) s = Some (r, None)"
  proof -
    obtain t where "run_state (begin_reconcile C (kb A) API_conditions False) s = (Inr (), t)" "sub_Meta (inst t) = sub_Meta (inst s)"
      using later_pass [OF del(1)] by blast
    define u where "u = t\<lparr>inst := upd_status (\<lambda>s. s\<lparr>APIEndpoints := Some (case APIEndpoints s of None \<Rightarrow> [] | Some e \<Rightarrow> e)\<rparr>) (inst t)\<rparr>"
    obtain x v where v: "run_state (release_endpoint A) u = (x, v)" by fastforce
    have body: "run_state (API_body C A False) s = (case x of Inl e \<Rightarrow> (e, v) | Inr _ \<Rightarrow> run_state (release_topology (kb A)) v)"
      using \<open>run_state (begin_reconcile _ _ _ _) s = _\<close> \<open>sub_Meta (inst t) = _\<close> del(1) v
      by (simp add: API_body_def API_reconcileDelete_def u_def)
    obtain w where w: "run_state (release_topology (kb A)) v = (Some (r, None), w)" "after (API_body C A False) s = w"
    proof (cases x)
      case (Inl e)
      with release_endpoint_errors [of A u] v del(2) show ?thesis
        by (auto simp: result_of_def body failed_def)
    next
      case (Inr y)
      with del(2) show ?thesis
        by (intro that [of "snd (run_state (release_topology (kb A)) v)"])
          (simp_all add: result_of_def after_def body prod_eq_iff)
    qed
    moreover have "inst v = inst u"
      using release_endpoint_inst [of A u] v by simp
    ultimately show ?thesis
      using release_topology_removes [OF K w(1)] w(2) \<open>sub_Meta (inst t) = _\<close> by (simp add: u_def)
  qed
qed


definition ex_new_worker :: "(string list, ex_conds) worker_state" where
  "ex_new_worker = \<lparr>world = [], inst = (ex_worker [])\<lparr>sub_Meta := ex_meta\<lparr>Finalizers := [''other'']\<rparr>\<rparr>, trace = []\<rparr>"

definition ex_new_api :: "(string list, ex_conds) api_state" where
  "ex_new_api = \<lparr>world = [], inst = (ex_apicr [])\<lparr>sub_Meta := ex_meta\<lparr>Finalizers := [''other'']\<rparr>\<rparr>, trace = []\<rparr>"

lemma ex_finalizer_contract: "finalizer_contract ex_kube" "finalizer_contract (kb ex_apilib)"
  by (auto simp: finalizer_contract_def ex_kube_simps ex_add_finalizer_def ex_remove_finalizer_def
      ex_apilib_def kube.truncate_def apilib.defs)

lemma ex_deletion:
  assumes "Deleted (sub_Meta (inst s))"
  shows "result_of (Worker_body ex_condlib ex_kube False) s = Some ok"
    "result_of (Listener_body ex_condlib ex_kube False) s = Some ok"
proof -
  have ref: "EnsureDeletedTopologyRef ex_kube r f w = (ok, w)" for r f w
    by (simp add: ex_kube_simps)
  have body: "result_of (finally_run (begin_reconcile ex_condlib ex_kube cl False) (\<lambda>_. do {
       i \<leftarrow> the_instance;
       if Deleted (sub_Meta i) then release_topology ex_kube else m
     })) t = Some ok" if "Deleted (sub_Meta (inst t))" for cl m t
    using later_pass [OF that, of ex_condlib ex_kube cl] that
    by (auto simp: result_of_def release_topology_def ref ok_def split_beta)
  show "result_of (Worker_body ex_condlib ex_kube False) s = Some ok"
    unfolding Worker_body_def Worker_reconcileDelete_def by (rule body [OF assms])
  show "result_of (Listener_body ex_condlib ex_kube False) s = Some ok"
    using body [of "s\<lparr>inst := upd_conds ex_condlib (\<lambda>_. cond_empty ex_condlib) (inst s)\<rparr>"] assms
    unfolding Listener_body_def Listener_reconcileDelete_def by (simp add: result_of_def)
qed

lemma ex_api_deletion:
  assumes "Deleted (sub_Meta (inst s))"
  shows "result_of (API_body ex_condlib ex_apilib False) s = Some ok"
proof -
  have "EnsureDeletedTopologyRef (kb ex_apilib) r f w = (ok, w)"
    "GetKeystoneEndpointWithName ex_apilib n ns w = (Inr [''openstack.org/barbican''], w)"
    "KeystoneEndpoint_Update ex_apilib n ns fs w = (None, w)" for r f w n ns fs
    by (simp_all add: ex_kube_simps ex_apilib_def kube.truncate_def apilib.defs)
  then show ?thesis
    using later_pass [OF assms, of ex_condlib "kb ex_apilib" API_conditions] assms
    by (auto simp: API_body_def API_reconcileDelete_def result_of_def release_topology_def release_endpoint_def
        ok_def split_beta Let_def)
qed


end
