(* ===== verification/Spec2Isabelle.thy ===== *)
theory Spec2Isabelle
  imports Admission Pod_Safety Service_Properties Parent_Properties Watch_Properties
    Composition Protocol_System Credential_Rotation Schema Messages Scheme_Properties Totality Finalizers
    Process
begin

text \<open>
  A model of the barbican-operator, the Kubernetes operator that deploys the OpenStack key manager
  Barbican, and proofs about it.

  The program. A \<open>Barbican\<close> resource describes a deployment of the service. Its controller
  (\<open>internal/controller/barbican_controller.go\<close>) prepares what the services share (message bus,
  database, keystone service, configuration secret, db-sync and pkcs11-prep jobs) and writes three
  child resources, \<open>BarbicanAPI\<close>, \<open>BarbicanWorker\<close> and \<open>BarbicanKeystoneListener\<close>. A controller for
  each child checks the input secrets, renders the configuration, creates a Kubernetes deployment and
  reports its state in the child's status. The Barbican controller reads these statuses: when all
  three services run with the current secrets it takes its finalizers off the superseded ones, which
  lets other operators revoke the old credentials. Admission webhooks default and validate the
  resource before any controller sees it. \<open>cmd/main.go\<close> starts all of them in one process. A changed
  secret or topology reaches a controller through its watches: field indexers say which resources
  refer to the object.

  How it is modelled. Go structs are records, Go maps are association lists (\<open>gomap\<close>) read and written
  through \<open>map_get\<close> and \<open>map_put\<close>, nil pointers and nil maps are \<open>None\<close> where the code can tell them
  from empty ones, errors are values (\<open>gerr\<close>), and a panic is the outcome \<open>None\<close>. Integer fields of the
  resources are \<open>int\<close>: the code only copies and compares them. A controller step is a state
  transformer (\<open>State_Monad\<close>) over the cluster, the resource in memory and the trace of calls made so
  far; a step that may end the reconcile returns a sum whose left part is what the Go function
  returns. Code outside the repository (the client, lib-common, the operators for the message bus,
  database and identity service) is a record of functions over an abstract cluster \<open>'w\<close>, which every
  definition takes as an argument, so each theorem holds for every behaviour of these calls unless it
  names a contract (\<open>cond_contract\<close>, \<open>vollib_contract\<close>, \<open>podlib_contract\<close>, \<open>consumer_contract\<close>,
  \<open>failure_contract\<close>, \<open>finalizer_contract\<close>, \<open>manager_contract\<close>, \<open>responsive\<close>, \<open>library_types\<close>, \<open>scheme_contract\<close>). Each such call leaves an entry in the trace,
  and most properties of the controllers speak about the trace of a pass.

  The theories.

  \<^item> \<open>Prelude\<close>: maps, sorting, decimal numbers, with the lemmas all components use.
  \<^item> \<open>Handler\<close>: the state transformers, their early returns and loops, and the locale \<open>frame\<close> with its
    interpretations: what a step may emit, what it keeps, what it preserves, what causes a change.
  \<^item> \<open>Kube\<close>: metadata, errors, results, volumes and conditions.
  \<^item> \<open>Api_Types\<close>, \<open>Sub_Types\<close> (\<open>api/v1beta1/*_types.go\<close>, \<open>internal/barbican/const.go\<close>): the resources,
    and the locale of the interface \<open>topologyHandler\<close>.
  \<^item> \<open>Webhook\<close>, \<open>Admission\<close> (\<open>api/v1beta1/barbican_webhook.go\<close>, \<open>internal/webhook\<close>): defaulting, validation,
    deprecation warnings and route annotations.
  \<^item> \<open>Volumes\<close>, \<open>Workloads\<close> (\<open>internal/barbican*\<close>): pod volumes, jobs and deployments; \<open>Pod_Safety\<close> proves
    that every mount has its volume, that admitted secret stores are mounted apart, and what the jobs see.
  \<^item> \<open>External\<close>: the parameters of the controllers and the trace entries.
  \<^item> \<open>Common\<close> (\<open>barbican_common.go\<close>): topology, configuration, overwrite keys, the deferred part of
    \<open>Reconcile\<close>; \<open>Services\<close>: the phases the three service controllers have copies of; \<open>Api\<close>, \<open>Worker\<close>,
    \<open>Listener\<close>: the controllers composed of them.
  \<^item> \<open>Parent\<close>: the Barbican controller.
  \<^item> \<open>Service_Frames\<close>, \<open>Parent_Frames\<close>: for every phase what it emits, keeps and preserves, as
    interpretations of locales that extend \<open>frame\<close>; \<open>Service_Properties\<close>, \<open>Parent_Properties\<close>: the
    properties, which follow from the frames.
  \<^item> \<open>Rotation\<close>: the protection of the bus secrets as a specification, and the refinement of the two ends
    of a pass (\<open>messaging_phase\<close>, \<open>notifications_phase\<close>, \<open>rotation_phase\<close>) to it;
    \<open>Rotation_Errors\<close>: what they leave when a call fails; \<open>Protocol\<close>: the specification as a step
    relation that interleaves passes and rollouts, with its invariants; \<open>Protocol_System\<close>: the same system with the code in place of the specification, which it simulates.
  \<^item> \<open>Composition\<close>: the hash of the input secrets means the same on both sides, in the services that report
    it and in the Barbican controller that waits for it.
  \<^item> \<open>Credential_Rotation\<close>: what the children and the guard of the release do not depend on, as
    non-interference of a run (\<open>blind\<close>).
  \<^item> \<open>Schema\<close>: the bounds of the kubebuilder markers, which the webhook and the controllers keep, and the
    default secret store, which nothing checks.
  \<^item> \<open>Messages\<close> (\<open>conditions.go\<close>): the names and formats of the conditions the repository declares.
  \<^item> \<open>Watches\<close>, \<open>Watch_Properties\<close> (\<open>SetupWithManager\<close>, \<open>findObjectsForSrc\<close>, \<open>findObjectForSrc\<close>): indexers,
    watches and the requests a changed object leads to.
  \<^item> \<open>Totality\<close>: every \<open>Reconcile\<close> returns; \<open>Finalizers\<close>: finalizers over the life of a service resource.
  \<^item> \<open>Deep_Copy\<close>: a memory of cells, what a value of a declared type denotes in it, and the locale
    \<open>copier\<close>, the contract of a copy function, with one lemma for each statement form of the generated
    code; \<open>Deep_Copy_Types\<close> (\<open>zz_generated.deepcopy.go\<close>): the types and copy functions, each shown to
    meet the contract; \<open>Scheme\<close>, \<open>Scheme_Properties\<close> (\<open>groupversion_info.go\<close>, the \<open>init\<close> functions, the
    RBAC markers): the registrations, the scheme of the process and the role of the operator.
  \<^item> \<open>Process\<close> (\<open>cmd/main.go\<close>): flags, TLS options and the start-up sequence.
  \<^item> \<open>Samples\<close>, \<open>Service_Samples\<close>, \<open>Parent_Samples\<close>: a concrete resource, a condition package that meets
    its contract and concrete cluster operations, on which the witnesses run the model.

  What is shown. For the webhooks: the validation accepts exactly the well-configured secret stores,
  defaulting is idempotent and complete, and the Core variant agrees with the full one. For the pods:
  mounts resolve, paths are distinct, and the jobs see only the oslo.config snippets. For the service
  controllers: the effects of a pass, that a service reports an applied hash or a ready deployment
  only after the cluster confirmed it, that Ready implies every other condition, the precedence of
  configuration sources, and the order of a deletion. For the Barbican controller: nothing is revoked
  before all services are ready with the current secrets, secrets are protected before a service is
  written, pruning keeps what is tracked, what a child inherits, and the order of a deletion. For the
  whole system: a secret of the message bus or the notifications bus that pods use carries the finalizer
  as long as the rotations of a bus do not overlap, also when passes fail and while the notifications
  bus is enabled or disabled; overlapping rotations break this (a concrete run), and every rotation can be completed; a change of
  a secret that a service reads brings the service back to its controller; every pass answers; the
  manager starts after everything it serves is set up. Specs stay within the bounds of the schema from
  the Barbican to the deployments; copies of cached objects share no memory with them; and the kinds the
  controllers watch are registered and permitted. Some theorems state defects: checks whose
  results are ignored, an unguarded release of accounts and of application credentials, a default
  store that need not be enabled, and the overlapping rotations.

  Loops of the code run over finite lists and are folds (\<open>for_each\<close>, \<open>for_fold\<close>), so every definition is
  total and no fuel is used.

  Limits of \<open>Protocol_System\<close>: the status that a pass leaves, with or without an error, is written back;
  the secrets of the two buses have different names, since they belong to different TransportURL
  resources; and the children of a pass and the rollout of a service are steps of their own
  (\<open>Parent_Properties\<close>, \<open>Service_Properties\<close> and \<open>Composition\<close> prove of the controllers what these steps
  assume: the release waits for every child, a service reports the secrets of its spec, and only after
  its rollout was confirmed).

  The records of the resources hold mathematical values; only \<open>Deep_Copy\<close> looks at the memory behind
  them, and \<open>Process\<close> at the arrays behind two slices. In \<open>Deep_Copy\<close> a slice is its whole backing array,
  and the iteration order of a map is the order of its entries.

  Not modelled: the parsing of the command line, the internals of the manager and of the scheme, which
  belong to controller-runtime and the API machinery; log lines; the texts of the condition messages
  that other repositories declare, represented by the names of their constants; the defaults that the
  API server fills in for absent fields; the rendering of the templates, which the library does from
  the parameters modelled here (\<open>Schema\<close> has the one test of a template that a theorem needs).
\<close>

end
